(* ===== verification/Prelude.thy ===== *)
theory Prelude
  imports Main "HOL-Library.Word"
begin

text \<open>
  Shared vocabulary of the development: the machine integer types of the C sources, the faults
  an execution can end in, the result type \<open>'a res\<close> that every fallible definition
  returns (\<open>Inl\<close> the fault, \<open>Inr\<close> the value), its bind, and generic lemmas on
  lists, words and results that the component theories use.
\<close>

unbundle bit_operations_syntax

section \<open>Fact collections\<close>

named_theorems res_simps \<open>rewriting of results and their bind\<close>
named_theorems mem_simps \<open>rewriting of memory reads and writes\<close>
named_theorems frame_simps \<open>parts of the state that an operation leaves alone\<close>

section \<open>Machine integers\<close>

type_synonym u8 = "8 word"
type_synonym u16 = "16 word"
type_synonym u32 = "32 word"
type_synonym u64 = "64 word"

text \<open>
  Signed C values are kept as \<open>int\<close> and checked against the range of their type
  wherever an operation of the source can leave it: signed overflow is undefined in C.
\<close>

section \<open>The three targets\<close>

text \<open>
  The compilers of \<open>arch/*.conf\<close>: plain \<open>char\<close> is signed on i386 and unsigned on
  the other two, \<open>long\<close>, \<open>size_t\<close> and pointers have 32 bits on i386 and 64 bits on
  the others; \<open>int\<close> has 32 bits everywhere.
\<close>

datatype arch = I386 | AArch64 | RiscV64

definition char_val :: "arch \<Rightarrow> u8 \<Rightarrow> int" where
  "char_val A b = (if A = I386 then sint b else uint b)"

definition long_bits :: "arch \<Rightarrow> nat" where
  "long_bits A = (if A = I386 then 32 else 64)"

lemma char_val_ascii: "b < 128 \<Longrightarrow> char_val A b = uint b"
proof -
  assume "b < 128"
  then have "uint b < 128" by (simp add: word_less_def)
  moreover have "- 128 \<le> uint b" using uint_ge_0[of b] by linarith
  ultimately have "sint b = uint b"
    by (simp add: sint_uint signed_take_bit_int_eq_self_iff)
  then show ?thesis by (simp add: char_val_def)
qed

lemma char_val_eq_0 [simp]: "char_val A b = 0 \<longleftrightarrow> b = 0"
  by (simp add: char_val_def uint_0_iff signed_eq_0_iff)

lemma unat_add_1:
  fixes x y :: "'a::len word"
  assumes "x < y"
  shows "unat (x + 1) = unat x + 1"
proof -
  have "unat y < 2 ^ LENGTH('a)" by (rule unsigned_less)
  then have "unat x + 1 < 2 ^ LENGTH('a)" using assms unfolding word_less_nat_alt by linarith
  then show ?thesis by (simp add: unat_word_ariths take_bit_nat_eq_self_iff flip: take_bit_eq_mod)
qed

section \<open>Faults and results\<close>

datatype fault =
    NullDeref         \<comment> \<open>a null pointer is dereferenced\<close>
  | OutOfBounds       \<comment> \<open>an access outside the object the pointer points into\<close>
  | ReadOnly          \<comment> \<open>a store into a string literal\<close>
  | SignedOverflow    \<comment> \<open>a signed computation leaves the range of its type\<close>
  | BadVarArg         \<comment> \<open>\<open>va_arg\<close> with a type other than the argument passed\<close>
  | Diverges          \<comment> \<open>a loop that never ends\<close>
  | Unmodelled        \<comment> \<open>an access by a number to an address that is not plain memory\<close>

type_synonym 'a res = "fault + 'a"

definition bindR :: "'a res \<Rightarrow> ('a \<Rightarrow> 'b res) \<Rightarrow> 'b res" where
  "bindR r f = (case r of Inl e \<Rightarrow> Inl e | Inr x \<Rightarrow> f x)"

lemma bindR_Inl [simp, res_simps]: "bindR (Inl e) f = Inl e"
  by (simp add: bindR_def)

lemma bindR_Inr [simp, res_simps]: "bindR (Inr x) f = f x"
  by (simp add: bindR_def)

lemma bindR_assoc: "bindR (bindR r f) g = bindR r (\<lambda>x. bindR (f x) g)"
  by (simp add: bindR_def split: sum.split)

lemma bindR_eq_Inr_iff: "bindR r f = Inr y \<longleftrightarrow> (\<exists>x. r = Inr x \<and> f x = Inr y)"
  by (simp add: bindR_def split: sum.split)

lemma bindR_eq_InrE [elim!]:
  assumes "bindR r f = Inr y"
  obtains x where "r = Inr x" and "f x = Inr y"
  using assms by (auto simp: bindR_eq_Inr_iff)

lemma bindR_split:
  "P (bindR r f) \<longleftrightarrow> (\<forall>e. r = Inl e \<longrightarrow> P (Inl e)) \<and> (\<forall>x. r = Inr x \<longrightarrow> P (f x))"
  by (simp add: bindR_def split: sum.split)

text \<open>The recursion of a loop happens in the continuation only after the step succeeded.\<close>

lemma bindR_cong [fundef_cong]:
  assumes "r = r'" and "\<And>x. r' = Inr x \<Longrightarrow> f x = f' x"
  shows "bindR r f = bindR r' f'"
  using assms by (simp add: bindR_def split: sum.split)

text \<open>Running a fallible operation over a list, from left to right.\<close>

primrec foldR :: "('a \<Rightarrow> 's \<Rightarrow> 's res) \<Rightarrow> 'a list \<Rightarrow> 's \<Rightarrow> 's res" where
  "foldR f [] s = Inr s"
| "foldR f (x # xs) s = bindR (f x s) (foldR f xs)"

lemma foldR_append: "foldR f (xs @ ys) s = bindR (foldR f xs s) (foldR f ys)"
  by (induction xs arbitrary: s) (simp_all add: bindR_assoc cong: bindR_cong)

lemma foldR_preserves:
  assumes "foldR f xs s = Inr s'" and "P s"
    and "\<And>x t t'. f x t = Inr t' \<Longrightarrow> P t \<Longrightarrow> P t'"
  shows "P s'"
  using assms(1,2)
proof (induction xs arbitrary: s)
  case Nil
  then show ?case by simp
next
  case (Cons x xs)
  from Cons.prems(1) obtain t where t: "f x s = Inr t" "foldR f xs t = Inr s'"
    by auto
  with assms(3) Cons.prems(2) have "P t" by blast
  with t(2) show ?case by (rule Cons.IH)
qed

lemma foldR_total:
  assumes "P s" and "\<And>x t. x \<in> set xs \<Longrightarrow> P t \<Longrightarrow> \<exists>t'. f x t = Inr t' \<and> P t'"
  shows "\<exists>s'. foldR f xs s = Inr s' \<and> P s'"
  using assms
proof (induction xs arbitrary: s)
  case Nil
  then show ?case by simp
next
  case (Cons x xs)
  then obtain t where t: "f x s = Inr t" "P t" by (meson list.set_intros(1))
  then have "\<exists>s'. foldR f xs t = Inr s' \<and> P s'"
    using Cons.IH[of t] Cons.prems(2) by (meson list.set_intros(2))
  with t show ?case by simp
qed

section \<open>Range checks of signed C types\<close>

definition chk_int :: "int \<Rightarrow> int res" where
  "chk_int x = (if - (2 ^ 31) \<le> x \<and> x < 2 ^ 31 then Inr x else Inl SignedOverflow)"

definition chk_int64 :: "int \<Rightarrow> int res" where
  "chk_int64 x = (if - (2 ^ 63) \<le> x \<and> x < 2 ^ 63 then Inr x else Inl SignedOverflow)"

lemma chk_int_ok [simp]: "- (2 ^ 31) \<le> x \<Longrightarrow> x < 2 ^ 31 \<Longrightarrow> chk_int x = Inr x"
  by (simp add: chk_int_def)

lemma chk_int_Inr_iff: "chk_int x = Inr y \<longleftrightarrow> y = x \<and> - (2 ^ 31) \<le> x \<and> x < 2 ^ 31"
  by (auto simp: chk_int_def)

lemma chk_int64_ok [simp]: "- (2 ^ 63) \<le> x \<Longrightarrow> x < 2 ^ 63 \<Longrightarrow> chk_int64 x = Inr x"
  by (simp add: chk_int64_def)

section \<open>Arrays by index\<close>

definition get_at :: "'a list \<Rightarrow> int \<Rightarrow> 'a res" where
  "get_at xs i = (if 0 \<le> i \<and> i < int (length xs) then Inr (xs ! nat i) else Inl OutOfBounds)"

definition set_at :: "'a list \<Rightarrow> int \<Rightarrow> 'a \<Rightarrow> 'a list res" where
  "set_at xs i x = (if 0 \<le> i \<and> i < int (length xs) then Inr (xs[nat i := x]) else Inl OutOfBounds)"

lemma set_at_Inr: "i < length xs \<Longrightarrow> set_at xs (int i) x = Inr (xs[i := x])"
  by (simp add: set_at_def)

section \<open>Bytes of character strings\<close>

definition bytes_of :: "string \<Rightarrow> u8 list" where
  "bytes_of s = map of_char s"

lemma length_bytes_of [simp]: "length (bytes_of s) = length s"
  by (simp add: bytes_of_def)

lemma bytes_of_simps [simp]:
  "bytes_of [] = []" "bytes_of (c # s) = of_char c # bytes_of s"
  "bytes_of (s @ t) = bytes_of s @ bytes_of t"
  by (simp_all add: bytes_of_def)

end
