(* ===== verification/CMemory.thy ===== *)
theory CMemory
  imports Prelude
begin

text \<open>
  The memory the C code runs on. An object is the physical address space (reached through
  integer-to-pointer casts such as \<open>(uint16_t*)0xB8000\<close> or the shell's
  \<open>*(uint8_t*)mem\<close>), a variable with its size in bytes (static arrays and local
  buffers; no function of the sources is recursive, so a local buffer is one object), or a
  string literal. A pointer is null or an object with an offset; every access is checked
  against the object's bounds, a store into a literal is refused. \<open>rd\<close> and
  \<open>wr\<close> are the block read and write that the contracts of the library functions are
  stated with; \<open>cstr m p s\<close> says that \<open>p\<close> points to the NUL-terminated string
  \<open>s\<close>.
\<close>

section \<open>Objects, pointers, memories\<close>

datatype obj = Phys | Var string nat | Lit string

datatype ptr = Null | Ptr obj int

type_synonym memory = "obj \<Rightarrow> nat \<Rightarrow> u8"

fun osize :: "obj \<Rightarrow> nat" where
  "osize Phys = 2 ^ 64"
| "osize (Var x n) = n"
| "osize (Lit s) = Suc (length s)"

fun is_lit :: "obj \<Rightarrow> bool" where
  "is_lit (Lit s) = True"
| "is_lit ob = False"

fun obj_byte :: "memory \<Rightarrow> obj \<Rightarrow> nat \<Rightarrow> u8" where
  "obj_byte m (Lit s) k = (if k < length s then of_char (s ! k) else 0)"
| "obj_byte m ob k = m ob k"

fun ptr_add :: "ptr \<Rightarrow> int \<Rightarrow> ptr" where
  "ptr_add Null k = Null"
| "ptr_add (Ptr ob i) k = Ptr ob (i + k)"

fun load :: "memory \<Rightarrow> ptr \<Rightarrow> u8 res" where
  "load m Null = Inl NullDeref"
| "load m (Ptr ob i) =
     (if 0 \<le> i \<and> i < int (osize ob) then Inr (obj_byte m ob (nat i)) else Inl OutOfBounds)"

fun store :: "memory \<Rightarrow> ptr \<Rightarrow> u8 \<Rightarrow> memory res" where
  "store m Null v = Inl NullDeref"
| "store m (Ptr ob i) v =
     (if is_lit ob then Inl ReadOnly
      else if 0 \<le> i \<and> i < int (osize ob) then Inr (m(ob := (m ob)(nat i := v)))
      else Inl OutOfBounds)"

text \<open>Pointers into one object are ordered by their offset; others are not comparable.\<close>

instantiation ptr :: order
begin

fun less_eq_ptr :: "ptr \<Rightarrow> ptr \<Rightarrow> bool" where
  "less_eq_ptr Null Null = True"
| "less_eq_ptr (Ptr a i) (Ptr b j) = (a = b \<and> i \<le> j)"
| "less_eq_ptr p q = False"

definition less_ptr :: "ptr \<Rightarrow> ptr \<Rightarrow> bool" where
  "less_ptr p q \<longleftrightarrow> p \<le> q \<and> \<not> q \<le> p"

instance
proof
  fix p q r :: ptr
  show "p < q \<longleftrightarrow> p \<le> q \<and> \<not> q \<le> p" by (rule less_ptr_def)
  show "p \<le> p" by (cases p) auto
  show "p \<le> q \<Longrightarrow> q \<le> r \<Longrightarrow> p \<le> r"
    by (cases p; cases q; cases r) auto
  show "p \<le> q \<Longrightarrow> q \<le> p \<Longrightarrow> p = q"
    by (cases p; cases q) auto
qed

end

lemma less_ptr_simps [simp]:
  "Ptr a i < Ptr b j \<longleftrightarrow> a = b \<and> i < j" "\<not> Null < p" "\<not> p < Null"
  by (cases p; auto simp: less_ptr_def)+

section \<open>Basic laws\<close>

lemma ptr_add_0 [simp]: "ptr_add p 0 = p"
  by (cases p) auto

lemma ptr_add_add [simp]: "ptr_add (ptr_add p a) b = ptr_add p (a + b)"
  by (cases p) auto

lemma ptr_add_eq_Null [simp]: "ptr_add p k = Null \<longleftrightarrow> p = Null"
  by (cases p) auto

lemma load_store_same [mem_simps]: "store m p v = Inr m' \<Longrightarrow> load m' p = Inr v"
  by (cases p; cases "is_lit (case p of Ptr ob i \<Rightarrow> ob)")
     (auto split: if_splits elim: is_lit.elims obj_byte.elims)

lemma obj_byte_not_lit [simp]: "\<not> is_lit ob \<Longrightarrow> obj_byte m ob k = m ob k"
  by (cases ob) auto

lemma obj_byte_cong: "m' ob = m ob \<Longrightarrow> obj_byte m' ob k = obj_byte m ob k"
  by (cases ob) auto

lemma obj_byte_lit [simp]: "is_lit ob \<Longrightarrow> obj_byte (m(x := f)) ob k = obj_byte m ob k"
  by (cases ob) auto

lemma obj_byte_upd_other [simp]: "ob' \<noteq> ob \<Longrightarrow> obj_byte (m(ob := f)) ob' k = obj_byte m ob' k"
  by (cases ob') auto

lemma load_store_other [mem_simps]: "store m p v = Inr m' \<Longrightarrow> q \<noteq> p \<Longrightarrow> load m' q = load m q"
  by (cases p; cases q; cases "is_lit (case q of Ptr ob i \<Rightarrow> ob)")
     (auto split: if_splits simp: nat_eq_iff)

text \<open>
  What is left of the object behind a pointer: the measure of every loop that walks a pointer
  forward. A step that succeeds in reading makes it smaller.
\<close>

fun ptr_room :: "ptr \<Rightarrow> nat" where
  "ptr_room Null = 0"
| "ptr_room (Ptr ob i) = nat (int (osize ob) - i)"

lemma ptr_room_load [simp]: "load m p = Inr c \<Longrightarrow> ptr_room (ptr_add p 1) < ptr_room p"
  by (cases p) (auto split: if_splits)

lemma ptr_room_load_add [simp]:
  "load m (ptr_add p k) = Inr c \<Longrightarrow> ptr_room (ptr_add p (k + 1)) < ptr_room (ptr_add p k)"
  using ptr_room_load[of m "ptr_add p k" c] by simp

section \<open>Block reads and writes\<close>

fun in_obj :: "ptr \<Rightarrow> nat \<Rightarrow> bool" where
  "in_obj Null n = False"
| "in_obj (Ptr ob i) n = (0 \<le> i \<and> i + int n \<le> int (osize ob))"

fun writable :: "ptr \<Rightarrow> nat \<Rightarrow> bool" where
  "writable Null n = False"
| "writable (Ptr ob i) n = (\<not> is_lit ob \<and> 0 \<le> i \<and> i + int n \<le> int (osize ob))"

fun rd :: "memory \<Rightarrow> ptr \<Rightarrow> nat \<Rightarrow> u8 list" where
  "rd m Null n = []"
| "rd m (Ptr ob i) n = map (obj_byte m ob) [nat i..<nat i + n]"

fun wr :: "memory \<Rightarrow> ptr \<Rightarrow> u8 list \<Rightarrow> memory" where
  "wr m Null bs = m"
| "wr m (Ptr ob i) bs =
     m(ob := (\<lambda>k. if nat i \<le> k \<and> k < nat i + length bs then bs ! (k - nat i) else m ob k))"

fun apart :: "ptr \<Rightarrow> nat \<Rightarrow> ptr \<Rightarrow> nat \<Rightarrow> bool" where
  "apart (Ptr a i) n (Ptr b j) k = (a \<noteq> b \<or> i + int n \<le> j \<or> j + int k \<le> i)"
| "apart p n q k = True"

lemma writable_in_obj [simp]: "writable p n \<Longrightarrow> in_obj p n"
  by (cases p) auto

lemma in_obj_add: "in_obj p (a + b) \<Longrightarrow> in_obj (ptr_add p (int a)) b"
  by (cases p) auto

lemma writable_add: "writable p (a + b) \<Longrightarrow> writable (ptr_add p (int a)) b"
  by (cases p) auto

lemma in_obj_mono: "in_obj p n \<Longrightarrow> k \<le> n \<Longrightarrow> in_obj p k"
  by (cases p) auto

lemma writable_mono: "writable p n \<Longrightarrow> k \<le> n \<Longrightarrow> writable p k"
  by (cases p) auto

lemma length_rd [simp]: "in_obj p n \<Longrightarrow> length (rd m p n) = n"
  by (cases p) auto

lemma rd_0 [simp]: "rd m p 0 = []"
  by (cases p) auto

lemma wr_Nil [simp]: "wr m p [] = m"
  by (cases p) (auto simp: fun_eq_iff)

lemma load_rd: "in_obj p n \<Longrightarrow> k < n \<Longrightarrow> load m (ptr_add p (int k)) = Inr (rd m p n ! k)"
  by (cases p) (auto simp: nat_add_distrib)

lemma load_Inr_rd: "in_obj p (Suc n) \<Longrightarrow> \<exists>c. load m p = Inr c \<and>
    rd m p (Suc n) = c # rd m (ptr_add p 1) n"
  by (cases p) (auto simp: upt_conv_Cons nat_add_distrib simp del: upt_Suc)

lemma rd_split:
  assumes "in_obj p (a + b)"
  shows "rd m p (a + b) = rd m p a @ rd m (ptr_add p (int a)) b"
proof (cases p)
  case (Ptr ob i)
  with assms have i: "nat (i + int a) = nat i + a" by (simp add: nat_add_distrib)
  have "[nat i..<nat i + a + b] = [nat i..<nat i + a] @ [nat i + a..<nat i + a + b]"
    by (rule upt_add_eq_append) simp
  then show ?thesis using Ptr by (simp add: i add.assoc)
qed (use assms in simp)

lemma load_Inr_rd_snoc: "in_obj p (Suc n) \<Longrightarrow> \<exists>c. load m (ptr_add p (int n)) = Inr c \<and>
    rd m p (Suc n) = rd m p n @ [c]"
  by (cases p) (auto simp: nat_add_distrib)

lemma store_wr: "writable p 1 \<Longrightarrow> store m p v = Inr (wr m p [v])"
  by (cases p) (auto simp: fun_eq_iff)

lemma wr_wr_append:
  "writable p (length bs) \<Longrightarrow> wr (wr m p bs) (ptr_add p (int (length bs))) cs = wr m p (bs @ cs)"
  by (cases p) (auto simp: fun_eq_iff nth_append nat_add_distrib)

lemma wr_append_rev:
  "writable p (length bs) \<Longrightarrow> wr (wr m (ptr_add p (int (length bs))) cs) p bs = wr m p (bs @ cs)"
  by (cases p) (auto simp: fun_eq_iff nth_append nat_add_distrib)

lemma rd_wr_same [mem_simps]: "writable p (length bs) \<Longrightarrow> rd (wr m p bs) p (length bs) = bs"
  by (cases p) (auto intro: nth_equalityI)

lemma rd_wr_apart [mem_simps]:
  "in_obj q k \<Longrightarrow> writable p (length bs) \<Longrightarrow> apart p (length bs) q k \<Longrightarrow>
   rd (wr m p bs) q k = rd m q k"
  by (cases p; cases q; cases "is_lit (case q of Ptr ob i \<Rightarrow> ob)") auto

lemma wr_rd: "writable p n \<Longrightarrow> wr m p (rd m p n) = m"
  by (cases p) (auto simp: fun_eq_iff)

lemma wr_other_obj [simp, frame_simps]: "ob \<noteq> ob' \<Longrightarrow> wr m (Ptr ob' i) bs ob = m ob"
  by simp

lemma nth_rd: "k < n \<Longrightarrow> rd m (Ptr ob i) n ! k = obj_byte m ob (nat i + k)"
  by simp

lemma rd_take:
  assumes "rd m (Ptr a i) n = rd m' (Ptr b j) n" and "k \<le> n"
  shows "rd m (Ptr a i) k = rd m' (Ptr b j) k"
proof -
  have "take k (rd m (Ptr a i) n) = take k (rd m' (Ptr b j) n)" using assms(1) by simp
  then show ?thesis using assms(2) by (simp add: take_map)
qed

lemma wr_nth: "wr m (Ptr ob i) bs ob k =
    (if nat i \<le> k \<and> k < nat i + length bs then bs ! (k - nat i) else m ob k)"
  by simp

section \<open>NUL-terminated strings\<close>

fun cstr :: "memory \<Rightarrow> ptr \<Rightarrow> u8 list \<Rightarrow> bool" where
  "cstr m p [] = (load m p = Inr 0)"
| "cstr m p (c # cs) = (c \<noteq> 0 \<and> load m p = Inr c \<and> cstr m (ptr_add p 1) cs)"

lemma load_cong:
  assumes "m' ob = m ob"
  shows "load m' (Ptr ob i) = load m (Ptr ob i)"
  using obj_byte_cong[of m' ob m, OF assms] by simp

lemma cstr_cong:
  assumes "m' ob = m ob"
  shows "cstr m' (Ptr ob i) s = cstr m (Ptr ob i) s"
  using load_cong[of m' ob m, OF assms]
  by (induction s arbitrary: i) (simp_all del: load.simps)

lemma rd_cong:
  assumes "m' ob = m ob"
  shows "rd m' (Ptr ob i) n = rd m (Ptr ob i) n"
  using obj_byte_cong[of m' ob m, OF assms] by simp

lemma cstr_not_Null: "cstr m p s \<Longrightarrow> p \<noteq> Null"
  by (cases s) auto

lemma cstr_no_zero: "cstr m p s \<Longrightarrow> 0 \<notin> set s"
  by (induction s arbitrary: p) auto

lemma cstr_append: "cstr m p (s @ t) \<Longrightarrow> cstr m (ptr_add p (int (length s))) t"
proof (induction s arbitrary: p)
  case Nil
  then show ?case by simp
next
  case (Cons c s)
  from Cons.IH[of "ptr_add p 1"] Cons.prems show ?case by simp
qed

lemma cstr_load:
  assumes "cstr m p s" and "k \<le> length s"
  shows "load m (ptr_add p (int k)) = Inr (if k < length s then s ! k else 0)"
proof -
  have "cstr m (ptr_add p (int k)) (drop k s)"
    using cstr_append[of m p "take k s" "drop k s"] assms by simp
  then show ?thesis using assms(2)
    by (cases "drop k s") (auto simp: nth_via_drop)
qed

lemma cstr_unique: "cstr m p s \<Longrightarrow> cstr m p t \<Longrightarrow> s = t"
proof (induction s arbitrary: p t)
  case Nil
  then show ?case by (cases t) auto
next
  case (Cons c s)
  then show ?case by (cases t) auto
qed

lemma cstr_iff_rd:
  "cstr m p s \<longleftrightarrow> in_obj p (Suc (length s)) \<and> rd m p (Suc (length s)) = s @ [0] \<and> 0 \<notin> set s"
proof (induction s arbitrary: p)
  case Nil
  show ?case by (cases p) auto
next
  case (Cons c s)
  show ?case
  proof (cases p)
    case Null
    then show ?thesis by simp
  next
    case (Ptr ob i)
    have "in_obj p (Suc (Suc (length s))) \<longleftrightarrow> (\<exists>d. load m p = Inr d) \<and> in_obj (ptr_add p 1) (Suc (length s))"
      using Ptr by auto
    moreover have "in_obj p (Suc (Suc (length s))) \<Longrightarrow>
      \<exists>d. load m p = Inr d \<and> rd m p (Suc (Suc (length s))) = d # rd m (ptr_add p 1) (Suc (length s))"
      by (rule load_Inr_rd)
    ultimately show ?thesis using Cons.IH[of "ptr_add p 1"] by (auto simp del: rd.simps load.simps)
  qed
qed

lemma cstr_Lit [simp]: "0 \<notin> set (bytes_of s) \<Longrightarrow> cstr m (Ptr (Lit s) 0) (bytes_of s)"
  by (auto simp: cstr_iff_rd bytes_of_def nth_append intro!: nth_equalityI simp del: upt_Suc)

lemma cstr_wr_apart:
  assumes "cstr m q s" and "writable p (length bs)" and "apart p (length bs) q (Suc (length s))"
  shows "cstr (wr m p bs) q s"
  using assms by (simp add: cstr_iff_rd rd_wr_apart)

lemma apart_step:
  assumes "apart p (Suc n) q (Suc k)"
  shows "apart p 1 (ptr_add q 1) k" and "apart (ptr_add p 1) n (ptr_add q 1) k"
  using assms by (cases p; cases q; auto)+

lemma apart_mono: "apart p n q k \<Longrightarrow> n' \<le> n \<Longrightarrow> k' \<le> k \<Longrightarrow> apart p n' q k'"
  by (cases p; cases q) auto

lemma cstr_wr:
  assumes "writable p (Suc (length s))" and "0 \<notin> set s"
  shows "cstr (wr m p (s @ [0])) p s"
  using assms rd_wr_same[of p "s @ [0]" m] by (simp add: cstr_iff_rd)

text \<open>From here on block reads and writes are handled by their laws only.\<close>

declare rd.simps [simp del] wr.simps [simp del]

end
