(* ===== verification/MemFuns.thy ===== *)
theory MemFuns
  imports CMemory
begin

text \<open>
  The block functions of libk (\<open>libk/string/mem*.c\<close>). \<open>size_t\<close> is a signed type in
  this library (\<open>libk/arch/*/include/stddef.h\<close>), so a size is an \<open>int\<close> here and
  may be negative. Loops recurse as the source does, one byte at a time; the contracts equate
  them with the block operations \<open>rd\<close> and \<open>wr\<close>.
\<close>

section \<open>Definitions\<close>

text \<open>\<open>memchr\<close>: the byte is promoted to \<open>int\<close> and compared with \<open>c\<close> itself.\<close>

function memchr :: "memory \<Rightarrow> ptr \<Rightarrow> int \<Rightarrow> int \<Rightarrow> ptr res" where
  "memchr m src c len =
     (if len > 0 then
        bindR (load m src) (\<lambda>b. if uint b = c then Inr src
                                else memchr m (ptr_add src 1) c (len - 1))
      else Inr Null)"
  by pat_completeness auto
termination by (relation "measure (\<lambda>(m, src, c, len). nat len)") auto

function memcmp_loop :: "memory \<Rightarrow> ptr \<Rightarrow> ptr \<Rightarrow> int \<Rightarrow> int \<Rightarrow> int res" where
  "memcmp_loop m a b i sz =
     (if i < sz then
        bindR (load m (ptr_add a i)) (\<lambda>x. bindR (load m (ptr_add b i)) (\<lambda>y.
          if x < y then Inr (- 1) else if y < x then Inr 1
          else memcmp_loop m a b (i + 1) sz))
      else Inr 0)"
  by pat_completeness auto
termination by (relation "measure (\<lambda>(m, a, b, i, sz). nat (sz - i))") auto

definition memcmp :: "memory \<Rightarrow> ptr \<Rightarrow> ptr \<Rightarrow> int \<Rightarrow> int res" where
  "memcmp m aptr bptr sz = memcmp_loop m aptr bptr 0 sz"

text \<open>The upward copy loop of \<open>memcpy\<close> and of the first branch of \<open>memmove\<close>.\<close>

function copy_up :: "ptr \<Rightarrow> ptr \<Rightarrow> int \<Rightarrow> int \<Rightarrow> memory \<Rightarrow> memory res" where
  "copy_up dst src i sz m =
     (if i < sz then
        bindR (load m (ptr_add src i)) (\<lambda>b. bindR (store m (ptr_add dst i) b)
          (copy_up dst src (i + 1) sz))
      else Inr m)"
  by pat_completeness auto
termination by (relation "measure (\<lambda>(dst, src, i, sz, m). nat (sz - i))") auto

definition memcpy :: "memory \<Rightarrow> ptr \<Rightarrow> ptr \<Rightarrow> int \<Rightarrow> (ptr \<times> memory) res" where
  "memcpy m dst src sz = bindR (copy_up dst src 0 sz m) (\<lambda>m'. Inr (dst, m'))"

text \<open>
  The downward loop of \<open>memmove\<close> stops at zero only. Started below zero it would run
  on, each round one byte lower, until the access leaves the object.
\<close>

function copy_down :: "ptr \<Rightarrow> ptr \<Rightarrow> int \<Rightarrow> memory \<Rightarrow> memory res" where
  "copy_down dst src i m =
     (if i \<noteq> 0 then
        bindR (load m (ptr_add src (i - 1))) (\<lambda>b. bindR (store m (ptr_add dst (i - 1)) b)
          (copy_down dst src (i - 1)))
      else Inr m)"
  by pat_completeness auto
termination
proof (relation "measure (\<lambda>(dst, src, i, m). case ptr_add src i of Null \<Rightarrow> 0 | Ptr ob k \<Rightarrow> nat k)", goal_cases)
  case (2 dst src i m b m')
  then show ?case by (cases src) (auto split: if_splits)
qed auto

definition memmove :: "memory \<Rightarrow> ptr \<Rightarrow> ptr \<Rightarrow> int \<Rightarrow> (ptr \<times> memory) res" where
  "memmove m dst src sz =
     bindR (if dst < src then copy_up dst src 0 sz m else copy_down dst src sz m)
       (\<lambda>m'. Inr (dst, m'))"

function fill :: "ptr \<Rightarrow> u8 \<Rightarrow> int \<Rightarrow> int \<Rightarrow> memory \<Rightarrow> memory res" where
  "fill buf v i sz m =
     (if i < sz then bindR (store m (ptr_add buf i) v) (fill buf v (i + 1) sz) else Inr m)"
  by pat_completeness auto
termination by (relation "measure (\<lambda>(buf, v, i, sz, m). nat (sz - i))") auto

definition memset :: "memory \<Rightarrow> ptr \<Rightarrow> int \<Rightarrow> int \<Rightarrow> (ptr \<times> memory) res" where
  "memset m buf value sz =
     bindR (fill buf (word_of_int value) 0 sz m) (\<lambda>m'. Inr (buf, m'))"

declare memchr.simps [simp del] memcmp_loop.simps [simp del] copy_up.simps [simp del]
  copy_down.simps [simp del] fill.simps [simp del]

section \<open>Contracts\<close>

lemma copy_up_spec:
  assumes "writable dst n" and "in_obj src n" and "apart dst n src n \<or> dst < src" and "k \<le> n"
  shows "copy_up dst src (int k) (int n) m =
    Inr (wr m (ptr_add dst (int k)) (rd m (ptr_add src (int k)) (n - k)))"
  using assms(4)
proof (induction "n - k" arbitrary: k m)
  case 0
  then show ?case by (simp add: copy_up.simps)
next
  case (Suc d)
  let ?d = "ptr_add dst (int k)" and ?s = "ptr_add src (int k)"
  from Suc have k: "k < n" "n - k = Suc d" "d = n - Suc k" by auto
  have inS: "in_obj ?s (Suc d)" and wrD: "writable ?d (Suc d)"
    using in_obj_add[of src k "Suc d"] writable_add[of dst k "Suc d"] assms(1,2) k by auto
  obtain b where b: "load m ?s = Inr b" "rd m ?s (Suc d) = b # rd m (ptr_add ?s 1) d"
    using load_Inr_rd[OF inS] by blast
  have st: "store m ?d b = Inr (wr m ?d [b])"
    by (rule store_wr) (rule writable_mono[OF wrD], simp)
  have rd: "rd (wr m ?d [b]) (ptr_add ?s 1) d = rd m (ptr_add ?s 1) d"
  proof (rule rd_wr_apart)
    show "in_obj (ptr_add ?s 1) d" using in_obj_add[of ?s 1 d] inS by simp
    show "writable ?d (length [b])" using writable_mono[OF wrD] by simp
    show "apart ?d (length [b]) (ptr_add ?s 1) d"
      using assms(3) k by (cases dst; cases src) auto
  qed
  have "copy_up dst src (int k) (int n) m = copy_up dst src (int (Suc k)) (int n) (wr m ?d [b])"
    using k b(1) st by (simp add: copy_up.simps[of dst src "int k"] add.commute)
  also have "\<dots> = Inr (wr (wr m ?d [b]) (ptr_add ?d 1) (rd (wr m ?d [b]) (ptr_add ?s 1) d))"
    using Suc.hyps(1)[of "Suc k" "wr m ?d [b]"] k by (simp add: add.commute)
  also have "\<dots> = Inr (wr m ?d (b # rd m (ptr_add ?s 1) d))"
    using wr_wr_append[of ?d "[b]" m "rd m (ptr_add ?s 1) d"] writable_mono[OF wrD, of 1] rd
    by simp
  finally show ?case using b(2) k(2) by simp
qed

lemma memcpy_wr:
  assumes "writable dst n" and "in_obj src n" and "apart dst n src n"
  shows "memcpy m dst src (int n) = Inr (dst, wr m dst (rd m src n))"
  using copy_up_spec[of dst n src 0 m] assms by (simp add: memcpy_def)

lemma copy_down_spec:
  assumes "writable dst n" and "in_obj src n" and "\<not> dst < src"
  shows "copy_down dst src (int n) m = Inr (wr m dst (rd m src n))"
  using assms(1,2)
proof (induction n arbitrary: m)
  case 0
  then show ?case by (simp add: copy_down.simps)
next
  case (Suc n)
  let ?d = "ptr_add dst (int n)"
  obtain b where b: "load m (ptr_add src (int n)) = Inr b" "rd m src (Suc n) = rd m src n @ [b]"
    using load_Inr_rd_snoc[OF Suc.prems(2)] by blast
  have w: "writable dst n" "in_obj src n"
    using writable_mono[OF Suc.prems(1)] in_obj_mono[OF Suc.prems(2)] by simp_all
  have w1: "writable ?d 1" using writable_add[of dst n 1] Suc.prems(1) by simp
  then have st: "store m ?d b = Inr (wr m ?d [b])" by (rule store_wr)
  have rd: "rd (wr m ?d [b]) src n = rd m src n"
  proof (rule rd_wr_apart[OF w(2)])
    show "writable ?d (length [b])" using w1 by simp
    show "apart ?d (length [b]) src n" using assms(3) by (cases dst; cases src) auto
  qed
  have wr: "wr (wr m ?d [b]) dst (rd m src n) = wr m dst (rd m src n @ [b])"
    using wr_append_rev[of dst "rd m src n" m "[b]"] w by simp
  have "copy_down dst src (int (Suc n)) m = copy_down dst src (int n) (wr m ?d [b])"
    using b(1) st by (simp add: copy_down.simps[of dst src "1 + int n"])
  also have "\<dots> = Inr (wr (wr m ?d [b]) dst (rd (wr m ?d [b]) src n))"
    by (rule Suc.IH[OF w])
  finally show ?case by (simp only: rd wr b(2))
qed

lemma memmove_wr:
  assumes "writable dst n" and "in_obj src n"
  shows "memmove m dst src (int n) = Inr (dst, wr m dst (rd m src n))"
  using copy_up_spec[of dst n src 0 m] copy_down_spec[of dst n src m] assms
  by (simp add: memmove_def)

lemma fill_spec:
  assumes "writable buf n" and "k \<le> n"
  shows "fill buf v (int k) (int n) m = Inr (wr m (ptr_add buf (int k)) (replicate (n - k) v))"
  using assms(2)
proof (induction "n - k" arbitrary: k m)
  case 0
  then show ?case by (simp add: fill.simps)
next
  case (Suc d)
  let ?p = "ptr_add buf (int k)"
  from Suc have k: "k < n" "n - k = Suc d" "n = k + Suc d" "d = n - Suc k" by auto
  have w: "writable ?p (Suc d)" using writable_add[of buf k "Suc d"] assms(1) k(3) by simp
  then have st: "store m ?p v = Inr (wr m ?p [v])"
    using writable_mono[OF w, of 1] by (intro store_wr) simp
  have "fill buf v (int k) (int n) m = fill buf v (int (Suc k)) (int n) (wr m ?p [v])"
    using k(1) st by (simp add: fill.simps[of buf v "int k"] add.commute)
  also have "\<dots> = Inr (wr (wr m ?p [v]) (ptr_add ?p 1) (replicate d v))"
    using Suc.hyps(1)[of "Suc k" "wr m ?p [v]"] k(1,4) by (simp add: add.commute)
  also have "\<dots> = Inr (wr m ?p (v # replicate d v))"
    using wr_wr_append[of ?p "[v]" m] writable_mono[OF w, of 1] by simp
  finally show ?case using k(2) by simp
qed

lemma memset_wr:
  assumes "writable buf n"
  shows "memset m buf v (int n) = Inr (buf, wr m buf (replicate n (word_of_int v)))"
  using fill_spec[OF assms, of 0] by (simp add: memset_def)

lemma memchr_spec:
  assumes "in_obj src n"
  shows "memchr m src c (int n) =
    (let k = length (takeWhile (\<lambda>b. uint b \<noteq> c) (rd m src n))
     in Inr (if k < n then ptr_add src (int k) else Null))"
  using assms
proof (induction n arbitrary: src)
  case 0
  then show ?case by (simp add: memchr.simps)
next
  case (Suc n)
  obtain b where b: "load m src = Inr b" "rd m src (Suc n) = b # rd m (ptr_add src 1) n"
    using load_Inr_rd[OF Suc.prems] by blast
  have "in_obj (ptr_add src 1) n" using in_obj_add[of src 1 n] Suc.prems by simp
  from Suc.IH[OF this] show ?case
    by (simp add: memchr.simps[of m src] b Let_def add.commute)
qed

lemma memcmp_loop_spec:
  assumes "in_obj a n" and "in_obj b n" and "k \<le> n"
  shows "memcmp_loop m a b (int k) (int n) =
    (let xs = rd m (ptr_add a (int k)) (n - k); ys = rd m (ptr_add b (int k)) (n - k)
     in Inr (if xs = ys then 0 else if (xs, ys) \<in> lexord {(x, y). x < y} then - 1 else 1))"
  using assms(3)
proof (induction "n - k" arbitrary: k)
  case 0
  then show ?case by (simp add: memcmp_loop.simps)
next
  case (Suc d)
  let ?a = "ptr_add a (int k)" and ?b = "ptr_add b (int k)"
  from Suc have k: "k < n" "n - k = Suc d" "d = n - Suc k" by auto
  have "in_obj ?a (Suc d)" "in_obj ?b (Suc d)"
    using in_obj_add[of a k "Suc d"] in_obj_add[of b k "Suc d"] assms(1,2) k by auto
  then obtain x y where "load m ?a = Inr x" "rd m ?a (Suc d) = x # rd m (ptr_add ?a 1) d"
      "load m ?b = Inr y" "rd m ?b (Suc d) = y # rd m (ptr_add ?b 1) d"
    using load_Inr_rd by metis
  then show ?case using Suc.hyps(1)[of "Suc k"] k
    by (auto simp: memcmp_loop.simps[of m a b "int k"] Let_def add.commute)
qed

lemma memcmp_spec:
  assumes "in_obj a n" and "in_obj b n"
  shows "memcmp m a b (int n) =
    Inr (if rd m a n = rd m b n then 0
         else if (rd m a n, rd m b n) \<in> lexord {(x, y). x < y} then - 1 else 1)"
  using memcmp_loop_spec[OF assms, of 0] by (simp add: memcmp_def Let_def)

end
