(* ===== verification/StrFuns.thy ===== *)
theory StrFuns
  imports MemFuns
begin

text \<open>
  The measuring and copying string functions of libk (\<open>strlen.c\<close>, \<open>strcpy.c\<close>,
  \<open>strcat.c\<close> under \<open>libk/string\<close>), loop by loop, and their contracts over
  \<open>cstr\<close>. The loops end because every round reads one byte further into an object of
  finite size.
\<close>

section \<open>Definitions\<close>

function strlen_loop :: "memory \<Rightarrow> ptr \<Rightarrow> int \<Rightarrow> int res" where
  "strlen_loop m str len =
     bindR (load m (ptr_add str len)) (\<lambda>c. if c \<noteq> 0 then strlen_loop m str (len + 1) else Inr len)"
  by pat_completeness auto
termination by (relation "measure (\<lambda>(m, str, len). ptr_room (ptr_add str len))") auto

definition strlen :: "memory \<Rightarrow> ptr \<Rightarrow> int res" where
  "strlen m str = strlen_loop m str 0"

function strcpy_loop :: "ptr \<Rightarrow> ptr \<Rightarrow> int \<Rightarrow> memory \<Rightarrow> memory res" where
  "strcpy_loop dest src i m =
     bindR (load m (ptr_add src i)) (\<lambda>b. bindR (store m (ptr_add dest i) b) (\<lambda>m'.
       bindR (load m' (ptr_add dest i)) (\<lambda>d.
         if d = 0 then Inr m' else strcpy_loop dest src (i + 1) m')))"
  by pat_completeness auto
termination by (relation "measure (\<lambda>(dest, src, i, m). ptr_room (ptr_add src i))") auto

definition strcpy :: "memory \<Rightarrow> ptr \<Rightarrow> ptr \<Rightarrow> (ptr \<times> memory) res" where
  "strcpy m dest src = bindR (strcpy_loop dest src 0 m) (\<lambda>m'. Inr (dest, m'))"

lemma ptr_room_store [simp]: "store m p v = Inr m' \<Longrightarrow> ptr_room (ptr_add p 1) < ptr_room p"
  by (cases p) (auto split: if_splits)

function strncpy_pad :: "ptr \<Rightarrow> int \<Rightarrow> memory \<Rightarrow> memory res" where
  "strncpy_pad d n m =
     (if n - 1 \<noteq> 0 then bindR (store m d 0) (strncpy_pad (ptr_add d 1) (n - 1)) else Inr m)"
  by pat_completeness auto
termination by (relation "measure (\<lambda>(d, n, m). ptr_room d)") auto

function strncpy_loop :: "ptr \<Rightarrow> ptr \<Rightarrow> int \<Rightarrow> memory \<Rightarrow> memory res" where
  "strncpy_loop d s n m =
     bindR (load m s) (\<lambda>b. bindR (store m d b) (\<lambda>m'.
       if b = 0 then strncpy_pad (ptr_add d 1) n m'
       else if n - 1 \<noteq> 0 then strncpy_loop (ptr_add d 1) (ptr_add s 1) (n - 1) m'
       else Inr m'))"
  by pat_completeness auto
termination by (relation "measure (\<lambda>(d, s, n, m). ptr_room s)") auto

definition strncpy :: "memory \<Rightarrow> ptr \<Rightarrow> ptr \<Rightarrow> int \<Rightarrow> (ptr \<times> memory) res" where
  "strncpy m dst src n =
     bindR (if n \<noteq> 0 then strncpy_loop dst src n m else Inr m) (\<lambda>m'. Inr (dst, m'))"

function str_end :: "memory \<Rightarrow> ptr \<Rightarrow> ptr res" where
  "str_end m d = bindR (load m d) (\<lambda>c. if c \<noteq> 0 then str_end m (ptr_add d 1) else Inr d)"
  by pat_completeness auto
termination by (relation "measure (\<lambda>(m, d). ptr_room d)") auto

function strcat_copy :: "ptr \<Rightarrow> ptr \<Rightarrow> memory \<Rightarrow> memory res" where
  "strcat_copy d s m =
     bindR (load m s) (\<lambda>b. bindR (store m d b) (\<lambda>m'.
       if b \<noteq> 0 then strcat_copy (ptr_add d 1) (ptr_add s 1) m' else Inr m'))"
  by pat_completeness auto
termination by (relation "measure (\<lambda>(d, s, m). ptr_room s)") auto

definition strcat :: "memory \<Rightarrow> ptr \<Rightarrow> ptr \<Rightarrow> (ptr \<times> memory) res" where
  "strcat m dest src =
     bindR (str_end m dest) (\<lambda>d. bindR (strcat_copy d src m) (\<lambda>m'. Inr (dest, m')))"

text \<open>
  \<open>strncat\<close> compares an \<open>unsigned\<close> length with the signed \<open>n\<close>: with a 32-bit
  \<open>long\<close> both become unsigned, with a 64-bit \<open>size_t\<close> both become signed.
\<close>

definition strncat_less :: "arch \<Rightarrow> int \<Rightarrow> int \<Rightarrow> bool" where
  "strncat_less A len2 n \<longleftrightarrow> len2 < (if A = I386 then n mod 2 ^ 32 else n)"

definition strncat :: "arch \<Rightarrow> memory \<Rightarrow> ptr \<Rightarrow> ptr \<Rightarrow> int \<Rightarrow> (ptr \<times> memory) res" where
  "strncat A m s1 s2 n =
     bindR (strlen m s1) (\<lambda>l1. bindR (strlen m s2) (\<lambda>l2.
       let len1 = l1 mod 2 ^ 32; len2 = l2 mod 2 ^ 32 in
       if strncat_less A len2 n then
         bindR (strcpy m (ptr_add s1 len1) s2) (\<lambda>(_, m'). Inr (s1, m'))
       else
         bindR (strncpy m (ptr_add s1 len1) s2 n) (\<lambda>(_, m').
           bindR (store m' (ptr_add s1 (len1 + n)) 0) (\<lambda>m''. Inr (s1, m'')))))"

declare strlen_loop.simps [simp del] strcpy_loop.simps [simp del] strncpy_pad.simps [simp del]
  strncpy_loop.simps [simp del] str_end.simps [simp del] strcat_copy.simps [simp del]

section \<open>Contracts of the copying functions\<close>

lemma strlen_loop_cstr: "cstr m (ptr_add p k) s \<Longrightarrow> strlen_loop m p k = Inr (k + int (length s))"
proof (induction s arbitrary: k)
  case Nil
  then show ?case by (simp add: strlen_loop.simps)
next
  case (Cons c s)
  then show ?case using Cons.IH[of "k + 1"] by (simp add: strlen_loop.simps[of m p k])
qed

lemma strlen_cstr: "cstr m p s \<Longrightarrow> strlen m p = Inr (int (length s))"
  using strlen_loop_cstr[of m p 0 s] by (simp add: strlen_def)

lemma strlen_loop_Inr: "strlen_loop m p k = Inr n \<Longrightarrow> \<exists>s. cstr m (ptr_add p k) s \<and> n = k + int (length s)"
proof (induction m p k rule: strlen_loop.induct)
  case (1 m p k)
  from "1.prems" obtain c where c: "load m (ptr_add p k) = Inr c"
    and n: "(if c \<noteq> 0 then strlen_loop m p (k + 1) else Inr k) = Inr n"
    by (subst (asm) strlen_loop.simps) auto
  show ?case
  proof (cases "c = 0")
    case True
    with c n show ?thesis by (intro exI[of _ "[]"]) simp
  next
    case False
    with n "1.IH"[OF c] obtain s where "cstr m (ptr_add p (k + 1)) s" "n = k + 1 + int (length s)"
      by auto
    with c False show ?thesis by (intro exI[of _ "c # s"]) simp
  qed
qed

text \<open>One round of a copying loop: the byte is written, the rest of the source is intact.\<close>

lemma copy_round:
  assumes "cstr m s (c # t)" and "writable d (Suc (Suc (length t)))"
    and "apart d (Suc (Suc (length t))) s (Suc (Suc (length t)))"
  shows "load m s = Inr c" and "c \<noteq> 0" and "store m d c = Inr (wr m d [c])"
    and "cstr (wr m d [c]) (ptr_add s 1) t"
    and "writable (ptr_add d 1) (Suc (length t))"
    and "apart (ptr_add d 1) (Suc (length t)) (ptr_add s 1) (Suc (length t))"
    and "wr (wr m d [c]) (ptr_add d 1) bs = wr m d (c # bs)"
proof -
  have w: "writable d 1" using writable_mono[OF assms(2)] by simp
  show "load m s = Inr c" "c \<noteq> 0" using assms(1) by simp_all
  show "store m d c = Inr (wr m d [c])" using w by (rule store_wr)
  show "cstr (wr m d [c]) (ptr_add s 1) t"
    using assms(1) w apart_step(1)[OF assms(3)] by (intro cstr_wr_apart) simp_all
  show "writable (ptr_add d 1) (Suc (length t))" using writable_add[of d 1] assms(2) by simp
  show "apart (ptr_add d 1) (Suc (length t)) (ptr_add s 1) (Suc (length t))"
    using apart_step(2)[OF assms(3)] .
  show "wr (wr m d [c]) (ptr_add d 1) bs = wr m d (c # bs)"
    using wr_wr_append[of d "[c]"] w by simp
qed

lemma strcat_copy_cstr:
  assumes "cstr m s t" and "writable d (Suc (length t))" and "apart d (Suc (length t)) s (Suc (length t))"
  shows "strcat_copy d s m = Inr (wr m d (t @ [0]))"
  using assms
proof (induction t arbitrary: d s m)
  case Nil
  then show ?case by (simp add: strcat_copy.simps store_wr)
next
  case (Cons c t)
  note round = copy_round[of m s c t d, OF Cons.prems(1) Cons.prems(2,3)[simplified]]
  show ?case
    using Cons.IH[OF round(4,5,6)] round(1,2,3,7)
    by (simp add: strcat_copy.simps[of d])
qed

text \<open>The indexed loop of \<open>strcpy\<close> does what the pointer loop of \<open>strcat\<close> does.\<close>

lemma strcpy_loop_eq_strcat_copy:
  "strcpy_loop d s i m = strcat_copy (ptr_add d i) (ptr_add s i) m"
proof (induction d s i m rule: strcpy_loop.induct)
  case (1 d s i m)
  show ?case
  proof (cases "load m (ptr_add s i)")
    case (Inr b)
    show ?thesis
    proof (cases "store m (ptr_add d i) b")
      case m': (Inr m')
      then have "load m' (ptr_add d i) = Inr b" by (rule load_store_same)
      then show ?thesis using "1.IH"[OF Inr m'] Inr m'
        by (simp add: strcpy_loop.simps[of d] strcat_copy.simps[of "ptr_add d i"])
    qed (simp add: strcpy_loop.simps strcat_copy.simps Inr)
  qed (simp add: strcpy_loop.simps strcat_copy.simps)
qed

lemma strcpy_cstr:
  assumes "cstr m src s" and "writable dest (Suc (length s))"
    and "apart dest (Suc (length s)) src (Suc (length s))"
  shows "strcpy m dest src = Inr (dest, wr m dest (s @ [0]))"
  using strcat_copy_cstr[OF assms] by (simp add: strcpy_def strcpy_loop_eq_strcat_copy)

lemma str_end_cstr: "cstr m p s \<Longrightarrow> str_end m p = Inr (ptr_add p (int (length s)))"
proof (induction s arbitrary: p)
  case Nil
  then show ?case by (simp add: str_end.simps)
next
  case (Cons c s)
  then show ?case by (simp add: str_end.simps[of m p])
qed

lemma cstr_extend:
  assumes "cstr m p s" and "writable p (Suc (length s + length t))" and "0 \<notin> set t"
  shows "cstr (wr m (ptr_add p (int (length s))) (t @ [0])) p (s @ t)"
proof -
  have w: "writable p (length s)" using writable_mono[OF assms(2)] by simp
  have "rd m p (length s) = s"
    using load_Inr_rd_snoc[of p "length s" m] assms(1) cstr_iff_rd[of m p s] by auto
  then have "wr m p s = m" using wr_rd[OF w, of m] by simp
  then have "wr m (ptr_add p (int (length s))) (t @ [0]) = wr m p ((s @ t) @ [0])"
    using wr_wr_append[OF w, of m "t @ [0]"] by simp
  then show ?thesis
    using cstr_wr[of p "s @ t" m] assms cstr_no_zero[OF assms(1)] by simp
qed

lemma strcat_cstr:
  assumes "cstr m dest s" and "cstr m src t" and "writable dest (Suc (length s + length t))"
    and "apart dest (Suc (length s + length t)) src (Suc (length t))"
  shows "\<exists>m'. strcat m dest src = Inr (dest, m') \<and> cstr m' dest (s @ t) \<and>
    m' = wr m (ptr_add dest (int (length s))) (t @ [0])"
proof -
  let ?d = "ptr_add dest (int (length s))"
  have "writable ?d (Suc (length t))" using writable_add[of dest "length s"] assms(3) by simp
  moreover have "apart ?d (Suc (length t)) src (Suc (length t))"
    using assms(4) by (cases dest; cases src) auto
  ultimately have "strcat_copy ?d src m = Inr (wr m ?d (t @ [0]))"
    using assms(2) by (intro strcat_copy_cstr)
  then show ?thesis
    using str_end_cstr[OF assms(1)] cstr_extend[OF assms(1,3) cstr_no_zero[OF assms(2)]]
    by (simp add: strcat_def)
qed

lemma strncpy_pad_wr:
  assumes "writable d n"
  shows "strncpy_pad d (int (Suc n)) m = Inr (wr m d (replicate n 0))"
  using assms
proof (induction n arbitrary: d m)
  case 0
  then show ?case by (simp add: strncpy_pad.simps)
next
  case (Suc n)
  have w: "writable d 1" "writable (ptr_add d 1) n"
    using writable_mono[OF Suc.prems, of 1] writable_add[of d 1 n] Suc.prems by simp_all
  then show ?case
    using Suc.IH[OF w(2), of "wr m d [0]"] store_wr[OF w(1)] wr_wr_append[of d "[0]" m "replicate n 0"]
    by (simp add: strncpy_pad.simps[of d])
qed

lemma strncpy_loop_wr:
  assumes "cstr m s t" and "writable d (Suc n)" and "apart d (Suc n) s (Suc (length t))"
  shows "strncpy_loop d s (int (Suc n)) m = Inr (wr m d (take (Suc n) t @ replicate (Suc n - length t) 0))"
  using assms
proof (induction n arbitrary: d s t m)
  case 0
  then show ?case by (cases t) (auto simp: strncpy_loop.simps store_wr strncpy_pad.simps)
next
  case (Suc n)
  have w: "writable d 1" "writable (ptr_add d 1) (Suc n)"
    using writable_mono[OF Suc.prems(2), of 1] writable_add[of d 1 "Suc n"] Suc.prems(2) by simp_all
  show ?case
  proof (cases t)
    case Nil
    then show ?thesis
      using Suc.prems(1) strncpy_pad_wr[OF w(2), of "wr m d [0]"] store_wr[OF w(1)]
        wr_wr_append[of d "[0]" m "replicate (Suc n) 0"] w(1)
      by (simp add: strncpy_loop.simps[of d] take_Cons')
  next
    case (Cons c t')
    have ap: "apart d 1 (ptr_add s 1) (Suc (length t'))"
        "apart (ptr_add d 1) (Suc n) (ptr_add s 1) (Suc (length t'))"
      using apart_step[of d "Suc n" s "Suc (length t')"] Suc.prems(3) Cons by simp_all
    have "cstr (wr m d [c]) (ptr_add s 1) t'"
      using Suc.prems(1) Cons w(1) ap(1) by (intro cstr_wr_apart) simp_all
    from Suc.IH[OF this w(2) ap(2)] show ?thesis
      using Suc.prems(1) Cons store_wr[OF w(1)] wr_wr_append[of d "[c]"] w(1)
      by (simp add: strncpy_loop.simps[of d] take_append)
  qed
qed

lemma strncpy_cstr:
  assumes "cstr m src s" and "writable dst n" and "apart dst n src (Suc (length s))"
  shows "strncpy m dst src (int n) = Inr (dst, wr m dst (take n s @ replicate (n - length s) 0))"
  using assms strncpy_loop_wr[of m src s dst "n - 1"] by (cases n) (simp_all add: strncpy_def)

lemma strncat_cstr:
  assumes "cstr m s1 s" and "cstr m s2 t" and "length s < 2 ^ 32" and "length t < 2 ^ 31"
    and "n < 2 ^ 31"
    and "writable s1 (Suc (length s + min n (length t)))"
    and "apart s1 (Suc (length s + n)) s2 (Suc (length t))"
  shows "\<exists>m'. strncat A m s1 s2 (int n) = Inr (s1, m') \<and> cstr m' s1 (s @ take n t)"
proof -
  let ?d = "ptr_add s1 (int (length s))"
  have less: "strncat_less A (int (length t)) (int n) \<longleftrightarrow> length t < n"
    using assms(5) by (simp add: strncat_less_def)
  have wd: "writable ?d (Suc (min n (length t)))"
    using writable_add[of s1 "length s"] assms(6) by simp
  have nz: "0 \<notin> set (take n t)" using cstr_no_zero[OF assms(2)] by (auto dest: in_set_takeD)
  have ext: "cstr (wr m ?d (take n t @ [0])) s1 (s @ take n t)"
    using assms(6) nz by (intro cstr_extend[OF assms(1)]) (simp_all add: min.commute)
  show ?thesis
  proof (cases "length t < n")
    case True
    then have "strcpy m ?d s2 = Inr (?d, wr m ?d (t @ [0]))"
      using assms(2,7) wd by (intro strcpy_cstr) (cases s1; cases s2; auto)+
    then show ?thesis
      using True less ext strlen_cstr[OF assms(1)] strlen_cstr[OF assms(2)] assms(3,4)
      by (simp add: strncat_def)
  next
    case False
    then have le: "n \<le> length t" by simp
    have w: "writable ?d n" "writable (ptr_add ?d (int n)) 1"
      using writable_mono[OF wd, of n] writable_add[of ?d n 1] wd le by simp_all
    have "strncpy m ?d s2 (int n) = Inr (?d, wr m ?d (take n t))"
      using strncpy_cstr[OF assms(2) w(1)] assms(7) le by (cases s1; cases s2) auto
    moreover have "store (wr m ?d (take n t)) (ptr_add s1 (int (length s) + int n)) 0 =
        Inr (wr m ?d (take n t @ [0]))"
      using store_wr[OF w(2)] wr_wr_append[of ?d "take n t" m "[0]"] w(1) le by simp
    ultimately show ?thesis
      using False less ext strlen_cstr[OF assms(1)] strlen_cstr[OF assms(2)] assms(3,4)
      by (simp add: strncat_def)
  qed
qed

end
