(* ===== verification/Divmod.thy ===== *)
theory Divmod
  imports Prelude
begin

text \<open>
  The shift-and-subtract division \<open>divmod_u64\<close> of \<open>libk/stdio/printf.c\<close>. The dividend
  has 64 bits, the divisor is a 32-bit variable that the first loop shifts left in place: for a
  dividend of \<open>2 ^ 33\<close> or more the loop condition can never fail and the function does not
  return; below \<open>2 ^ 32\<close> it computes quotient and remainder.
\<close>

section \<open>Definitions\<close>

text \<open>
  The first loop, with fuel. \<open>None\<close> is "still running". In a run that ends, the divisor
  doubles without losing a bit, so 32 rounds and the final test are enough
  (\<open>divmod_shift_more_fuel\<close>).
\<close>

fun divmod_shift :: "nat \<Rightarrow> u64 \<Rightarrow> u32 \<Rightarrow> u64 \<Rightarrow> (u32 \<times> u64) option" where
  "divmod_shift 0 n base b = None"
| "divmod_shift (Suc fuel) n base b =
     (if ucast base \<le> drop_bit 1 n then divmod_shift fuel n (push_bit 1 base) (push_bit 1 b)
      else Some (base, b))"

lemma unat_drop_bit_1: "unat (drop_bit (Suc 0) (w :: 'a :: len word)) = unat w div 2"
  by (simp only: unat_drop_bit_eq) (simp add: drop_bit_Suc)

function divmod_sub :: "u64 \<Rightarrow> u32 \<Rightarrow> u64 \<Rightarrow> u64 \<Rightarrow> u64 \<times> u64" where
  "divmod_sub n base b result =
     (if b \<noteq> 0 then
        (if n \<ge> ucast base
         then divmod_sub (n - ucast base) (drop_bit 1 base) (drop_bit 1 b) (result + b)
         else divmod_sub n (drop_bit 1 base) (drop_bit 1 b) result)
      else (n, result))"
  by pat_completeness auto
termination
  by (relation "measure (\<lambda>(n, base, b, result). unat b)")
    (auto simp: unat_drop_bit_1 unat_gt_0)

declare divmod_sub.simps [simp del]

text \<open>The quotient (stored through \<open>num\<close>) and the remainder (returned).\<close>

definition divmod_u64 :: "u64 \<Rightarrow> u32 \<Rightarrow> (u64 \<times> u32) res" where
  "divmod_u64 num base0 =
     (case divmod_shift 34 num base0 1 of
        None \<Rightarrow> Inl Diverges
      | Some (base, b) \<Rightarrow> (let (n, result) = divmod_sub num base b 0 in Inr (result, ucast n)))"

section \<open>The first loop\<close>

lemma unat_ucast_u32 [simp]: "unat (ucast (x :: u32) :: u64) = unat x"
  using unsigned_less[of x, where 'a = nat] by (simp add: unsigned_ucast_eq take_bit_nat_eq_self_iff)

lemma unat_times_2:
  assumes "unat (w :: 'a :: len word) * 2 < 2 ^ LENGTH('a)"
  shows "unat (w * 2) = unat w * 2"
proof -
  have "unat (push_bit (Suc 0) w) = unat w * 2"
    using assms by (simp only: unsigned_push_bit_eq) (simp add: take_bit_nat_eq_self_iff)
  then show ?thesis by simp
qed

lemma shift_guard: "(ucast (base :: u32) :: u64) \<le> drop_bit (Suc 0) n \<longleftrightarrow> unat base \<le> unat n div 2"
  by (simp add: word_le_nat_alt unat_drop_bit_1)

lemma divmod_shift_ends:
  assumes "unat n < 2 ^ 32" and "0 < B" and "unat base = B * 2 ^ k" and "unat b = 2 ^ k"
    and "k + fuel = 34" and "k \<le> 32" and "B * 2 ^ k \<le> unat n \<or> k = 0"
  shows "\<exists>base' b' k'. divmod_shift fuel n base b = Some (base', b') \<and>
    unat base' = B * 2 ^ k' \<and> unat b' = 2 ^ k' \<and> unat n < B * 2 ^ Suc k' \<and> k' \<le> 32"
  using assms(3-7)
proof (induction fuel arbitrary: base b k)
  case 0
  then show ?case by simp
next
  case (Suc fuel)
  show ?case
  proof (cases "unat base \<le> unat n div 2")
    case True
    then have small: "B * 2 ^ k * 2 \<le> unat n" using Suc.prems(1) by linarith
    have "2 ^ k * 2 \<le> B * 2 ^ k * 2" using assms(2) by simp
    with small assms(1) have k: "(2 :: nat) ^ Suc k < 2 ^ 32" by (simp only: power_Suc)
    then have k31: "Suc k < 32" using power_less_imp_less_exp[OF _ k] by simp
    have base: "unat (base * 2) = B * 2 ^ Suc k"
      using unat_times_2[of base] small assms(1) Suc.prems(1) by simp
    have b: "unat (b * 2) = 2 ^ Suc k"
      using unat_times_2[of b] k Suc.prems(2) by simp
    show ?thesis
      using Suc.IH[OF base b] Suc.prems k31 small True by (simp add: shift_guard)
  next
    case False
    then have "unat n < B * 2 ^ Suc k" using Suc.prems(1) by simp
    with False Suc.prems show ?thesis by (auto simp: shift_guard)
  qed
qed

text \<open>Once out of reach, never in reach: the loop runs for ever on large dividends.\<close>

lemma divmod_shift_runs:
  assumes "2 ^ 33 \<le> unat n"
  shows "divmod_shift fuel n base b = None"
proof (induction fuel arbitrary: base b)
  case (Suc fuel)
  have "unat base < 2 ^ 32" using unsigned_less[of base, where 'a = nat] by simp
  then have "unat base \<le> unat n div 2" using assms by simp
  then show ?case using Suc.IH by (simp add: shift_guard)
qed simp

text \<open>
  The fuel is enough: after 32 doublings nothing of the divisor is left, and with a zero divisor
  the guard always holds. A run that has not ended within 34 rounds never ends.
\<close>

lemma divmod_shift_zero: "divmod_shift fuel n 0 b = None"
  by (induction fuel arbitrary: b) simp_all

lemma divmod_shift_continue:
  "divmod_shift k n base b = None \<Longrightarrow>
   divmod_shift (k + fuel) n base b = divmod_shift fuel n (base * 2 ^ k) (b * 2 ^ k)"
proof (induction k arbitrary: base b)
  case (Suc k)
  then show ?case by (simp split: if_splits add: mult.assoc)
qed simp

lemma divmod_shift_mono: "divmod_shift f n base b = Some r \<Longrightarrow> divmod_shift (f + j) n base b = Some r"
  by (induction f arbitrary: base b) (simp_all split: if_splits)

lemma divmod_shift_more_fuel:
  assumes "divmod_shift 34 n base b = None"
  shows "divmod_shift fuel n base b = None"
proof (cases "fuel \<le> 34")
  case True
  then show ?thesis
    using divmod_shift_mono[of fuel n base b _ "34 - fuel"] assms by (cases "divmod_shift fuel n base b") auto
next
  case False
  have "(2 ^ 34 :: u32) = 0" by simp
  then have z: "base * 2 ^ 34 = 0" by (simp only: mult_zero_right)
  show ?thesis
    using divmod_shift_continue[OF assms, of "fuel - 34"] False
    unfolding z by (simp add: divmod_shift_zero)
qed

section \<open>The second loop\<close>

lemma divmod_sub_spec:
  assumes "0 < B" and "unat base = B * 2 ^ k" and "unat b = 2 ^ k" and "unat n < B * 2 ^ Suc k"
    and "unat res + unat n div B < 2 ^ 64"
  shows "\<exists>n' r'. divmod_sub n base b res = (n', r') \<and> unat n' = unat n mod B \<and>
    unat r' = unat res + unat n div B"
  using assms(2-5)
proof (induction k arbitrary: n base b res)
  case 0
  then have b0: "b \<noteq> 0" and d0: "drop_bit 1 b = 0"
    by (auto simp: word_unat_eq_iff unat_drop_bit_1)
  show ?case
  proof (cases "B \<le> unat n")
    case True
    then have ge: "(ucast base :: u64) \<le> n" using 0(1) by (simp add: word_le_nat_alt)
    have "unat n div B = 1" "unat n mod B = unat n - B"
      using True 0(3) by (simp_all add: div_nat_eqI mod_if le_mod_geq)
    moreover have "unat (n - ucast base) = unat n - B"
      using ge 0(1) by (simp add: unat_sub)
    moreover have "unat (res + b) = unat res + 1"
      using 0(2,4) calculation(1) by (simp add: unat_word_ariths)
    ultimately show ?thesis using b0 d0 ge
      by (simp add: divmod_sub.simps[of n] divmod_sub.simps[of _ _ 0])
  next
    case False
    then have "\<not> (ucast base :: u64) \<le> n" using 0(1) by (simp add: word_le_nat_alt)
    with False b0 d0 show ?thesis
      by (simp add: divmod_sub.simps[of n] divmod_sub.simps[of _ _ 0])
  qed
next
  case (Suc k)
  have b0: "b \<noteq> 0" using Suc.prems(2) by (auto simp: word_unat_eq_iff)
  have base: "unat (drop_bit 1 base) = B * 2 ^ k" and b: "unat (drop_bit 1 b) = 2 ^ k"
    using Suc.prems(1,2) by (simp_all add: unat_drop_bit_1)
  show ?case
  proof (cases "B * 2 ^ Suc k \<le> unat n")
    case True
    let ?n = "n - ucast base" and ?r = "res + b"
    have ge: "(ucast base :: u64) \<le> n" using True Suc.prems(1) by (simp add: word_le_nat_alt)
    have n: "unat ?n = unat n - B * 2 ^ Suc k" using ge Suc.prems(1) by (simp add: unat_sub)
    then have eq: "unat n = unat ?n + 2 ^ Suc k * B" using True by (simp add: mult.commute)
    have dm: "unat n div B = unat ?n div B + 2 ^ Suc k" "unat n mod B = unat ?n mod B"
      using assms(1) by (simp_all only: eq div_mult_self1 mod_mult_self1)
    have r: "unat ?r = unat res + 2 ^ Suc k"
      using Suc.prems(2,4) dm(1) by (simp add: unat_word_ariths)
    have "unat ?n < B * 2 ^ Suc k" using n Suc.prems(3) by simp
    moreover have "unat ?r + unat ?n div B < 2 ^ 64" using r dm(1) Suc.prems(4) by simp
    ultimately show ?thesis
      using Suc.IH[OF base b, of ?n ?r] b0 ge dm r by (simp add: divmod_sub.simps[of n] ac_simps)
  next
    case False
    then have "\<not> (ucast base :: u64) \<le> n" using Suc.prems(1) by (simp add: word_le_nat_alt)
    with False Suc.IH[OF base b, of n res] Suc.prems(4) b0 show ?thesis
      by (simp add: divmod_sub.simps[of n])
  qed
qed

section \<open>Quotient and remainder\<close>

lemma divmod_u64_correct:
  assumes "unat num < 2 ^ 32" and "0 < base"
  shows "divmod_u64 num base = Inr (num div ucast base, ucast (num mod ucast base))"
proof -
  have B: "0 < unat base" using assms(2) by (simp add: unat_gt_0)
  obtain base' b' k where sh: "divmod_shift 34 num base 1 = Some (base', b')"
    and k: "unat base' = unat base * 2 ^ k" "unat b' = 2 ^ k" "unat num < unat base * 2 ^ Suc k"
    using divmod_shift_ends[of num "unat base" base 0 1 34] assms(1) B by auto
  have "unat (0 :: u64) + unat num div unat base < 2 ^ 64"
    using unsigned_less[of num, where 'a = nat] div_le_dividend[of "unat num" "unat base"]
    by (simp del: div_le_dividend)
  from divmod_sub_spec[OF B k this] obtain n' r' where
    sub: "divmod_sub num base' b' 0 = (n', r')" "unat n' = unat num mod unat base"
      "unat r' = unat num div unat base" by auto
  have "r' = num div ucast base" "n' = num mod ucast base"
    using sub(2,3) by (simp_all add: word_unat_eq_iff unat_div unat_mod)
  with sh sub(1) show ?thesis by (simp add: divmod_u64_def)
qed

lemma divmod_u64_diverges: "2 ^ 33 \<le> unat num \<Longrightarrow> divmod_u64 num base = Inl Diverges"
  by (simp add: divmod_u64_def divmod_shift_runs)

end
