(* ===== verification/IntStr.thy ===== *)
theory IntStr
  imports StrFuns Divmod
begin

text \<open>
  \<open>__int_str\<close> of \<open>libk/stdio/printf.c\<close>: the digits of a number, its sign and the
  padding, written into the caller's buffer. Its two local buffers \<open>buf[65]\<close> and
  \<open>tmp[256]\<close> are objects of the memory model, so a width that does not fit them shows as
  \<open>OutOfBounds\<close>. The reference is \<open>int_text\<close> with \<open>pad_text\<close>.
\<close>

section \<open>Definitions\<close>

definition int_buf :: obj where "int_buf = Var ''__int_str.buf'' 65"
definition int_tmp :: obj where "int_tmp = Var ''__int_str.tmp'' 256"
definition digits :: string where "digits = ''0123456789ABCDEF''"

function int_str_digits :: "u64 \<Rightarrow> int \<Rightarrow> int \<Rightarrow> memory \<Rightarrow> (int \<times> memory) res" where
  "int_str_digits n base i m =
     bindR (divmod_u64 n (word_of_int base)) (\<lambda>(n', rem).
     bindR (load m (Ptr (Lit digits) (uint rem))) (\<lambda>c.
     bindR (store m (Ptr int_buf i) c) (\<lambda>m'.
       if n' \<noteq> 0 then int_str_digits n' base (i + 1) m' else Inr (i + 1, m'))))"
  by pat_completeness auto
termination
proof (relation "measure (\<lambda>(n, base, i, m). ptr_room (Ptr int_buf i))", goal_cases)
  case (2 n base i m x n' rem c m')
  then show ?case using ptr_room_store[of m "Ptr int_buf i" c m'] by simp
qed simp

function rev_copy :: "ptr \<Rightarrow> int \<Rightarrow> int \<Rightarrow> memory \<Rightarrow> memory res" where
  "rev_copy b j i m =
     (if j < i then
        bindR (load m (Ptr int_buf (i - j - 1))) (\<lambda>c. bindR (store m (ptr_add b j) c)
          (rev_copy b (j + 1) i))
      else Inr m)"
  by pat_completeness auto
termination by (relation "measure (\<lambda>(b, j, i, m). nat (i - j))") auto

declare int_str_digits.simps [simp del] rev_copy.simps [simp del]

definition int_str_sign :: "bool \<Rightarrow> bool \<Rightarrow> bool \<Rightarrow> int \<Rightarrow> memory \<Rightarrow> (int \<times> memory) res" where
  "int_str_sign negative plusSign spaceSign i m =
     (if negative then bindR (store m (Ptr int_buf i) 45) (\<lambda>m'. Inr (i + 1, m'))
      else if plusSign then bindR (store m (Ptr int_buf i) 43) (\<lambda>m'. Inr (i + 1, m'))
      else if spaceSign then bindR (store m (Ptr int_buf i) 32) (\<lambda>m'. Inr (i + 1, m'))
      else Inr (i, m))"

definition pad_char :: "bool \<Rightarrow> u8" where
  "pad_char zeroPad = (if zeroPad then 48 else 32)"

definition int_str_pad :: "ptr \<Rightarrow> int \<Rightarrow> int \<Rightarrow> bool \<Rightarrow> bool \<Rightarrow> memory \<Rightarrow> memory res" where
  "int_str_pad b i pad justify zeroPad m =
     (if pad > 0 then
        (if justify then
           bindR (fill (ptr_add b i) (pad_char zeroPad) 0 pad m) (\<lambda>m'. store m' (ptr_add b (i + pad)) 0)
         else
           bindR (fill (Ptr int_tmp 0) (pad_char zeroPad) 0 pad m) (\<lambda>m1.
           bindR (strcpy m1 (Ptr int_tmp pad) b) (\<lambda>(_, m2).
           bindR (strcpy m2 b (Ptr int_tmp 0)) (\<lambda>(_, m3). Inr m3))))
      else Inr m)"

text \<open>\<open>value\<close> is an \<open>intmax_t\<close>; its negation is checked, as C leaves it undefined at the minimum.\<close>

definition int_str :: "memory \<Rightarrow> int \<Rightarrow> ptr \<Rightarrow> int \<Rightarrow> bool \<Rightarrow> bool \<Rightarrow> int \<Rightarrow> bool \<Rightarrow> bool \<Rightarrow> (ptr \<times> memory) res" where
  "int_str m value b base plusSignIfNeeded spaceSignIfNeeded paddingNo justify zeroPad =
     bindR (if value < 0 then chk_int64 (- value) else Inr value) (\<lambda>av.
     bindR (int_str_digits (word_of_int av) base 0 m) (\<lambda>(i, m).
     bindR (int_str_sign (value < 0) plusSignIfNeeded spaceSignIfNeeded i m) (\<lambda>(i, m).
     bindR (rev_copy b 0 i m) (\<lambda>m.
     bindR (store m (ptr_add b i) 0) (\<lambda>m.
     bindR (chk_int (paddingNo - i)) (\<lambda>pad.
     bindR (int_str_pad b i pad justify zeroPad m) (\<lambda>m. Inr (b, m))))))))"

section \<open>Reference\<close>

definition digit_char :: "nat \<Rightarrow> u8" where
  "digit_char d = (bytes_of digits @ [0]) ! d"

function digs :: "nat \<Rightarrow> nat \<Rightarrow> u8 list" where
  "digs base n =
     (if n < base \<or> base < 2 then [digit_char n] else digs base (n div base) @ [digit_char (n mod base)])"
  by pat_completeness auto
termination by (relation "measure (\<lambda>(base, n). n)") auto

declare digs.simps [simp del]

definition sign_text :: "bool \<Rightarrow> bool \<Rightarrow> bool \<Rightarrow> u8 list" where
  "sign_text negative plusSign spaceSign =
     (if negative then [45] else if plusSign then [43] else if spaceSign then [32] else [])"

definition int_text :: "int \<Rightarrow> nat \<Rightarrow> bool \<Rightarrow> bool \<Rightarrow> u8 list" where
  "int_text v base plusSign spaceSign = sign_text (v < 0) plusSign spaceSign @ digs base (nat \<bar>v\<bar>)"

definition pad_text :: "nat \<Rightarrow> bool \<Rightarrow> bool \<Rightarrow> u8 list \<Rightarrow> u8 list" where
  "pad_text w justify zeroPad t =
     (if justify then t @ replicate (w - length t) (pad_char zeroPad)
      else replicate (w - length t) (pad_char zeroPad) @ t)"

lemma digs_ne [simp]: "digs base n \<noteq> []"
  by (subst digs.simps) simp

lemma length_digs: "2 \<le> base \<Longrightarrow> n < base ^ Suc k \<Longrightarrow> length (digs base n) \<le> Suc k"
proof (induction k arbitrary: n)
  case 0
  then show ?case by (simp add: digs.simps)
next
  case (Suc k)
  show ?case
  proof (cases "n < base")
    case True
    then show ?thesis by (simp add: digs.simps)
  next
    case False
    have "n div base < base ^ Suc k"
      using Suc.prems by (simp add: less_mult_imp_div_less mult.commute)
    with Suc.IH[OF Suc.prems(1)] False Suc.prems(1) show ?thesis by (subst digs.simps) simp
  qed
qed

lemma length_digs_u32: "2 \<le> base \<Longrightarrow> n < 2 ^ 32 \<Longrightarrow> length (digs base n) \<le> 32"
  using length_digs[of base n 31] power_mono[of 2 base 32] by simp

lemma length_digits [simp]: "length digits = 16"
  by (simp add: digits_def)

lemma digit_char_nonzero: "d < 16 \<Longrightarrow> digit_char d \<noteq> 0"
proof -
  assume "d < 16"
  then have "digit_char d \<in> set (bytes_of digits)"
    using length_digits by (auto simp: digit_char_def nth_append)
  moreover have "0 \<notin> set (bytes_of digits)" by (simp add: digits_def)
  ultimately show ?thesis by metis
qed

lemma digs_nonzero: "2 \<le> base \<Longrightarrow> base \<le> 16 \<Longrightarrow> 0 \<notin> set (digs base n)"
proof (induction base n rule: digs.induct)
  case (1 base n)
  have "n mod base < base" using "1.prems" by (intro mod_less_divisor) simp
  then have "digit_char (n mod base) \<noteq> 0"
    using "1.prems" by (intro digit_char_nonzero) linarith
  moreover have "n < base \<Longrightarrow> digit_char n \<noteq> 0" using "1.prems" by (intro digit_char_nonzero) simp
  ultimately show ?case using 1 by (subst digs.simps) auto
qed

section \<open>The digit loop\<close>

lemma load_Lit: "k \<le> length s \<Longrightarrow> load m (Ptr (Lit s) (int k)) = Inr ((bytes_of s @ [0]) ! k)"
  by (simp add: bytes_of_def nth_append)

lemma load_digits: "d \<le> 16 \<Longrightarrow> load m (Ptr (Lit digits) (int d)) = Inr (digit_char d)"
  using load_Lit[of d digits m] by (simp add: digit_char_def del: load.simps)

lemma int_str_digits_spec:
  assumes "2 \<le> base" and "base \<le> 17" and "unat n < 2 ^ 32" and "i + length (digs base (unat n)) \<le> 65"
  shows "int_str_digits n (int base) (int i) m =
    Inr (int (i + length (digs base (unat n))), wr m (Ptr int_buf (int i)) (rev (digs base (unat n))))"
  using assms(3,4)
proof (induction "unat n" arbitrary: n i m rule: less_induct)
  case less
  let ?b = "word_of_int (int base) :: u32" and ?d = "unat n mod base"
  have ub: "unat ?b = base" using assms(2) by (simp add: unat_of_nat)
  have "0 < ?b" using ub assms(1) by (simp add: word_less_nat_alt)
  from divmod_u64_correct[OF less.prems(1) this] have dm:
    "divmod_u64 n ?b = Inr (n div ucast ?b, ucast (n mod ucast ?b))" .
  have q: "unat (n div ucast ?b) = unat n div base" using ub by (simp add: unat_div)
  have "?d < base" using assms(1) by (intro mod_less_divisor) simp
  then have d17: "?d < 17" using assms(2) by linarith
  have "unat (ucast (n mod ucast ?b) :: u32) = ?d"
    using d17 ub by (simp add: unsigned_ucast_eq unat_mod take_bit_nat_eq_self_iff)
  then have r: "uint (ucast (n mod ucast ?b) :: u32) = int ?d"
    by (metis uint_nat)
  have ld: "load m (Ptr (Lit digits) (int ?d)) = Inr (digit_char ?d)"
    using d17 by (intro load_digits) simp
  have w: "writable (Ptr int_buf (int i)) (length (digs base (unat n)))"
    using less.prems(2) by (simp add: int_buf_def)
  have st: "store m (Ptr int_buf (int i)) (digit_char ?d) = Inr (wr m (Ptr int_buf (int i)) [digit_char ?d])"
    by (rule store_wr, rule writable_mono[OF w]) (metis One_nat_def Suc_leI digs_ne length_greater_0_conv)
  note step = int_str_digits.simps[of n "int base" "int i" m, unfolded dm bindR_Inr prod.case r ld st]
  show ?case
  proof (cases "unat n < base")
    case True
    then have "n div ucast ?b = 0" using q by (simp add: word_unat_eq_iff)
    moreover have "digs base (unat n) = [digit_char (unat n)]" using True by (simp add: digs.simps)
    ultimately show ?thesis using step True by simp
  next
    case False
    have dg: "digs base (unat n) = digs base (unat n div base) @ [digit_char ?d]"
      using False assms(1) by (subst digs.simps) simp
    have ne: "n div ucast ?b \<noteq> 0" using q False assms(1) by (auto simp: word_unat_eq_iff div_eq_0_iff)
    have lt: "unat (n div ucast ?b) < unat n" using q False assms(1) by simp
    have "int_str_digits (n div ucast ?b) (int base) (int (Suc i)) (wr m (Ptr int_buf (int i)) [digit_char ?d]) =
      Inr (int (Suc i + length (digs base (unat n div base))),
        wr (wr m (Ptr int_buf (int i)) [digit_char ?d]) (Ptr int_buf (int (Suc i))) (rev (digs base (unat n div base))))"
      using less.hyps[OF lt, of "Suc i"] less.prems lt dg q by simp
    then show ?thesis
      using step ne dg wr_wr_append[of "Ptr int_buf (int i)" "[digit_char ?d]" m] w
      by (simp add: add.commute del: wr.simps)
  qed
qed

lemma rev_copy_spec:
  assumes "writable b i" and "i \<le> 65" and "\<And>k. b \<noteq> Ptr int_buf k" and "j \<le> i"
  shows "rev_copy b (int j) (int i) m =
    Inr (wr m (ptr_add b (int j)) (rev (rd m (Ptr int_buf 0) (i - j))))"
  using assms(4)
proof (induction "i - j" arbitrary: j m)
  case 0
  then show ?case by (simp add: rev_copy.simps)
next
  case (Suc d)
  have j: "j < i" "i - j = Suc d" "i = j + Suc d" "d = i - Suc j" using Suc.hyps(2) by auto
  let ?p = "ptr_add b (int j)"
  have io: "in_obj (Ptr int_buf 0) (Suc d)" using assms(2) j(3) by (simp add: int_buf_def)
  obtain c where c: "load m (Ptr int_buf (int d)) = Inr c"
      "rd m (Ptr int_buf 0) (Suc d) = rd m (Ptr int_buf 0) d @ [c]"
    using load_Inr_rd_snoc[OF io, of m] by auto
  have w: "writable ?p (Suc d)" using writable_add[of b j "Suc d"] assms(1) j(3) by simp
  have st: "store m ?p c = Inr (wr m ?p [c])"
    by (rule store_wr, rule writable_mono[OF w]) simp
  have rd: "rd (wr m ?p [c]) (Ptr int_buf 0) d = rd m (Ptr int_buf 0) d"
  proof (rule rd_cong)
    show "wr m ?p [c] int_buf = m int_buf" using assms(3) by (cases b) (auto simp: wr.simps)
  qed
  have ij: "int i - int j - 1 = int d" using j(3) by simp
  have "rev_copy b (int j) (int i) m = rev_copy b (int (Suc j)) (int i) (wr m ?p [c])"
    using c(1) st j(1) by (simp add: rev_copy.simps[of b "int j"] ij add.commute)
  also have "\<dots> = Inr (wr (wr m ?p [c]) (ptr_add ?p 1) (rev (rd m (Ptr int_buf 0) d)))"
    using Suc.hyps(1)[OF j(4), of "wr m ?p [c]"] j(1,4) rd by (simp add: add.commute)
  also have "\<dots> = Inr (wr m ?p (c # rev (rd m (Ptr int_buf 0) d)))"
    using wr_wr_append[of ?p "[c]" m] writable_mono[OF w, of 1] by simp
  finally show ?case using c(2) j(2) by simp
qed

section \<open>The whole conversion\<close>

lemma int_str_sign_spec:
  assumes "length ds \<le> 64"
  shows "int_str_sign neg plusSign spaceSign (int (length ds)) (wr m (Ptr int_buf 0) (rev ds)) =
    (let t = sign_text neg plusSign spaceSign @ ds
     in Inr (int (length t), wr m (Ptr int_buf 0) (rev t)))"
proof -
  have w: "writable (Ptr int_buf 0) (length (rev ds))" "writable (Ptr int_buf (int (length ds))) 1"
    using assms by (simp_all add: int_buf_def)
  show ?thesis
    using wr_wr_append[OF w(1), of m] store_wr[OF w(2)]
    by (simp add: int_str_sign_def sign_text_def Let_def add.commute)
qed

lemma length_sign_text: "length (sign_text neg plusSign spaceSign) \<le> 1"
  by (simp add: sign_text_def)

lemma length_int_text:
  assumes "2 \<le> base" and "\<bar>v\<bar> < 2 ^ 32"
  shows "length (int_text v base plusSign spaceSign) \<le> 33"
proof -
  have "nat \<bar>v\<bar> < 2 ^ 32" using assms(2) by simp
  then show ?thesis
    using length_digs_u32[OF assms(1)] length_sign_text[of "v < 0" plusSign spaceSign]
    by (simp add: int_text_def add_mono_thms_linordered_semiring(1)[of _ 1 _ 32, simplified])
qed

lemma int_text_nonzero: "2 \<le> base \<Longrightarrow> base \<le> 16 \<Longrightarrow> 0 \<notin> set (int_text v base plusSign spaceSign)"
  using digs_nonzero by (auto simp: int_text_def sign_text_def)

text \<open>Up to the padding: digits, sign, reversal and terminator leave the text in the buffer.\<close>

lemma int_str_text:
  fixes v :: int
  assumes base: "2 \<le> base" "base \<le> 17" and v: "\<bar>v\<bar> < 2 ^ 32"
    and b: "writable b 256" "\<And>k. b \<noteq> Ptr int_buf k"
    and t: "t = int_text v base plusSign spaceSign"
  shows "int_str m v b (int base) plusSign spaceSign w justify zeroPad =
    bindR (chk_int (w - int (length t))) (\<lambda>pad.
      bindR (int_str_pad b (int (length t)) pad justify zeroPad
        (wr (wr m (Ptr int_buf 0) (rev t)) b (t @ [0]))) (\<lambda>m. Inr (b, m)))"
proof -
  let ?n = "word_of_int \<bar>v\<bar> :: u64" and ?ds = "digs base (nat \<bar>v\<bar>)"
  have "take_bit 64 \<bar>v\<bar> = \<bar>v\<bar>" using v by (intro take_bit_int_eq_self) simp_all
  then have un: "unat ?n = nat \<bar>v\<bar>" by (simp add: unsigned_of_int)
  have ld: "length ?ds \<le> 32" using v base(1) by (intro length_digs_u32) simp_all
  have lt: "length t \<le> 33" using length_int_text[OF base(1) v] t by simp
  have av: "(if v < 0 then chk_int64 (- v) else Inr v) = Inr \<bar>v\<bar>" using v by simp
  have digs: "int_str_digits ?n (int base) 0 m = Inr (int (length ?ds), wr m (Ptr int_buf 0) (rev ?ds))"
    using int_str_digits_spec[OF base, of ?n 0 m] un v ld by simp
  let ?m = "wr m (Ptr int_buf 0) (rev t)"
  have sign: "int_str_sign (v < 0) plusSign spaceSign (int (length ?ds)) (wr m (Ptr int_buf 0) (rev ?ds)) =
      Inr (int (length t), ?m)"
    using int_str_sign_spec[of ?ds "v < 0" plusSign spaceSign m] ld by (simp add: t int_text_def Let_def)
  have wb: "writable (Ptr int_buf 0) (length (rev t))" using lt by (simp add: int_buf_def)
  have wt: "writable b (length t)" "writable (ptr_add b (int (length t))) 1"
    using writable_mono[OF b(1), of "length t"] writable_add[of b "length t" 1]
      writable_mono[OF b(1), of "length t + 1"] lt by simp_all
  have rev: "rev_copy b 0 (int (length t)) ?m = Inr (wr ?m b t)"
    using rev_copy_spec[OF wt(1) _ b(2), of 0 ?m] lt rd_wr_same[OF wb, of m] by simp
  have nul: "store (wr ?m b t) (ptr_add b (int (length t))) 0 = Inr (wr ?m b (t @ [0]))"
    using store_wr[OF wt(2)] wr_wr_append[OF wt(1), of ?m "[0]"] by simp
  show ?thesis
    unfolding int_str_def av bindR_Inr digs prod.case sign rev nul by simp
qed

lemma pad_char_nonzero [simp]: "pad_char z \<noteq> 0"
  by (simp add: pad_char_def)

lemma int_str_pad_spec:
  assumes ob: "ob \<noteq> int_buf" "ob \<noteq> int_tmp" "\<not> is_lit ob" "osize ob = 256"
    and t: "cstr m (Ptr ob 0) t" "length t \<le> 255" and w: "w \<le> 255"
  shows "\<exists>m'. int_str_pad (Ptr ob 0) (int (length t)) (w - int (length t)) justify zeroPad m = Inr m' \<and>
    cstr m' (Ptr ob 0) (pad_text (nat w) justify zeroPad t) \<and>
    (\<forall>ob'. ob' \<notin> {ob, int_tmp} \<longrightarrow> m' ob' = m ob')"
proof (cases "w \<le> int (length t)")
  case True
  then have "nat w - length t = 0" by simp
  with True t show ?thesis by (simp add: int_str_pad_def pad_text_def)
next
  case False
  define n where "n = nat w - length t"
  have n: "w - int (length t) = int n" "0 < n" "length t + n \<le> 255" "nat w = length t + n"
    using False w by (auto simp: n_def)
  let ?rep = "replicate n (pad_char zeroPad)" and ?b = "Ptr ob 0" and ?T = "Ptr int_tmp 0"
  show ?thesis
  proof (cases justify)
    case True
    have wf: "writable (ptr_add ?b (int (length t))) (Suc n)" using ob n by simp
    have "fill (ptr_add ?b (int (length t))) (pad_char zeroPad) 0 (int n) m =
        Inr (wr m (ptr_add ?b (int (length t))) ?rep)"
      using fill_spec[OF writable_mono[OF wf, of n], of 0] by simp
    moreover have "store (wr m (ptr_add ?b (int (length t))) ?rep) (ptr_add ?b (int (length t) + int n)) 0 =
        Inr (wr m (ptr_add ?b (int (length t))) (?rep @ [0]))"
      using store_wr[OF writable_add[of "ptr_add ?b (int (length t))" n 1]] wf
        wr_wr_append[of "ptr_add ?b (int (length t))" ?rep m "[0]"] writable_mono[OF wf, of n]
      by (simp del: store.simps)
    moreover have "cstr (wr m (ptr_add ?b (int (length t))) (?rep @ [0])) ?b (t @ ?rep)"
      using ob n by (intro cstr_extend[OF t(1)]) auto
    ultimately show ?thesis using True n by (simp add: int_str_pad_def pad_text_def)
  next
    case False
    let ?m1 = "wr m ?T ?rep" and ?m2 = "wr m ?T (?rep @ t @ [0])"
    have wT: "writable ?T (Suc (n + length t))" using n by (simp add: int_tmp_def)
    have "fill ?T (pad_char zeroPad) 0 (int n) m = Inr ?m1"
      using fill_spec[OF writable_mono[OF wT, of n], of 0] by simp
    moreover have "strcpy ?m1 (Ptr int_tmp (int n)) ?b = Inr (Ptr int_tmp (int n), ?m2)"
    proof -
      have "cstr ?m1 ?b t" using t(1) cstr_cong[of ?m1 ob m] ob(2) by simp
      moreover have "writable (Ptr int_tmp (int n)) (Suc (length t))"
        using writable_add[of ?T n "Suc (length t)"] wT by simp
      ultimately have "strcpy ?m1 (Ptr int_tmp (int n)) ?b =
          Inr (Ptr int_tmp (int n), wr ?m1 (Ptr int_tmp (int n)) (t @ [0]))"
        using ob(2) by (intro strcpy_cstr) auto
      then show ?thesis
        using wr_wr_append[of ?T ?rep m "t @ [0]"] writable_mono[OF wT, of n] by simp
    qed
    moreover have c2: "cstr ?m2 ?T (?rep @ t)"
      using cstr_wr[of ?T "?rep @ t" m] wT cstr_no_zero[OF t(1)] by simp
    moreover have "strcpy ?m2 ?b ?T = Inr (?b, wr ?m2 ?b (?rep @ t @ [0]))"
      using strcpy_cstr[OF c2, of ?b] ob n by simp
    moreover have "cstr (wr ?m2 ?b (?rep @ t @ [0])) ?b (?rep @ t)"
      using cstr_wr[of ?b "?rep @ t" ?m2] ob n cstr_no_zero[OF t(1)] by simp
    ultimately show ?thesis using False n by (simp add: int_str_pad_def pad_text_def)
  qed
qed

lemma int_str_spec:
  assumes base: "2 \<le> base" "base \<le> 16" and v: "\<bar>v\<bar> < 2 ^ 32"
    and ob: "ob \<noteq> int_buf" "ob \<noteq> int_tmp" "\<not> is_lit ob" "osize ob = 256"
    and w: "- (2 ^ 30) \<le> w" "w \<le> 255"
  shows "\<exists>m'. int_str m v (Ptr ob 0) (int base) plusSign spaceSign w justify zeroPad = Inr (Ptr ob 0, m') \<and>
    cstr m' (Ptr ob 0) (pad_text (nat w) justify zeroPad (int_text v base plusSign spaceSign)) \<and>
    (\<forall>ob'. ob' \<notin> {ob, int_buf, int_tmp} \<longrightarrow> m' ob' = m ob')"
proof -
  define t where "t = int_text v base plusSign spaceSign"
  have lt: "length t \<le> 33" using length_int_text[OF base(1) v] by (simp add: t_def)
  have nz: "0 \<notin> set t" using int_text_nonzero[OF base] by (simp add: t_def)
  let ?m1 = "wr (wr m (Ptr int_buf 0) (rev t)) (Ptr ob 0) (t @ [0])"
  have c: "cstr ?m1 (Ptr ob 0) t" using ob lt nz by (intro cstr_wr) simp_all
  obtain m' where pad: "int_str_pad (Ptr ob 0) (int (length t)) (w - int (length t)) justify zeroPad ?m1 = Inr m'"
    and m': "cstr m' (Ptr ob 0) (pad_text (nat w) justify zeroPad t)"
      "\<forall>ob'. ob' \<notin> {ob, int_tmp} \<longrightarrow> m' ob' = ?m1 ob'"
    using int_str_pad_spec[OF ob c _ w(2), of justify zeroPad] lt by auto
  have "base \<le> 17" using base(2) by simp
  from int_str_text[OF base(1) this v, of "Ptr ob 0" t plusSign spaceSign m w justify zeroPad]
  have "int_str m v (Ptr ob 0) (int base) plusSign spaceSign w justify zeroPad = Inr (Ptr ob 0, m')"
    using ob lt w pad by (simp add: t_def)
  moreover have "\<forall>ob'. ob' \<notin> {ob, int_buf, int_tmp} \<longrightarrow> m' ob' = m ob'"
    using m'(2) by simp
  ultimately show ?thesis using m'(1) by (auto simp: t_def)
qed

section \<open>A field width the buffers cannot hold\<close>

lemma fill_overflow:
  assumes "\<not> is_lit ob" and "0 \<le> i" and "i + int k \<le> int (osize ob)" and "int (osize ob) < i + int n"
  shows "fill (Ptr ob i) v (int k) (int n) m = Inl OutOfBounds"
  using assms(3)
proof (induction "nat (int (osize ob) - i - int k)" arbitrary: k m)
  case 0
  then show ?case using assms by (simp add: fill.simps)
next
  case (Suc d)
  have lt: "i + int k < int (osize ob)" using Suc.hyps(2) by linarith
  then have kn: "int k < int n" using assms(4) by linarith
  have "fill (Ptr ob i) v (int (Suc k)) (int n) m' = Inl OutOfBounds" for m'
    using Suc.hyps(2) lt by (intro Suc.hyps(1)) auto
  then show ?case using lt kn assms by (simp add: fill.simps[of _ _ "int k"] add.commute)
qed

lemma strcat_copy_overflow:
  assumes "cstr m (Ptr os j) t" and "os \<noteq> ob" and "\<not> is_lit ob" and "0 \<le> i"
    and "i \<le> int (osize ob)" and "int (osize ob) \<le> i + int (length t)"
  shows "strcat_copy (Ptr ob i) (Ptr os j) m = Inl OutOfBounds"
  using assms(1,4-6)
proof (induction t arbitrary: i j m)
  case Nil
  then show ?case using assms(3) by (simp add: strcat_copy.simps)
next
  case (Cons c t)
  show ?case
  proof (cases "i = int (osize ob)")
    case True
    with Cons.prems assms(3) show ?thesis by (simp add: strcat_copy.simps)
  next
    case False
    let ?m = "m(ob := (m ob)(nat i := c))"
    have c: "cstr ?m (Ptr os (j + 1)) t" using Cons.prems(1) cstr_cong[of ?m os m] assms(2) by simp
    have "strcat_copy (Ptr ob (i + 1)) (Ptr os (j + 1)) ?m = Inl OutOfBounds"
      by (rule Cons.IH[OF c]) (use False Cons.prems(2-4) in simp_all)
    then show ?thesis using False Cons.prems assms(3)
      by (simp add: strcat_copy.simps[of "Ptr ob i"] split: if_splits)
  qed
qed

lemma int_str_overflow:
  assumes base: "2 \<le> base" "base \<le> 16" and v: "\<bar>v\<bar> < 2 ^ 32"
    and ob: "ob \<noteq> int_buf" "ob \<noteq> int_tmp" "\<not> is_lit ob" "osize ob = 256"
    and w: "256 \<le> w" "w < 2 ^ 31"
  shows "int_str m v (Ptr ob 0) (int base) plusSign spaceSign w justify zeroPad = Inl OutOfBounds"
proof -
  define t where "t = int_text v base plusSign spaceSign"
  have lt: "length t \<le> 33" using length_int_text[OF base(1) v] by (simp add: t_def)
  have nz: "0 \<notin> set t" using int_text_nonzero[OF base] by (simp add: t_def)
  define n where "n = nat w - length t"
  have n: "w - int (length t) = int n" "0 < n" "256 \<le> length t + n"
    using lt w by (auto simp: n_def)
  let ?m1 = "wr (wr m (Ptr int_buf 0) (rev t)) (Ptr ob 0) (t @ [0])" and ?rep = "replicate n (pad_char zeroPad)"
  have c: "cstr ?m1 (Ptr ob 0) t" using ob lt nz by (intro cstr_wr) simp_all
  have pad: "int_str_pad (Ptr ob 0) (int (length t)) (int n) justify zeroPad ?m1 = Inl OutOfBounds"
  proof (cases justify)
    case True
    show ?thesis
    proof (cases "length t + n = 256")
      case eq: True
      have "fill (Ptr ob (int (length t))) (pad_char zeroPad) 0 (int n) ?m1 =
          Inr (wr ?m1 (Ptr ob (int (length t))) ?rep)"
        using fill_spec[of "Ptr ob (int (length t))" n 0] eq ob by simp
      then show ?thesis using True n eq ob by (simp add: int_str_pad_def)
    next
      case False
      then have "fill (Ptr ob (int (length t))) (pad_char zeroPad) 0 (int n) ?m1 = Inl OutOfBounds"
        using fill_overflow[of ob "int (length t)" 0 n] n lt ob by simp
      then show ?thesis using True n by (simp add: int_str_pad_def)
    qed
  next
    case False
    show ?thesis
    proof (cases "n \<le> 256")
      case True
      let ?m2 = "wr ?m1 (Ptr int_tmp 0) ?rep"
      have "fill (Ptr int_tmp 0) (pad_char zeroPad) 0 (int n) ?m1 = Inr ?m2"
        using fill_spec[of "Ptr int_tmp 0" n 0] True by (simp add: int_tmp_def)
      moreover have "cstr ?m2 (Ptr ob 0) t" using c cstr_cong[of ?m2 ob ?m1] ob(2) by simp
      then have "strcat_copy (Ptr int_tmp (int n)) (Ptr ob 0) ?m2 = Inl OutOfBounds"
        using ob n True by (intro strcat_copy_overflow) (auto simp: int_tmp_def)
      ultimately show ?thesis using False n
        by (simp add: int_str_pad_def strcpy_def strcpy_loop_eq_strcat_copy)
    next
      case big: False
      then have "fill (Ptr int_tmp 0) (pad_char zeroPad) 0 (int n) ?m1 = Inl OutOfBounds"
        using fill_overflow[of int_tmp 0 0 n] by (simp add: int_tmp_def)
      then show ?thesis using False n by (simp add: int_str_pad_def)
    qed
  qed
  have b17: "base \<le> 17" using base(2) by simp
  have "chk_int (w - int (length t)) = Inr (int n)" using n w lt by (simp add: chk_int_def)
  then show ?thesis
    using int_str_text[OF base(1) b17 v, of "Ptr ob 0" t plusSign spaceSign m w justify zeroPad] ob pad
    by (simp add: t_def)
qed

end
