(* ===== verification/Printf.thy ===== *)
theory Printf
  imports IntStr
begin

text \<open>
  \<open>vprintf\<close> and \<open>printf\<close> of \<open>libk/stdio/printf.c\<close>. They print through the
  architecture's \<open>putc\<close>, which is a parameter here. The state they run on is any record
  that extends \<open>lib_state\<close>. Argument lists are typed: reading an argument with a type
  other than the one passed is \<open>BadVarArg\<close>. The floating-point unit is a parameter
  (\<open>fpu\<close>): the operations of the \<open>double\<close> branch, nothing is assumed of them.
\<close>

record lib_state =
  mem :: memory
  olds :: ptr   \<comment> \<open>the static of \<open>strtok\<close>\<close>

section \<open>Variable arguments\<close>

datatype 'd va = VI32 u32 | VI64 u64 | VPtr ptr | VDbl 'd

record 'd fpu =
  fp_ge10 :: "'d \<Rightarrow> bool"          \<comment> \<open>\<open>floating >= 10\<close>\<close>
  fp_div10 :: "'d \<Rightarrow> 'd"           \<comment> \<open>\<open>floating / 10\<close>\<close>
  fp_mul10 :: "'d \<Rightarrow> 'd"           \<comment> \<open>\<open>floating * 10\<close>\<close>
  fp_imax :: "'d \<Rightarrow> int res"       \<comment> \<open>conversion to \<open>intmax_t\<close>\<close>
  fp_frac :: "'d \<Rightarrow> 'd res"        \<comment> \<open>\<open>floating - (int) floating\<close>\<close>
  fp_round :: "'d \<Rightarrow> int res"      \<comment> \<open>\<open>(intmax_t) (floating + 0.5)\<close>\<close>

fun va_32 :: "'d va list \<Rightarrow> (u32 \<times> 'd va list) res" where
  "va_32 (VI32 w # ap) = Inr (w, ap)"
| "va_32 ap = Inl BadVarArg"

fun va_64 :: "'d va list \<Rightarrow> (u64 \<times> 'd va list) res" where
  "va_64 (VI64 w # ap) = Inr (w, ap)"
| "va_64 ap = Inl BadVarArg"

fun va_ptr :: "'d va list \<Rightarrow> (ptr \<times> 'd va list) res" where
  "va_ptr (VPtr p # ap) = Inr (p, ap)"
| "va_ptr ap = Inl BadVarArg"

fun va_dbl :: "'d va list \<Rightarrow> ('d \<times> 'd va list) res" where
  "va_dbl (VDbl d # ap) = Inr (d, ap)"
| "va_dbl ap = Inl BadVarArg"

text \<open>\<open>long\<close> and this library's signed \<open>size_t\<close>, by their value.\<close>

definition va_long :: "arch \<Rightarrow> 'd va list \<Rightarrow> (int \<times> 'd va list) res" where
  "va_long A ap =
     (if long_bits A = 32 then bindR (va_32 ap) (\<lambda>(w, ap). Inr (sint w, ap))
      else bindR (va_64 ap) (\<lambda>(w, ap). Inr (sint w, ap)))"

section \<open>Output\<close>

type_synonym 's putc_fun = "u8 \<Rightarrow> 's \<Rightarrow> 's res"

definition displayCharacter :: "'s putc_fun \<Rightarrow> u8 \<Rightarrow> int \<times> 's \<Rightarrow> (int \<times> 's) res" where
  "displayCharacter putc c = (\<lambda>(a, s).
     bindR (putc c s) (\<lambda>s'. bindR (chk_int (a + 1)) (\<lambda>a'. Inr (a', s'))))"

function displayString_loop :: "('a lib_state_scheme) putc_fun \<Rightarrow> ptr \<Rightarrow> int \<Rightarrow> int \<times> 'a lib_state_scheme
    \<Rightarrow> (int \<times> 'a lib_state_scheme) res" where
  "displayString_loop putc c i as =
     bindR (load (mem (snd as)) (ptr_add c i)) (\<lambda>b.
       if b \<noteq> 0 then bindR (displayCharacter putc b as) (displayString_loop putc c (i + 1))
       else Inr as)"
  by pat_completeness auto
termination by (relation "measure (\<lambda>(putc, c, i, as). ptr_room (ptr_add c i))") auto

definition displayString :: "('a lib_state_scheme) putc_fun \<Rightarrow> ptr \<Rightarrow> int \<times> 'a lib_state_scheme
    \<Rightarrow> (int \<times> 'a lib_state_scheme) res" where
  "displayString putc c as = displayString_loop putc c 0 as"

section \<open>Parsing a conversion specification\<close>

definition isdigit :: "u8 \<Rightarrow> bool" where
  "isdigit c \<longleftrightarrow> 48 \<le> c \<and> c \<le> 57"

record fmt_spec =
  leftJustify :: bool
  zeroPad :: bool
  spaceNoSign :: bool
  altForm :: bool
  plusSign :: bool
  lengthSpec :: int
  precSpec :: int
  lengthMod :: u8     \<comment> \<open>the source's \<open>length\<close>\<close>
  specifier :: u8

definition fmt_spec0 :: fmt_spec where
  "fmt_spec0 = \<lparr>leftJustify = False, zeroPad = False, spaceNoSign = False, altForm = False,
     plusSign = False, lengthSpec = 0, precSpec = 0, lengthMod = 0, specifier = 0\<rparr>"

function parse_flags :: "memory \<Rightarrow> ptr \<Rightarrow> int \<Rightarrow> fmt_spec \<Rightarrow> (int \<times> fmt_spec) res" where
  "parse_flags m fmt i f =
     bindR (load m (ptr_add fmt i)) (\<lambda>c.
       if c = 45 then parse_flags m fmt (i + 1) (f\<lparr>leftJustify := True\<rparr>)
       else if c = 43 then parse_flags m fmt (i + 1) (f\<lparr>plusSign := True\<rparr>)
       else if c = 35 then parse_flags m fmt (i + 1) (f\<lparr>altForm := True\<rparr>)
       else if c = 32 then parse_flags m fmt (i + 1) (f\<lparr>spaceNoSign := True\<rparr>)
       else if c = 48 then parse_flags m fmt (i + 1) (f\<lparr>zeroPad := True\<rparr>)
       else Inr (i, f))"
  by pat_completeness auto
termination by (relation "measure (\<lambda>(m, fmt, i, f). ptr_room (ptr_add fmt i))") auto

function parse_digits :: "memory \<Rightarrow> ptr \<Rightarrow> int \<Rightarrow> int \<Rightarrow> (int \<times> int) res" where
  "parse_digits m fmt i n =
     bindR (load m (ptr_add fmt i)) (\<lambda>c.
       if isdigit c then
         bindR (chk_int (n * 10)) (\<lambda>n1. bindR (chk_int (n1 + (uint c - 48))) (\<lambda>n2.
           parse_digits m fmt (i + 1) n2))
       else Inr (i, n))"
  by pat_completeness auto
termination by (relation "measure (\<lambda>(m, fmt, i, n). ptr_room (ptr_add fmt i))") auto

text \<open>Digits, and a following \<open>*\<close> that replaces them by an argument.\<close>

definition parse_number :: "memory \<Rightarrow> ptr \<Rightarrow> int \<Rightarrow> 'd va list \<Rightarrow> (int \<times> int \<times> 'd va list) res" where
  "parse_number m fmt i ap =
     bindR (parse_digits m fmt i 0) (\<lambda>(i, n).
     bindR (load m (ptr_add fmt i)) (\<lambda>c.
       if c = 42 then bindR (va_32 ap) (\<lambda>(w, ap). Inr (i + 1, sint w, ap)) else Inr (i, n, ap)))"

definition parse_prec :: "memory \<Rightarrow> ptr \<Rightarrow> int \<Rightarrow> 'd va list \<Rightarrow> (int \<times> int \<times> 'd va list) res" where
  "parse_prec m fmt i ap =
     bindR (load m (ptr_add fmt i)) (\<lambda>c.
       if c = 46 then parse_number m fmt (i + 1) ap else Inr (i, 6, ap))"

definition parse_length :: "memory \<Rightarrow> ptr \<Rightarrow> int \<Rightarrow> (int \<times> u8) res" where
  "parse_length m fmt i =
     bindR (load m (ptr_add fmt i)) (\<lambda>c.
       if c \<in> {104, 108, 106, 122, 116, 76} then
         bindR (load m (ptr_add fmt (i + 1))) (\<lambda>c'.
           if c' = 104 then Inr (i + 1, 72)
           else if c' = 108 then Inr (i + 2, 113)
           else Inr (i + 1, c))
       else Inr (i, 0))"

definition parse_spec :: "memory \<Rightarrow> ptr \<Rightarrow> int \<Rightarrow> 'd va list \<Rightarrow> (int \<times> fmt_spec \<times> 'd va list) res" where
  "parse_spec m fmt i ap =
     bindR (parse_flags m fmt i fmt_spec0) (\<lambda>(i, f).
     bindR (parse_number m fmt i ap) (\<lambda>(i, width, ap).
     bindR (parse_prec m fmt i ap) (\<lambda>(i, prec, ap).
     bindR (parse_length m fmt i) (\<lambda>(i, len).
     bindR (load m (ptr_add fmt i)) (\<lambda>c.
       Inr (i, f\<lparr>lengthSpec := width, precSpec := prec, lengthMod := len, specifier := c\<rparr>, ap))))))"

section \<open>Carrying out a conversion\<close>

definition intStrBuffer :: ptr where
  "intStrBuffer = Ptr (Var ''vprintf.intStrBuffer'' 256) 0"

text \<open>The argument of an unsigned conversion by its length modifier; \<open>None\<close>: no such modifier.\<close>

definition unsigned_arg :: "arch \<Rightarrow> u8 \<Rightarrow> 'd va list \<Rightarrow> (int \<times> 'd va list) res option" where
  "unsigned_arg A len ap =
     (if len = 0 then Some (bindR (va_32 ap) (\<lambda>(w, ap). Inr (uint w, ap)))
      else if len = 72 then Some (bindR (va_32 ap) (\<lambda>(w, ap). Inr (uint (ucast w :: u8), ap)))
      else if len = 104 then Some (bindR (va_32 ap) (\<lambda>(w, ap). Inr (uint (ucast w :: u16), ap)))
      else if len = 108 \<or> len = 113 \<or> len = 106
        then Some (bindR (va_64 ap) (\<lambda>(w, ap). Inr (sint w, ap)))
      else if len = 122 then Some (va_long A ap)
      else if len = 116 then Some (bindR (va_32 ap) (\<lambda>(w, ap). Inr (uint w, ap)))
      else None)"

definition signed_arg :: "arch \<Rightarrow> u8 \<Rightarrow> 'd va list \<Rightarrow> (int \<times> 'd va list) res option" where
  "signed_arg A len ap =
     (if len = 0 then Some (bindR (va_32 ap) (\<lambda>(w, ap). Inr (sint w, ap)))
      else if len = 72 then Some (bindR (va_32 ap) (\<lambda>(w, ap). Inr (sint (ucast w :: u8), ap)))
      else if len = 104 then Some (bindR (va_32 ap) (\<lambda>(w, ap). Inr (sint (ucast w :: u16), ap)))
      else if len = 108 then Some (va_long A ap)
      else if len = 113 \<or> len = 106 then Some (bindR (va_64 ap) (\<lambda>(w, ap). Inr (sint w, ap)))
      else if len = 122 then Some (va_long A ap)
      else if len = 116 then Some (bindR (va_32 ap) (\<lambda>(w, ap). Inr (uint w, ap)))
      else None)"

text \<open>\<open>__int_str\<close> into the buffer, then \<open>displayString\<close> of the buffer.\<close>

definition show_int :: "('a lib_state_scheme) putc_fun \<Rightarrow> int \<Rightarrow> int \<Rightarrow> bool \<Rightarrow> bool \<Rightarrow> int \<Rightarrow> bool \<Rightarrow> bool
    \<Rightarrow> int \<times> 'a lib_state_scheme \<Rightarrow> (int \<times> 'a lib_state_scheme) res" where
  "show_int putc v base plusS spaceS width left zero = (\<lambda>(chars, s).
     bindR (int_str (mem s) v intStrBuffer base plusS spaceS width left zero) (\<lambda>(_, m).
       displayString putc intStrBuffer (chars, s\<lparr>mem := m\<rparr>)))"

definition show_arg :: "('a lib_state_scheme) putc_fun \<Rightarrow> fmt_spec \<Rightarrow> int
    \<Rightarrow> (int \<times> 'd va list) res option \<Rightarrow> 'd va list \<Rightarrow> int \<times> 'a lib_state_scheme
    \<Rightarrow> ('d va list \<times> int \<times> 'a lib_state_scheme) res" where
  "show_arg putc f base arg ap cs =
     (case arg of
        None \<Rightarrow> Inr (ap, cs)
      | Some r \<Rightarrow> bindR r (\<lambda>(v, ap').
          bindR (show_int putc v base (plusSign f) (spaceNoSign f) (lengthSpec f) (leftJustify f) (zeroPad f) cs)
            (\<lambda>cs'. Inr (ap', cs'))))"

text \<open>A little-endian store of the low \<open>n\<close> bytes of a value.\<close>

fun store_le :: "nat \<Rightarrow> int \<Rightarrow> ptr \<Rightarrow> memory \<Rightarrow> memory res" where
  "store_le 0 v p m = Inr m"
| "store_le (Suc n) v p m = bindR (store m p (word_of_int v)) (store_le n (v div 256) (ptr_add p 1))"

definition count_width :: "arch \<Rightarrow> u8 \<Rightarrow> nat option" where
  "count_width A len =
     (if len = 72 then Some 1 else if len = 104 then Some 2 else if len = 0 then Some 4
      else if len = 108 then Some (long_bits A div 8) else if len = 113 then Some 8
      else if len = 106 then Some 8 else if len = 122 then Some (long_bits A div 8)
      else if len = 116 then Some 4 else None)"

definition show_count :: "arch \<Rightarrow> fmt_spec \<Rightarrow> 'd va list \<Rightarrow> int \<times> 'a lib_state_scheme
    \<Rightarrow> ('d va list \<times> int \<times> 'a lib_state_scheme) res" where
  "show_count A f ap = (\<lambda>(chars, s).
     case count_width A (lengthMod f) of
       None \<Rightarrow> Inr (ap, chars, s)
     | Some n \<Rightarrow> bindR (va_ptr ap) (\<lambda>(p, ap').
         bindR (store_le n chars p (mem s)) (\<lambda>m. Inr (ap', chars, s\<lparr>mem := m\<rparr>))))"

text \<open>
  The scaling loop of the \<open>e\<close> conversions. A finite \<open>double\<close> is below \<open>1.8e308\<close>, so
  309 divisions bring it below 10; 310 rounds without an end mean an infinite argument.
\<close>

fun scale10 :: "'d fpu \<Rightarrow> nat \<Rightarrow> 'd \<Rightarrow> int \<Rightarrow> ('d \<times> int) res" where
  "scale10 fp 0 x expo = Inl Diverges"
| "scale10 fp (Suc fuel) x expo =
     (if fp_ge10 fp x then scale10 fp fuel (fp_div10 fp x) (expo + 1) else Inr (x, expo))"

definition show_double :: "'d fpu \<Rightarrow> ('a lib_state_scheme) putc_fun \<Rightarrow> fmt_spec \<Rightarrow> bool \<Rightarrow> int \<Rightarrow> 'd va list
    \<Rightarrow> int \<times> 'a lib_state_scheme \<Rightarrow> (int \<times> 'd va list \<times> int \<times> 'a lib_state_scheme) res" where
  "show_double fp putc f emode base ap cs =
     bindR (va_dbl ap) (\<lambda>(x, ap).
     bindR (if emode then scale10 fp 310 x 0 else Inr (x, 0)) (\<lambda>(x, expo).
     bindR (chk_int (lengthSpec f - precSpec f)) (\<lambda>w.
     bindR (chk_int (w - expo - (if precSpec f \<noteq> 0 \<or> altForm f then 1 else 0))) (\<lambda>w.
     bindR (chk_int (if emode then w - 4 else w)) (\<lambda>w.
     let form = (if w < 0 then 0 else w) in
     bindR (fp_imax fp x) (\<lambda>v.
     bindR (show_int putc v base (plusSign f) (spaceNoSign f) form (leftJustify f) (zeroPad f) cs) (\<lambda>cs.
     bindR (fp_frac fp x) (\<lambda>y.
     bindR (fp_round fp ((fp_mul10 fp ^^ nat (precSpec f)) y)) (\<lambda>dec.
       if precSpec f \<noteq> 0 then
         bindR (displayCharacter putc 46 cs) (\<lambda>(chars, s).
         bindR (int_str (mem s) dec intStrBuffer 10 False False 0 False False) (\<lambda>(_, m).
         bindR (store m (ptr_add intStrBuffer (precSpec f)) 0) (\<lambda>m.
         bindR (displayString putc intStrBuffer (chars, s\<lparr>mem := m\<rparr>)) (\<lambda>cs. Inr (expo, ap, cs)))))
       else if altForm f then bindR (displayCharacter putc 46 cs) (\<lambda>cs. Inr (expo, ap, cs))
       else Inr (expo, ap, cs))))))))))"

text \<open>The \<open>switch\<close> over the specifier, with its fall-throughs.\<close>

definition convert :: "arch \<Rightarrow> 'd fpu \<Rightarrow> ('a lib_state_scheme) putc_fun \<Rightarrow> fmt_spec \<Rightarrow> 'd va list
    \<Rightarrow> int \<times> 'a lib_state_scheme \<Rightarrow> ('d va list \<times> int \<times> 'a lib_state_scheme) res" where
  "convert A fp putc f0 ap = (\<lambda>(chars, s).
     bindR (memset (mem s) intStrBuffer 0 256) (\<lambda>(_, m).
     let s = s\<lparr>mem := m\<rparr> in
     bindR (if specifier f0 = 111 \<and> altForm f0
            then displayString putc (Ptr (Lit ''0'') 0) (chars, s) else Inr (chars, s)) (\<lambda>cs.
     let base = (if specifier f0 = 111 then 8 else if specifier f0 = 112 then 16 else 10);
         sp = (if specifier f0 = 111 \<or> specifier f0 = 112 then 117 else specifier f0);
         f = (if specifier f0 = 112 then f0\<lparr>lengthMod := 122\<rparr> else f0)
     in
     if sp = 88 \<or> sp = 120 then
       let base' = (if sp = 88 then 16 else if base = 10 then 17 else base) in
       bindR (if altForm f then displayString putc (Ptr (Lit ''0x'') 0) cs else Inr cs) (\<lambda>cs.
         show_arg putc f base' (unsigned_arg A (lengthMod f) ap) ap cs)
     else if sp = 117 then show_arg putc f base (unsigned_arg A (lengthMod f) ap) ap cs
     else if sp = 100 \<or> sp = 105 then show_arg putc f base (signed_arg A (lengthMod f) ap) ap cs
     else if sp = 99 then
       bindR (va_32 ap) (\<lambda>(w, ap). bindR (displayCharacter putc (ucast w) cs) (\<lambda>cs. Inr (ap, cs)))
     else if sp = 115 then
       bindR (va_ptr ap) (\<lambda>(p, ap). bindR (displayString putc p cs) (\<lambda>cs. Inr (ap, cs)))
     else if sp = 110 then show_count A f ap cs
     else if sp \<in> {101, 69, 102, 70, 103, 71} then
       let emode = (sp = 101 \<or> sp = 69) in
       bindR (show_double fp putc f emode base ap cs) (\<lambda>(expo, ap, cs).
         if emode then
           bindR (displayString putc (Ptr (Lit (if sp = 101 then ''e+'' else ''E+'')) 0) cs) (\<lambda>cs.
           bindR (show_int putc expo 10 False False 2 False True cs) (\<lambda>cs. Inr (ap, cs)))
         else Inr (ap, cs))
     else Inr (ap, cs))))"

section \<open>The format loop\<close>

declare displayString_loop.simps [simp del] parse_flags.simps [simp del] parse_digits.simps [simp del]

lemma parse_flags_index: "parse_flags m fmt i f = Inr (i', f') \<Longrightarrow> i \<le> i'"
proof (induction m fmt i f rule: parse_flags.induct)
  case (1 m fmt i f)
  from "1.prems" obtain c where c: "load m (ptr_add fmt i) = Inr c"
    by (subst (asm) parse_flags.simps) auto
  note IH = "1.IH"[OF c]
  show ?case
    using "1.prems" IH c by (subst (asm) parse_flags.simps) (force split: if_splits)
qed

lemma parse_digits_index: "parse_digits m fmt i n = Inr (i', n') \<Longrightarrow> i \<le> i'"
proof (induction m fmt i n rule: parse_digits.induct)
  case (1 m fmt i n)
  from "1.prems" obtain c where c: "load m (ptr_add fmt i) = Inr c"
    by (subst (asm) parse_digits.simps) auto
  show ?case
  proof (cases "isdigit c")
    case True
    then obtain n1 n2 where n: "chk_int (n * 10) = Inr n1" "chk_int (n1 + (uint c - 48)) = Inr n2"
      "parse_digits m fmt (i + 1) n2 = Inr (i', n')"
      using "1.prems" c by (subst (asm) parse_digits.simps) auto
    from "1.IH"[OF c True n] show ?thesis by simp
  next
    case False
    then show ?thesis using "1.prems" c by (subst (asm) parse_digits.simps) auto
  qed
qed

lemma parse_number_index: "parse_number m fmt i ap = Inr (i', n, ap') \<Longrightarrow> i \<le> i'"
  by (auto simp: parse_number_def dest!: parse_digits_index split: if_splits)

lemma parse_spec_index: "parse_spec m fmt i ap = Inr (i', f, ap') \<Longrightarrow> i \<le> i'"
  by (auto simp: parse_spec_def parse_prec_def parse_length_def
      dest!: parse_flags_index parse_number_index split: if_splits)

lemma ptr_room_later:
  "load m (ptr_add p i) = Inr c \<Longrightarrow> i \<le> i' \<Longrightarrow> ptr_room (ptr_add p (i' + 1)) < ptr_room (ptr_add p i)"
  by (cases p) (auto split: if_splits)

function vprintf_loop :: "arch \<Rightarrow> 'd fpu \<Rightarrow> ('a lib_state_scheme) putc_fun \<Rightarrow> ptr \<Rightarrow> int \<Rightarrow> 'd va list
    \<Rightarrow> int \<times> 'a lib_state_scheme \<Rightarrow> (int \<times> 'a lib_state_scheme) res" where
  "vprintf_loop A fp putc fmt i ap cs =
     bindR (load (mem (snd cs)) (ptr_add fmt i)) (\<lambda>c.
       if c = 0 then Inr cs
       else if c = 37 then
         bindR (parse_spec (mem (snd cs)) fmt (i + 1) ap) (\<lambda>(i', f, ap').
         bindR (convert A fp putc f ap' cs) (\<lambda>(ap'', cs').
           vprintf_loop A fp putc fmt (i' + 1) ap'' cs'))
       else
         bindR (displayCharacter putc c cs) (vprintf_loop A fp putc fmt (i + 1) ap))"
  by pat_completeness auto
termination
proof (relation "measure (\<lambda>(A, fp, putc, fmt, i, ap, cs). ptr_room (ptr_add fmt i))", goal_cases)
  case 1
  then show ?case by simp
next
  case (2 A fp putc fmt i ap cs c)
  then show ?case by (auto dest!: parse_spec_index simp: ptr_room_later)
next
  case (3 A fp putc fmt i ap cs c)
  then show ?case by simp
qed

declare vprintf_loop.simps [simp del]

text \<open>\<open>char intStrBuffer[256] = {0}\<close>, then the loop.\<close>

definition vprintf :: "arch \<Rightarrow> 'd fpu \<Rightarrow> ('a lib_state_scheme) putc_fun \<Rightarrow> ptr \<Rightarrow> 'd va list
    \<Rightarrow> 'a lib_state_scheme \<Rightarrow> (int \<times> 'a lib_state_scheme) res" where
  "vprintf A fp putc format list s = vprintf_loop A fp putc format 0 list
     (0, s\<lparr>mem := (mem s)(Var ''vprintf.intStrBuffer'' 256 := \<lambda>_. 0)\<rparr>)"

definition printf :: "arch \<Rightarrow> 'd fpu \<Rightarrow> ('a lib_state_scheme) putc_fun \<Rightarrow> ptr \<Rightarrow> 'd va list
    \<Rightarrow> 'a lib_state_scheme \<Rightarrow> (int \<times> 'a lib_state_scheme) res" where
  "printf A fp putc format list s = vprintf A fp putc format list s"

text \<open>A floating-point unit on integral values only.\<close>

definition int_fpu :: "int fpu" where
  "int_fpu = \<lparr>fp_ge10 = (\<lambda>x. 10 \<le> x), fp_div10 = (\<lambda>x. x div 10), fp_mul10 = (\<lambda>x. x * 10), fp_imax = Inr,
     fp_frac = (\<lambda>x. Inr 0), fp_round = Inr\<rparr>"

end
