(* ===== verification/PrintfSpec.thy ===== *)
theory PrintfSpec
  imports Printf
begin

text \<open>
  What \<open>printf\<close> promises over any console. A console is its \<open>putc\<close>; the locale
  \<open>console_out\<close> states what \<open>printf\<close> relies on, and its lemmas give the contract:
  for a format built of literal characters and conversions, printing it is printing the
  rendered text character by character, and the only memory touched besides the console's is
  the three scratch buffers of \<open>vprintf\<close> and \<open>__int_str\<close>.
\<close>

section \<open>Scratch buffers\<close>

definition scratch :: "obj set" where
  "scratch = {int_buf, int_tmp, Var ''vprintf.intStrBuffer'' 256}"

definition upd_scratch :: "memory \<Rightarrow> 'a lib_state_scheme \<Rightarrow> 'a lib_state_scheme" where
  "upd_scratch g s = s\<lparr>mem := (\<lambda>ob. if ob \<in> scratch then g ob else mem s ob)\<rparr>"

lemma upd_scratch_mem [simp]: "ob \<notin> scratch \<Longrightarrow> mem (upd_scratch g s) ob = mem s ob"
  by (simp add: upd_scratch_def)

lemma upd_scratch_twice [simp]: "upd_scratch g (upd_scratch h s) = upd_scratch g s"
  by (simp add: upd_scratch_def if_distrib cong: if_cong)

lemma upd_scratch_self: "upd_scratch (mem s) s = s"
proof -
  have "(\<lambda>ob. if ob \<in> scratch then mem s ob else mem s ob) = mem s" by auto
  then show ?thesis by (simp add: upd_scratch_def)
qed

lemma mem_upd_scratch: "\<forall>ob. ob \<notin> scratch \<longrightarrow> m ob = mem s ob \<Longrightarrow> s\<lparr>mem := m\<rparr> = upd_scratch m s"
proof -
  assume "\<forall>ob. ob \<notin> scratch \<longrightarrow> m ob = mem s ob"
  then have "m = (\<lambda>ob. if ob \<in> scratch then m ob else mem s ob)" by auto
  then show ?thesis unfolding upd_scratch_def by metis
qed

lemma upd_scratch_alt:
  "upd_scratch g s = (\<lambda>s. s\<lparr>mem := (mem s)(int_buf := g int_buf)\<rparr>)
     ((\<lambda>s. s\<lparr>mem := (mem s)(int_tmp := g int_tmp)\<rparr>)
       ((\<lambda>s. s\<lparr>mem := (mem s)(Var ''vprintf.intStrBuffer'' 256 := g (Var ''vprintf.intStrBuffer'' 256))\<rparr>) s))"
proof -
  have "(\<lambda>ob. if ob \<in> scratch then g ob else mem s ob) =
    (mem s)(Var ''vprintf.intStrBuffer'' 256 := g (Var ''vprintf.intStrBuffer'' 256),
      int_tmp := g int_tmp, int_buf := g int_buf)"
    by (rule ext) (simp add: scratch_def)
  then show ?thesis by (simp add: upd_scratch_def)
qed

lemma scratch_simps [simp]:
  "int_buf \<in> scratch" "int_tmp \<in> scratch" "Var ''vprintf.intStrBuffer'' 256 \<in> scratch"
  "Lit s \<notin> scratch" "Phys \<notin> scratch"
  by (simp_all add: scratch_def int_buf_def int_tmp_def)

section \<open>Parsing\<close>

definition flag_chars :: "u8 set" where
  "flag_chars = {45, 43, 35, 32, 48}"

definition set_flag :: "fmt_spec \<Rightarrow> u8 \<Rightarrow> fmt_spec" where
  "set_flag f c =
     (if c = 45 then f\<lparr>leftJustify := True\<rparr> else if c = 43 then f\<lparr>plusSign := True\<rparr>
      else if c = 35 then f\<lparr>altForm := True\<rparr> else if c = 32 then f\<lparr>spaceNoSign := True\<rparr>
      else f\<lparr>zeroPad := True\<rparr>)"

lemma parse_flags_cstr:
  assumes "cstr m (ptr_add fmt i) (fl @ t)" and "set fl \<subseteq> flag_chars" and "hd (t @ [0]) \<notin> flag_chars"
  shows "parse_flags m fmt i f = Inr (i + int (length fl), foldl set_flag f fl)"
  using assms(1,2)
proof (induction fl arbitrary: i f)
  case Nil
  then have "load m (ptr_add fmt i) = Inr (hd (t @ [0]))" by (cases t) auto
  then show ?case using assms(3) by (simp add: parse_flags.simps flag_chars_def)
next
  case (Cons c fl)
  from Cons.IH[of "i + 1" "set_flag f c"] Cons.prems show ?case
    by (auto simp: parse_flags.simps[of m fmt i] set_flag_def flag_chars_def add.assoc)
qed

definition dec_value :: "u8 list \<Rightarrow> nat" where
  "dec_value ds = foldl (\<lambda>n c. n * 10 + unat (c - 48)) 0 ds"

lemma isdigit_val:
  assumes "isdigit c"
  shows "uint c - 48 = int (unat (c - 48))" and "unat (c - 48) \<le> 9"
proof -
  have le: "48 \<le> c" "c \<le> 57" using assms by (simp_all add: isdigit_def)
  then have d: "unat (c - 48) = unat c - 48" by (simp add: unat_sub)
  have b: "48 \<le> unat c" "unat c \<le> 57" using le by (simp_all add: word_le_nat_alt)
  show "uint c - 48 = int (unat (c - 48))" unfolding d using b(1) by (simp add: of_nat_diff)
  show "unat (c - 48) \<le> 9" unfolding d using b(2) by simp
qed

lemma dec_foldl_mono: "(n :: nat) \<le> foldl (\<lambda>n c. n * 10 + f c) n ds"
proof (induction ds arbitrary: n)
  case (Cons d ds)
  have "n \<le> n * 10 + f d" by simp
  also have "\<dots> \<le> foldl (\<lambda>n c. n * 10 + f c) (n * 10 + f d) ds" by (rule Cons.IH)
  finally show ?case by simp
qed simp

lemma parse_digits_cstr:
  assumes "cstr m (ptr_add fmt i) (wd @ t)" and "list_all isdigit wd" and "\<not> isdigit (hd (t @ [0]))"
    and "foldl (\<lambda>n c. n * 10 + unat (c - 48)) n wd < 2 ^ 31"
  shows "parse_digits m fmt i (int n) =
    Inr (i + int (length wd), int (foldl (\<lambda>n c. n * 10 + unat (c - 48)) n wd))"
  using assms(1,2,4)
proof (induction wd arbitrary: i n)
  case Nil
  then have "load m (ptr_add fmt i) = Inr (hd (t @ [0]))" by (cases t) auto
  then show ?case using assms(3) by (simp add: parse_digits.simps)
next
  case (Cons c wd)
  define k where "k = unat (c - 48)"
  let ?n = "n * 10 + k"
  have le: "?n < 2 ^ 31"
    using dec_foldl_mono[of ?n "\<lambda>c. unat (c - 48)" wd] Cons.prems(3) by (simp add: k_def)
  have d: "uint c - 48 = int k" using isdigit_val(1)[of c] Cons.prems(2) by (simp add: k_def)
  have "chk_int (int n * 10) = Inr (int n * 10)" "chk_int (int n * 10 + (uint c - 48)) = Inr (int ?n)"
    using le unfolding d by (simp_all add: chk_int_def)
  moreover have "parse_digits m fmt (i + 1) (int ?n) =
      Inr (i + 1 + int (length wd), int (foldl (\<lambda>n c. n * 10 + unat (c - 48)) ?n wd))"
    using Cons.prems by (intro Cons.IH) (simp_all add: k_def)
  ultimately show ?case
    using Cons.prems by (simp add: parse_digits.simps[of m fmt i] add.assoc flip: k_def)
qed

definition conv_chars :: "u8 set" where
  "conv_chars = {100, 105, 117, 88, 111, 115, 99}"

lemma conv_chars_not:
  assumes "sp \<in> conv_chars"
  shows "sp \<notin> flag_chars" "\<not> isdigit sp" "sp \<noteq> 42" "sp \<noteq> 46" "sp \<notin> {104, 108, 106, 122, 116, 76}" "sp \<noteq> 0"
  using assms by (auto simp: conv_chars_def flag_chars_def isdigit_def)

lemma parse_spec_cstr:
  assumes str: "cstr m (ptr_add fmt i) (fl @ wd @ sp # rest)" and fl: "set fl \<subseteq> flag_chars"
    and wd: "list_all isdigit wd" "wd \<noteq> [] \<longrightarrow> hd wd \<noteq> 48" "dec_value wd < 2 ^ 31"
    and sp: "sp \<in> conv_chars"
  shows "parse_spec m fmt i ap = Inr (i + int (length fl + length wd),
    (foldl set_flag fmt_spec0 fl)\<lparr>lengthSpec := int (dec_value wd), precSpec := 6, lengthMod := 0, specifier := sp\<rparr>, ap)"
proof -
  note cc = conv_chars_not[OF sp]
  have "hd ((wd @ sp # rest) @ [0]) \<notin> flag_chars"
    using wd(1,2) cc(1) by (cases wd) (auto simp: flag_chars_def isdigit_def)
  from parse_flags_cstr[OF str fl this] have
    flags: "parse_flags m fmt i fmt_spec0 = Inr (i + int (length fl), foldl set_flag fmt_spec0 fl)" .
  have c2: "cstr m (ptr_add fmt (i + int (length fl))) (wd @ sp # rest)"
    using cstr_append[of m "ptr_add fmt i" fl] str by simp
  have digits: "parse_digits m fmt (i + int (length fl)) 0 =
      Inr (i + int (length fl + length wd), int (dec_value wd))"
    using parse_digits_cstr[OF c2 wd(1), of 0] cc(2) wd(3) by (simp add: dec_value_def add.assoc)
  have ld: "load m (ptr_add fmt (i + int (length fl + length wd))) = Inr sp"
    using cstr_append[of m "ptr_add fmt i" "fl @ wd" "sp # rest"] str by simp
  show ?thesis
    using flags digits ld cc
    by (simp add: parse_spec_def parse_number_def parse_prec_def parse_length_def)
qed

section \<open>Formats and their rendering\<close>

datatype item =
    Txt u8                                \<comment> \<open>an ordinary character\<close>
  | IntC "u8 list" "u8 list" u8 u32       \<comment> \<open>flags, width digits, specifier, argument\<close>
  | StrC ptr "u8 list"                    \<comment> \<open>\<open>%s\<close>, its argument and the string there\<close>
  | ChrC u32                              \<comment> \<open>\<open>%c\<close>\<close>

fun item_fmt :: "item \<Rightarrow> u8 list" where
  "item_fmt (Txt c) = [c]"
| "item_fmt (IntC fl wd sp w) = 37 # fl @ wd @ [sp]"
| "item_fmt (StrC p t) = [37, 115]"
| "item_fmt (ChrC w) = [37, 99]"

fun item_args :: "item \<Rightarrow> 'd va list" where
  "item_args (Txt c) = []"
| "item_args (IntC fl wd sp w) = [VI32 w]"
| "item_args (StrC p t) = [VPtr p]"
| "item_args (ChrC w) = [VI32 w]"

definition spec_base :: "u8 \<Rightarrow> nat" where
  "spec_base sp = (if sp = 88 then 16 else if sp = 111 then 8 else 10)"

definition spec_value :: "u8 \<Rightarrow> u32 \<Rightarrow> int" where
  "spec_value sp w = (if sp = 100 \<or> sp = 105 then sint w else uint w)"

definition alt_prefix :: "u8 list \<Rightarrow> u8 \<Rightarrow> u8 list" where
  "alt_prefix fl sp =
     (if 35 \<notin> set fl then [] else if sp = 111 then [48] else if sp = 88 then [48, 120] else [])"

fun item_out :: "item \<Rightarrow> u8 list" where
  "item_out (Txt c) = [c]"
| "item_out (IntC fl wd sp w) = alt_prefix fl sp @
     pad_text (dec_value wd) (45 \<in> set fl) (48 \<in> set fl)
       (int_text (spec_value sp w) (spec_base sp) (43 \<in> set fl) (32 \<in> set fl))"
| "item_out (StrC p t) = t"
| "item_out (ChrC w) = [ucast w]"

definition in_object :: "memory \<Rightarrow> ptr \<Rightarrow> u8 list \<Rightarrow> bool" where
  "in_object m p t \<longleftrightarrow> (\<exists>ob i. p = Ptr ob i \<and> ob \<noteq> Phys \<and> ob \<notin> scratch) \<and> cstr m p t"

fun item_ok :: "memory \<Rightarrow> item \<Rightarrow> bool" where
  "item_ok m (Txt c) = (c \<noteq> 0 \<and> c \<noteq> 37)"
| "item_ok m (IntC fl wd sp w) =
     (set fl \<subseteq> flag_chars \<and> list_all isdigit wd \<and> (wd \<noteq> [] \<longrightarrow> hd wd \<noteq> 48) \<and>
      dec_value wd \<le> 255 \<and> sp \<in> {100, 105, 117, 88, 111})"
| "item_ok m (StrC p t) = in_object m p t"
| "item_ok m (ChrC w) = True"

lemma foldl_set_flag:
  "leftJustify (foldl set_flag f fl) \<longleftrightarrow> leftJustify f \<or> 45 \<in> set fl"
  "plusSign (foldl set_flag f fl) \<longleftrightarrow> plusSign f \<or> 43 \<in> set fl"
  "altForm (foldl set_flag f fl) \<longleftrightarrow> altForm f \<or> 35 \<in> set fl"
  "spaceNoSign (foldl set_flag f fl) \<longleftrightarrow> spaceNoSign f \<or> 32 \<in> set fl"
  by (induction fl arbitrary: f) (auto simp: set_flag_def)

lemma foldl_set_flag_zero:
  "set fl \<subseteq> flag_chars \<Longrightarrow> zeroPad (foldl set_flag f fl) \<longleftrightarrow> zeroPad f \<or> 48 \<in> set fl"
  by (induction fl arbitrary: f) (auto simp: set_flag_def flag_chars_def)

section \<open>The console interface\<close>

text \<open>
  \<open>printf\<close> needs of a console that it neither reads nor writes C objects: printing a
  character commutes with changing the contents of any object but physical memory, and leaves
  \<open>strtok\<close>'s static alone.
\<close>

locale console_out =
  fixes putc :: "('a lib_state_scheme) putc_fun"
  assumes putc_obj: "putc c s = Inr s' \<Longrightarrow> ob \<noteq> Phys \<Longrightarrow>
      putc c (s\<lparr>mem := (mem s)(ob := f)\<rparr>) = Inr (s'\<lparr>mem := (mem s')(ob := f)\<rparr>)"
    and putc_olds: "putc c s = Inr s' \<Longrightarrow> olds s' = olds s"
begin

lemma putc_frame:
  assumes "putc c s = Inr s'" and "ob \<noteq> Phys"
  shows "mem s' ob = mem s ob"
proof -
  have "putc c s = Inr (s'\<lparr>mem := (mem s')(ob := mem s ob)\<rparr>)"
    using putc_obj[OF assms, of "mem s ob"] by simp
  then have "s' = s'\<lparr>mem := (mem s')(ob := mem s ob)\<rparr>" using assms(1) by simp
  then have "mem s' = (mem s')(ob := mem s ob)" by (metis lib_state.select_convs(1) lib_state.surjective lib_state.update_convs(1))
  then show ?thesis by (metis fun_upd_same)
qed

lemma putc_scratch: "putc c s = Inr s' \<Longrightarrow> putc c (upd_scratch g s) = Inr (upd_scratch g s')"
  unfolding upd_scratch_alt by (intro putc_obj) (simp_all add: int_buf_def int_tmp_def)

lemma foldR_frame: "foldR putc t s = Inr u \<Longrightarrow> ob \<noteq> Phys \<Longrightarrow> mem u ob = mem s ob"
proof (induction t arbitrary: s)
  case (Cons c t)
  then obtain s1 where "putc c s = Inr s1" "foldR putc t s1 = Inr u" by auto
  with Cons.IH[of s1] Cons.prems(2) putc_frame show ?case by metis
qed simp

lemma foldR_olds: "foldR putc t s = Inr u \<Longrightarrow> olds u = olds s"
proof (induction t arbitrary: s)
  case (Cons c t)
  then obtain s1 where "putc c s = Inr s1" "foldR putc t s1 = Inr u" by auto
  with Cons.IH[of s1] putc_olds show ?case by metis
qed simp

lemma foldR_scratch: "foldR putc t s = Inr u \<Longrightarrow> foldR putc t (upd_scratch g s) = Inr (upd_scratch g u)"
proof (induction t arbitrary: s)
  case (Cons c t)
  then obtain s1 where "putc c s = Inr s1" "foldR putc t s1 = Inr u" by auto
  with Cons.IH[of s1] putc_scratch[of c s s1] show ?case by simp
qed simp

lemma displayCharacter_putc:
  "putc c s = Inr s' \<Longrightarrow> 0 \<le> a \<Longrightarrow> a + 1 < 2 ^ 31 \<Longrightarrow> displayCharacter putc c (a, s) = Inr (a + 1, s')"
  by (simp add: displayCharacter_def)

lemma displayString_loop_fold:
  assumes "cstr (mem s) (Ptr ob (k + i)) t" and "ob \<noteq> Phys" and "foldR putc t s = Inr u"
    and "0 \<le> a" and "a + int (length t) < 2 ^ 31"
  shows "displayString_loop putc (Ptr ob k) i (a, s) = Inr (a + int (length t), u)"
  using assms(1,3-5)
proof (induction t arbitrary: i a s)
  case Nil
  then show ?case by (simp add: displayString_loop.simps del: load.simps)
next
  case (Cons c t)
  then obtain s1 where s1: "putc c s = Inr s1" "foldR putc t s1 = Inr u" by auto
  have "cstr (mem s1) (Ptr ob (k + (i + 1))) t"
    using Cons.prems(1) cstr_cong[of "mem s1" ob "mem s"] putc_frame[OF s1(1) assms(2)]
    by (simp add: add.assoc)
  from Cons.IH[OF this s1(2), of "a + 1"] Cons.prems show ?case
    using displayCharacter_putc[OF s1(1), of a]
    by (simp add: displayString_loop.simps[of putc "Ptr ob k" i] add.assoc del: load.simps)
qed

lemma displayString_fold:
  assumes "cstr (mem s) (Ptr ob k) t" and "ob \<noteq> Phys" and "foldR putc t s = Inr u"
    and "0 \<le> a" and "a + int (length t) < 2 ^ 31"
  shows "displayString putc (Ptr ob k) (a, s) = Inr (a + int (length t), u)"
  using displayString_loop_fold[of s ob k 0 t] assms by (simp add: displayString_def)

lemma show_int_fold:
  assumes base: "2 \<le> base" "base \<le> 16" and v: "\<bar>v\<bar> < 2 ^ 32" and w: "0 \<le> w" "w \<le> 255"
    and t: "t = pad_text (nat w) left zero (int_text v base plusS spaceS)"
    and u: "foldR putc t s = Inr u" and a: "0 \<le> a" "a + int (length t) < 2 ^ 31"
  shows "\<exists>g. show_int putc v (int base) plusS spaceS w left zero (a, s) =
    Inr (a + int (length t), upd_scratch g u)"
proof -
  let ?ob = "Var ''vprintf.intStrBuffer'' 256"
  have w': "- (2 ^ 30) \<le> w" using w(1) by simp
  obtain m where m: "int_str (mem s) v (Ptr ?ob 0) (int base) plusS spaceS w left zero = Inr (Ptr ?ob 0, m)"
    "cstr m (Ptr ?ob 0) t" "\<forall>ob'. ob' \<notin> {?ob, int_buf, int_tmp} \<longrightarrow> m ob' = mem s ob'"
    using int_str_spec[OF base v, of ?ob w "mem s" plusS spaceS left zero] w' w(2)
    by (auto simp: t int_buf_def int_tmp_def)
  have s1: "s\<lparr>mem := m\<rparr> = upd_scratch m s"
    using m(3) by (intro mem_upd_scratch) (simp add: scratch_def)
  have "cstr (mem (upd_scratch m s)) (Ptr ?ob 0) t" using m(2) by (simp flip: s1)
  then have "displayString putc (Ptr ?ob 0) (a, upd_scratch m s) = Inr (a + int (length t), upd_scratch m u)"
    using displayString_fold[OF _ _ foldR_scratch[OF u] a] by simp
  then show ?thesis using m(1) s1 by (auto simp: show_int_def intStrBuffer_def)
qed

end

section \<open>Conversions print their rendering\<close>

lemma spec_value_bound: "\<bar>spec_value sp w\<bar> < 2 ^ 32"
proof -
  have "uint w < 2 ^ 32" using unsigned_less[of w, where 'a = int] by simp
  moreover have "- (2 ^ 31) \<le> sint w" "sint w < 2 ^ 31"
    using sint_ge[of w] sint_lt[of w] by simp_all
  ultimately show ?thesis by (auto simp: spec_value_def)
qed

lemma memset_intStrBuffer:
  "\<exists>g. memset (mem s) intStrBuffer 0 256 = Inr (intStrBuffer, g) \<and> s\<lparr>mem := g\<rparr> = upd_scratch g s"
proof -
  have "writable intStrBuffer 256" by (simp add: intStrBuffer_def)
  from memset_wr[OF this, of "mem s" 0] show ?thesis
    by (auto simp: intStrBuffer_def scratch_def intro!: mem_upd_scratch)
qed

definition conv_spec :: "u8 list \<Rightarrow> u8 list \<Rightarrow> u8 \<Rightarrow> fmt_spec" where
  "conv_spec fl wd sp = (foldl set_flag fmt_spec0 fl)\<lparr>lengthSpec := int (dec_value wd), precSpec := 6,
     lengthMod := 0, specifier := sp\<rparr>"

lemma conv_spec_sel:
  assumes "set fl \<subseteq> flag_chars"
  shows "leftJustify (conv_spec fl wd sp) \<longleftrightarrow> 45 \<in> set fl" "plusSign (conv_spec fl wd sp) \<longleftrightarrow> 43 \<in> set fl"
    "altForm (conv_spec fl wd sp) \<longleftrightarrow> 35 \<in> set fl" "spaceNoSign (conv_spec fl wd sp) \<longleftrightarrow> 32 \<in> set fl"
    "zeroPad (conv_spec fl wd sp) \<longleftrightarrow> 48 \<in> set fl" "lengthSpec (conv_spec fl wd sp) = int (dec_value wd)"
    "lengthMod (conv_spec fl wd sp) = 0" "specifier (conv_spec fl wd sp) = sp"
  using foldl_set_flag_zero[OF assms]
  by (simp_all add: conv_spec_def foldl_set_flag fmt_spec0_def)

context console_out
begin

lemma show_arg_fold:
  assumes ok: "item_ok m (IntC fl wd sp w)"
    and t: "t = pad_text (dec_value wd) (45 \<in> set fl) (48 \<in> set fl)
       (int_text (spec_value sp w) (spec_base sp) (43 \<in> set fl) (32 \<in> set fl))"
    and u: "foldR putc t s = Inr u" and a: "0 \<le> a" "a + int (length t) < 2 ^ 31"
  shows "\<exists>g. show_arg putc (conv_spec fl wd sp) (int (spec_base sp)) (Some (Inr (spec_value sp w, ap))) ap' (a, s) =
    Inr (ap, a + int (length t), upd_scratch g u)"
proof -
  have b: "2 \<le> spec_base sp" "spec_base sp \<le> 16" by (simp_all add: spec_base_def)
  have w: "0 \<le> int (dec_value wd)" "int (dec_value wd) \<le> 255" using ok by simp_all
  have t': "t = pad_text (nat (int (dec_value wd))) (45 \<in> set fl) (48 \<in> set fl)
       (int_text (spec_value sp w) (spec_base sp) (43 \<in> set fl) (32 \<in> set fl))" using t by simp
  from show_int_fold[OF b spec_value_bound w t' u a] obtain g where
    "show_int putc (spec_value sp w) (int (spec_base sp)) (43 \<in> set fl) (32 \<in> set fl) (int (dec_value wd))
      (45 \<in> set fl) (48 \<in> set fl) (a, s) = Inr (a + int (length t), upd_scratch g u)" ..
  then show ?thesis using ok by (auto simp: show_arg_def conv_spec_sel)
qed

lemma convert_int:
  assumes ok: "item_ok m (IntC fl wd sp w)"
    and u: "foldR putc (item_out (IntC fl wd sp w)) s = Inr u"
    and a: "0 \<le> a" "a + int (length (item_out (IntC fl wd sp w))) < 2 ^ 31"
  shows "\<exists>g. convert A fp putc (conv_spec fl wd sp) (VI32 w # ap) (a, s) =
    Inr (ap, a + int (length (item_out (IntC fl wd sp w))), upd_scratch g u)"
proof -
  define t where "t = pad_text (dec_value wd) (45 \<in> set fl) (48 \<in> set fl)
       (int_text (spec_value sp w) (spec_base sp) (43 \<in> set fl) (32 \<in> set fl))"
  let ?pre = "alt_prefix fl sp" and ?f = "conv_spec fl wd sp"
  have out: "item_out (IntC fl wd sp w) = ?pre @ t" by (simp add: t_def)
  have fl: "set fl \<subseteq> flag_chars" and sp: "sp \<in> {100, 105, 117, 88, 111}" using ok by simp_all
  obtain g where g: "memset (mem s) intStrBuffer 0 256 = Inr (intStrBuffer, g)"
    "s\<lparr>mem := g\<rparr> = upd_scratch g s" using memset_intStrBuffer[of s] by blast
  have "foldR putc (?pre @ t) (upd_scratch g s) = Inr (upd_scratch g u)"
    using foldR_scratch[OF u, of g] out by simp
  then obtain u1 where u1: "foldR putc ?pre (upd_scratch g s) = Inr u1" "foldR putc t u1 = Inr (upd_scratch g u)"
    by (auto simp: foldR_append)
  let ?a = "a + int (length ?pre)"
  have a': "0 \<le> ?a" "?a + int (length t) < 2 ^ 31" "a + int (length ?pre) < 2 ^ 31"
    using a out by simp_all
  obtain h where h: "show_arg putc ?f (int (spec_base sp)) (Some (Inr (spec_value sp w, ap))) (VI32 w # ap) (?a, u1) =
      Inr (ap, ?a + int (length t), upd_scratch h u)"
    using show_arg_fold[OF ok t_def u1(2) a'(1,2), of ap "VI32 w # ap"] by auto
  have pre: "displayString putc (Ptr (Lit l) 0) (a, upd_scratch g s) = Inr (?a, u1)"
    if "bytes_of l = ?pre" "0 \<notin> set ?pre" for l
    using displayString_fold[OF cstr_Lit _ _ a(1), of l "upd_scratch g s" u1] that u1(1) a'(3)
    by simp
  have fin: "?a + int (length t) = a + int (length (item_out (IntC fl wd sp w)))" unfolding out by simp
  consider (d) "sp = 100 \<or> sp = 105" | (u) "sp = 117" | (X) "sp = 88" | (o8) "sp = 111" using sp by auto
  then show ?thesis
  proof cases
    case d
    then have "?pre = []" by (auto simp: alt_prefix_def)
    then show ?thesis using d g h u1(1) fin fl
      by (auto simp: convert_def conv_spec_sel signed_arg_def spec_value_def spec_base_def)
  next
    case u
    then have "?pre = []" by (auto simp: alt_prefix_def)
    then show ?thesis using u g h u1(1) fin fl
      by (auto simp: convert_def conv_spec_sel unsigned_arg_def spec_value_def spec_base_def)
  next
    case X
    then have "35 \<in> set fl \<Longrightarrow> displayString putc (Ptr (Lit ''0x'') 0) (a, upd_scratch g s) = Inr (?a, u1)"
      by (intro pre) (simp_all add: alt_prefix_def)
    moreover have "35 \<notin> set fl \<Longrightarrow> ?pre = []" by (simp add: alt_prefix_def)
    ultimately show ?thesis using X g h u1(1) fin fl
      by (cases "35 \<in> set fl")
        (auto simp: convert_def conv_spec_sel unsigned_arg_def spec_value_def spec_base_def)
  next
    case o8
    then have "35 \<in> set fl \<Longrightarrow> displayString putc (Ptr (Lit ''0'') 0) (a, upd_scratch g s) = Inr (?a, u1)"
      by (intro pre) (simp_all add: alt_prefix_def)
    moreover have "35 \<notin> set fl \<Longrightarrow> ?pre = []" by (simp add: alt_prefix_def)
    ultimately show ?thesis using o8 g h u1(1) fin fl
      by (cases "35 \<in> set fl")
        (auto simp: convert_def conv_spec_sel unsigned_arg_def spec_value_def spec_base_def)
  qed
qed

lemma convert_str:
  assumes ok: "in_object (mem s) p t" and u: "foldR putc t s = Inr u"
    and a: "0 \<le> a" "a + int (length t) < 2 ^ 31"
  shows "\<exists>g. convert A fp putc (conv_spec [] [] 115) (VPtr p # ap) (a, s) =
    Inr (ap, a + int (length t), upd_scratch g u)"
proof -
  obtain ob i where p: "p = Ptr ob i" "ob \<noteq> Phys" "ob \<notin> scratch" "cstr (mem s) p t"
    using ok by (auto simp: in_object_def)
  obtain g where g: "memset (mem s) intStrBuffer 0 256 = Inr (intStrBuffer, g)"
    "s\<lparr>mem := g\<rparr> = upd_scratch g s" using memset_intStrBuffer[of s] by blast
  have "cstr (mem (upd_scratch g s)) (Ptr ob i) t"
    using p cstr_cong[of "mem (upd_scratch g s)" ob "mem s"] by simp
  then have "displayString putc p (a, upd_scratch g s) = Inr (a + int (length t), upd_scratch g u)"
    using displayString_fold[OF _ p(2) foldR_scratch[OF u] a] p(1) by simp
  then show ?thesis using g by (auto simp: convert_def conv_spec_sel)
qed

lemma convert_chr:
  assumes u: "foldR putc [ucast w] s = Inr u" and a: "0 \<le> a" "a + 1 < 2 ^ 31"
  shows "\<exists>g. convert A fp putc (conv_spec [] [] 99) (VI32 w # ap) (a, s) = Inr (ap, a + 1, upd_scratch g u)"
proof -
  obtain g where g: "memset (mem s) intStrBuffer 0 256 = Inr (intStrBuffer, g)"
    "s\<lparr>mem := g\<rparr> = upd_scratch g s" using memset_intStrBuffer[of s] by blast
  have "putc (ucast w) s = Inr u" using u by auto
  from putc_scratch[OF this] have "displayCharacter putc (ucast w) (a, upd_scratch g s) = Inr (a + 1, upd_scratch g u)"
    using a by (intro displayCharacter_putc)
  then show ?thesis using g by (auto simp: convert_def conv_spec_sel)
qed

lemma item_step:
  assumes str: "cstr (mem s) (ptr_add fmt i) (item_fmt it @ rest)" and ok: "item_ok (mem s) it"
    and u: "foldR putc (item_out it) s = Inr u" and a: "0 \<le> a" "a + int (length (item_out it)) < 2 ^ 31"
  shows "\<exists>g. vprintf_loop A fp putc fmt i (item_args it @ ap) (a, s) =
    vprintf_loop A fp putc fmt (i + int (length (item_fmt it))) ap
      (a + int (length (item_out it)), upd_scratch g u)"
proof -
  have conv: "\<exists>g. vprintf_loop A fp putc fmt i args (a, s) =
      vprintf_loop A fp putc fmt (i + int (length (37 # fl @ wd @ [sp]))) ap
        (a + n, upd_scratch g u)"
    if "cstr (mem s) (ptr_add fmt i) (37 # fl @ wd @ sp # rest)" "set fl \<subseteq> flag_chars"
      "list_all isdigit wd" "wd \<noteq> [] \<longrightarrow> hd wd \<noteq> 48" "dec_value wd < 2 ^ 31" "sp \<in> conv_chars"
      "\<exists>g. convert A fp putc (conv_spec fl wd sp) args (a, s) = Inr (ap, a + n, upd_scratch g u)"
    for fl wd sp args n
  proof -
    have "cstr (mem s) (ptr_add fmt (i + 1)) (fl @ wd @ sp # rest)" using that(1) by simp
    from parse_spec_cstr[OF this that(2-6), of args] that(1,7) show ?thesis
      by (subst vprintf_loop.simps) (auto simp: conv_spec_def algebra_simps)
  qed
  show ?thesis
  proof (cases it)
    case (Txt c)
    then have "displayCharacter putc c (a, s) = Inr (a + 1, u)"
      using u a by (intro displayCharacter_putc) auto
    moreover have "load (mem s) (ptr_add fmt i) = Inr c" "c \<noteq> 0" "c \<noteq> 37" using Txt str ok by auto
    ultimately have "vprintf_loop A fp putc fmt i ap (a, s) = vprintf_loop A fp putc fmt (i + 1) ap (a + 1, upd_scratch (mem u) u)"
      by (subst vprintf_loop.simps) (simp add: upd_scratch_self)
    then show ?thesis using Txt by auto
  next
    case (IntC fl wd sp w)
    have "\<exists>g. vprintf_loop A fp putc fmt i (VI32 w # ap) (a, s) =
        vprintf_loop A fp putc fmt (i + int (length (37 # fl @ wd @ [sp]))) ap
          (a + int (length (item_out it)), upd_scratch g u)"
      using convert_int[of "mem s" fl wd sp w s u a A fp ap] str ok u a
      by (intro conv) (simp_all add: IntC conv_chars_def del: item_out.simps, blast)
    then show ?thesis by (simp add: IntC)
  next
    case (StrC p t)
    have "\<exists>g. vprintf_loop A fp putc fmt i (VPtr p # ap) (a, s) =
        vprintf_loop A fp putc fmt (i + int (length (37 # [] @ [] @ [115 :: u8]))) ap
          (a + int (length t), upd_scratch g u)"
      using convert_str[of s p t u a A fp ap] str ok u a
      by (intro conv) (simp_all add: StrC conv_chars_def dec_value_def)
    then show ?thesis by (simp add: StrC)
  next
    case (ChrC w)
    have "\<exists>g. vprintf_loop A fp putc fmt i (VI32 w # ap) (a, s) =
        vprintf_loop A fp putc fmt (i + int (length (37 # [] @ [] @ [99 :: u8]))) ap
          (a + 1, upd_scratch g u)"
      using convert_chr[of w s u a A fp ap] str u a
      by (intro conv) (simp_all add: ChrC conv_chars_def dec_value_def)
    then show ?thesis by (simp add: ChrC)
  qed
qed

lemma item_ok_frame:
  assumes "\<And>ob. ob \<noteq> Phys \<Longrightarrow> ob \<notin> scratch \<Longrightarrow> m' ob = m ob" and "item_ok m it"
  shows "item_ok m' it"
proof (cases it)
  case (StrC p t)
  then obtain ob i where p: "p = Ptr ob i" "ob \<noteq> Phys" "ob \<notin> scratch" "cstr m p t"
    using assms(2) by (auto simp: in_object_def)
  then show ?thesis using StrC assms(1)[of ob] cstr_cong[of m' ob m] by (auto simp: in_object_def)
qed (use assms(2) in simp_all)

text \<open>Printing a prefix of the format: the loop goes on behind it with the remaining arguments.\<close>

lemma vprintf_prefix:
  assumes "cstr (mem s) (Ptr ob (k + i)) (concat (map item_fmt its) @ rest)" and ob: "ob \<noteq> Phys" "ob \<notin> scratch"
    and "list_all (item_ok (mem s)) its" and "foldR putc (concat (map item_out its)) s = Inr u"
    and "0 \<le> a" "a + int (length (concat (map item_out its))) < 2 ^ 31"
  shows "\<exists>g. vprintf_loop A fp putc (Ptr ob k) i (concat (map item_args its) @ ap) (a, s) =
    vprintf_loop A fp putc (Ptr ob k) (i + int (length (concat (map item_fmt its)))) ap
      (a + int (length (concat (map item_out its))), upd_scratch g u)"
  using assms(1,4-)
proof (induction its arbitrary: i a s u)
  case Nil
  then show ?case by (auto intro!: exI[of _ "mem s"] simp: upd_scratch_self)
next
  case (Cons it its)
  obtain s1 where s1: "foldR putc (item_out it) s = Inr s1" "foldR putc (concat (map item_out its)) s1 = Inr u"
    using Cons.prems(3) by (auto simp: foldR_append)
  let ?a = "a + int (length (item_out it))" and ?i = "i + int (length (item_fmt it))"
  obtain g where g: "vprintf_loop A fp putc (Ptr ob k) i (item_args it @ concat (map item_args its) @ ap) (a, s) =
      vprintf_loop A fp putc (Ptr ob k) ?i (concat (map item_args its) @ ap) (?a, upd_scratch g s1)"
    using item_step[of s "Ptr ob k" i it "concat (map item_fmt its) @ rest" s1 a A fp "concat (map item_args its) @ ap"]
      Cons.prems s1(1) by auto
  have frame: "mem (upd_scratch g s1) ob' = mem s ob'" if "ob' \<noteq> Phys" "ob' \<notin> scratch" for ob'
    using that foldR_frame[OF s1(1)] by simp
  have c: "cstr (mem (upd_scratch g s1)) (Ptr ob (k + ?i)) (concat (map item_fmt its) @ rest)"
    using Cons.prems(1) cstr_append[of "mem s" "Ptr ob (k + i)" "item_fmt it"]
      cstr_cong[of "mem (upd_scratch g s1)" ob "mem s"] frame[OF ob] by (simp add: add.assoc)
  have "list_all (item_ok (mem (upd_scratch g s1))) its"
    using Cons.prems(2) item_ok_frame[of "mem (upd_scratch g s1)" "mem s"] frame by (auto simp: list_all_iff)
  from Cons.IH[OF c this foldR_scratch[OF s1(2)], of ?a] Cons.prems(4,5) show ?case
    by (auto simp: g add.assoc)
qed

lemma vprintf_items_loop:
  assumes "cstr (mem s) (Ptr ob (k + i)) (concat (map item_fmt its))" and ob: "ob \<noteq> Phys" "ob \<notin> scratch"
    and "list_all (item_ok (mem s)) its" and "foldR putc (concat (map item_out its)) s = Inr u"
    and "0 \<le> a" "a + int (length (concat (map item_out its))) < 2 ^ 31"
  shows "\<exists>g. vprintf_loop A fp putc (Ptr ob k) i (concat (map item_args its)) (a, s) =
    Inr (a + int (length (concat (map item_out its))), upd_scratch g u)"
proof -
  let ?f = "concat (map item_fmt its)"
  obtain g where g: "vprintf_loop A fp putc (Ptr ob k) i (concat (map item_args its)) (a, s) =
      vprintf_loop A fp putc (Ptr ob k) (i + int (length ?f)) [] (a + int (length (concat (map item_out its))), upd_scratch g u)"
    using vprintf_prefix[of s ob k i its "[]" u a A fp "[]"] assms by auto
  have "mem (upd_scratch g u) ob = mem s ob" using foldR_frame[OF assms(5) ob(1)] ob(2) by simp
  then have "cstr (mem (upd_scratch g u)) (Ptr ob (k + (i + int (length ?f)))) []"
    using cstr_append[of "mem s" "Ptr ob (k + i)" ?f "[]"] assms(1) cstr_cong[of "mem (upd_scratch g u)" ob "mem s"]
    by (simp add: add.assoc del: cstr.simps)
  then show ?thesis unfolding g by (subst vprintf_loop.simps) (auto simp del: load.simps)
qed

lemma vprintf_items:
  assumes "in_object (mem s) fmt (concat (map item_fmt its))" and "list_all (item_ok (mem s)) its"
    and "foldR putc (concat (map item_out its)) s = Inr u" and "length (concat (map item_out its)) < 2 ^ 31"
  shows "\<exists>g. vprintf A fp putc fmt (concat (map item_args its)) s =
    Inr (int (length (concat (map item_out its))), upd_scratch g u)"
proof -
  obtain ob k where f: "fmt = Ptr ob k" "ob \<noteq> Phys" "ob \<notin> scratch"
      "cstr (mem s) (Ptr ob (k + 0)) (concat (map item_fmt its))"
    using assms(1) by (auto simp: in_object_def)
  define m where "m = (mem s)(Var ''vprintf.intStrBuffer'' 256 := \<lambda>_. 0)"
  have m: "s\<lparr>mem := m\<rparr> = upd_scratch m s" unfolding m_def by (rule mem_upd_scratch) (auto simp: scratch_def)
  have frame: "mem (upd_scratch m s) ob' = mem s ob'" if "ob' \<notin> scratch" for ob' using that by simp
  have "cstr (mem (upd_scratch m s)) (Ptr ob (k + 0)) (concat (map item_fmt its))"
    using f(4) cstr_cong[of "mem (upd_scratch m s)" ob "mem s"] frame[OF f(3)] by simp
  moreover have "list_all (item_ok (mem (upd_scratch m s))) its"
    using assms(2) item_ok_frame[of "mem (upd_scratch m s)" "mem s"] frame by (auto simp: list_all_iff)
  ultimately show ?thesis
    using vprintf_items_loop[OF _ f(2,3) _ foldR_scratch[OF assms(3), of m], of k 0 0 A fp] assms(4)
    by (auto simp: vprintf_def f(1) m simp flip: m_def)
qed

text \<open>A 64-bit argument where the conversion reads 32 bits.\<close>

lemma vprintf_bad_arg:
  assumes fmt: "in_object (mem s) fmt (concat (map item_fmt its) @ 37 # fl @ wd @ sp # rest)"
    and its: "list_all (item_ok (mem s)) its" and u: "foldR putc (concat (map item_out its)) s = Inr u"
    and len: "length (concat (map item_out its)) < 2 ^ 31"
    and spec: "set fl \<subseteq> flag_chars" "35 \<notin> set fl" "list_all isdigit wd" "wd \<noteq> [] \<longrightarrow> hd wd \<noteq> 48" "dec_value wd < 2 ^ 31"
      "sp \<in> {100, 105, 117, 88}"
  shows "vprintf A fp putc fmt (concat (map item_args its) @ VI64 w # ap) s = Inl BadVarArg"
proof -
  obtain ob k where f: "fmt = Ptr ob k" "ob \<noteq> Phys" "ob \<notin> scratch"
      "cstr (mem s) (Ptr ob (k + 0)) (concat (map item_fmt its) @ 37 # fl @ wd @ sp # rest)"
    using fmt by (auto simp: in_object_def)
  define m where "m = (mem s)(Var ''vprintf.intStrBuffer'' 256 := \<lambda>_. 0)"
  have m: "s\<lparr>mem := m\<rparr> = upd_scratch m s" unfolding m_def by (rule mem_upd_scratch) (auto simp: scratch_def)
  have frame: "mem (upd_scratch m s) ob' = mem s ob'" if "ob' \<notin> scratch" for ob' using that by simp
  let ?n = "int (length (concat (map item_fmt its)))" and ?t = "concat (map item_out its)"
  have c: "cstr (mem (upd_scratch m s)) (Ptr ob (k + 0)) (concat (map item_fmt its) @ 37 # fl @ wd @ sp # rest)"
    using f(4) cstr_cong[of "mem (upd_scratch m s)" ob "mem s"] frame[OF f(3)] by simp
  have ok: "list_all (item_ok (mem (upd_scratch m s))) its"
    using its item_ok_frame[of "mem (upd_scratch m s)" "mem s"] frame by (auto simp: list_all_iff)
  obtain g where g: "vprintf_loop A fp putc (Ptr ob k) 0 (concat (map item_args its) @ VI64 w # ap) (0, upd_scratch m s) =
      vprintf_loop A fp putc (Ptr ob k) ?n (VI64 w # ap) (int (length ?t), upd_scratch g u)"
    using vprintf_prefix[OF c f(2,3) ok foldR_scratch[OF u], of 0 A fp "VI64 w # ap"] len by auto
  let ?s = "upd_scratch g u"
  have "mem ?s ob = mem s ob" using foldR_frame[OF u f(2)] f(3) by simp
  then have c1: "cstr (mem ?s) (ptr_add (Ptr ob k) ?n) (37 # fl @ wd @ sp # rest)"
    using cstr_append[OF f(4)] cstr_cong[of "mem ?s" ob "mem s"] by (simp del: cstr.simps)
  then have c2: "cstr (mem ?s) (ptr_add (Ptr ob k) (?n + 1)) (fl @ wd @ sp # rest)" by (simp add: add.assoc del: load.simps)
  have sp: "sp \<in> conv_chars" using spec(6) by (auto simp: conv_chars_def)
  have parse: "parse_spec (mem ?s) (Ptr ob k) (?n + 1) (VI64 w # ap) =
      Inr (?n + 1 + int (length fl + length wd), conv_spec fl wd sp, VI64 w # ap)"
    using parse_spec_cstr[OF c2 spec(1,3-5) sp] by (simp add: conv_spec_def)
  obtain h where h: "memset (mem ?s) intStrBuffer 0 256 = Inr (intStrBuffer, h)" using memset_intStrBuffer by blast
  have "convert A fp putc (conv_spec fl wd sp) (VI64 w # ap) (int (length ?t), ?s) = Inl BadVarArg"
    using h spec(1,2,6) by (auto simp: convert_def conv_spec_sel unsigned_arg_def signed_arg_def show_arg_def)
  then have "vprintf_loop A fp putc (Ptr ob k) ?n (VI64 w # ap) (int (length ?t), ?s) = Inl BadVarArg"
    using c1 parse by (subst vprintf_loop.simps) (simp del: load.simps)
  then show ?thesis using g by (simp add: vprintf_def f(1) m flip: m_def)
qed

end

end
