(* ===== verification/Console.thy ===== *)
theory Console
  imports PrintfSpec
begin

text \<open>
  What the kernel proper sees of an architecture: the console operations of
  \<open>kernel/arch.h\<close> as a record of functions, the state of the shell that every architecture's
  state extends, and \<open>puts\<close>, which the three architectures define by the same loop over
  their own character output. The locale \<open>console_out\<close> gives its contract: \<open>puts\<close> of
  a string is output of its characters in order.
\<close>

section \<open>State and operations\<close>

record shell_state = lib_state +
  shellptr :: u8
  histptr :: u8

record 's console =
  con_putc :: "'s putc_fun"
  con_puts :: "ptr \<Rightarrow> 's \<Rightarrow> 's res"
  con_setpos_x :: "u8 \<Rightarrow> 's \<Rightarrow> 's res"
  con_clrline :: "'s \<Rightarrow> 's res"
  con_plain :: "nat \<Rightarrow> bool"     \<comment> \<open>plain memory: bytes of \<open>Phys\<close> and of nothing else\<close>

function puts_loop :: "('a lib_state_scheme) putc_fun \<Rightarrow> ptr \<Rightarrow> 'a lib_state_scheme \<Rightarrow> 'a lib_state_scheme res" where
  "puts_loop putc p s =
     bindR (load (mem s) p) (\<lambda>c.
       if c \<noteq> 0 then bindR (putc c s) (puts_loop putc (ptr_add p 1)) else Inr s)"
  by pat_completeness auto
termination by (relation "measure (\<lambda>(putc, p, s). ptr_room p)") auto

declare puts_loop.simps [simp del]

definition puts_with :: "('a lib_state_scheme) putc_fun \<Rightarrow> ptr \<Rightarrow> 'a lib_state_scheme \<Rightarrow> 'a lib_state_scheme res" where
  "puts_with putc p s = (if p = Null then Inr s else puts_loop putc p s)"

section \<open>The contract of \<open>puts\<close>\<close>

context console_out
begin

lemma puts_loop_fold:
  assumes "cstr (mem s) (Ptr ob i) t" and "ob \<noteq> Phys" and "foldR putc t s = Inr u"
  shows "puts_loop putc (Ptr ob i) s = Inr u"
  using assms(1,3)
proof (induction t arbitrary: i s)
  case Nil
  then show ?case by (simp add: puts_loop.simps del: load.simps)
next
  case (Cons c t)
  then obtain s1 where s1: "putc c s = Inr s1" "foldR putc t s1 = Inr u" by auto
  have "cstr (mem s1) (Ptr ob (i + 1)) t"
    using Cons.prems(1) cstr_cong[of "mem s1" ob "mem s"] putc_frame[OF s1(1) assms(2)] by simp
  from Cons.IH[OF this s1(2)] Cons.prems(1) s1(1) show ?case
    by (simp add: puts_loop.simps[of putc "Ptr ob i"] del: load.simps)
qed

lemma puts_fold:
  assumes "cstr (mem s) (Ptr ob i) t" and "ob \<noteq> Phys" and "foldR putc t s = Inr u"
  shows "puts_with putc (Ptr ob i) s = Inr u"
  using puts_loop_fold[OF assms] by (simp add: puts_with_def)

lemma puts_Lit:
  assumes "0 \<notin> set (bytes_of l)" and "foldR putc (bytes_of l) s = Inr u"
  shows "puts_with putc (Ptr (Lit l) 0) s = Inr u"
  using puts_fold[OF cstr_Lit[OF assms(1)] _ assms(2)] by simp

end

end
