(* ===== verification/Vga.thy ===== *)
theory Vga
  imports Console
begin

text \<open>
  The i386 text console, \<open>kernel/arch/i386/vga.c\<close> with \<open>vga.h\<close> and the port
  accessors of \<open>libk/arch/i386/ports.c\<close>. Port output is a log of port and byte; port
  input is what the device presents. The screen is the 4000 bytes of physical memory at
  \<open>0xB8000\<close>. The first part translates the file, the second gives the abstract
  terminal it implements: a grid of 25 rows of 80 cells (a character and an attribute byte each)
  with a cursor, and the refinement from one to the other.
\<close>

section \<open>State\<close>

record idtent =
  offset_l :: u16
  segment :: u16
  reserved :: u8
  flags :: u8
  offset_h :: u16

datatype kfun = Kcallback   \<comment> \<open>the only function the sources pass as a keyboard callback\<close>

record i386_state = shell_state +
  outs :: "(u16 \<times> u8) list"
  port_in :: "u16 \<Rightarrow> u8"
  tx :: u8
  ty :: u8
  kcall :: "kfun option"
  kstate :: u8
  extended :: u8
  idt :: "idtent list"
  idt_base :: u32
  idt_limit :: u16
  idtr :: "(u32 \<times> u16) option"    \<comment> \<open>the descriptor table register: base and limit\<close>
  iflag :: bool                   \<comment> \<open>the processor's interrupt flag\<close>

section \<open>Ports\<close>

definition outb :: "u16 \<Rightarrow> u8 \<Rightarrow> i386_state \<Rightarrow> i386_state" where
  "outb port data s = s\<lparr>outs := outs s @ [(port, data)]\<rparr>"

definition inb :: "u16 \<Rightarrow> i386_state \<Rightarrow> u8" where
  "inb port s = port_in s port"

definition iowait :: "i386_state \<Rightarrow> i386_state" where
  "iowait s = outb 0x80 0 s"

section \<open>The driver\<close>

definition WIDTH :: int where "WIDTH = 80"
definition HEIGHT :: int where "HEIGHT = 25"

definition VGA_MEM :: ptr where
  "VGA_MEM = Ptr Phys 0xB8000"

text \<open>\<open>&VGA_MEM[k]\<close>: the elements are \<open>uint16_t\<close>.\<close>

definition vga_at :: "int \<Rightarrow> ptr" where
  "vga_at k = ptr_add VGA_MEM (2 * k)"

definition vga_entry :: "u8 \<Rightarrow> u8 \<Rightarrow> u16" where
  "vga_entry st c = push_bit 8 (ucast st) OR ucast c"

definition vga_init :: "i386_state \<Rightarrow> i386_state" where
  "vga_init s = s\<lparr>tx := 0, ty := 0\<rparr>"

definition cursor :: "u8 \<Rightarrow> u8 \<Rightarrow> i386_state \<Rightarrow> i386_state" where
  "cursor x y s =
     (let pos = word_of_int (uint y * WIDTH + uint x) :: u16 in
      outb 0x3D5 (ucast (drop_bit 8 pos AND 0xFF))
        (outb 0x3D4 0x0E (outb 0x3D5 (ucast (pos AND 0xFF)) (outb 0x3D4 0x0F s))))"

definition vga_scroll :: "i386_state \<Rightarrow> i386_state res" where
  "vga_scroll s =
     (if HEIGHT \<le> uint (ty s) then
        bindR (memmove (mem s) (vga_at 0) (vga_at WIDTH) ((HEIGHT - 1) * WIDTH * 2)) (\<lambda>(_, m).
        bindR (memset m (vga_at ((HEIGHT - 1) * WIDTH)) 0 (WIDTH * 2)) (\<lambda>(_, m).
          Inr (s\<lparr>mem := m, ty := word_of_int (HEIGHT - 1)\<rparr>)))
      else Inr s)"

definition putc :: "u8 \<Rightarrow> i386_state \<Rightarrow> i386_state res" where
  "putc c s =
     (if c = 0 then Inr s
      else
        bindR (if WIDTH \<le> uint (tx s) then vga_scroll (s\<lparr>tx := 0, ty := ty s + 1\<rparr>) else Inr s) (\<lambda>s.
          if c = 10 \<or> c = 13 then
            bindR (vga_scroll (s\<lparr>tx := 0, ty := ty s + 1\<rparr>)) (\<lambda>s. Inr (cursor (tx s) (ty s) s))
          else
            let s = cursor (tx s + 1) (ty s) s;
                off = word_of_int (uint (ty s) * WIDTH + uint (tx s)) :: u16
            in bindR (store_le 2 (uint (vga_entry 0x07 c)) (vga_at (uint off)) (mem s)) (\<lambda>m.
                 Inr (s\<lparr>mem := m, tx := tx s + 1\<rparr>))))"

definition puts :: "ptr \<Rightarrow> i386_state \<Rightarrow> i386_state res" where
  "puts p s = puts_with putc p s"

definition setpos :: "u8 \<Rightarrow> u8 \<Rightarrow> i386_state \<Rightarrow> i386_state res" where
  "setpos x y s =
     (if WIDTH < uint x then Inr s
      else vga_scroll (s\<lparr>tx := x, ty := if HEIGHT \<le> uint y then word_of_int HEIGHT else y\<rparr>))"

definition setpos_x :: "u8 \<Rightarrow> i386_state \<Rightarrow> i386_state" where
  "setpos_x x s = (if WIDTH < uint x then s else s\<lparr>tx := x\<rparr>)"

definition getpos :: "i386_state \<Rightarrow> u16" where
  "getpos s = push_bit 8 (ucast (ty s)) OR ucast (tx s)"

definition clrline_y :: "u8 \<Rightarrow> i386_state \<Rightarrow> i386_state res" where
  "clrline_y y s = bindR (memset (mem s) (vga_at (uint y * WIDTH)) 0 WIDTH) (\<lambda>(_, m). Inr (s\<lparr>mem := m\<rparr>))"

definition clrline :: "i386_state \<Rightarrow> i386_state res" where
  "clrline s = bindR (memset (mem s) (vga_at (uint (ty s) * WIDTH)) 0 WIDTH) (\<lambda>(_, m). Inr (s\<lparr>mem := m\<rparr>))"

text \<open>
  What the linker and \<open>boot.asm\<close> provide: the addresses of the interrupt stubs and of the
  interrupt descriptor table, the end of the kernel's last section (\<open>linker.ld\<close> places them all
  from \<open>0x10000\<close> on, the stack among them), and the end of the memory fitted above 1 MB.
\<close>

record image =
  isr_stub_table :: "u32 list"
  keyboard_stub :: u32
  idt_addr :: u32
  kernel_end :: nat
  ram_top :: nat

text \<open>
  Memory that belongs to nobody, so that a byte written there by its number is kept and changes nothing
  else: the segments are flat and there is no paging. Excluded are the boot sector, whose descriptor
  table the processor still uses (\<open>bootstrap.asm\<close>), the kernel with its stack and variables
  (\<open>linker.ld\<close>), and what the PC has between \<open>0x80000\<close> and 1 MB: the firmware's data
  area, the display, device memory and ROM.
\<close>

definition i386_free :: "image \<Rightarrow> nat \<Rightarrow> bool" where
  "i386_free img k \<longleftrightarrow>
     \<not> (0x7C00 \<le> k \<and> k < 0x7E00) \<and> \<not> (0x10000 \<le> k \<and> k < kernel_end img) \<and>
     (k < 0x80000 \<or> 0x100000 \<le> k \<and> k < ram_top img)"

text \<open>The image has room for the kernel's arrays and stack, and its addresses lie in it.\<close>

definition image_ok :: "image \<Rightarrow> bool" where
  "image_ok img \<longleftrightarrow> length (isr_stub_table img) = 32 \<and>
     list_all (\<lambda>a. 0x10000 \<le> unat a \<and> unat a < kernel_end img) (keyboard_stub img # isr_stub_table img) \<and>
     0x10000 \<le> unat (idt_addr img) \<and> unat (idt_addr img) + 8 * 256 \<le> kernel_end img \<and>
     0x10000 + 4096 + 8 * 256 + 256 * 256 + 256 + 256 \<le> kernel_end img"

text \<open>The display's memory is plain too: the processor reads there what it wrote.\<close>

definition vga_console :: "image \<Rightarrow> i386_state console" where
  "vga_console img = \<lparr>con_putc = putc, con_puts = puts, con_setpos_x = (\<lambda>x s. Inr (setpos_x x s)), con_clrline = clrline,
     con_plain = (\<lambda>k. i386_free img k \<or> 0xB8000 \<le> k \<and> k < 0xB8000 + 4000)\<rparr>"

section \<open>The driver never faults\<close>

text \<open>Scrolling and drawing as functions on the memory.\<close>

definition scroll_mem :: "memory \<Rightarrow> memory" where
  "scroll_mem m = wr (wr m (vga_at 0) (rd m (vga_at WIDTH) 3840)) (vga_at 1920) (replicate 160 0)"

definition put_mem :: "nat \<Rightarrow> u8 \<Rightarrow> memory \<Rightarrow> memory" where
  "put_mem off c m = m(Phys := (m Phys)(0xB8000 + 2 * off := c, 0xB8000 + 2 * off + 1 := 0x07))"

lemma scroll_mem_obj [simp, frame_simps]: "ob \<noteq> Phys \<Longrightarrow> scroll_mem m ob = m ob"
  by (simp add: scroll_mem_def vga_at_def VGA_MEM_def)

lemma scroll_mem_Phys:
  "scroll_mem m Phys k =
     (if 0xB8000 \<le> k \<and> k < 0xB8000 + 3840 then m Phys (160 + k)
      else if 0xB8000 + 3840 \<le> k \<and> k < 0xB8000 + 4000 then 0 else m Phys k)"
proof -
  have l: "length (rd m (vga_at WIDTH) 3840) = 3840"
    by (rule length_rd) (simp add: vga_at_def VGA_MEM_def WIDTH_def)
  have n: "rd m (vga_at WIDTH) 3840 ! j = m Phys (0xB8000 + 160 + j)" if "j < 3840" for j
    using that nth_rd[of j 3840 m Phys "0xB8000 + 160"] by (simp add: vga_at_def VGA_MEM_def WIDTH_def)
  show ?thesis
    using l by (auto simp: scroll_mem_def vga_at_def[of 0] vga_at_def[of 1920] VGA_MEM_def wr_nth n)
qed

lemma put_mem_obj [simp, frame_simps]: "ob \<noteq> Phys \<Longrightarrow> put_mem off c m ob = m ob"
  by (simp add: put_mem_def)

lemma mem_upd_commute:
  assumes "ob \<noteq> Phys"
  shows "scroll_mem (m(ob := f)) = (scroll_mem m)(ob := f)" "put_mem off c (m(ob := f)) = (put_mem off c m)(ob := f)"
proof -
  have "scroll_mem (m(ob := f)) ob' = ((scroll_mem m)(ob := f)) ob'" for ob'
    using assms by (cases "ob' = Phys") (auto simp: scroll_mem_Phys)
  then show "scroll_mem (m(ob := f)) = (scroll_mem m)(ob := f)" ..
  show "put_mem off c (m(ob := f)) = (put_mem off c m)(ob := f)"
    using assms by (auto simp: put_mem_def)
qed

definition scrollS :: "i386_state \<Rightarrow> i386_state" where
  "scrollS s = (if 25 \<le> ty s then s\<lparr>mem := scroll_mem (mem s), ty := 24\<rparr> else s)"

lemma vga_scroll_eq: "vga_scroll s = Inr (scrollS s)"
proof -
  have "memmove (mem s) (vga_at 0) (vga_at WIDTH) (int 3840) =
      Inr (vga_at 0, wr (mem s) (vga_at 0) (rd (mem s) (vga_at WIDTH) 3840))"
    by (rule memmove_wr) (simp_all add: vga_at_def VGA_MEM_def WIDTH_def)
  moreover have "memset m (vga_at 1920) 0 (int 160) = Inr (vga_at 1920, wr m (vga_at 1920) (replicate 160 (word_of_int 0)))" for m
    by (rule memset_wr) (simp add: vga_at_def VGA_MEM_def)
  ultimately show ?thesis
    by (simp add: vga_scroll_def scrollS_def scroll_mem_def HEIGHT_def WIDTH_def word_le_def)
qed

lemma vga_entry_bytes:
  "(word_of_int (uint (vga_entry st c)) :: u8) = c" "(word_of_int (uint (vga_entry st c) div 256) :: u8) = st"
proof -
  show "(word_of_int (uint (vga_entry st c)) :: u8) = c"
    by (rule bit_word_eqI) (auto simp: vga_entry_def bit_simps)
  have "uint (vga_entry st c) div 256 = drop_bit 8 (uint (vga_entry st c))"
    by (simp add: drop_bit_eq_div)
  then show "(word_of_int (uint (vga_entry st c) div 256) :: u8) = st"
    by (simp only:) (rule bit_word_eqI, auto simp: vga_entry_def bit_simps dest: bit_imp_le_length)
qed

lemma store_entry:
  assumes "off < 2 ^ 16"
  shows "store_le 2 (uint (vga_entry 0x07 c)) (vga_at (int off)) m = Inr (put_mem off c m)"
proof -
  have "store_le (Suc (Suc 0)) (uint (vga_entry 0x07 c)) (vga_at (int off)) m = Inr (put_mem off c m)"
    using assms vga_entry_bytes[of 7 c]
    by (simp add: vga_at_def VGA_MEM_def put_mem_def nat_add_distrib nat_mult_distrib)
  then show ?thesis by (simp add: numeral_2_eq_2)
qed

definition newlineS :: "i386_state \<Rightarrow> i386_state" where
  "newlineS s = scrollS (s\<lparr>tx := 0, ty := ty s + 1\<rparr>)"

definition cell_off :: "u8 \<Rightarrow> u8 \<Rightarrow> nat" where
  "cell_off x y = nat ((uint y * 80 + uint x) mod 2 ^ 16)"

definition drawS :: "u8 \<Rightarrow> i386_state \<Rightarrow> i386_state" where
  "drawS c s = (cursor (tx s + 1) (ty s) s)
     \<lparr>mem := put_mem (cell_off (tx s) (ty s)) c (mem s), tx := tx s + 1\<rparr>"

definition putS :: "u8 \<Rightarrow> i386_state \<Rightarrow> i386_state" where
  "putS c s =
     (if c = 0 then s
      else let s = (if 80 \<le> tx s then newlineS s else s) in
        if c = 10 \<or> c = 13 then let s = newlineS s in cursor (tx s) (ty s) s else drawS c s)"

lemma cursor_frame [simp, frame_simps]:
  "mem (cursor x y s) = mem s" "olds (cursor x y s) = olds s" "tx (cursor x y s) = tx s" "ty (cursor x y s) = ty s"
  by (simp_all add: cursor_def outb_def Let_def)

lemma putc_eq: "putc c s = Inr (putS c s)"
proof -
  have off: "store_le 2 (uint (vga_entry 0x07 c)) (vga_at (uint (word_of_int k :: u16))) m =
      Inr (put_mem (nat (k mod 2 ^ 16)) c m)" if "0 \<le> k" for k m
    using store_entry[of "nat (k mod 2 ^ 16)" c m] that by (simp add: uint_word_of_int nat_less_iff)
  have ucast: "ucast y * 80 + ucast x = (word_of_int (uint y * 80 + uint x) :: u16)" for x y :: u8 by simp
  have "WIDTH \<le> uint (tx s) \<longleftrightarrow> 80 \<le> tx s" by (simp add: WIDTH_def word_le_def)
  then show ?thesis
    by (auto simp: putc_def putS_def newlineS_def drawS_def vga_scroll_eq off cell_off_def WIDTH_def Let_def
        ucast simp del: of_int_add of_int_mult of_int_uint)
qed

lemma foldR_putc: "foldR putc t s = Inr (fold putS t s)"
  by (induction t arbitrary: s) (simp_all add: putc_eq)

lemma putS_frame:
  "olds (putS c s) = olds s" "ob \<noteq> Phys \<Longrightarrow> mem (putS c s) ob = mem s ob"
  by (simp_all add: putS_def newlineS_def scrollS_def drawS_def Let_def)

definition set_obj :: "obj \<Rightarrow> (nat \<Rightarrow> u8) \<Rightarrow> i386_state \<Rightarrow> i386_state" where
  "set_obj ob f s = s\<lparr>mem := (mem s)(ob := f)\<rparr>"

lemma set_obj_sel [simp]:
  "tx (set_obj ob f s) = tx s" "ty (set_obj ob f s) = ty s" "mem (set_obj ob f s) = (mem s)(ob := f)"
  by (simp_all add: set_obj_def)

lemma cursor_obj: "cursor x y (set_obj ob f s) = set_obj ob f (cursor x y s)"
  by (simp add: cursor_def set_obj_def outb_def Let_def)

lemma newlineS_obj: "ob \<noteq> Phys \<Longrightarrow> newlineS (set_obj ob f s) = set_obj ob f (newlineS s)"
  by (simp add: newlineS_def scrollS_def set_obj_def mem_upd_commute)

lemma drawS_obj: "ob \<noteq> Phys \<Longrightarrow> drawS c (set_obj ob f s) = set_obj ob f (drawS c s)"
  by (simp add: drawS_def cursor_obj mem_upd_commute) (simp add: set_obj_def)

lemma putS_obj: "ob \<noteq> Phys \<Longrightarrow> putS c (set_obj ob f s) = set_obj ob f (putS c s)"
  by (simp add: putS_def cursor_obj newlineS_obj drawS_obj Let_def)

interpretation vga: console_out putc
  by unfold_locales (auto simp: putc_eq putS_obj putS_frame simp flip: set_obj_def)

section \<open>The terminal it implements\<close>

text \<open>
  A row is 160 bytes, the character and the attribute of each cell in turn. A line break moves
  down, and scrolls when the cursor is on the last row; a character that finds the row full
  breaks the line first.
\<close>

record terminal =
  grid :: "u8 list list"
  cx :: nat
  cy :: nat

definition down :: "terminal \<Rightarrow> terminal" where
  "down t =
     (if cy t < 24 then t\<lparr>cx := 0, cy := cy t + 1\<rparr>
      else t\<lparr>grid := tl (grid t) @ [replicate 160 0], cx := 0, cy := 24\<rparr>)"

definition draw :: "u8 \<Rightarrow> terminal \<Rightarrow> terminal" where
  "draw c t = t\<lparr>grid := (grid t)[cy t := (grid t ! cy t)[2 * cx t := c, 2 * cx t + 1 := 0x07]], cx := cx t + 1\<rparr>"

definition emit :: "u8 \<Rightarrow> terminal \<Rightarrow> terminal" where
  "emit c t =
     (if c = 0 then t
      else let t = (if cx t = 80 then down t else t) in if c \<in> {10, 13} then down t else draw c t)"

definition row :: "memory \<Rightarrow> nat \<Rightarrow> u8 list" where
  "row m y = map (\<lambda>k. m Phys (0xB8000 + 160 * y + k)) [0..<160]"

definition term_of :: "i386_state \<Rightarrow> terminal" where
  "term_of s = \<lparr>grid = map (row (mem s)) [0..<25], cx = unat (tx s), cy = unat (ty s)\<rparr>"

definition vga_ok :: "i386_state \<Rightarrow> bool" where
  "vga_ok s \<longleftrightarrow> tx s \<le> 80 \<and> ty s < 25"

text \<open>Physical memory outside the screen.\<close>

definition off_screen :: "nat \<Rightarrow> bool" where
  "off_screen k \<longleftrightarrow> k < 0xB8000 \<or> 0xB8000 + 4000 \<le> k"

lemma length_row [simp]: "length (row m y) = 160"
  by (simp add: row_def)

lemma nth_row [simp]: "k < 160 \<Longrightarrow> row m y ! k = m Phys (0xB8000 + 160 * y + k)"
  by (simp add: row_def)

lemma row_scroll: "y < 24 \<Longrightarrow> row (scroll_mem m) y = row m (Suc y)"
  by (rule nth_equalityI) (simp_all add: scroll_mem_Phys algebra_simps)

lemma row_scroll_last: "row (scroll_mem m) 24 = replicate 160 0"
  by (rule nth_equalityI) (simp_all add: scroll_mem_Phys)

lemma rows_scroll: "map (row (scroll_mem m)) [0..<25] = tl (map (row m) [0..<25]) @ [replicate 160 0]"
proof -
  have "map (row (scroll_mem m)) [0..<25] = map (row (scroll_mem m)) [0..<24] @ [row (scroll_mem m) 24]"
    using upt_Suc[of 0 24] by simp
  also have "map (row (scroll_mem m)) [0..<24] = map (row m \<circ> Suc) [0..<24]"
    by (rule map_cong) (simp_all add: row_scroll)
  also have "\<dots> = tl (map (row m) [0..<25])"
    using upt_conv_Cons[of 0 25] map_Suc_upt[of 0 24] by (simp flip: map_map)
  finally show ?thesis by (simp add: row_scroll_last)
qed

lemma row_put_other: "x < 80 \<Longrightarrow> y' \<noteq> y \<Longrightarrow> row (put_mem (y * 80 + x) c m) y' = row m y'"
  by (rule nth_equalityI) (auto simp: put_mem_def)

lemma row_put: "x < 80 \<Longrightarrow> row (put_mem (y * 80 + x) c m) y = (row m y)[2 * x := c, 2 * x + 1 := 0x07]"
  by (rule nth_equalityI) (auto simp: put_mem_def nth_list_update algebra_simps)

lemma rows_put:
  assumes "x < 80" and "y < 25"
  shows "map (row (put_mem (y * 80 + x) c m)) [0..<25] =
    (map (row m) [0..<25])[y := (map (row m) [0..<25] ! y)[2 * x := c, 2 * x + 1 := 0x07]]"
proof (rule nth_equalityI)
  fix i assume "i < length (map (row (put_mem (y * 80 + x) c m)) [0..<25])"
  then have i: "i < 25" by simp
  show "map (row (put_mem (y * 80 + x) c m)) [0..<25] ! i =
    (map (row m) [0..<25])[y := (map (row m) [0..<25] ! y)[2 * x := c, 2 * x + 1 := 0x07]] ! i"
    using i assms row_put[OF assms(1)] row_put_other[OF assms(1), of i y]
    by (cases "i = y") (simp_all del: upt_rec_numeral)
qed simp

lemma term_cursor [simp]: "term_of (cursor x y s) = term_of s"
  by (simp add: term_of_def del: upt_rec_numeral)

lemma ty_Suc: "ty s < 25 \<Longrightarrow> unat (ty s + 1) = unat (ty s) + 1"
  by (rule unat_add_1)

lemma newlineS_term:
  assumes "ty s < 25"
  shows "term_of (newlineS s) = down (term_of s)" "vga_ok (newlineS s)" "tx (newlineS s) = 0"
proof -
  have u: "unat (ty s) < 25" using assms by (simp add: word_less_nat_alt)
  have "25 \<le> ty s + 1 \<longleftrightarrow> \<not> unat (ty s) < 24"
    using ty_Suc[OF assms] u by (auto simp: word_le_nat_alt)
  moreover have "unat (ty s) < 24 \<Longrightarrow> ty s + 1 < 25" using ty_Suc[OF assms] by (simp add: word_less_nat_alt)
  ultimately show "term_of (newlineS s) = down (term_of s)" "vga_ok (newlineS s)" "tx (newlineS s) = 0"
    using ty_Suc[OF assms]
    by (auto simp: newlineS_def scrollS_def term_of_def down_def vga_ok_def rows_scroll simp del: upt_rec_numeral)
qed

lemma cell_off_eq:
  assumes "x < 80" and "y < 25"
  shows "cell_off x y = unat y * 80 + unat x" "cell_off x y < 2000"
proof -
  have lt: "unat x < 80" "unat y < 25" using assms by (simp_all add: word_less_nat_alt)
  define k where "k = unat y * 80 + unat x"
  have e: "uint y * 80 + uint x = int k" by (simp add: k_def)
  have "k < 2000" using lt by (simp add: k_def)
  then have "int k < 2 ^ 16" by simp
  then have "int k mod 2 ^ 16 = int k" by (intro mod_pos_pos_trivial) simp_all
  then have "nat ((uint y * 80 + uint x) mod 2 ^ 16) = k" by (simp only: e nat_int)
  then show "cell_off x y = unat y * 80 + unat x" by (simp only: cell_off_def k_def)
  then show "cell_off x y < 2000" using lt by simp
qed

lemma drawS_term:
  assumes "tx s < 80" and "ty s < 25"
  shows "term_of (drawS c s) = draw c (term_of s)" "vga_ok (drawS c s)"
proof -
  define x y where "x = unat (tx s)" and "y = unat (ty s)"
  have xy: "x < 80" "y < 25" using assms by (simp_all add: x_def y_def word_less_nat_alt)
  have off: "cell_off (tx s) (ty s) = y * 80 + x" using cell_off_eq(1)[OF assms] by (simp add: x_def y_def)
  have tx1: "unat (tx s + 1) = x + 1"
    using unat_add_1[OF assms(1)] by (simp add: x_def)
  have m: "mem (drawS c s) = put_mem (y * 80 + x) c (mem s)" by (simp add: drawS_def off)
  have xy': "tx (drawS c s) = tx s + 1" "ty (drawS c s) = ty s" by (simp_all add: drawS_def)
  have "map (row (mem (drawS c s))) [0..<25] =
    (map (row (mem s)) [0..<25])[y := (map (row (mem s)) [0..<25] ! y)[2 * x := c, 2 * x + 1 := 0x07]]"
    unfolding m by (rule rows_put[OF xy])
  then show "term_of (drawS c s) = draw c (term_of s)"
    by (simp only: term_of_def draw_def xy' tx1 x_def y_def terminal.select_convs terminal.update_convs)
  show "vga_ok (drawS c s)" using tx1 xy assms(2) by (simp add: vga_ok_def drawS_def word_le_nat_alt)
qed

lemma putS_term:
  assumes "vga_ok s"
  shows "term_of (putS c s) = emit c (term_of s)" and "vga_ok (putS c s)"
proof -
  have ok: "tx s \<le> 80" "ty s < 25" using assms by (simp_all add: vga_ok_def)
  define s1 where "s1 = (if 80 \<le> tx s then newlineS s else s)"
  have full: "80 \<le> tx s \<longleftrightarrow> cx (term_of s) = 80"
    using ok(1) by (auto simp: term_of_def word_le_nat_alt)
  have s1: "term_of s1 = (if cx (term_of s) = 80 then down (term_of s) else term_of s)" "tx s1 < 80" "ty s1 < 25"
    using newlineS_term[OF ok(2)] ok full unfolding s1_def by (auto simp: vga_ok_def)
  have "vga_ok (cursor x y (newlineS s1))" for x y
    using newlineS_term(2)[OF s1(3)] by (simp add: vga_ok_def)
  then show "term_of (putS c s) = emit c (term_of s)" "vga_ok (putS c s)"
    using newlineS_term[OF s1(3)] drawS_term[OF s1(2,3), of c] s1(1) assms
    by (simp_all add: putS_def emit_def Let_def flip: s1_def)
qed

lemma putS_off_screen:
  assumes "vga_ok s" and "off_screen k"
  shows "mem (putS c s) Phys k = mem s Phys k"
proof -
  have scroll: "mem (newlineS s) Phys k = mem s Phys k" for s
    using assms(2) by (auto simp: newlineS_def scrollS_def scroll_mem_Phys off_screen_def)
  have draw: "mem (drawS c s) Phys k = mem s Phys k" if "tx s < 80" "ty s < 25" for s
    using cell_off_eq(2)[OF that] assms(2)
    by (auto simp: drawS_def put_mem_def off_screen_def)
  have ok: "ty s < 25" "80 \<le> tx s \<or> tx s < 80" using assms(1) by (auto simp: vga_ok_def)
  show ?thesis
    using scroll draw newlineS_term[OF ok(1)] ok assms(1)
    by (auto simp: putS_def Let_def vga_ok_def)
qed

lemma fold_putS_term:
  assumes "vga_ok s"
  shows "term_of (fold putS t s) = fold emit t (term_of s)" and "vga_ok (fold putS t s)"
    and "off_screen k \<Longrightarrow> mem (fold putS t s) Phys k = mem s Phys k"
  using assms by (induction t arbitrary: s) (simp_all add: putS_term putS_off_screen)

lemma fold_putS_frame: "ob \<noteq> Phys \<Longrightarrow> mem (fold putS t s) ob = mem s ob"
  by (induction t arbitrary: s) (simp_all add: putS_frame)

lemma term_of_upd_scratch [simp]: "term_of (upd_scratch g s) = term_of s" "vga_ok (upd_scratch g s) = vga_ok s"
  by (simp_all add: term_of_def vga_ok_def upd_scratch_def row_def del: upt_rec_numeral)

text \<open>\<open>printf\<close> on this console.\<close>

lemma printf_vga:
  assumes "in_object (mem s) fmt (concat (map item_fmt its))" and "list_all (item_ok (mem s)) its"
    and "length (concat (map item_out its)) < 2 ^ 31"
  shows "\<exists>g. printf I386 fp putc fmt (concat (map item_args its)) s =
    Inr (int (length (concat (map item_out its))), upd_scratch g (fold putS (concat (map item_out its)) s))"
  using vga.vprintf_items[OF assms(1,2) foldR_putc assms(3)] by (simp add: printf_def)

lemma puts_vga:
  assumes "cstr (mem s) (Ptr ob i) t" and "ob \<noteq> Phys"
  shows "puts (Ptr ob i) s = Inr (fold putS t s)"
  unfolding puts_def by (rule vga.puts_fold[OF assms foldR_putc])

section \<open>Positions and line clearing\<close>

lemma setpos_term:
  assumes "vga_ok s"
  shows "\<exists>s'. setpos x y s = Inr s' \<and> vga_ok s' \<and>
    (if 80 < x then s' = s
     else if y < 25 then term_of s' = (term_of s)\<lparr>cx := unat x, cy := unat y\<rparr>
     else term_of s' = (down (term_of s\<lparr>cy := 24\<rparr>))\<lparr>cx := unat x\<rparr>)"
proof -
  have "WIDTH < uint x \<longleftrightarrow> 80 < x" "HEIGHT \<le> uint y \<longleftrightarrow> \<not> y < 25"
    by (auto simp: WIDTH_def HEIGHT_def word_less_def)
  then show ?thesis
    using assms rows_scroll[of "mem s"]
    by (auto simp: setpos_def vga_scroll_eq scrollS_def term_of_def vga_ok_def down_def HEIGHT_def
        simp del: upt_rec_numeral)
qed

text \<open>\<open>clrline\<close> clears \<open>WIDTH\<close> bytes, the left half of the row.\<close>

lemma clrline_mem:
  "clrline s = Inr (s\<lparr>mem := wr (mem s) (vga_at (uint (ty s) * WIDTH)) (replicate 80 0)\<rparr>)"
proof -
  have "memset (mem s) (vga_at (uint (ty s) * WIDTH)) 0 (int 80) =
    Inr (vga_at (uint (ty s) * WIDTH), wr (mem s) (vga_at (uint (ty s) * WIDTH)) (replicate 80 (word_of_int 0)))"
    using unsigned_less[of "ty s", where 'a = int]
    by (intro memset_wr) (simp add: vga_at_def VGA_MEM_def WIDTH_def)
  then show ?thesis by (simp add: clrline_def WIDTH_def)
qed

lemma clrline_row:
  assumes "ty s < 25"
  shows "\<exists>s'. clrline s = Inr s' \<and> tx s' = tx s \<and> ty s' = ty s \<and>
    row (mem s') (unat (ty s)) = replicate 80 0 @ drop 80 (row (mem s) (unat (ty s))) \<and>
    (\<forall>y. y \<noteq> unat (ty s) \<longrightarrow> row (mem s') y = row (mem s) y) \<and>
    (\<forall>k. off_screen k \<longrightarrow> mem s' Phys k = mem s Phys k) \<and> (\<forall>ob. ob \<noteq> Phys \<longrightarrow> mem s' ob = mem s ob)"
proof -
  define y m where "y = unat (ty s)" and "m = wr (mem s) (vga_at (uint (ty s) * WIDTH)) (replicate 80 0)"
  have y: "y < 25" using assms by (simp add: y_def word_less_nat_alt)
  have at: "vga_at (uint (ty s) * WIDTH) = Ptr Phys (int (0xB8000 + 160 * y))"
    by (simp add: vga_at_def VGA_MEM_def WIDTH_def y_def)
  have m: "m Phys k = (if 0xB8000 + 160 * y \<le> k \<and> k < 0xB8000 + 160 * y + 80 then 0 else mem s Phys k)" for k
    unfolding m_def at wr_nth by (auto simp del: of_nat_add of_nat_mult of_nat_numeral)
  have "row m y = replicate 80 0 @ drop 80 (row (mem s) y)"
    by (rule nth_equalityI) (auto simp: m nth_append)
  moreover have "row m y' = row (mem s) y'" if "y' \<noteq> y" for y'
    using that by (intro nth_equalityI) (auto simp: m)
  moreover have "m Phys k = mem s Phys k" if "off_screen k" for k using that y by (auto simp: m off_screen_def)
  moreover have "m ob = mem s ob" if "ob \<noteq> Phys" for ob using that by (simp add: m_def at)
  ultimately show ?thesis unfolding clrline_mem by (auto simp: y_def m_def)
qed

section \<open>The state at start\<close>

text \<open>Static objects start as zero; memory and devices of the machine are taken as zero too.\<close>

definition i386_start :: i386_state where
  "i386_start = \<lparr>mem = (\<lambda>_ _. 0), olds = Null, shellptr = 0, histptr = 0, outs = [], port_in = (\<lambda>_. 0),
     tx = 0, ty = 0, kcall = None, kstate = 0, extended = 0,
     idt = replicate 256 \<lparr>offset_l = 0, segment = 0, reserved = 0, flags = 0, offset_h = 0\<rparr>,
     idt_base = 0, idt_limit = 0, idtr = None, iflag = False\<rparr>"

lemma i386_start_ok [simp]: "vga_ok i386_start" "mem i386_start = (\<lambda>_ _. 0)"
  by (simp_all add: vga_ok_def i386_start_def)

end
