(* ===== verification/StrScan.thy ===== *)
theory StrScan
  imports StrFuns
begin

text \<open>
  The searching string functions of libk (\<open>strchr.c\<close>, \<open>strcmp.c\<close>, \<open>strpbrk.c\<close>,
  \<open>strspn.c\<close>, \<open>strtok.c\<close> under \<open>libk/string\<close>). \<open>strtok\<close> keeps its static
  \<open>olds\<close> as an argument and a result.
\<close>

section \<open>Definitions\<close>

subsection \<open>\<open>strchr\<close>, \<open>strrchr\<close>, \<open>strcmp\<close>, \<open>strpbrk\<close>, \<open>strspn\<close>\<close>

function strchr :: "memory \<Rightarrow> ptr \<Rightarrow> int \<Rightarrow> ptr res" where
  "strchr m s c =
     bindR (load m s) (\<lambda>b. if b \<noteq> word_of_int c
       then (if b = 0 then Inr Null else strchr m (ptr_add s 1) c) else Inr s)"
  by pat_completeness auto
termination by (relation "measure (\<lambda>(m, s, c). ptr_room s)") auto

text \<open>Here the byte is promoted with the sign of \<open>char\<close> before it is compared.\<close>

function strrchr_loop :: "arch \<Rightarrow> memory \<Rightarrow> ptr \<Rightarrow> int \<Rightarrow> ptr \<Rightarrow> ptr res" where
  "strrchr_loop A m s c ret =
     bindR (load m s) (\<lambda>b.
       let ret' = (if char_val A b = c then s else ret) in
       if b \<noteq> 0 then strrchr_loop A m (ptr_add s 1) c ret' else Inr ret')"
  by pat_completeness auto
termination by (relation "measure (\<lambda>(A, m, s, c, ret). ptr_room s)") auto

definition strrchr :: "arch \<Rightarrow> memory \<Rightarrow> ptr \<Rightarrow> int \<Rightarrow> ptr res" where
  "strrchr A m s c = strrchr_loop A m s c Null"

function strcmp :: "memory \<Rightarrow> ptr \<Rightarrow> ptr \<Rightarrow> int res" where
  "strcmp m s1 s2 =
     bindR (load m s1) (\<lambda>a. bindR (load m s2) (\<lambda>b.
       if a = b then (if a = 0 then Inr 0 else strcmp m (ptr_add s1 1) (ptr_add s2 1))
       else Inr (uint a - uint b)))"
  by pat_completeness auto
termination by (relation "measure (\<lambda>(m, s1, s2). ptr_room s1)") auto

function strpbrk_scan :: "memory \<Rightarrow> ptr \<Rightarrow> ptr \<Rightarrow> bool res" where
  "strpbrk_scan m a s =
     bindR (load m a) (\<lambda>x. if x \<noteq> 0 then bindR (load m s) (\<lambda>y.
       if x = y then Inr True else strpbrk_scan m (ptr_add a 1) s) else Inr False)"
  by pat_completeness auto
termination by (relation "measure (\<lambda>(m, a, s). ptr_room a)") auto

function strpbrk :: "memory \<Rightarrow> ptr \<Rightarrow> ptr \<Rightarrow> ptr res" where
  "strpbrk m s accept =
     bindR (load m s) (\<lambda>c. if c \<noteq> 0 then bindR (strpbrk_scan m accept s) (\<lambda>hit.
       if hit then Inr s else strpbrk m (ptr_add s 1) accept) else Inr Null)"
  by pat_completeness auto
termination by (relation "measure (\<lambda>(m, s, accept). ptr_room s)") auto

function strspn_scan :: "memory \<Rightarrow> ptr \<Rightarrow> ptr \<Rightarrow> ptr res" where
  "strspn_scan m p a =
     bindR (load m a) (\<lambda>x. if x \<noteq> 0 then bindR (load m p) (\<lambda>y.
       if y = x then Inr a else strspn_scan m p (ptr_add a 1)) else Inr a)"
  by pat_completeness auto
termination by (relation "measure (\<lambda>(m, p, a). ptr_room a)") auto

function strspn_loop :: "memory \<Rightarrow> ptr \<Rightarrow> ptr \<Rightarrow> int \<Rightarrow> int res" where
  "strspn_loop m p accept count =
     bindR (load m p) (\<lambda>c. if c \<noteq> 0 then
       bindR (strspn_scan m p accept) (\<lambda>a. bindR (load m a) (\<lambda>x.
         if x = 0 then Inr count else strspn_loop m (ptr_add p 1) accept (count + 1)))
       else Inr count)"
  by pat_completeness auto
termination by (relation "measure (\<lambda>(m, p, accept, count). ptr_room p)") auto

definition strspn :: "memory \<Rightarrow> ptr \<Rightarrow> ptr \<Rightarrow> int res" where
  "strspn m s accept = strspn_loop m s accept 0"

subsection \<open>\<open>strtok\<close>\<close>

text \<open>The result is the token, the new value of the static \<open>olds\<close> and the memory.\<close>

definition strtok :: "memory \<Rightarrow> ptr \<Rightarrow> ptr \<Rightarrow> ptr \<Rightarrow> (ptr \<times> ptr \<times> memory) res" where
  "strtok m olds s0 delim =
     (let s = (if s0 = Null then olds else s0) in
      bindR (strspn m s delim) (\<lambda>k. let s = ptr_add s k in
      bindR (load m s) (\<lambda>c.
        if c = 0 then Inr (Null, s, m)
        else let token = s in
          bindR (strpbrk m token delim) (\<lambda>e.
            if e = Null then bindR (strchr m token 0) (\<lambda>e'. Inr (token, e', m))
            else bindR (store m e 0) (\<lambda>m'. Inr (token, ptr_add e 1, m'))))))"

declare strchr.simps [simp del] strrchr_loop.simps [simp del] strcmp.simps [simp del]
  strpbrk_scan.simps [simp del] strpbrk.simps [simp del] strspn_scan.simps [simp del]
  strspn_loop.simps [simp del]

section \<open>Contracts\<close>

lemma strchr_cstr:
  assumes "cstr m p s"
  shows "strchr m p c =
    (let b = word_of_int c; k = length (takeWhile (\<lambda>x. x \<noteq> b) s)
     in Inr (if k < length s \<or> b = 0 then ptr_add p (int k) else Null))"
  using assms
proof (induction s arbitrary: p)
  case Nil
  then show ?case by (simp add: strchr.simps)
next
  case (Cons a s)
  then show ?case by (simp add: strchr.simps[of m p] Let_def add.commute)
qed

lemma strrchr_loop_cstr:
  assumes "cstr m p s"
  shows "strrchr_loop A m p c ret =
    (let ks = filter (\<lambda>k. char_val A ((s @ [0]) ! k) = c) [0..<Suc (length s)]
     in Inr (if ks = [] then ret else ptr_add p (int (last ks))))"
  using assms
proof (induction s arbitrary: p ret)
  case Nil
  then show ?case by (auto simp: strrchr_loop.simps)
next
  case (Cons a s)
  let ?P = "\<lambda>s k. char_val A ((s @ [0]) ! k) = c"
  have "[0..<Suc (length (a # s))] = 0 # map Suc [0..<Suc (length s)]"
    by (simp add: upt_conv_Cons map_Suc_upt del: upt_Suc)
  then have ks: "filter (?P (a # s)) [0..<Suc (length (a # s))] =
      (if char_val A a = c then [0] else []) @ map Suc (filter (?P s) [0..<Suc (length s)])"
    by (simp add: filter_map comp_def del: upt_Suc)
  show ?case
    unfolding ks using Cons.prems Cons.IH[of "ptr_add p 1"]
    by (auto simp: strrchr_loop.simps[of A m p] Let_def last_map simp del: upt_Suc)
qed

lemma strcmp_cstr:
  assumes "cstr m p s" and "cstr m q t"
  shows "\<exists>r. strcmp m p q = Inr r \<and> (r = 0 \<longleftrightarrow> s = t) \<and>
    (r < 0 \<longleftrightarrow> (s, t) \<in> lexord {(x, y). x < y})"
  using assms
proof (induction s arbitrary: p q t)
  case Nil
  then show ?case
    by (cases t) (auto simp: strcmp.simps word_less_def word_uint_eq_iff uint_ge_0 order_less_le)
next
  case (Cons a s)
  show ?case
  proof (cases t)
    case Nil
    with Cons.prems show ?thesis
      by (auto simp: strcmp.simps uint_0_iff)
  next
    case (Cons b t')
    with Cons.prems Cons.IH[of "ptr_add p 1" "ptr_add q 1" t'] show ?thesis
      by (auto simp: strcmp.simps[of m p] word_less_def word_uint_eq_iff)
  qed
qed

lemma strpbrk_scan_cstr:
  assumes "cstr m a acc" and "load m s = Inr y"
  shows "strpbrk_scan m a s = Inr (y \<in> set acc)"
  using assms(1)
proof (induction acc arbitrary: a)
  case Nil
  then show ?case by (simp add: strpbrk_scan.simps)
next
  case (Cons x acc)
  then show ?case using assms(2) by (auto simp: strpbrk_scan.simps[of m a])
qed

lemma strpbrk_cstr:
  assumes "cstr m p s" and "cstr m a acc"
  shows "strpbrk m p a =
    (let k = length (takeWhile (\<lambda>c. c \<notin> set acc) s)
     in Inr (if k < length s then ptr_add p (int k) else Null))"
  using assms(1)
proof (induction s arbitrary: p)
  case Nil
  then show ?case by (simp add: strpbrk.simps)
next
  case (Cons c s)
  then show ?case using strpbrk_scan_cstr[OF assms(2), of p c]
    by (simp add: strpbrk.simps[of m p] Let_def add.commute)
qed

lemma strspn_scan_cstr:
  assumes "cstr m a acc" and "load m p = Inr y"
  shows "\<exists>a'. strspn_scan m p a = Inr a' \<and> (\<exists>x. load m a' = Inr x \<and> (x \<noteq> 0 \<longleftrightarrow> y \<in> set acc))"
  using assms(1)
proof (induction acc arbitrary: a)
  case Nil
  then show ?case by (auto simp: strspn_scan.simps)
next
  case (Cons x acc)
  then show ?case using assms(2) by (auto simp: strspn_scan.simps[of m p a])
qed

lemma strspn_loop_cstr:
  assumes "cstr m p s" and "cstr m a acc"
  shows "strspn_loop m p a k = Inr (k + int (length (takeWhile (\<lambda>c. c \<in> set acc) s)))"
  using assms(1)
proof (induction s arbitrary: p k)
  case Nil
  then show ?case by (simp add: strspn_loop.simps)
next
  case (Cons c s)
  from Cons.prems strspn_scan_cstr[OF assms(2), of p c] obtain a' x where
    "strspn_scan m p a = Inr a'" "load m a' = Inr x" "x \<noteq> 0 \<longleftrightarrow> c \<in> set acc" by auto
  with Cons show ?case by (simp add: strspn_loop.simps[of m p])
qed

lemma strspn_cstr:
  "cstr m p s \<Longrightarrow> cstr m a acc \<Longrightarrow>
   strspn m p a = Inr (int (length (takeWhile (\<lambda>c. c \<in> set acc) s)))"
  using strspn_loop_cstr[of m p s a acc 0] by (simp add: strspn_def)

section \<open>Tokens\<close>

text \<open>
  What \<open>strtok\<close> promises: leading delimiters are skipped, the token is the longest run
  without one, and the scan resumes behind the delimiter that ended it.
\<close>

definition next_token :: "u8 set \<Rightarrow> u8 list \<Rightarrow> (u8 list \<times> u8 list) option" where
  "next_token D t =
     (let t' = dropWhile (\<lambda>c. c \<in> D) t; tok = takeWhile (\<lambda>c. c \<notin> D) t'
      in if t' = [] then None else Some (tok, drop (Suc (length tok)) t'))"

lemma strtok_step_at:
  assumes p: "p = (if s0 = Null then olds else s0)" and t: "cstr m p t" and d: "cstr m dl acc"
    and w: "writable p (length t)"
    and t': "t' = dropWhile (\<lambda>c. c \<in> set acc) t" and tok: "tok = takeWhile (\<lambda>c. c \<notin> set acc) t'"
    and k0: "k0 = length (takeWhile (\<lambda>c. c \<in> set acc) t)" and q: "q = ptr_add p (int k0)"
  shows "t' = [] \<Longrightarrow> strtok m olds s0 dl = Inr (Null, ptr_add p (int (length t)), m)"
    and "t' \<noteq> [] \<Longrightarrow> tok = t' \<Longrightarrow> strtok m olds s0 dl = Inr (q, ptr_add p (int (length t)), m)"
    and "t' \<noteq> [] \<Longrightarrow> tok \<noteq> t' \<Longrightarrow> strtok m olds s0 dl =
      Inr (q, ptr_add q (int (length tok) + 1), wr m (ptr_add q (int (length tok))) [0])"
proof -
  have split: "t = takeWhile (\<lambda>c. c \<in> set acc) t @ t'" by (simp add: t')
  have len: "length t = k0 + length t'" by (subst split) (simp add: k0)
  have q': "cstr m q t'" using cstr_append[of m p "takeWhile (\<lambda>c. c \<in> set acc) t" t'] t split
    by (simp add: q k0)
  have spn: "strspn m p dl = Inr (int k0)" using strspn_cstr[OF t d] by (simp add: k0)
  have start: "strtok m olds s0 dl = bindR (load m q) (\<lambda>c. if c = 0 then Inr (Null, q, m)
      else bindR (strpbrk m q dl) (\<lambda>e. if e = Null then bindR (strchr m q 0) (\<lambda>e'. Inr (q, e', m))
        else bindR (store m e 0) (\<lambda>m'. Inr (q, ptr_add e 1, m'))))"
    using spn unfolding strtok_def p[symmetric] Let_def q by simp
  have hd: "load m q = Inr (if t' = [] then 0 else hd t')" using q' by (cases t') auto
  have nz: "t' \<noteq> [] \<Longrightarrow> hd t' \<noteq> 0" using cstr_no_zero[OF q'] by (cases t') auto
  have pb: "strpbrk m q dl = Inr (if length tok < length t' then ptr_add q (int (length tok)) else Null)"
    using strpbrk_cstr[OF q' d] by (simp add: tok Let_def)
  have all: "tok = t' \<longleftrightarrow> \<not> length tok < length t'"
    using tok by (metis takeWhile_eq_take take_all linorder_not_less less_irrefl)
  have tw: "takeWhile (\<lambda>x. x \<noteq> 0) t' = t'" using cstr_no_zero[OF q'] by (auto simp: takeWhile_eq_all_conv)
  have ch: "strchr m q 0 = Inr (ptr_add q (int (length t')))"
    using strchr_cstr[OF q', of 0] by (simp add: tw)
  show "t' = [] \<Longrightarrow> strtok m olds s0 dl = Inr (Null, ptr_add p (int (length t)), m)"
    using start hd len q by simp
  show "t' \<noteq> [] \<Longrightarrow> tok = t' \<Longrightarrow> strtok m olds s0 dl = Inr (q, ptr_add p (int (length t)), m)"
    using start hd nz pb ch all len by (simp add: q)
  assume ne: "t' \<noteq> []" "tok \<noteq> t'"
  then have "writable (ptr_add q (int (length tok))) 1"
    using all len writable_add[of p "k0 + length tok" 1] writable_mono[OF w, of "k0 + length tok + 1"]
    by (simp add: q)
  from store_wr[OF this, of m 0] show "strtok m olds s0 dl =
      Inr (q, ptr_add q (int (length tok) + 1), wr m (ptr_add q (int (length tok))) [0])"
    using start hd nz pb all ne cstr_not_Null[OF q'] by simp
qed

text \<open>
  The refinement: \<open>strtok\<close> returns null exactly when no token is left; otherwise it
  returns a pointer to the token, leaves \<open>olds\<close> pointing to what remains, and changes
  memory only inside the string, at or behind the token.
\<close>

definition below_same :: "ptr \<Rightarrow> memory \<Rightarrow> memory \<Rightarrow> bool" where
  "below_same p m m' \<longleftrightarrow> (\<forall>ob i. p = Ptr ob i \<longrightarrow>
     (\<forall>ob'. ob' \<noteq> ob \<longrightarrow> m' ob' = m ob') \<and> (\<forall>k. int k < i \<longrightarrow> m' ob k = m ob k))"

lemma below_same_refl [simp]: "below_same p m m"
  by (simp add: below_same_def)

lemma below_same_wr: "0 \<le> k \<Longrightarrow> writable (ptr_add p k) 1 \<Longrightarrow> below_same p m (wr m (ptr_add p k) [v])"
  by (cases p) (auto simp: below_same_def wr.simps)

lemma below_same_other: "below_same (Ptr ob i) m m' \<Longrightarrow> ob' \<noteq> ob \<Longrightarrow> m' ob' = m ob'"
  by (simp add: below_same_def)

lemma below_same_trans:
  "below_same p m m' \<Longrightarrow> below_same (ptr_add p k) m' m'' \<Longrightarrow> 0 \<le> k \<Longrightarrow> below_same p m m''"
  by (cases p) (auto simp: below_same_def)

lemma apart_next: "apart p 1 (ptr_add p 1) k"
  by (cases p) auto

lemma takeWhile_shorter_nth:
  assumes "length (takeWhile P xs) < length xs"
  shows "xs = takeWhile P xs @ xs ! length (takeWhile P xs) # drop (Suc (length (takeWhile P xs))) xs"
  by (metis assms append_take_drop_id Cons_nth_drop_Suc takeWhile_eq_take)

lemma strtok_next_token:
  assumes p: "p = (if s0 = Null then olds else s0)" and t: "cstr m p t" and d: "cstr m dl acc"
    and w: "writable p (length t)"
  shows "case next_token (set acc) t of
      None \<Rightarrow> \<exists>e. strtok m olds s0 dl = Inr (Null, e, m) \<and> cstr m e []
    | Some (tok, rest) \<Rightarrow> \<exists>k j m'. strtok m olds s0 dl = Inr (ptr_add p k, ptr_add p j, m') \<and>
        0 \<le> k \<and> k + int (length tok) \<le> j \<and> (rest \<noteq> [] \<longrightarrow> k + int (length tok) < j) \<and>
        j + int (length rest) \<le> int (length t) \<and>
        cstr m' (ptr_add p k) tok \<and> cstr m' (ptr_add p j) rest \<and>
        below_same (ptr_add p (k + int (length tok))) m m'"
proof -
  define t' where "t' = dropWhile (\<lambda>c. c \<in> set acc) t"
  define tok where "tok = takeWhile (\<lambda>c. c \<notin> set acc) t'"
  define k0 where "k0 = length (takeWhile (\<lambda>c. c \<in> set acc) t)"
  define q where "q = ptr_add p (int k0)"
  note at = strtok_step_at[OF p t d w t'_def tok_def k0_def q_def]
  have len: "length t = k0 + length t'"
    unfolding k0_def t'_def by (metis length_append takeWhile_dropWhile_id)
  have q': "cstr m q t'" using cstr_append[of m p "takeWhile (\<lambda>c. c \<in> set acc) t" t'] t
    by (simp add: q_def k0_def t'_def)
  have nt: "next_token (set acc) t = (if t' = [] then None else Some (tok, drop (Suc (length tok)) t'))"
    by (simp add: next_token_def t'_def tok_def Let_def)
  consider "t' = []" | "t' \<noteq> []" "tok = t'" | "t' \<noteq> []" "tok \<noteq> t'" by blast
  then show ?thesis
  proof cases
    case 1
    with at(1) nt q' len show ?thesis by (simp add: q_def)
  next
    case 2
    then have "cstr m (ptr_add p (int (length t))) []"
      using cstr_append[of m p t "[]"] t by simp
    then show ?thesis using 2 at(2) q' len unfolding nt
      by simp (rule exI[of _ "int k0"], simp add: q_def, rule exI[of _ "int (length t)"], simp)
  next
    case 3
    have lt: "length tok < length t'"
      using 3(2) by (metis takeWhile_eq_take tok_def take_all linorder_not_less)
    let ?e = "ptr_add q (int (length tok))" and ?rest = "drop (Suc (length tok)) t'"
    have eq: "t' = tok @ t' ! length tok # ?rest"
      using takeWhile_shorter_nth[of "\<lambda>c. c \<notin> set acc" t'] lt by (simp add: tok_def)
    have we: "writable ?e 1"
      using writable_add[of p "k0 + length tok" 1] writable_mono[OF w, of "k0 + length tok + 1"] lt len
      by (simp add: q_def)
    have "cstr m ?e (t' ! length tok # ?rest)" 
      using cstr_append[of m q tok "t' ! length tok # ?rest"] q' by (simp only: eq[symmetric])
    then have r: "cstr (wr m ?e [0]) (ptr_add ?e 1) ?rest"
      using we apart_next[of ?e] by (intro cstr_wr_apart) auto
    have "rd m q (length tok) = tok" "0 \<notin> set tok" "in_obj q (Suc (length t'))"
    proof -
      have io: "in_obj q (Suc (length t'))" and "rd m q (Suc (length t')) = t' @ [0]" "0 \<notin> set t'"
        using q' cstr_iff_rd[of m q t'] by auto
      moreover from io have "rd m q (length tok + (Suc (length t') - length tok)) =
          rd m q (length tok) @ rd m ?e (Suc (length t') - length tok)"
        using lt by (intro rd_split) simp
      ultimately have "rd m q (length tok) = take (length tok) (t' @ [0])"
        using lt in_obj_mono[OF io, of "length tok"] by simp
      also have "\<dots> = tok" using eq by (metis append_eq_conv_conj append.assoc)
      finally show "rd m q (length tok) = tok" .
      show "0 \<notin> set tok" using \<open>0 \<notin> set t'\<close> by (auto simp: tok_def dest: set_takeWhileD)
      show "in_obj q (Suc (length t'))" by (rule io)
    qed
    moreover have wq: "writable q (Suc (length tok))"
      using writable_add[of p k0 "Suc (length tok)"] writable_mono[OF w, of "k0 + Suc (length tok)"] lt len
      by (simp add: q_def)
    ultimately have "cstr (wr m ?e [0]) q tok"
      using cstr_wr[OF wq, of m] wr_wr_append[of q tok m "[0]"] wr_rd[of q "length tok" m]
        writable_mono[OF wq, of "length tok"] by simp
    moreover have "below_same (ptr_add p (int k0 + int (length tok))) m (wr m ?e [0])"
      using below_same_wr[of 0 ?e m 0] we by (simp add: q_def)
    ultimately show ?thesis using 3 at(3) r lt len unfolding nt
      by simp (rule exI[of _ "int k0"], simp add: q_def,
        rule exI[of _ "int k0 + (int (length tok) + 1)"], simp)
  qed
qed

end
