(* ===== verification/Strtoul.thy ===== *)
theory Strtoul
  imports StrFuns
begin

text \<open>
  \<open>strtoul\<close> of libk (\<open>libk/string/strtoul.c\<close>) with the character class macros of
  \<open>libk/include/string.h\<close>.
\<close>

section \<open>Definitions\<close>

subsection \<open>\<open>strtoul\<close>\<close>

definition ISUPPER :: "int \<Rightarrow> bool" where "ISUPPER c \<longleftrightarrow> 64 < c \<and> c < 91"
definition ISLOWER :: "int \<Rightarrow> bool" where "ISLOWER c \<longleftrightarrow> 96 < c \<and> c < 123"
definition ISALPHA :: "int \<Rightarrow> bool" where
  "ISALPHA c \<longleftrightarrow> (64 < c \<and> c < 91) \<or> (96 < c \<and> c < 123)"
definition ISDIGIT :: "int \<Rightarrow> bool" where "ISDIGIT c \<longleftrightarrow> 47 < c \<and> c < 58"
definition ISSPACE :: "int \<Rightarrow> bool" where "ISSPACE c \<longleftrightarrow> (8 < c \<and> c < 14) \<or> c = 32"

definition ULONG_MAX :: "arch \<Rightarrow> nat" where
  "ULONG_MAX A = 2 ^ long_bits A - 1"

text \<open>\<open>do c = *s++; while (ISSPACE(c));\<close>: the character and the advanced pointer.\<close>

function skip_space :: "arch \<Rightarrow> memory \<Rightarrow> ptr \<Rightarrow> (int \<times> ptr) res" where
  "skip_space A m s =
     bindR (load m s) (\<lambda>b. let c = char_val A b in
       if ISSPACE c then skip_space A m (ptr_add s 1) else Inr (c, ptr_add s 1))"
  by pat_completeness auto
termination by (relation "measure (\<lambda>(A, m, s). ptr_room s)") auto

text \<open>The value of a digit of the conversion loop; \<open>None\<close> is its \<open>break\<close>.\<close>

definition digit_val :: "int \<Rightarrow> int option" where
  "digit_val c =
     (if ISDIGIT c then Some (c - 48)
      else if ISALPHA c then Some (c - (if ISUPPER c then 65 - 10 else 97 - 10))
      else None)"

text \<open>
  The conversion loop: \<open>any\<close> is 0 before the first digit, 1 after one, -1 after an
  overflow; \<open>acc\<close> is an \<open>unsigned long\<close>. It returns \<open>any\<close>, \<open>acc\<close> and
  \<open>s\<close>.
\<close>

function strtoul_loop :: "arch \<Rightarrow> memory \<Rightarrow> int \<Rightarrow> nat \<Rightarrow> int \<Rightarrow> int \<Rightarrow> ptr \<Rightarrow> nat \<Rightarrow> int
    \<Rightarrow> (int \<times> nat \<times> ptr) res" where
  "strtoul_loop A m base cutoff cutlim c s acc any =
     (case digit_val c of
        None \<Rightarrow> Inr (any, acc, s)
      | Some d \<Rightarrow>
          if d \<ge> base then Inr (any, acc, s)
          else let ovf = (any < 0 \<or> acc > cutoff \<or> (acc = cutoff \<and> d > cutlim));
                   any' = (if ovf then - 1 else 1);
                   acc' = (if ovf then acc
                           else nat ((int acc * (base mod 2 ^ long_bits A) + d) mod 2 ^ long_bits A))
               in bindR (load m s) (\<lambda>b.
                    strtoul_loop A m base cutoff cutlim (char_val A b) (ptr_add s 1) acc' any'))"
  by pat_completeness auto
termination by (relation "measure (\<lambda>(A, m, base, cutoff, cutlim, c, s, acc, any). ptr_room s)") auto

definition int_of_ulong :: "nat \<Rightarrow> int" where
  "int_of_ulong n = sint (of_nat n :: u32)"

text \<open>The value and what is stored through \<open>endptr\<close>.\<close>

definition strtoul :: "arch \<Rightarrow> memory \<Rightarrow> ptr \<Rightarrow> int \<Rightarrow> (nat \<times> ptr) res" where
  "strtoul A m nptr base0 =
     bindR (skip_space A m nptr) (\<lambda>(c, s).
     bindR (if c = 45 then bindR (load m s) (\<lambda>b. Inr (True, char_val A b, ptr_add s 1))
            else if c = 43 then bindR (load m s) (\<lambda>b. Inr (False, char_val A b, ptr_add s 1))
            else Inr (False, c, s)) (\<lambda>(neg, c, s).
     bindR (if (base0 = 0 \<or> base0 = 16) \<and> c = 48
            then bindR (load m s) (\<lambda>b. if b = 120 \<or> b = 88
                   then bindR (load m (ptr_add s 1)) (\<lambda>b'. Inr (char_val A b', ptr_add s 2, 16))
                   else Inr (c, s, base0))
            else Inr (c, s, base0)) (\<lambda>(c, s, base1).
     let base = (if base1 = 0 then (if c = 48 then 8 else 10) else base1);
         ubase = nat (base mod 2 ^ long_bits A);
         cutoff = ULONG_MAX A div ubase;
         cutlim = int_of_ulong (ULONG_MAX A mod ubase)
     in bindR (strtoul_loop A m base cutoff cutlim c s 0 0) (\<lambda>(any, acc, s).
          Inr (if any < 0 then ULONG_MAX A
               else if neg then nat ((- int acc) mod 2 ^ long_bits A) else acc,
               if any \<noteq> 0 then ptr_add s (- 1) else nptr)))))"

declare skip_space.simps [simp del] strtoul_loop.simps [simp del]

section \<open>Character classes\<close>

text \<open>The sign of \<open>char\<close> does not matter: the classes contain ASCII characters only.\<close>

lemma char_val_cases: "char_val A b = uint b \<or> (char_val A b < 0 \<and> 128 \<le> uint b)"
proof (cases "b < 128")
  case True
  then show ?thesis by (simp add: char_val_ascii)
next
  case False
  then have ge: "128 \<le> uint b" by (simp add: word_less_def)
  moreover have lt: "uint b < 256" using uint_lt2p[of b] by simp
  ultimately have "sint b = uint b - 256"
  proof -
    have "signed_take_bit 7 (uint b) = signed_take_bit 7 (uint b - 256)"
      by (simp add: signed_take_bit_eq_iff_take_bit_eq take_bit_eq_mod)
    also have "\<dots> = uint b - 256" using ge lt by (simp add: signed_take_bit_int_eq_self_iff)
    finally show ?thesis by (simp add: sint_uint)
  qed
  with lt ge show ?thesis by (simp add: char_val_def)
qed

lemma ISSPACE_char_val [simp]: "ISSPACE (char_val A b) \<longleftrightarrow> ISSPACE (uint b)"
  using char_val_cases[of A b] by (auto simp: ISSPACE_def)

lemma digit_val_char_val [simp]: "digit_val (char_val A b) = digit_val (uint b)"
  using char_val_cases[of A b] by (auto simp: digit_val_def ISDIGIT_def ISALPHA_def ISUPPER_def)

lemma ISSPACE_0 [simp]: "\<not> ISSPACE 0"
  by (simp add: ISSPACE_def)

lemma cstr_load_hd: "cstr m p t \<Longrightarrow> load m p = Inr (hd (t @ [0]))"
  by (cases t) auto

lemma digit_val_nonneg: "digit_val c = Some d \<Longrightarrow> 0 \<le> d"
  by (auto simp: digit_val_def ISDIGIT_def ISALPHA_def ISUPPER_def split: if_splits)

lemma char_val_eq_numeral:
  assumes "0 \<le> n" and "n < 128"
  shows "char_val A b = n \<longleftrightarrow> uint b = n"
  using char_val_cases[of A b] assms by auto

section \<open>The number a digit string denotes\<close>

definition is_digit :: "int \<Rightarrow> u8 \<Rightarrow> bool" where
  "is_digit base b \<longleftrightarrow> (case digit_val (uint b) of None \<Rightarrow> False | Some d \<Rightarrow> d < base)"

definition digit_of :: "u8 \<Rightarrow> nat" where
  "digit_of b = (case digit_val (uint b) of None \<Rightarrow> 0 | Some d \<Rightarrow> nat d)"

definition number :: "nat \<Rightarrow> nat \<Rightarrow> u8 list \<Rightarrow> nat" where
  "number base acc ds = foldl (\<lambda>a b. a * base + digit_of b) acc ds"

lemma number_simps [simp]:
  "number base acc [] = acc"
  "number base acc (b # ds) = number base (acc * base + digit_of b) ds"
  by (simp_all add: number_def)

lemma number_mono: "0 < base \<Longrightarrow> acc \<le> number base acc ds"
proof (induction ds arbitrary: acc)
  case (Cons b ds)
  have "acc \<le> acc * base + digit_of b" using Cons.prems by (simp add: trans_le_add1)
  also have "\<dots> \<le> number base (acc * base + digit_of b) ds" using Cons by blast
  finally show ?case by simp
qed simp

text \<open>The overflow test of the loop is exact.\<close>

lemma cutoff_exact:
  fixes acc base d mx :: nat
  assumes "d < base"
  shows "(acc > mx div base \<or> (acc = mx div base \<and> d > mx mod base)) \<longleftrightarrow> acc * base + d > mx"
proof -
  consider "acc < mx div base" | "acc = mx div base" | "acc > mx div base" by linarith
  then show ?thesis
  proof cases
    case 1
    then have "Suc acc * base \<le> mx div base * base" by (intro mult_le_mono1) simp
    moreover have "mx div base * base \<le> mx" by (rule div_times_less_eq_dividend)
    ultimately have "acc * base + d < mx" using assms by (simp only: mult_Suc)
    with 1 show ?thesis by simp
  next
    case 2
    have "mx div base * base + d > mx \<longleftrightarrow> d > mx mod base"
      by (metis add_less_cancel_left div_mult_mod_eq)
    with 2 show ?thesis by simp
  next
    case 3
    then have "Suc (mx div base) * base \<le> acc * base" by (intro mult_le_mono1) simp
    moreover have "mx < base + mx div base * base"
      using assms by (intro dividend_less_div_times) simp
    ultimately show ?thesis using 3 by simp
  qed
qed

lemma ULONG_MAX_bits: "int (ULONG_MAX A) = 2 ^ long_bits A - 1"
  by (simp add: ULONG_MAX_def)

definition stops :: "int \<Rightarrow> u8 list \<Rightarrow> bool" where
  "stops base rest \<longleftrightarrow> (rest = [] \<or> \<not> is_digit base (hd rest))"

lemma strtoul_loop_number:
  assumes "cstr m p (ds @ rest)" and "list_all (is_digit (int base)) ds" and "stops (int base) rest"
    and "2 \<le> base" and "base \<le> 36"
    and "cutoff = ULONG_MAX A div base" and "cutlim = int (ULONG_MAX A mod base)"
    and "acc \<le> ULONG_MAX A"
  shows "\<exists>acc'. strtoul_loop A m (int base) cutoff cutlim (char_val A (hd (ds @ rest @ [0])))
      (ptr_add p 1) acc any =
    Inr (if ds = [] then any else if any < 0 \<or> number base acc ds > ULONG_MAX A then - 1 else 1,
         acc', ptr_add p (int (length ds) + 1)) \<and>
    (0 \<le> any \<longrightarrow> number base acc ds \<le> ULONG_MAX A \<longrightarrow> acc' = number base acc ds)"
  using assms(1,2,8)
proof (induction ds arbitrary: p acc any)
  case Nil
  have "digit_val (uint (hd (rest @ [0]))) = None \<or>
      (\<exists>d. digit_val (uint (hd (rest @ [0]))) = Some d \<and> d \<ge> int base)"
    using assms(3) by (cases rest) (auto simp: stops_def is_digit_def digit_val_def ISDIGIT_def
        ISALPHA_def split: option.splits)
  then show ?case by (auto simp: strtoul_loop.simps)
next
  case (Cons b ds)
  from Cons.prems(2) obtain d where d: "digit_val (uint b) = Some d" "d < int base"
    by (auto simp: is_digit_def split: option.splits)
  have d0: "0 \<le> d" using d(1) by (rule digit_val_nonneg)
  have dg: "digit_of b = nat d" "nat d < base" using d d0 by (simp_all add: digit_of_def)
  define ovf where "ovf \<longleftrightarrow> acc * base + nat d > ULONG_MAX A"
  have ovf: "(acc > cutoff \<or> (acc = cutoff \<and> d > cutlim)) \<longleftrightarrow> ovf"
    using cutoff_exact[OF dg(2), where acc = acc and mx = "ULONG_MAX A"] assms(6,7) d0 by (auto simp: ovf_def)
  have base_mod: "int base mod 2 ^ long_bits A = int base"
    using assms(5) by (auto simp: long_bits_def)
  have acc': "\<not> ovf \<Longrightarrow> nat ((int acc * (int base mod 2 ^ long_bits A) + d) mod 2 ^ long_bits A) =
      acc * base + nat d"
  proof -
    assume "\<not> ovf"
    then have "acc * base + nat d \<le> ULONG_MAX A" by (simp add: ovf_def)
    then have "int (acc * base + nat d) \<le> int (ULONG_MAX A)" by (simp only: of_nat_le_iff)
    then have "int acc * int base + d < 2 ^ long_bits A" using d0 by (simp add: ULONG_MAX_bits)
    then show ?thesis using d0 by (simp add: base_mod nat_add_distrib nat_mult_distrib)
  qed
  have ld: "load m (ptr_add p 1) = Inr (hd (ds @ rest @ [0]))"
    using cstr_load_hd[of m "ptr_add p 1" "ds @ rest"] Cons.prems(1) by simp
  let ?any = "if any < 0 \<or> ovf then - 1 else (1 :: int)" and ?acc = "if any < 0 \<or> ovf then acc else acc * base + nat d"
  have "?acc \<le> ULONG_MAX A" using Cons.prems(3) by (auto simp: ovf_def)
  with Cons.IH[of "ptr_add p 1" ?acc ?any] Cons.prems obtain acc'' where
    IH: "strtoul_loop A m (int base) cutoff cutlim (char_val A (hd (ds @ rest @ [0])))
      (ptr_add p 2) ?acc ?any =
      Inr (if ds = [] then ?any else if ?any < 0 \<or> number base ?acc ds > ULONG_MAX A then - 1 else 1,
         acc'', ptr_add p (int (length ds) + 2))"
    and val: "0 \<le> ?any \<longrightarrow> number base ?acc ds \<le> ULONG_MAX A \<longrightarrow> acc'' = number base ?acc ds"
    by (auto simp: add.commute)
  have step: "strtoul_loop A m (int base) cutoff cutlim (char_val A b) (ptr_add p 1) acc any =
      strtoul_loop A m (int base) cutoff cutlim (char_val A (hd (ds @ rest @ [0]))) (ptr_add p 2) ?acc ?any"
    using d ld ovf acc' by (subst strtoul_loop.simps) (auto simp: Let_def)
  have mono: "ovf \<Longrightarrow> number base (acc * base + nat d) ds > ULONG_MAX A"
    using number_mono[of base "acc * base + nat d" ds] assms(4) by (simp add: ovf_def)
  show ?case using step IH val mono dg by (auto simp: ovf_def add.commute)
qed

section \<open>Contract of \<open>strtoul\<close>\<close>

lemma skip_space_cstr:
  assumes "cstr m p (ws @ t)" and "list_all (\<lambda>b. ISSPACE (uint b)) ws"
    and "t = [] \<or> \<not> ISSPACE (uint (hd t))"
  shows "skip_space A m p = Inr (char_val A (hd (t @ [0])), ptr_add p (int (length ws) + 1))"
  using assms(1,2)
proof (induction ws arbitrary: p)
  case Nil
  then show ?case using assms(3)
    by (cases t) (auto simp: skip_space.simps Let_def)
next
  case (Cons b ws)
  then show ?case by (simp add: skip_space.simps[of A m p] add.commute)
qed

definition sign_neg :: "u8 list \<Rightarrow> bool" where
  "sign_neg sg \<longleftrightarrow> sg = [45]"

lemma digit_not_special:
  assumes "is_digit base b"
  shows "\<not> ISSPACE (uint b)" and "char_val A b \<noteq> 45" and "char_val A b \<noteq> 43"
  using assms char_val_cases[of A b]
  by (auto simp: is_digit_def digit_val_def ISSPACE_def ISDIGIT_def ISALPHA_def split: if_splits)

lemma strtoul_number:
  assumes str: "cstr m p (ws @ sg @ ds @ rest)"
    and ws: "list_all (\<lambda>b. ISSPACE (uint b)) ws" and sg: "sg \<in> {[], [43], [45]}"
    and ds: "ds \<noteq> []" "list_all (is_digit (int base)) ds" and rest: "stops (int base) rest"
    and base: "2 \<le> base" "base \<le> 36"
    and no_prefix: "base = 16 \<longrightarrow> ds = [48] \<longrightarrow> rest \<noteq> [] \<longrightarrow> hd rest \<notin> {120, 88}"
  shows "strtoul A m p (int base) =
    Inr (let v = number base 0 ds in
         if v > ULONG_MAX A then ULONG_MAX A
         else if sign_neg sg then nat ((- int v) mod 2 ^ long_bits A) else v,
         ptr_add p (int (length ws + length sg + length ds)))"
proof -
  obtain b ds' where b: "ds = b # ds'" "is_digit (int base) b" using ds by (cases ds) auto
  note sp = digit_not_special[OF b(2)]
  let ?q = "ptr_add p (int (length ws + length sg))"
  have q: "cstr m ?q (ds @ rest)" using cstr_append[of m p "ws @ sg" "ds @ rest"] str by simp
  have hd_ns: "sg @ ds @ rest = [] \<or> \<not> ISSPACE (uint (hd (sg @ ds @ rest)))"
    using sg sp(1) b(1) by (auto simp: ISSPACE_def)
  have skip: "skip_space A m p =
      Inr (char_val A (hd (sg @ ds @ rest @ [0])), ptr_add p (int (length ws) + 1))"
    using skip_space_cstr[OF str ws hd_ns, of A] by simp
  have ld0: "load m ?q = Inr b" using q b(1) by simp
  have ld1: "load m (ptr_add ?q 1) = Inr (hd (ds' @ rest @ [0]))"
    using cstr_load_hd[of m "ptr_add ?q 1" "ds' @ rest"] q b(1) by simp
  have sign: "(if char_val A (hd (sg @ ds @ rest @ [0])) = 45
        then bindR (load m (ptr_add p (int (length ws) + 1)))
          (\<lambda>b. Inr (True, char_val A b, ptr_add (ptr_add p (int (length ws) + 1)) 1))
        else if char_val A (hd (sg @ ds @ rest @ [0])) = 43
        then bindR (load m (ptr_add p (int (length ws) + 1)))
          (\<lambda>b. Inr (False, char_val A b, ptr_add (ptr_add p (int (length ws) + 1)) 1))
        else Inr (False, char_val A (hd (sg @ ds @ rest @ [0])), ptr_add p (int (length ws) + 1)))
      = Inr (sign_neg sg, char_val A b, ptr_add ?q 1)"
    using sg ld0 sp(2,3)[of A] b(1) by (auto simp: sign_neg_def char_val_eq_numeral add.assoc)
  have nopre: "(int base = 0 \<or> int base = 16) \<and> char_val A b = 48 \<Longrightarrow>
      hd (ds' @ rest @ [0]) \<noteq> 120 \<and> hd (ds' @ rest @ [0]) \<noteq> 88"
  proof -
    assume h: "(int base = 0 \<or> int base = 16) \<and> char_val A b = 48"
    then have "base = 16" "b = 48"
      using base by (auto simp: char_val_eq_numeral word_uint_eq_iff)
    then show ?thesis
      using no_prefix b(1) ds(2) by (cases ds'; cases rest)
        (auto simp: is_digit_def digit_val_def ISDIGIT_def ISALPHA_def ISUPPER_def split: if_splits)
  qed
  have ub: "nat (int base mod 2 ^ long_bits A) = base" using base by (auto simp: long_bits_def)
  have lim: "int_of_ulong (ULONG_MAX A mod base) = int (ULONG_MAX A mod base)"
  proof -
    have "ULONG_MAX A mod base < 36"
      using base mod_less_divisor[of base "ULONG_MAX A"] by linarith
    then show ?thesis
      by (simp add: int_of_ulong_def signed_of_nat signed_take_bit_int_eq_self_iff)
  qed
  obtain acc' where loop: "strtoul_loop A m (int base) (ULONG_MAX A div base) (int (ULONG_MAX A mod base))
        (char_val A b) (ptr_add ?q 1) 0 0 =
      Inr (if number base 0 ds > ULONG_MAX A then - 1 else 1, acc', ptr_add ?q (int (length ds) + 1))"
    and val: "number base 0 ds \<le> ULONG_MAX A \<longrightarrow> acc' = number base 0 ds"
    using strtoul_loop_number[OF q ds(2) rest base refl refl, where A = A and acc = 0 and any = 0] ds(1) b(1)
    by (auto split: if_splits)
  have pre: "(if (int base = 0 \<or> int base = 16) \<and> char_val A b = 48
       then bindR (load m (ptr_add ?q 1)) (\<lambda>x. if x = 120 \<or> x = 88
         then bindR (load m (ptr_add (ptr_add ?q 1) 1)) (\<lambda>b'. Inr (char_val A b', ptr_add (ptr_add ?q 1) 2, 16))
         else Inr (char_val A b, ptr_add ?q 1, int base))
       else Inr (char_val A b, ptr_add ?q 1, int base)) = Inr (char_val A b, ptr_add ?q 1, int base)"
    using nopre ld1 by auto
  show ?thesis
    unfolding strtoul_def skip bindR_Inr prod.case sign pre
    using base loop val by (auto simp: Let_def ub lim add.assoc)
qed

end
