(* ===== verification/LibkProps.thy ===== *)
theory LibkProps
  imports Vga StrScan Strtoul
begin

text \<open>
  Properties of the C library \<open>libk\<close> and of its output on the VGA console, stated on the
  functions of the sources with every hypothesis in view.
\<close>

section \<open>The console and \<open>printf\<close>\<close>

text \<open>C2: printing on the VGA console. For every format made of ordinary characters and the
  conversions \<open>%d\<close>, \<open>%i\<close>, \<open>%u\<close>, \<open>%X\<close>, \<open>%o\<close> (with any flags and
  a width up to 255), \<open>%s\<close> and \<open>%c\<close>, with matching arguments, \<open>printf\<close>
  returns the number of characters and leaves the screen as if the rendered text had been typed
  on the abstract terminal; memory other than the screen and its own buffers keeps its contents.\<close>

theorem printf_on_screen:
  assumes "vga_ok s" and "in_object (mem s) format (concat (map item_fmt its))"
    and "list_all (item_ok (mem s)) its" and "text = concat (map item_out its)" and "length text < 2 ^ 31"
  shows "\<exists>u. printf I386 fp putc format (concat (map item_args its)) s = Inr (int (length text), u) \<and>
    vga_ok u \<and> term_of u = fold emit text (term_of s) \<and>
    (\<forall>k. off_screen k \<longrightarrow> mem u Phys k = mem s Phys k) \<and>
    (\<forall>ob. ob \<noteq> Phys \<longrightarrow> ob \<notin> scratch \<longrightarrow> mem u ob = mem s ob)"
proof -
  obtain g where "printf I386 fp putc format (concat (map item_args its)) s =
      Inr (int (length text), upd_scratch g (fold putS text s))"
    using printf_vga[OF assms(2,3)] assms(4,5) by blast
  then show ?thesis using fold_putS_term[OF assms(1)] by (simp add: fold_putS_frame)
qed

theorem printf_on_screen_witness:
  "\<exists>u. printf I386 int_fpu putc (Ptr (Lit ''n=%04d!'') 0) [VI32 42] i386_start = Inr (7, u) \<and>
    term_of u = fold emit (bytes_of ''n=0042!'') (term_of i386_start)"
proof -
  let ?its = "[Txt 110, Txt 61, IntC [48] [52] 100 42, Txt 33]"
  have fmt: "concat (map item_fmt ?its) = bytes_of ''n=%04d!''" by (simp add: of_char_def)
  have ok: "list_all (item_ok (mem i386_start)) ?its"
    by (simp add: flag_chars_def isdigit_def dec_value_def)
  have two: "replicate 2 (48 :: u8) = [48, 48]" by (simp add: numeral_2_eq_2)
  have digs: "digs 10 42 = [52, 50]" by (simp add: digs.simps digit_char_def digits_def of_char_def)
  have out: "concat (map item_out ?its) = bytes_of ''n=0042!''"
    by (simp add: alt_prefix_def pad_text_def int_text_def spec_value_def spec_base_def sign_text_def
        dec_value_def digs pad_char_def of_char_def two)
  have "in_object (mem i386_start) (Ptr (Lit ''n=%04d!'') 0) (concat (map item_fmt ?its))"
    unfolding fmt in_object_def by simp
  from printf_on_screen[OF i386_start_ok(1) this ok out[symmetric], of int_fpu]
  show ?thesis by auto
qed

text \<open>C16: \<open>putc\<close> of the VGA driver implements the abstract terminal: in a state whose cursor
  is on the screen it never faults, its effect on the screen and the cursor is \<open>emit\<close> (line
  breaks, wrapping at column 80, scrolling at row 25), the cursor stays on the screen, and no other
  memory changes.\<close>

theorem putc_refines_emit:
  assumes "vga_ok s"
  shows "\<exists>s'. putc c s = Inr s' \<and> vga_ok s' \<and> term_of s' = emit c (term_of s) \<and>
    (\<forall>k. off_screen k \<longrightarrow> mem s' Phys k = mem s Phys k) \<and> (\<forall>ob. ob \<noteq> Phys \<longrightarrow> mem s' ob = mem s ob)"
  using putS_term[OF assms] putS_off_screen[OF assms] by (simp add: putc_eq putS_frame)

theorem putc_refines_emit_witness:
  "\<exists>s'. putc 10 i386_start = Inr s' \<and> vga_ok s' \<and> cy (term_of s') = 1"
  using putc_refines_emit[OF i386_start_ok(1), of 10]
  by (auto simp: emit_def down_def term_of_def i386_start_def simp del: upt_rec_numeral)

text \<open>\<open>clrline\<close> clears the left half of the current row only: \<open>WIDTH\<close> is passed as a
  number of bytes, a row has two per cell. The right 40 cells, the other rows and the cursor stay.\<close>

theorem clrline_clears_half:
  assumes "vga_ok s"
  shows "\<exists>s'. clrline s = Inr s' \<and> vga_ok s' \<and> tx s' = tx s \<and> ty s' = ty s \<and>
    row (mem s') (unat (ty s)) = replicate 80 0 @ drop 80 (row (mem s) (unat (ty s))) \<and>
    (\<forall>y. y \<noteq> unat (ty s) \<longrightarrow> row (mem s') y = row (mem s) y)"
  using clrline_row[of s] assms unfolding vga_ok_def by metis

theorem clrline_clears_half_witness:
  "\<exists>s'. clrline i386_start = Inr s' \<and> vga_ok s' \<and> row (mem s') 0 = replicate 80 0 @ drop 80 (row (\<lambda>_ _. 0) 0)"
proof -
  have "unat (ty i386_start) = 0" by (simp add: i386_start_def)
  then show ?thesis using clrline_clears_half[OF i386_start_ok(1)] by (auto simp del: upt_rec_numeral)
qed

section \<open>Number formatting\<close>

text \<open>C26: \<open>divmod_u64\<close> is division with remainder for every dividend below \<open>2 ^ 32\<close> and every
  divisor but 0; the first loop ends within its fuel.\<close>

theorem divmod_u64_is_division:
  assumes "num < 2 ^ 32" and "0 < base"
  shows "divmod_u64 num base = Inr (num div ucast base, ucast (num mod ucast base))"
  using divmod_u64_correct[of num base] assms by (simp add: word_less_nat_alt)

theorem divmod_u64_is_division_witness: "divmod_u64 1000 7 = Inr (142, 6)"
  using divmod_u64_is_division[of 1000 7] by simp

text \<open>C33: \<open>divmod_u64\<close> never returns for a dividend of \<open>2 ^ 33\<close> or more, whatever the
  divisor and however long it runs: the 32-bit divisor loses its bits in the shift loop. Every
  64-bit conversion of \<open>printf\<close> (\<open>%lu\<close>, \<open>%llX\<close>, \<open>%p\<close>) divides this way.\<close>

theorem divmod_u64_hangs:
  assumes "2 ^ 33 \<le> num"
  shows "divmod_u64 num base = Inl Diverges \<and> (\<forall>fuel b. divmod_shift fuel num base b = None)"
proof -
  have "2 ^ 33 \<le> unat num" using assms by (simp add: word_le_nat_alt)
  then show ?thesis using divmod_u64_diverges divmod_shift_runs by blast
qed

theorem divmod_u64_hangs_witness: "divmod_u64 (2 ^ 33) 10 = Inl Diverges"
  using divmod_u64_hangs[of "2 ^ 33" 10] by simp

text \<open>C25: \<open>__int_str\<close> writes the padded text of its number into the caller's buffer of 256 bytes and
  changes nothing but that buffer and its own two, for every base from 2 to 16, every number of at
  most 32 bits and every width below 256.\<close>

theorem int_str_writes_text:
  assumes "2 \<le> base" and "base \<le> 16" and "\<bar>v\<bar> < 2 ^ 32" and "- (2 ^ 30) \<le> w" and "w \<le> 255"
    and "ob = Var x 256" and "ob \<noteq> int_tmp"
  shows "\<exists>m'. int_str m v (Ptr ob 0) (int base) plusS spaceS w left zero = Inr (Ptr ob 0, m') \<and>
    cstr m' (Ptr ob 0) (pad_text (nat w) left zero (int_text v base plusS spaceS)) \<and>
    (\<forall>ob'. ob' \<notin> {ob, int_buf, int_tmp} \<longrightarrow> m' ob' = m ob')"
proof -
  have ob: "ob \<noteq> int_buf" "\<not> is_lit ob" "osize ob = 256" using assms(6) by (simp_all add: int_buf_def)
  show ?thesis by (rule int_str_spec[OF assms(1-3) ob(1) assms(7) ob(2,3) assms(4,5)])
qed

theorem int_str_writes_text_witness:
  "\<exists>m'. int_str (\<lambda>_ _. 0) (- 5) (Ptr (Var ''b'' 256) 0) 16 False False 4 False False = Inr (Ptr (Var ''b'' 256) 0, m') \<and>
    cstr m' (Ptr (Var ''b'' 256) 0) (bytes_of ''  -5'')"
proof -
  have two: "replicate 2 (32 :: u8) = [32, 32]" by (simp add: numeral_2_eq_2)
  have "pad_text (nat 4) False False (int_text (- 5) 16 False False) = bytes_of ''  -5''"
    by (simp add: pad_text_def int_text_def sign_text_def digs.simps digit_char_def digits_def pad_char_def
        of_char_def two)
  then show ?thesis
    using int_str_writes_text[of 16 "- 5" 4 "Var ''b'' 256" "''b''" "\<lambda>_ _. 0" False False False False]
    by (auto simp: int_tmp_def)
qed

text \<open>C34: a width of 256 or more makes \<open>__int_str\<close> write outside its buffers: padding on the right
  runs off the caller's 256 bytes, padding on the left off \<open>tmp[256]\<close>.\<close>

theorem int_str_wide_overflows:
  assumes "2 \<le> base" and "base \<le> 16" and "\<bar>v\<bar> < 2 ^ 32" and "256 \<le> w" and "w < 2 ^ 31"
    and "ob = Var x 256" and "ob \<noteq> int_tmp"
  shows "int_str m v (Ptr ob 0) (int base) plusS spaceS w left zero = Inl OutOfBounds"
proof -
  have ob: "ob \<noteq> int_buf" "\<not> is_lit ob" "osize ob = 256" using assms(6) by (simp_all add: int_buf_def)
  show ?thesis by (rule int_str_overflow[OF assms(1-3) ob(1) assms(7) ob(2,3) assms(4,5)])
qed

theorem int_str_wide_overflows_witness:
  "int_str (\<lambda>_ _. 0) 7 (Ptr (Var ''b'' 256) 0) 10 False False 300 False True = Inl OutOfBounds"
  using int_str_wide_overflows[of 10 7 300 "Var ''b'' 256" "''b''" "\<lambda>_ _. 0" False False False True]
  by (simp add: int_tmp_def)

section \<open>The string library\<close>

text \<open>C23: \<open>strtok\<close> refines \<open>next_token\<close>: it returns null exactly when only delimiters are
  left; otherwise it points to the next token, now terminated, \<open>olds\<close> points to the rest of the
  string, and memory before the end of the token and in every other object is unchanged.\<close>

theorem strtok_refines_next_token:
  assumes "p = (if s0 = Null then old else s0)" and "cstr m p t" and "cstr m delim acc" and "writable p (length t)"
  shows "case next_token (set acc) t of
      None \<Rightarrow> \<exists>e. strtok m old s0 delim = Inr (Null, e, m) \<and> cstr m e []
    | Some (tok, rest) \<Rightarrow> \<exists>k j m'. strtok m old s0 delim = Inr (ptr_add p k, ptr_add p j, m') \<and>
        0 \<le> k \<and> k + int (length tok) \<le> j \<and> j + int (length rest) \<le> int (length t) \<and>
        cstr m' (ptr_add p k) tok \<and> cstr m' (ptr_add p j) rest \<and>
        below_same (ptr_add p (k + int (length tok))) m m'"
  using strtok_next_token[OF assms] by (auto split: option.splits)

definition tok_mem :: memory where
  "tok_mem = wr (\<lambda>_ _. 0) (Ptr (Var ''b'' 8) 0) (bytes_of '' ab c'' @ [0])"

theorem strtok_refines_next_token_witness:
  "\<exists>k j m'. strtok tok_mem Null (Ptr (Var ''b'' 8) 0) (Ptr (Lit '' '') 0) =
      Inr (Ptr (Var ''b'' 8) k, Ptr (Var ''b'' 8) j, m') \<and>
    cstr m' (Ptr (Var ''b'' 8) k) (bytes_of ''ab'') \<and> cstr m' (Ptr (Var ''b'' 8) j) (bytes_of ''c'')"
proof -
  have t: "cstr tok_mem (Ptr (Var ''b'' 8) 0) (bytes_of '' ab c'')"
    unfolding tok_mem_def by (rule cstr_wr) (simp_all add: of_char_def)
  have d: "cstr tok_mem (Ptr (Lit '' '') 0) (bytes_of '' '')" by (rule cstr_Lit) (simp add: of_char_def)
  have "next_token (set (bytes_of '' '')) (bytes_of '' ab c'') = Some (bytes_of ''ab'', bytes_of ''c'')"
    by (simp add: next_token_def of_char_def)
  moreover have "writable (Ptr (Var ''b'' 8) 0) (length (bytes_of '' ab c''))" by simp
  ultimately obtain k j m' where
      "strtok tok_mem Null (Ptr (Var ''b'' 8) 0) (Ptr (Lit '' '') 0) =
        Inr (ptr_add (Ptr (Var ''b'' 8) 0) k, ptr_add (Ptr (Var ''b'' 8) 0) j, m')"
      "cstr m' (ptr_add (Ptr (Var ''b'' 8) 0) k) (bytes_of ''ab'')"
      "cstr m' (ptr_add (Ptr (Var ''b'' 8) 0) j) (bytes_of ''c'')"
    using strtok_refines_next_token[OF _ t d, of "Ptr (Var ''b'' 8) 0" Null]
    by (force simp del: cstr.simps bytes_of_simps)
  then show ?thesis by (auto simp del: cstr.simps bytes_of_simps)
qed

text \<open>C24: \<open>strtoul\<close> converts blanks, a sign and a number in base 2 to 36: the value, \<open>ULONG_MAX\<close>
  when it does not fit, the two's complement negation after a minus sign; \<open>endptr\<close> is set behind
  the last digit. (A lone \<open>0\<close> before an \<open>x\<close> in base 16 is the prefix case and excluded.)\<close>

theorem strtoul_converts:
  assumes "cstr m p (ws @ sg @ ds @ rest)" and "list_all (\<lambda>b. ISSPACE (uint b)) ws" and "sg \<in> {[], [43], [45]}"
    and "ds \<noteq> []" and "list_all (is_digit (int base)) ds" and "stops (int base) rest"
    and "2 \<le> base" and "base \<le> 36" and "base = 16 \<longrightarrow> ds = [48] \<longrightarrow> rest \<noteq> [] \<longrightarrow> hd rest \<notin> {120, 88}"
  shows "strtoul A m p (int base) =
    Inr (if number base 0 ds > ULONG_MAX A then ULONG_MAX A
         else if sign_neg sg then nat ((- int (number base 0 ds)) mod 2 ^ long_bits A) else number base 0 ds,
         ptr_add p (int (length ws + length sg + length ds)))"
  using strtoul_number[OF assms] by (simp add: Let_def)

theorem strtoul_converts_witness:
  "strtoul I386 (\<lambda>_ _. 0) (Ptr (Lit '' -1F,'') 0) 16 = Inr (2 ^ 32 - 31, Ptr (Lit '' -1F,'') 4)"
proof -
  have "cstr (\<lambda>_ _. 0) (Ptr (Lit '' -1F,'') 0) ([32] @ [45] @ [49, 70] @ [44])"
    using cstr_Lit[of "'' -1F,''" "\<lambda>_ _. 0"] by (simp add: of_char_def)
  then show ?thesis
    using strtoul_converts[of "\<lambda>_ _. 0" "Ptr (Lit '' -1F,'') 0" "[32]" "[45]" "[49, 70]" "[44]" 16 I386]
    by (simp add: ISSPACE_def is_digit_def digit_val_def ISDIGIT_def ISALPHA_def ISUPPER_def stops_def
        digit_of_def ULONG_MAX_def long_bits_def sign_neg_def)
qed

text \<open>C27: \<open>memmove\<close> moves: whatever the overlap of source and destination, the destination
  receives the bytes the source had before the call and nothing else changes; the destination is returned.\<close>

theorem memmove_moves:
  assumes "writable dst n" and "in_obj src n"
  shows "memmove m dst src (int n) = Inr (dst, wr m dst (rd m src n))"
  by (rule memmove_wr[OF assms])

theorem memmove_moves_witness:
  "memmove tok_mem (Ptr (Var ''b'' 8) 2) (Ptr (Var ''b'' 8) 1) 3 =
    Inr (Ptr (Var ''b'' 8) 2, wr tok_mem (Ptr (Var ''b'' 8) 2) (bytes_of ''ab ''))"
proof -
  have "[nat 1..<nat 1 + 3] = [1, 2, 3]" by (simp add: upt_rec numeral_eq_Suc)
  then have "rd tok_mem (Ptr (Var ''b'' 8) 1) 3 = bytes_of ''ab ''"
    unfolding rd.simps by (simp add: tok_mem_def of_char_def wr_nth)
  then show ?thesis using memmove_moves[of "Ptr (Var ''b'' 8) 2" 3 "Ptr (Var ''b'' 8) 1" tok_mem] by simp
qed

text \<open>\<open>strncat\<close> appends at most \<open>n\<close> characters and terminates the result, on every
  architecture, when the destination has room for the result and the strings are shorter than \<open>2 ^ 31\<close>.\<close>

theorem strncat_appends:
  assumes "cstr m s1 s" and "cstr m s2 t" and "length s < 2 ^ 32" and "length t < 2 ^ 31" and "n < 2 ^ 31"
    and "writable s1 (Suc (length s + min n (length t)))" and "apart s1 (Suc (length s + n)) s2 (Suc (length t))"
  shows "\<exists>m'. strncat A m s1 s2 (int n) = Inr (s1, m') \<and> cstr m' s1 (s @ take n t)"
  by (rule strncat_cstr[OF assms])

theorem strncat_appends_witness:
  "\<exists>m'. strncat I386 (\<lambda>_ _. 0) (Ptr (Var ''d'' 4) 0) (Ptr (Lit ''abc'') 0) 2 = Inr (Ptr (Var ''d'' 4) 0, m') \<and>
    cstr m' (Ptr (Var ''d'' 4) 0) (bytes_of ''ab'')"
proof -
  have "cstr (\<lambda>_ _. 0) (Ptr (Lit ''abc'') 0) (bytes_of ''abc'')" by (rule cstr_Lit) (simp add: of_char_def)
  moreover have "take 2 (bytes_of ''abc'') = bytes_of ''ab''" by (simp add: numeral_2_eq_2)
  ultimately show ?thesis
    using strncat_appends[of "\<lambda>_ _. 0" "Ptr (Var ''d'' 4) 0" "[]" "Ptr (Lit ''abc'') 0" "bytes_of ''abc''" 2 I386]
    by (simp del: cstr.simps(2) bytes_of_simps)
qed

text \<open>\<open>strcmp\<close> compares strings as unsigned bytes in lexicographic order: zero exactly for equal
  strings, negative exactly when the first is smaller.\<close>

theorem strcmp_orders:
  assumes "cstr m p s" and "cstr m q t"
  shows "\<exists>r. strcmp m p q = Inr r \<and> (r = 0 \<longleftrightarrow> s = t) \<and> (r < 0 \<longleftrightarrow> (s, t) \<in> lexord {(x, y). x < y})"
  by (rule strcmp_cstr[OF assms])

theorem strcmp_orders_witness:
  "\<exists>r. strcmp (\<lambda>_ _. 0) (Ptr (Lit ''peek'') 0) (Ptr (Lit ''poke'') 0) = Inr r \<and> r < 0"
proof -
  have "(bytes_of ''peek'', bytes_of ''poke'') \<in> lexord {(x, y). x < y}" by (simp add: of_char_def)
  moreover have "cstr (\<lambda>_ _. 0) (Ptr (Lit ''peek'') 0) (bytes_of ''peek'')" "cstr (\<lambda>_ _. 0) (Ptr (Lit ''poke'') 0) (bytes_of ''poke'')"
    by (rule cstr_Lit; simp add: of_char_def)+
  ultimately show ?thesis using strcmp_orders by blast
qed

text \<open>\<open>strrchr\<close> compares a promoted \<open>char\<close> with its \<open>int\<close> argument: where \<open>char\<close> is
  signed (i386) it never finds a character code from 128 to 255, although \<open>strchr\<close>, which converts
  its argument, finds it.\<close>

theorem strrchr_misses_high_codes:
  assumes "cstr m p s" and "128 \<le> c" and "c \<le> 255" and "word_of_int c \<in> set s"
  shows "strrchr I386 m p c = Inr Null \<and> (\<exists>k < length s. strchr m p c = Inr (ptr_add p (int k)) \<and> s ! k = word_of_int c)"
proof
  have "char_val I386 b \<noteq> c" for b
    using sint_lt[of b] assms(2) by (simp add: char_val_def)
  then show "strrchr I386 m p c = Inr Null" unfolding strrchr_def strrchr_loop_cstr[OF assms(1)] by simp
  define k where "k = length (takeWhile (\<lambda>x. x \<noteq> word_of_int c) s)"
  have k: "k < length s" unfolding k_def using assms(4) by (induction s) auto
  then have "s ! k = word_of_int c" unfolding k_def using nth_length_takeWhile by blast
  then show "\<exists>k < length s. strchr m p c = Inr (ptr_add p (int k)) \<and> s ! k = word_of_int c"
    using k unfolding strchr_cstr[OF assms(1)] Let_def k_def[symmetric] by auto
qed

theorem strrchr_misses_high_codes_witness:
  "strrchr I386 (\<lambda>_ _. 0) (Ptr (Lit [CHR 0xE9]) 0) 0xE9 = Inr Null"
proof -
  have "cstr (\<lambda>_ _. 0) (Ptr (Lit [CHR 0xE9]) 0) (bytes_of [CHR 0xE9])" by (rule cstr_Lit) (simp add: of_char_def)
  from strrchr_misses_high_codes[OF this] show ?thesis by (simp add: of_char_def)
qed

end
