(* ===== verification/Kbd.thy ===== *)
theory Kbd
  imports Vga Strtoul
begin

text \<open>
  The i386 keyboard interrupt handler, \<open>kernel/arch/i386/kbd.c\<close>. The callback registered by
  \<open>keyboard_init\<close> is a function pointer in the state; what it does is the parameter
  \<open>code\<close>. The second part describes the handler as a decoder of scan codes and gives the
  meaning of its modifier bits over a whole stream of scan codes.
\<close>

section \<open>Definitions\<close>

definition KBD_SHIFT :: u8 where "KBD_SHIFT = 0x01"
definition KBD_CAPS :: u8 where "KBD_CAPS = 0x02"
definition KBD_BCKSP :: u8 where "KBD_BCKSP = 0x04"
definition KBD_UP :: u8 where "KBD_UP = 0x10"
definition KBD_DOWN :: u8 where "KBD_DOWN = 0x20"
definition KBD_LEFT :: u8 where "KBD_LEFT = 0x40"
definition KBD_RIGHT :: u8 where "KBD_RIGHT = 0x80"

definition keymap :: "u8 list" where
  "keymap = [0] @ bytes_of ''1234567890-='' @ [0,
     0] @ bytes_of ''qwertyuiop[]'' @ [10,
     0] @ bytes_of ''asdfghjkl;'' @ [39, 96,
     0, 92] @ bytes_of ''zxcvbnm,./'' @ [0,
     42, 0, 32]"

definition keymap_shift :: "u8 list" where
  "keymap_shift = [0] @ bytes_of ''!@#$%^&*()_+'' @ [0,
     0] @ bytes_of ''QWERTYUIOP{}'' @ [10,
     0] @ bytes_of ''ASDFGHJKL:'' @ [34, 126,
     0, 124] @ bytes_of ''ZXCVBNM<>?'' @ [0,
     42, 0, 32]"

type_synonym callback = "kfun \<Rightarrow> u8 \<Rightarrow> u8 \<Rightarrow> i386_state \<Rightarrow> i386_state res"

definition call_kcallback :: "callback \<Rightarrow> u8 \<Rightarrow> i386_state \<Rightarrow> i386_state res" where
  "call_kcallback code c s = (case kcall s of None \<Rightarrow> Inl NullDeref | Some f \<Rightarrow> code f c (kstate s) s)"

text \<open>The cases of the arrow keys: nothing unless the extended prefix came before.\<close>

definition arrow_press :: "callback \<Rightarrow> u8 \<Rightarrow> i386_state \<Rightarrow> i386_state res" where
  "arrow_press code key s =
     (if extended s \<noteq> 0 then call_kcallback code 0 (s\<lparr>kstate := kstate s OR key, extended := 0\<rparr>) else Inr s)"

definition arrow_release :: "callback \<Rightarrow> u8 \<Rightarrow> i386_state \<Rightarrow> i386_state res" where
  "arrow_release code key s =
     (if extended s \<noteq> 0 then call_kcallback code 0 (s\<lparr>kstate := kstate s AND NOT key, extended := 0\<rparr>) else Inr s)"

definition keyboard_default :: "callback \<Rightarrow> u8 \<Rightarrow> i386_state \<Rightarrow> i386_state res" where
  "keyboard_default code sc s =
     (if sc AND 0x80 = 0 then
        bindR (get_at (if kstate s AND KBD_SHIFT \<noteq> 0 then keymap_shift else keymap) (uint sc - 1)) (\<lambda>ch.
          let ch = (if ISALPHA (char_val I386 ch) \<and> kstate s AND KBD_CAPS \<noteq> 0
                    then (if ISLOWER (char_val I386 ch) then ch - 32 else ch + 32) else ch)
          in if ch \<noteq> 0 then call_kcallback code ch s else Inr s)
      else Inr s)"

text \<open>The \<open>switch\<close> over the scan code.\<close>

definition keyboard_switch :: "callback \<Rightarrow> u8 \<Rightarrow> i386_state \<Rightarrow> i386_state res" where
  "keyboard_switch code sc s =
       (if sc = 0xE0 then Inr (s\<lparr>extended := 1\<rparr>)
        else if sc = 0x0E then call_kcallback code 0 (s\<lparr>kstate := kstate s OR KBD_BCKSP\<rparr>)
        else if sc = 0x8E then Inr (s\<lparr>kstate := kstate s AND NOT KBD_BCKSP\<rparr>)
        else if sc = 0x2A \<or> sc = 0x36 then Inr (s\<lparr>kstate := kstate s OR KBD_SHIFT\<rparr>)
        else if sc = 0xAA \<or> sc = 0xB6 then Inr (s\<lparr>kstate := kstate s AND NOT KBD_SHIFT\<rparr>)
        else if sc = 0x3A then Inr (s\<lparr>kstate := kstate s XOR KBD_CAPS\<rparr>)
        else if sc = 0x48 then arrow_press code KBD_UP s
        else if sc = 0xC8 then arrow_release code KBD_UP s
        else if sc = 0x50 then arrow_press code KBD_DOWN s
        else if sc = 0xD0 then arrow_release code KBD_DOWN s
        else if sc = 0x4B then arrow_press code KBD_LEFT s
        else if sc = 0xCB then arrow_release code KBD_LEFT s
        else if sc = 0x4D then arrow_press code KBD_RIGHT s
        else if sc = 0xCD then arrow_release code KBD_RIGHT s
        else keyboard_default code sc s)"

definition keyboard :: "callback \<Rightarrow> i386_state \<Rightarrow> i386_state res" where
  "keyboard code s =
     (let sc = inb 0x60 s in bindR (keyboard_switch code sc s) (\<lambda>s. Inr (outb 0x20 0x20 s)))"

definition keyboard_init :: "kfun option \<Rightarrow> i386_state \<Rightarrow> i386_state" where
  "keyboard_init f s = s\<lparr>kcall := f\<rparr>"

section \<open>The handler as a decoder\<close>

text \<open>
  What a scan code means in a modifier state: nothing to deliver, a key (code 0 for the keys that
  only show in the modifier bits), or an index outside the key maps.
\<close>

datatype key_event = Quiet | Key u8 | BadIndex

definition key_char :: "u8 \<Rightarrow> u8 \<Rightarrow> key_event" where
  "key_char ks sc =
     (if sc AND 0x80 \<noteq> 0 then Quiet
      else if sc = 0 \<or> 57 < sc then BadIndex
      else let ch = (if ks AND KBD_SHIFT \<noteq> 0 then keymap_shift else keymap) ! (unat sc - 1);
               ch = (if ISALPHA (uint ch) \<and> ks AND KBD_CAPS \<noteq> 0
                     then (if ISLOWER (uint ch) then ch - 32 else ch + 32) else ch)
           in if ch = 0 then Quiet else Key ch)"

definition arrow_bit :: "u8 \<Rightarrow> u8 option" where
  "arrow_bit sc =
     (if sc \<in> {0x48, 0xC8} then Some KBD_UP else if sc \<in> {0x50, 0xD0} then Some KBD_DOWN
      else if sc \<in> {0x4B, 0xCB} then Some KBD_LEFT else if sc \<in> {0x4D, 0xCD} then Some KBD_RIGHT else None)"

definition decode :: "u8 \<times> bool \<Rightarrow> u8 \<Rightarrow> (u8 \<times> bool) \<times> key_event" where
  "decode = (\<lambda>(ks, ext) sc.
     if sc = 0xE0 then ((ks, True), Quiet)
     else if sc = 0x0E then ((ks OR KBD_BCKSP, ext), Key 0)
     else if sc = 0x8E then ((ks AND NOT KBD_BCKSP, ext), Quiet)
     else if sc \<in> {0x2A, 0x36} then ((ks OR KBD_SHIFT, ext), Quiet)
     else if sc \<in> {0xAA, 0xB6} then ((ks AND NOT KBD_SHIFT, ext), Quiet)
     else if sc = 0x3A then ((ks XOR KBD_CAPS, ext), Quiet)
     else case arrow_bit sc of
         Some b \<Rightarrow> (if \<not> ext then ((ks, ext), Quiet)
                   else if sc < 0x80 then ((ks OR b, False), Key 0) else ((ks AND NOT b, False), Key 0))
       | None \<Rightarrow> ((ks, ext), key_char ks sc))"

definition set_kbd :: "u8 \<times> bool \<Rightarrow> i386_state \<Rightarrow> i386_state" where
  "set_kbd kx s = s\<lparr>kstate := fst kx, extended := if snd kx then 1 else 0\<rparr>"

definition deliver :: "callback \<Rightarrow> key_event \<Rightarrow> i386_state \<Rightarrow> i386_state res" where
  "deliver code ev s =
     (case ev of Quiet \<Rightarrow> Inr s | Key c \<Rightarrow> call_kcallback code c s | BadIndex \<Rightarrow> Inl OutOfBounds)"

lemma length_keymap [simp]: "length keymap = 57" "length keymap_shift = 57"
  by (simp_all add: keymap_def keymap_shift_def)

lemma keymap_ascii: "list_all (\<lambda>b. b < 128) keymap" "list_all (\<lambda>b. b < 128) keymap_shift"
  by (simp_all add: keymap_def keymap_shift_def of_char_def)

lemma keyboard_default_decode: "keyboard_default code sc s = deliver code (key_char (kstate s) sc) s"
proof -
  define km where "km = (if kstate s AND KBD_SHIFT \<noteq> 0 then keymap_shift else keymap)"
  have len: "length km = 57" by (simp add: km_def)
  have ascii: "km ! k < 128" if "k < 57" for k
    using keymap_ascii that by (auto simp: list_all_length km_def)
  show ?thesis
  proof (cases "sc AND 0x80 = 0 \<and> sc \<noteq> 0 \<and> \<not> 57 < sc")
    case True
    then have sc: "1 \<le> unat sc" "unat sc \<le> 57" by (auto simp: word_less_nat_alt unat_gt_0 Suc_le_eq)
    define k where "k = unat sc - 1"
    have k: "uint sc - 1 = int k" "k < 57" using sc by (simp_all add: k_def of_nat_diff)
    have "get_at km (uint sc - 1) = Inr (km ! k)" using k len by (simp add: get_at_def)
    moreover have "char_val I386 (km ! k) = uint (km ! k)" by (rule char_val_ascii[OF ascii[OF k(2)]])
    ultimately show ?thesis
      using True unfolding keyboard_default_def key_char_def k_def[symmetric] km_def[symmetric]
      by (auto simp: Let_def deliver_def ISALPHA_def ISLOWER_def)
  next
    case False
    have "get_at km (uint sc - 1) = Inl OutOfBounds" if "sc = 0 \<or> 57 < sc"
      using that len by (auto simp: get_at_def word_less_def)
    then show ?thesis
      using False unfolding keyboard_default_def key_char_def km_def[symmetric] by (auto simp: deliver_def)
  qed
qed

lemma set_kbd_id: "extended s \<in> {0, 1} \<Longrightarrow> set_kbd (kstate s, extended s \<noteq> 0) s = s"
  by (cases s) (auto simp: set_kbd_def)

lemma set_kbd_ext: "extended s \<in> {0, 1} \<Longrightarrow> set_kbd (k, extended s \<noteq> 0) s = s\<lparr>kstate := k\<rparr>"
  by (cases s) (auto simp: set_kbd_def)

lemma switch_modifier:
  assumes "extended s \<in> {0, 1}" and "sc \<in> {0xE0, 0x0E, 0x8E, 0x2A, 0x36, 0xAA, 0xB6, 0x3A}"
    and "decode (kstate s, extended s \<noteq> 0) sc = (kx, ev)"
  shows "keyboard_switch code sc s = deliver code ev (set_kbd kx s)"
  using assms(2,3) set_kbd_ext[OF assms(1)]
  by (elim insertE emptyE; hypsubst)
    (simp_all add: keyboard_switch_def decode_def deliver_def set_kbd_def[of "(kstate s, True)"],
      auto simp: deliver_def set_kbd_def)

lemma switch_arrow:
  assumes "extended s \<in> {0, 1}" and "sc \<in> {0x48, 0x50, 0x4B, 0x4D, 0xC8, 0xD0, 0xCB, 0xCD}"
    and "decode (kstate s, extended s \<noteq> 0) sc = (kx, ev)"
  shows "keyboard_switch code sc s = deliver code ev (set_kbd kx s)"
proof (cases "extended s = 0")
  case True
  with assms(2,3) set_kbd_id[OF assms(1)] show ?thesis
    by (elim insertE emptyE; hypsubst)
      (auto simp: keyboard_switch_def decode_def arrow_bit_def arrow_press_def arrow_release_def deliver_def)
next
  case False
  with assms(2,3) show ?thesis
    by (elim insertE emptyE; hypsubst)
      (auto simp: keyboard_switch_def decode_def arrow_bit_def arrow_press_def arrow_release_def deliver_def set_kbd_def)
qed

lemma switch_other:
  assumes "extended s \<in> {0, 1}" and "sc \<notin> {0xE0, 0x0E, 0x8E, 0x2A, 0x36, 0xAA, 0xB6, 0x3A}"
    and "sc \<notin> {0x48, 0x50, 0x4B, 0x4D, 0xC8, 0xD0, 0xCB, 0xCD}"
    and "decode (kstate s, extended s \<noteq> 0) sc = (kx, ev)"
  shows "keyboard_switch code sc s = deliver code ev (set_kbd kx s)"
proof -
  have "arrow_bit sc = None" using assms(3) by (simp add: arrow_bit_def)
  then have "kx = (kstate s, extended s \<noteq> 0)" "ev = key_char (kstate s) sc"
    using assms(2,4) by (simp_all add: decode_def)
  moreover have "keyboard_switch code sc s = keyboard_default code sc s"
    using assms(2,3) by (simp add: keyboard_switch_def)
  ultimately show ?thesis using set_kbd_id[OF assms(1)] by (simp add: keyboard_default_decode)
qed

lemma keyboard_decode:
  assumes "extended s \<in> {0, 1}" and "decode (kstate s, extended s \<noteq> 0) (inb 0x60 s) = (kx, ev)"
  shows "keyboard code s = bindR (deliver code ev (set_kbd kx s)) (\<lambda>s. Inr (outb 0x20 0x20 s))"
  using switch_modifier[OF assms(1) _ assms(2)] switch_arrow[OF assms(1) _ assms(2)]
    switch_other[OF assms(1) _ _ assms(2)]
  unfolding keyboard_def Let_def by metis

section \<open>Modifier bits over a stream of scan codes\<close>

definition decodes :: "u8 list \<Rightarrow> u8 \<times> bool \<Rightarrow> u8 \<times> bool" where
  "decodes scs kx = foldl (\<lambda>kx sc. fst (decode kx sc)) kx scs"

definition caps_on :: "u8 list \<Rightarrow> bool" where
  "caps_on scs \<longleftrightarrow> odd (length (filter (\<lambda>sc. sc = 0x3A) scs))"

definition shift_held :: "u8 list \<Rightarrow> bool" where
  "shift_held scs = (let es = filter (\<lambda>sc. sc \<in> {0x2A, 0x36, 0xAA, 0xB6}) scs in es \<noteq> [] \<and> last es \<in> {0x2A, 0x36})"

definition bcksp_held :: "u8 list \<Rightarrow> bool" where
  "bcksp_held scs = (let es = filter (\<lambda>sc. sc \<in> {0x0E, 0x8E}) scs in es \<noteq> [] \<and> last es = 0x0E)"

lemma decode_bits:
  assumes "fst (decode (ks, ext) sc) = (ks', ext')"
  shows "bit ks' 0 \<longleftrightarrow> (if sc \<in> {0x2A, 0x36} then True else if sc \<in> {0xAA, 0xB6} then False else bit ks 0)"
    and "bit ks' 1 \<longleftrightarrow> (if sc = 0x3A then \<not> bit ks 1 else bit ks 1)"
    and "bit ks' 2 \<longleftrightarrow> (if sc = 0x0E then True else if sc = 0x8E then False else bit ks 2)"
proof -
  have b: "\<not> bit KBD_UP k" "\<not> bit KBD_DOWN k" "\<not> bit KBD_LEFT k" "\<not> bit KBD_RIGHT k" if "k < 3" for k
    using that by (auto simp: KBD_UP_def KBD_DOWN_def KBD_LEFT_def KBD_RIGHT_def less_Suc_eq numeral_3_eq_3)
  have arrow: "\<not> bit b k" if "arrow_bit sc = Some b" "k < 3" for b k
    using that b by (auto simp: arrow_bit_def split: if_splits)
  note d = assms[unfolded decode_def]
  show "bit ks' 0 \<longleftrightarrow> (if sc \<in> {0x2A, 0x36} then True else if sc \<in> {0xAA, 0xB6} then False else bit ks 0)"
    using d arrow[of _ 0]
    by (auto simp: bit_simps KBD_SHIFT_def KBD_CAPS_def KBD_BCKSP_def split: if_splits option.splits)
  show "bit ks' 1 \<longleftrightarrow> (if sc = 0x3A then \<not> bit ks 1 else bit ks 1)"
    using d arrow[of _ 1]
    by (auto simp: bit_simps KBD_SHIFT_def KBD_CAPS_def KBD_BCKSP_def split: if_splits option.splits)
  show "bit ks' 2 \<longleftrightarrow> (if sc = 0x0E then True else if sc = 0x8E then False else bit ks 2)"
    using d arrow[of _ 2]
    by (auto simp: bit_simps KBD_SHIFT_def KBD_CAPS_def KBD_BCKSP_def split: if_splits option.splits)
qed

lemma decodes_bits:
  "bit (fst (decodes scs (0, False))) 0 \<longleftrightarrow> shift_held scs"
  "bit (fst (decodes scs (0, False))) 1 \<longleftrightarrow> caps_on scs"
  "bit (fst (decodes scs (0, False))) 2 \<longleftrightarrow> bcksp_held scs"
proof (induction scs rule: rev_induct)
  case Nil
  show "bit (fst (decodes [] (0, False))) 0 \<longleftrightarrow> shift_held []" "bit (fst (decodes [] (0, False))) 1 \<longleftrightarrow> caps_on []"
    "bit (fst (decodes [] (0, False))) 2 \<longleftrightarrow> bcksp_held []"
    by (simp_all add: decodes_def shift_held_def caps_on_def bcksp_held_def)
next
  case (snoc sc scs)
  obtain ks ext where k: "decodes scs (0, False) = (ks, ext)" by fastforce
  obtain ks' ext' where k': "fst (decode (ks, ext) sc) = (ks', ext')" by fastforce
  have "decodes (scs @ [sc]) (0, False) = (ks', ext')" using k k' by (simp add: decodes_def)
  with decode_bits[OF k'] snoc.IH k
  show "bit (fst (decodes (scs @ [sc]) (0, False))) 0 \<longleftrightarrow> shift_held (scs @ [sc])"
    "bit (fst (decodes (scs @ [sc]) (0, False))) 1 \<longleftrightarrow> caps_on (scs @ [sc])"
    "bit (fst (decodes (scs @ [sc]) (0, False))) 2 \<longleftrightarrow> bcksp_held (scs @ [sc])"
    by (auto simp: shift_held_def caps_on_def bcksp_held_def Let_def)
qed

end
