(* ===== verification/Shell.thy ===== *)
theory Shell
  imports Console StrScan Strtoul
begin

text \<open>
  The kernel shell, \<open>kernel/shell.c\<close>, over any console. The architecture gives the widths of
  the C types and the values of the keyboard flags; the shell's arrays are objects of the memory,
  its two counters fields of the state. The second part is the locale \<open>shell_console\<close>: what
  the shell relies on of a console, and what it then does.
\<close>

section \<open>Definitions\<close>

definition shellbuf_obj :: obj where "shellbuf_obj = Var ''shellbuf'' 256"
definition shellhist_obj :: obj where "shellhist_obj = Var ''shellhist'' 65536"
definition shellptr_hist_obj :: obj where "shellptr_hist_obj = Var ''shellptr_hist'' 256"

definition shellbuf :: "int \<Rightarrow> ptr" where "shellbuf i = Ptr shellbuf_obj i"
definition shellhist :: "int \<Rightarrow> ptr" where "shellhist i = Ptr shellhist_obj (256 * i)"
definition shellptr_hist :: "int \<Rightarrow> ptr" where "shellptr_hist i = Ptr shellptr_hist_obj i"

definition PROMPT_LEN :: u8 where "PROMPT_LEN = 1"
definition CMD_PEEK :: u8 where "CMD_PEEK = 1"
definition CMD_POKE :: u8 where "CMD_POKE = 2"

text \<open>\<open>kernel/kbd.h\<close> of the architecture (that of riscv64 has no arrow keys).\<close>

definition kbd_bcksp :: "arch \<Rightarrow> u8" where "kbd_bcksp A = (if A = AArch64 then 0x01 else 0x04)"
definition kbd_up :: u8 where "kbd_up = 0x10"
definition kbd_down :: u8 where "kbd_down = 0x20"

text \<open>\<open>(uint8_t*)mem\<close> of an \<open>int\<close>: sign-extended to the width of a pointer. The number can name
  any address: plain memory, which is the object \<open>Phys\<close>, but also the kernel's own code, variables and
  stack, which the model keeps apart from \<open>Phys\<close>, device registers, ROM, or nothing at all. What an
  access of the second kind does is left open: it is the fault \<open>Unmodelled\<close>, never a result.\<close>

definition phys_ptr :: "arch \<Rightarrow> int \<Rightarrow> ptr" where
  "phys_ptr A x = Ptr Phys (x mod 2 ^ long_bits A)"

definition phys_load :: "arch \<Rightarrow> (nat \<Rightarrow> bool) \<Rightarrow> memory \<Rightarrow> int \<Rightarrow> u8 res" where
  "phys_load A plain m x = (if plain (nat (x mod 2 ^ long_bits A)) then load m (phys_ptr A x) else Inl Unmodelled)"

definition phys_store :: "arch \<Rightarrow> (nat \<Rightarrow> bool) \<Rightarrow> memory \<Rightarrow> int \<Rightarrow> u8 \<Rightarrow> memory res" where
  "phys_store A plain m x v = (if plain (nat (x mod 2 ^ long_bits A)) then store m (phys_ptr A x) v else Inl Unmodelled)"

definition shell_strtok :: "ptr \<Rightarrow> 'a shell_state_scheme \<Rightarrow> (ptr \<times> 'a shell_state_scheme) res" where
  "shell_strtok p s =
     bindR (strtok (mem s) (olds s) p (Ptr (Lit '' '') 0)) (\<lambda>(w, o', m). Inr (w, s\<lparr>mem := m, olds := o'\<rparr>))"

definition shell_printf :: "arch \<Rightarrow> 'd fpu \<Rightarrow> ('a shell_state_scheme) console \<Rightarrow> string \<Rightarrow> 'd va list
    \<Rightarrow> 'a shell_state_scheme \<Rightarrow> 'a shell_state_scheme res" where
  "shell_printf A fp con fmt args s =
     bindR (printf A fp (con_putc con) (Ptr (Lit fmt) 0) args s) (\<lambda>(_, s). Inr s)"

definition shell_init :: "('a shell_state_scheme) console \<Rightarrow> 'a shell_state_scheme \<Rightarrow> 'a shell_state_scheme res" where
  "shell_init con s =
     bindR (memset (mem s) (shellbuf 0) 0 256) (\<lambda>(_, m). con_puts con (Ptr (Lit ''>'') 0) (s\<lparr>mem := m\<rparr>))"

definition shell_hash :: "memory \<Rightarrow> ptr \<Rightarrow> u8 res" where
  "shell_hash m cmd =
     bindR (strcmp m cmd (Ptr (Lit ''peek'') 0)) (\<lambda>r.
       if r = 0 then Inr CMD_PEEK
       else bindR (strcmp m cmd (Ptr (Lit ''poke'') 0)) (\<lambda>r. if r = 0 then Inr CMD_POKE else Inr 0))"

definition shell_peek :: "arch \<Rightarrow> 'd fpu \<Rightarrow> ('a shell_state_scheme) console
    \<Rightarrow> 'a shell_state_scheme \<Rightarrow> 'a shell_state_scheme res" where
  "shell_peek A fp con s =
     bindR (shell_strtok Null s) (\<lambda>(arg, s).
       if arg = Null then shell_printf A fp con ''Usage: peek <location>'' [] s
       else
         bindR (strtoul A (mem s) arg 16) (\<lambda>(v, _). let addr = int_of_ulong v in
         bindR (phys_load A (con_plain con) (mem s) addr) (\<lambda>b.
           shell_printf A fp con ''%08X: %02X'' [VI32 (word_of_int addr), VI32 (ucast b)] s)))"

definition shell_poke :: "arch \<Rightarrow> 'd fpu \<Rightarrow> ('a shell_state_scheme) console
    \<Rightarrow> 'a shell_state_scheme \<Rightarrow> 'a shell_state_scheme res" where
  "shell_poke A fp con s =
     bindR (shell_strtok Null s) (\<lambda>(arg, s).
       if arg = Null then shell_printf A fp con ''Usage: poke <location> <value>'' [] s
       else
         bindR (strtoul A (mem s) arg 16) (\<lambda>(v, _). let addr = int_of_ulong v in
         bindR (shell_strtok Null s) (\<lambda>(arg, s).
           if arg = Null then shell_printf A fp con ''Usage: poke <location> <value>'' [] s
           else
             bindR (strtoul A (mem s) arg 16) (\<lambda>(v, _). let val = int_of_ulong v in
             bindR (shell_printf A fp con ''%08X = %02X'' [VI32 (word_of_int addr), VI32 (word_of_int val)] s) (\<lambda>s.
             bindR (phys_store A (con_plain con) (mem s) addr (word_of_int val)) (\<lambda>m. Inr (s\<lparr>mem := m\<rparr>)))))))"

definition shell_command :: "arch \<Rightarrow> 'd fpu \<Rightarrow> ('a shell_state_scheme) console \<Rightarrow> ptr
    \<Rightarrow> 'a shell_state_scheme \<Rightarrow> 'a shell_state_scheme res" where
  "shell_command A fp con word s =
     bindR (shell_hash (mem s) word) (\<lambda>h.
       if h = CMD_PEEK then shell_peek A fp con s
       else if h = CMD_POKE then shell_poke A fp con s
       else shell_printf A fp con ''Unknown command: %s'' [VPtr word] s)"

text \<open>The end of \<open>shell_proc\<close>: the line goes to the history and the buffer is cleared.\<close>

definition shell_save :: "'a shell_state_scheme \<Rightarrow> 'a shell_state_scheme res" where
  "shell_save s =
     bindR (memcpy (mem s) (shellhist (uint (histptr s))) (shellbuf 0) 256) (\<lambda>(_, m).
     bindR (store m (shellptr_hist (uint (histptr s))) (shellptr s)) (\<lambda>m.
     bindR (memset m (shellbuf 0) 0 256) (\<lambda>(_, m).
       Inr (s\<lparr>mem := m, shellptr := 0, histptr := histptr s + 1\<rparr>))))"

definition shell_proc :: "arch \<Rightarrow> 'd fpu \<Rightarrow> ('a shell_state_scheme) console
    \<Rightarrow> 'a shell_state_scheme \<Rightarrow> 'a shell_state_scheme res" where
  "shell_proc A fp con s =
     bindR (shell_strtok (shellbuf 0) s) (\<lambda>(word, s).
     bindR (shell_command A fp con word s) (\<lambda>s.
     bindR (shell_printf A fp con [CHR 10] [] s) shell_save))"

definition kcallback_backspace :: "('a shell_state_scheme) console \<Rightarrow> 'a shell_state_scheme \<Rightarrow> 'a shell_state_scheme res" where
  "kcallback_backspace con s =
     (let s = (if 0 < shellptr s then s\<lparr>shellptr := shellptr s - 1\<rparr> else s) in
      bindR (store (mem s) (shellbuf (uint (shellptr s))) 0) (\<lambda>m.
      bindR (con_clrline con (s\<lparr>mem := m\<rparr>)) (\<lambda>s.
      bindR (con_setpos_x con 0 s) (\<lambda>s. con_puts con (Ptr (Lit ''>'') 0) s))))"

text \<open>Up and down: the line of the history at \<open>histptr + d\<close>; the counter itself is a \<open>uint8_t\<close>.\<close>

definition kcallback_recall :: "('a shell_state_scheme) console \<Rightarrow> int \<Rightarrow> 'a shell_state_scheme \<Rightarrow> 'a shell_state_scheme res" where
  "kcallback_recall con d s =
     bindR (memcpy (mem s) (shellbuf 0) (shellhist (uint (histptr s) + d)) 256) (\<lambda>(_, m).
     let h = histptr s + word_of_int d in
     bindR (load m (shellptr_hist (uint h))) (\<lambda>n.
       con_setpos_x con PROMPT_LEN (s\<lparr>mem := m, shellptr := n, histptr := h\<rparr>)))"

definition kcallback_insert :: "('a shell_state_scheme) console \<Rightarrow> u8 \<Rightarrow> 'a shell_state_scheme \<Rightarrow> 'a shell_state_scheme res" where
  "kcallback_insert con c s =
     bindR (store (mem s) (shellbuf (uint (shellptr s))) c) (\<lambda>m.
       con_setpos_x con PROMPT_LEN (s\<lparr>mem := m, shellptr := shellptr s + 1\<rparr>))"

definition kcallback :: "arch \<Rightarrow> 'd fpu \<Rightarrow> ('a shell_state_scheme) console \<Rightarrow> u8 \<Rightarrow> u8
    \<Rightarrow> 'a shell_state_scheme \<Rightarrow> 'a shell_state_scheme res" where
  "kcallback A fp con c kstate s =
     (if c = 10 then
        bindR (con_setpos_x con 0 s) (\<lambda>s.
        bindR (con_putc con 10 s) (\<lambda>s.
        bindR (shell_proc A fp con s) (\<lambda>s. con_puts con (Ptr (Lit ''>'') 0) s)))
      else
        bindR (if kstate AND kbd_bcksp A \<noteq> 0 then kcallback_backspace con s
               else if kstate AND kbd_up \<noteq> 0 then kcallback_recall con (- 1) s
               else if kstate AND kbd_down \<noteq> 0 then kcallback_recall con 1 s
               else kcallback_insert con c s) (\<lambda>s.
          con_puts con (shellbuf 0) s))"

section \<open>What the shell relies on\<close>

text \<open>
  The state a console operation leaves alone: every C object but the scratch buffers of
  \<open>printf\<close>, physical memory outside the device, \<open>strtok\<close>'s static and the shell's
  counters.
\<close>

definition keeps :: "nat set \<Rightarrow> 'a shell_state_scheme \<Rightarrow> 'a shell_state_scheme \<Rightarrow> bool" where
  "keeps dev s s' \<longleftrightarrow> (\<forall>ob. ob \<noteq> Phys \<longrightarrow> ob \<notin> scratch \<longrightarrow> mem s' ob = mem s ob) \<and>
     (\<forall>k. k \<notin> dev \<longrightarrow> mem s' Phys k = mem s Phys k) \<and>
     olds s' = olds s \<and> shellptr s' = shellptr s \<and> histptr s' = histptr s"

lemma keeps_refl [simp]: "keeps dev s s"
  by (simp add: keeps_def)

lemma keeps_trans: "keeps dev s s' \<Longrightarrow> keeps dev s' s'' \<Longrightarrow> keeps dev s s''"
  by (simp add: keeps_def)

lemma keeps_upd_scratch [simp]: "keeps dev s (upd_scratch g s)"
  by (simp add: keeps_def upd_scratch_def scratch_def int_buf_def int_tmp_def)

lemma keeps_sel:
  assumes "keeps dev s s'"
  shows "olds s' = olds s" "shellptr s' = shellptr s" "histptr s' = histptr s"
    "ob \<noteq> Phys \<Longrightarrow> ob \<notin> scratch \<Longrightarrow> mem s' ob = mem s ob"
  using assms by (simp_all add: keeps_def)

lemma shell_objs [simp]:
  "shellbuf_obj \<noteq> Phys" "shellbuf_obj \<notin> scratch" "shellhist_obj \<noteq> Phys" "shellhist_obj \<notin> scratch"
  "shellptr_hist_obj \<noteq> Phys" "shellptr_hist_obj \<notin> scratch"
  "\<not> is_lit shellbuf_obj" "osize shellbuf_obj = 256" "\<not> is_lit shellhist_obj" "osize shellhist_obj = 65536"
  "\<not> is_lit shellptr_hist_obj" "osize shellptr_hist_obj = 256"
  "shellbuf_obj \<noteq> shellhist_obj" "shellhist_obj \<noteq> shellbuf_obj" "shellbuf_obj \<noteq> shellptr_hist_obj"
  "shellptr_hist_obj \<noteq> shellbuf_obj" "shellhist_obj \<noteq> shellptr_hist_obj" "shellptr_hist_obj \<noteq> shellhist_obj"
  "Phys \<noteq> shellbuf_obj" "Phys \<noteq> shellhist_obj" "Phys \<noteq> shellptr_hist_obj" "shellbuf_obj \<noteq> Lit l"
  by (simp_all add: shellbuf_obj_def shellhist_obj_def shellptr_hist_obj_def scratch_def int_buf_def int_tmp_def)

text \<open>
  The interface. \<open>inv\<close> is the console's own invariant, \<open>scr\<close> what the console shows,
  \<open>emitf\<close>, \<open>posf\<close> and \<open>clrf\<close> what output, positioning and clearing do to it,
  \<open>dev\<close> the physical addresses of the device.
\<close>

locale shell_console = console_out "con_putc con"
  for con :: "('a shell_state_scheme) console" +
  fixes inv :: "'a shell_state_scheme \<Rightarrow> bool" and dev :: "nat set" and scr :: "'a shell_state_scheme \<Rightarrow> 'o"
    and emitf :: "u8 \<Rightarrow> 'o \<Rightarrow> 'o" and posf :: "u8 \<Rightarrow> 'o \<Rightarrow> 'o" and clrf :: "'o \<Rightarrow> 'o"
  assumes putc_law: "inv s \<Longrightarrow> \<exists>s'. con_putc con c s = Inr s' \<and> inv s' \<and> keeps dev s s' \<and> scr s' = emitf c (scr s)"
    and puts_law: "con_puts con p s = puts_with (con_putc con) p s"
    and setpos_law: "inv s \<Longrightarrow> x \<le> 1 \<Longrightarrow>
      \<exists>s'. con_setpos_x con x s = Inr s' \<and> inv s' \<and> keeps dev s s' \<and> scr s' = posf x (scr s)"
    and clrline_law: "inv s \<Longrightarrow> \<exists>s'. con_clrline con s = Inr s' \<and> inv s' \<and> keeps dev s s' \<and> scr s' = clrf (scr s)"
    and inv_law: "inv (s\<lparr>mem := m, olds := p, shellptr := a, histptr := b\<rparr>) = inv s"
    and scr_law: "\<forall>k \<in> dev. m Phys k = mem s Phys k \<Longrightarrow>
      scr (s\<lparr>mem := m, olds := p, shellptr := a, histptr := b\<rparr>) = scr s"
begin

lemma inv_upd [simp]:
  "inv (s\<lparr>mem := m\<rparr>) = inv s" "inv (s\<lparr>mem := m, olds := p\<rparr>) = inv s"
  "inv (s\<lparr>mem := m, shellptr := a\<rparr>) = inv s" "inv (s\<lparr>mem := m, shellptr := a, histptr := b\<rparr>) = inv s"
  "inv (s\<lparr>shellptr := a\<rparr>) = inv s"
  using inv_law[where s = s and m = m and p = "olds s" and a = "shellptr s" and b = "histptr s"]
    inv_law[where s = s and m = m and p = p and a = "shellptr s" and b = "histptr s"]
    inv_law[where s = s and m = m and p = "olds s" and a = a and b = "histptr s"]
    inv_law[where s = s and m = m and p = "olds s" and a = a and b = b]
    inv_law[where s = s and m = "mem s" and p = "olds s" and a = a and b = "histptr s"]
  by simp_all

lemma scr_upd:
  assumes "\<forall>k \<in> dev. m Phys k = mem s Phys k"
  shows "scr (s\<lparr>mem := m\<rparr>) = scr s" "scr (s\<lparr>mem := m, olds := p\<rparr>) = scr s"
    "scr (s\<lparr>mem := m, shellptr := a\<rparr>) = scr s" "scr (s\<lparr>mem := m, shellptr := a, histptr := b\<rparr>) = scr s"
  using scr_law[where s = s and m = m, OF assms, where p = "olds s" and a = "shellptr s" and b = "histptr s"]
    scr_law[where s = s and m = m, OF assms, where p = p and a = "shellptr s" and b = "histptr s"]
    scr_law[where s = s and m = m, OF assms, where p = "olds s" and a = a and b = "histptr s"]
    scr_law[where s = s and m = m, OF assms, where p = "olds s" and a = a and b = b]
  by simp_all

lemma scr_shellptr [simp]: "scr (s\<lparr>shellptr := a\<rparr>) = scr s"
  using scr_upd(3)[where s = s and m = "mem s" and a = a] by simp

lemma inv_scratch [simp]: "inv (upd_scratch g s) = inv s"
  by (simp add: upd_scratch_def)

lemma scr_scratch [simp]: "scr (upd_scratch g s) = scr s"
  unfolding upd_scratch_def by (rule scr_upd(1)) simp

lemma fold_law:
  assumes "inv s"
  shows "\<exists>s'. foldR (con_putc con) t s = Inr s' \<and> inv s' \<and> keeps dev s s' \<and> scr s' = fold emitf t (scr s)"
  using assms
proof (induction t arbitrary: s)
  case (Cons c t)
  obtain s1 where s1: "con_putc con c s = Inr s1" "inv s1" "keeps dev s s1" "scr s1 = emitf c (scr s)"
    using putc_law[OF Cons.prems] by blast
  obtain s2 where "foldR (con_putc con) t s1 = Inr s2" "inv s2" "keeps dev s1 s2" "scr s2 = fold emitf t (scr s1)"
    using Cons.IH[OF s1(2)] by blast
  with s1 show ?case using keeps_trans[OF s1(3)] by auto
qed simp

lemma printf_law:
  assumes "inv s" and "bytes_of fmt = concat (map item_fmt its)" and "0 \<notin> set (bytes_of fmt)"
    and "list_all (item_ok (mem s)) its" and "args = concat (map item_args its)"
    and "text = concat (map item_out its)" and "length text < 2 ^ 31"
  shows "\<exists>u. shell_printf A fp con fmt args s = Inr u \<and> inv u \<and> keeps dev s u \<and> scr u = fold emitf text (scr s)"
proof -
  obtain u where u: "foldR (con_putc con) text s = Inr u" "inv u" "keeps dev s u" "scr u = fold emitf text (scr s)"
    using fold_law[OF assms(1)] by blast
  have "in_object (mem s) (Ptr (Lit fmt) 0) (concat (map item_fmt its))"
    using cstr_Lit[OF assms(3)] by (simp add: in_object_def assms(2))
  from vprintf_items[OF this assms(4) u(1)[unfolded assms(6)]] assms(7) obtain g where
    "printf A fp (con_putc con) (Ptr (Lit fmt) 0) args s = Inr (int (length text), upd_scratch g u)"
    unfolding printf_def assms(5,6) by blast
  then show ?thesis using u keeps_trans[OF u(3) keeps_upd_scratch] by (auto simp: shell_printf_def)
qed

lemma puts_str:
  assumes "inv s" and "cstr (mem s) (Ptr ob i) t" and "ob \<noteq> Phys"
  shows "\<exists>u. con_puts con (Ptr ob i) s = Inr u \<and> inv u \<and> keeps dev s u \<and> scr u = fold emitf t (scr s)"
  using fold_law[OF assms(1)] puts_fold[OF assms(2,3)] unfolding puts_law by metis

lemma puts_prompt:
  assumes "inv s"
  shows "\<exists>u. con_puts con (Ptr (Lit ''>'') 0) s = Inr u \<and> inv u \<and> keeps dev s u \<and> scr u = emitf 62 (scr s)"
  using puts_str[OF assms, of "Lit ''>''" 0 "bytes_of ''>''"] cstr_Lit[of "''>''" "mem s"]
  by (simp add: of_char_def)

end

section \<open>Line editing\<close>

text \<open>The buffer holds the line \<open>t\<close>, zeros behind it, and \<open>shellptr\<close> is its length.\<close>

definition line :: "'a shell_state_scheme \<Rightarrow> u8 list \<Rightarrow> bool" where
  "line s t \<longleftrightarrow> rd (mem s) (shellbuf 0) 256 = t @ replicate (256 - length t) 0 \<and> 0 \<notin> set t \<and>
     length t \<le> 255 \<and> unat (shellptr s) = length t"

lemma in_obj_shellbuf [simp]: "in_obj (shellbuf 0) 256" "writable (shellbuf 0) 256"
  by (simp_all add: shellbuf_def)

lemma line_cstr:
  assumes "line s t"
  shows "cstr (mem s) (shellbuf 0) t"
proof -
  have l: "length t \<le> 255" using assms by (simp add: line_def)
  have i: "in_obj (shellbuf 0) (Suc (length t) + (255 - length t))" using l by simp
  have "rd (mem s) (shellbuf 0) (Suc (length t) + (255 - length t)) = t @ replicate (256 - length t) 0"
    using assms l by (simp add: line_def)
  then have "rd (mem s) (shellbuf 0) (Suc (length t)) = take (Suc (length t)) (t @ replicate (256 - length t) 0)"
    unfolding rd_split[OF i] using in_obj_mono[OF i, of "Suc (length t)"] by (metis append_eq_conv_conj length_rd le_add1)
  then show ?thesis using assms l in_obj_mono[OF i, of "Suc (length t)"]
    by (simp add: cstr_iff_rd line_def take_replicate)
qed

lemma line_cong: "mem s' shellbuf_obj = mem s shellbuf_obj \<Longrightarrow> shellptr s' = shellptr s \<Longrightarrow> line s' t = line s t"
  using rd_cong[of "mem s'" shellbuf_obj "mem s" 0 256] by (simp add: line_def shellbuf_def)

lemma line_keeps: "keeps dev s s' \<Longrightarrow> line s' t = line s t"
  by (rule line_cong) (simp_all add: keeps_def)

lemma rd_store_shellbuf:
  assumes "rd m (shellbuf 0) 256 = b" and "k < 256"
  shows "\<exists>m'. store m (shellbuf (int k)) c = Inr m' \<and> rd m' (shellbuf 0) 256 = b[k := c] \<and>
    (\<forall>ob. ob \<noteq> shellbuf_obj \<longrightarrow> m' ob = m ob)"
proof -
  have w: "writable (shellbuf (int k)) 1" using assms(2) by (simp add: shellbuf_def)
  have "rd (wr m (shellbuf (int k)) [c]) (shellbuf 0) 256 = b[k := c]"
  proof (rule nth_equalityI)
    show len: "length (rd (wr m (shellbuf (int k)) [c]) (shellbuf 0) 256) = length (b[k := c])"
      using assms(1) in_obj_shellbuf by (metis length_list_update length_rd)
    fix j assume "j < length (rd (wr m (shellbuf (int k)) [c]) (shellbuf 0) 256)"
    then have j: "j < 256" by simp
    have "b ! j = m shellbuf_obj j" using assms(1) j nth_rd[of j 256 m shellbuf_obj 0] by (simp add: shellbuf_def)
    moreover have "length b = 256" using assms(1) by auto
    ultimately show "rd (wr m (shellbuf (int k)) [c]) (shellbuf 0) 256 ! j = b[k := c] ! j"
      using j assms(2) nth_rd[of j 256 "wr m (shellbuf (int k)) [c]" shellbuf_obj 0]
      by (auto simp: shellbuf_def wr_nth nth_list_update)
  qed
  then show ?thesis using store_wr[OF w, of m c] by (auto simp: shellbuf_def)
qed

lemma line_insert:
  assumes "line s t" and "length t < 255" and "c \<noteq> 0"
  shows "\<exists>m. store (mem s) (shellbuf (uint (shellptr s))) c = Inr m \<and>
    line (s\<lparr>mem := m, shellptr := shellptr s + 1\<rparr>) (t @ [c]) \<and> (\<forall>ob. ob \<noteq> shellbuf_obj \<longrightarrow> m ob = mem s ob)"
proof -
  have p: "uint (shellptr s) = int (length t)" using assms(1) unfolding line_def uint_nat by simp
  have n: "unat (shellptr s + 1) = length t + 1"
  proof -
    have "shellptr s < 255" using assms(1,2) by (simp add: line_def word_less_nat_alt)
    from unat_add_1[OF this] show ?thesis using assms(1) by (simp add: line_def)
  qed
  have b: "rd (mem s) (shellbuf 0) 256 = t @ replicate (256 - length t) 0" using assms(1) by (simp add: line_def)
  have "256 - length t = Suc (255 - length t)" using assms(2) by simp
  then have "(t @ replicate (256 - length t) 0)[length t := c] = (t @ [c]) @ replicate (255 - length t) 0"
    by (simp add: list_update_append)
  with rd_store_shellbuf[OF b, of "length t" c] assms n show ?thesis unfolding p by (auto simp: line_def)
qed

lemma line_backspace:
  assumes "line s t"
  defines "s1 \<equiv> (if 0 < shellptr s then s\<lparr>shellptr := shellptr s - 1\<rparr> else s)"
  shows "\<exists>m. store (mem s1) (shellbuf (uint (shellptr s1))) 0 = Inr m \<and>
    line (s1\<lparr>mem := m\<rparr>) (butlast t) \<and> (\<forall>ob. ob \<noteq> shellbuf_obj \<longrightarrow> m ob = mem s ob)"
proof -
  have l: "unat (shellptr s) = length t" "length t \<le> 255" "0 \<notin> set t" using assms(1) by (simp_all add: line_def)
  have p: "unat (shellptr s1) = length t - 1" "mem s1 = mem s"
  proof -
    show "mem s1 = mem s" by (simp add: s1_def)
    show "unat (shellptr s1) = length t - 1"
    proof (cases "shellptr s = 0")
      case True
      then have "t = []" using l(1) by simp
      then show ?thesis using True by (simp add: s1_def)
    next
      case False
      then show ?thesis using unat_minus_one[OF False] l(1) by (simp add: s1_def word_gt_0)
    qed
  qed
  then have u: "uint (shellptr s1) = int (length t - 1)" by (metis uint_nat)
  have b: "rd (mem s) (shellbuf 0) 256 = t @ replicate (256 - length t) 0" using assms(1) by (simp add: line_def)
  have "(t @ replicate (256 - length t) 0)[length t - 1 := 0] = butlast t @ replicate (256 - (length t - 1)) 0"
  proof (cases t rule: rev_cases)
    case Nil
    then show ?thesis using list_update_id[of "replicate 256 (0 :: u8)" 0] by (simp del: list_update_id)
  next
    case (snoc t' c)
    then have "256 - length t' = Suc (256 - length t)" using l(2) by simp
    with snoc show ?thesis by (simp add: list_update_append)
  qed
  moreover have "length t - 1 < 256" using l(2) by simp
  ultimately obtain m where m: "store (mem s) (shellbuf (int (length t - 1))) 0 = Inr m"
    "rd m (shellbuf 0) 256 = butlast t @ replicate (256 - (length t - 1)) 0" "\<forall>ob. ob \<noteq> shellbuf_obj \<longrightarrow> m ob = mem s ob"
    using rd_store_shellbuf[OF b, of "length t - 1" 0] by auto
  moreover have "line (s1\<lparr>mem := m\<rparr>) (butlast t)"
    using m(2) l p(1) by (auto simp: line_def dest: in_set_butlastD)
  ultimately show ?thesis unfolding u p(2) by blast
qed

text \<open>The keys that reach the shell as editing: what they make of the line.\<close>

definition plain_key :: "arch \<Rightarrow> u8 \<Rightarrow> u8 \<Rightarrow> bool" where
  "plain_key A c ks \<longleftrightarrow> c \<noteq> 0 \<and> c \<noteq> 10 \<and> ks AND kbd_bcksp A = 0 \<and> ks AND kbd_up = 0 \<and> ks AND kbd_down = 0"

definition editing :: "arch \<Rightarrow> u8 \<times> u8 \<Rightarrow> bool" where
  "editing A = (\<lambda>(c, ks). plain_key A c ks \<or> c \<noteq> 10 \<and> ks AND kbd_bcksp A \<noteq> 0)"

definition edit :: "arch \<Rightarrow> u8 \<times> u8 \<Rightarrow> u8 list \<Rightarrow> u8 list" where
  "edit A = (\<lambda>(c, ks) t. if ks AND kbd_bcksp A \<noteq> 0 then butlast t else t @ [c])"

text \<open>What a run of the shell may change besides the console: the named objects, \<open>olds\<close> and the counters.\<close>

definition only_objs :: "obj set \<Rightarrow> nat set \<Rightarrow> 'a shell_state_scheme \<Rightarrow> 'a shell_state_scheme \<Rightarrow> bool" where
  "only_objs O' dev s s' \<longleftrightarrow> (\<forall>ob. ob \<noteq> Phys \<longrightarrow> ob \<notin> scratch \<longrightarrow> ob \<notin> O' \<longrightarrow> mem s' ob = mem s ob) \<and>
     (\<forall>k. k \<notin> dev \<longrightarrow> mem s' Phys k = mem s Phys k)"

lemma only_objs_trans: "only_objs O' dev s s' \<Longrightarrow> only_objs O' dev s' s'' \<Longrightarrow> only_objs O' dev s s''"
  by (simp add: only_objs_def)

lemma only_objs_refl [simp]: "only_objs O' dev s s"
  by (simp add: only_objs_def)

lemma keeps_only_objs: "keeps dev s s' \<Longrightarrow> only_objs O' dev s s'"
  by (simp add: keeps_def only_objs_def)

context shell_console
begin

lemma insert_law:
  assumes "inv s" and "line s t" and "length t < 255" and "plain_key A c ks"
  shows "\<exists>s'. kcallback A fp con c ks s = Inr s' \<and> inv s' \<and> line s' (t @ [c]) \<and> histptr s' = histptr s \<and>
    scr s' = fold emitf (t @ [c]) (posf 1 (scr s)) \<and> only_objs {shellbuf_obj} dev s s'"
proof -
  have c: "c \<noteq> 0" "c \<noteq> 10" "ks AND kbd_bcksp A = 0" "ks AND kbd_up = 0" "ks AND kbd_down = 0"
    using assms(4) by (simp_all add: plain_key_def)
  obtain m where m: "store (mem s) (shellbuf (uint (shellptr s))) c = Inr m"
      "line (s\<lparr>mem := m, shellptr := shellptr s + 1\<rparr>) (t @ [c])" "\<forall>ob. ob \<noteq> shellbuf_obj \<longrightarrow> m ob = mem s ob"
    using line_insert[OF assms(2,3) c(1)] by blast
  let ?s = "s\<lparr>mem := m, shellptr := shellptr s + 1\<rparr>"
  have scr: "scr ?s = scr s"
    using scr_upd(3)[where s = s and m = m and a = "shellptr s + 1"] m(3) by simp
  have "inv ?s" using assms(1) by simp
  then obtain s1 where s1: "con_setpos_x con 1 ?s = Inr s1" "inv s1" "keeps dev ?s s1" "scr s1 = posf 1 (scr s)"
    using setpos_law[of ?s 1] scr by auto
  have l1: "line s1 (t @ [c])" using line_keeps[OF s1(3)] m(2) by simp
  obtain s2 where s2: "con_puts con (shellbuf 0) s1 = Inr s2" "inv s2" "keeps dev s1 s2"
      "scr s2 = fold emitf (t @ [c]) (scr s1)"
    using puts_str[OF s1(2) line_cstr[OF l1, unfolded shellbuf_def]] unfolding shellbuf_def[of 0] by auto
  have k: "keeps dev ?s s2" by (rule keeps_trans[OF s1(3) s2(3)])
  have "kcallback A fp con c ks s = Inr s2"
    using c m(1) s1(1) s2(1) by (simp add: kcallback_def kcallback_insert_def PROMPT_LEN_def)
  moreover have "line s2 (t @ [c])" using line_keeps[OF s2(3)] l1 by simp
  moreover have "only_objs {shellbuf_obj} dev s s2" "histptr s2 = histptr s"
    using k m(3) by (simp_all add: keeps_def only_objs_def)
  ultimately show ?thesis using s2 s1(4) by auto
qed

lemma backspace_law:
  assumes "inv s" and "line s t" and "c \<noteq> 10" and "ks AND kbd_bcksp A \<noteq> 0"
  shows "\<exists>s'. kcallback A fp con c ks s = Inr s' \<and> inv s' \<and> line s' (butlast t) \<and> histptr s' = histptr s \<and>
    scr s' = fold emitf (62 # butlast t) (posf 0 (clrf (scr s))) \<and> only_objs {shellbuf_obj} dev s s'"
proof -
  define s0 where "s0 = (if 0 < shellptr s then s\<lparr>shellptr := shellptr s - 1\<rparr> else s)"
  have s0: "mem s0 = mem s" "histptr s0 = histptr s" "inv s0" using assms(1) by (simp_all add: s0_def)
  obtain m where m: "store (mem s0) (shellbuf (uint (shellptr s0))) 0 = Inr m"
      "line (s0\<lparr>mem := m\<rparr>) (butlast t)" "\<forall>ob. ob \<noteq> shellbuf_obj \<longrightarrow> m ob = mem s ob"
    using line_backspace[OF assms(2)] unfolding s0_def by blast
  let ?s = "s0\<lparr>mem := m\<rparr>"
  have "scr ?s = scr s0" using scr_upd(1)[where s = s0 and m = m] m(3) s0(1) by simp
  then have scr: "scr ?s = scr s" by (simp add: s0_def)
  have "inv ?s" using s0(3) by simp
  then obtain s1 where s1: "con_clrline con ?s = Inr s1" "inv s1" "keeps dev ?s s1" "scr s1 = clrf (scr s)"
    using clrline_law[of ?s] scr by auto
  obtain s2 where s2: "con_setpos_x con 0 s1 = Inr s2" "inv s2" "keeps dev s1 s2" "scr s2 = posf 0 (scr s1)"
    using setpos_law[OF s1(2), of 0] by auto
  obtain s3 where s3: "con_puts con (Ptr (Lit ''>'') 0) s2 = Inr s3" "inv s3" "keeps dev s2 s3" "scr s3 = emitf 62 (scr s2)"
    using puts_prompt[OF s2(2)] by blast
  have k3: "keeps dev ?s s3" using keeps_trans[OF keeps_trans[OF s1(3) s2(3)] s3(3)] .
  have l3: "line s3 (butlast t)" using line_keeps[OF k3] m(2) by simp
  obtain s4 where s4: "con_puts con (shellbuf 0) s3 = Inr s4" "inv s4" "keeps dev s3 s4"
      "scr s4 = fold emitf (butlast t) (scr s3)"
    using puts_str[OF s3(2) line_cstr[OF l3, unfolded shellbuf_def]] unfolding shellbuf_def[of 0] by auto
  have k: "keeps dev ?s s4" by (rule keeps_trans[OF k3 s4(3)])
  have "kcallback A fp con c ks s = Inr s4"
    using assms(3,4) m(1) s1(1) s2(1) s3(1) s4(1)
    by (simp add: kcallback_def kcallback_backspace_def Let_def flip: s0_def)
  moreover have "line s4 (butlast t)" using line_keeps[OF s4(3)] l3 by simp
  moreover have "only_objs {shellbuf_obj} dev s s4" "histptr s4 = histptr s"
    using k m(3) s0 by (simp_all add: keeps_def only_objs_def)
  ultimately show ?thesis using s4 s3(4) s2(4) s1(4) by auto
qed

text \<open>A whole editing session: the line in the buffer is the edited text, as long as it fits.\<close>

lemma edit_session:
  assumes "inv s" and "line s t" and "\<forall>k \<in> set keys. editing A k" and "length t + length keys \<le> 255"
  shows "\<exists>s'. foldR (\<lambda>(c, ks). kcallback A fp con c ks) keys s = Inr s' \<and> inv s' \<and>
    line s' (fold (edit A) keys t) \<and> histptr s' = histptr s \<and> only_objs {shellbuf_obj} dev s s'"
  using assms
proof (induction keys arbitrary: s t)
  case (Cons key keys)
  obtain c ks where key: "key = (c, ks)" by fastforce
  have "\<exists>s1. kcallback A fp con c ks s = Inr s1 \<and> inv s1 \<and> line s1 (edit A (c, ks) t) \<and>
      histptr s1 = histptr s \<and> only_objs {shellbuf_obj} dev s s1"
  proof (cases "ks AND kbd_bcksp A = 0")
    case True
    then have "plain_key A c ks" using Cons.prems(3) by (simp add: key editing_def)
    then show ?thesis using insert_law[OF Cons.prems(1,2)] Cons.prems(4) True by (fastforce simp: edit_def)
  next
    case False
    then have "c \<noteq> 10" using Cons.prems(3) by (auto simp: key editing_def plain_key_def)
    then show ?thesis using backspace_law[OF Cons.prems(1,2) _ False] False by (fastforce simp: edit_def)
  qed
  then obtain s1 where s1: "kcallback A fp con c ks s = Inr s1" "inv s1" "line s1 (edit A (c, ks) t)"
      "histptr s1 = histptr s" "only_objs {shellbuf_obj} dev s s1" by blast
  have "length (edit A (c, ks) t) + length keys \<le> 255" using Cons.prems(4) by (auto simp: edit_def)
  from Cons.IH[OF s1(2,3) _ this] Cons.prems(3) obtain s2 where
    "foldR (\<lambda>(c, ks). kcallback A fp con c ks) keys s1 = Inr s2" "inv s2"
    "line s2 (fold (edit A) keys (edit A (c, ks) t))" "histptr s2 = histptr s1" "only_objs {shellbuf_obj} dev s1 s2"
    by auto
  with s1 show ?case using only_objs_trans[OF s1(5)] by (auto simp: key)
qed auto

end

end
