(* ===== verification/ShellCmd.thy ===== *)
theory ShellCmd
  imports Shell
begin

text \<open>
  What the shell does when a line is entered. \<open>run_cmd\<close> is the reference: the text a line
  makes the shell print and the byte it pokes, as a function of the line and of physical memory.
  The lemmas of the locale \<open>shell_console\<close> show that \<open>kcallback\<close> on the Enter key prints
  that text, changes that byte, clears the line and saves the buffer in the history, for addresses of
  plain memory.
\<close>

section \<open>Reference\<close>

definition hex_arg :: "arch \<Rightarrow> u8 list \<Rightarrow> nat" where
  "hex_arg A a = min (number 16 0 a) (ULONG_MAX A)"

definition hex_text :: "nat \<Rightarrow> int \<Rightarrow> u8 list" where
  "hex_text w x = pad_text w False True (int_text (uint (word_of_int x :: u32)) 16 False False)"

definition hex_addr :: "arch \<Rightarrow> u8 list \<Rightarrow> nat" where
  "hex_addr A a = nat (int_of_ulong (hex_arg A a) mod 2 ^ long_bits A)"

definition run_cmd :: "arch \<Rightarrow> (nat \<Rightarrow> u8) \<Rightarrow> u8 list \<Rightarrow> (u8 list \<times> (nat \<times> u8) option) option" where
  "run_cmd A phys t =
     (case next_token {32} t of
        None \<Rightarrow> None
      | Some (w, r) \<Rightarrow>
          if w = bytes_of ''peek'' then
            (case next_token {32} r of
               None \<Rightarrow> Some (bytes_of ''Usage: peek <location>'', None)
             | Some (a, _) \<Rightarrow>
                 Some (hex_text 8 (int_of_ulong (hex_arg A a)) @ bytes_of '': '' @ hex_text 2 (uint (phys (hex_addr A a))), None))
          else if w = bytes_of ''poke'' then
            (case next_token {32} r of
               None \<Rightarrow> Some (bytes_of ''Usage: poke <location> <value>'', None)
             | Some (a, r') \<Rightarrow>
                 (case next_token {32} r' of
                    None \<Rightarrow> Some (bytes_of ''Usage: poke <location> <value>'', None)
                  | Some (v, _) \<Rightarrow>
                      Some (hex_text 8 (int_of_ulong (hex_arg A a)) @ bytes_of '' = '' @ hex_text 2 (int_of_ulong (hex_arg A v)),
                        Some (hex_addr A a, word_of_int (int_of_ulong (hex_arg A v))))))
          else Some (bytes_of ''Unknown command: '' @ w, None))"

text \<open>The arguments are hexadecimal digits and the address is not one of \<open>dev\<close>: the console's
  addresses and, wherever a command is run, all that are not plain memory.\<close>

definition hex_word :: "u8 list \<Rightarrow> bool" where
  "hex_word a \<longleftrightarrow> a \<noteq> [] \<and> list_all (is_digit 16) a"

definition cmd_ok :: "arch \<Rightarrow> nat set \<Rightarrow> u8 list \<Rightarrow> bool" where
  "cmd_ok A dev t =
     (case next_token {32} t of
        None \<Rightarrow> False
      | Some (w, r) \<Rightarrow> w \<in> {bytes_of ''peek'', bytes_of ''poke''} \<longrightarrow>
          (case next_token {32} r of
             None \<Rightarrow> True
           | Some (a, r') \<Rightarrow> hex_word a \<and> hex_addr A a \<notin> dev \<and>
               (w = bytes_of ''poke'' \<longrightarrow> (case next_token {32} r' of None \<Rightarrow> True | Some (v, _) \<Rightarrow> hex_word v))))"

lemma cmd_ok_mono:
  assumes "cmd_ok A S t" and "D \<subseteq> S"
  shows "cmd_ok A D t"
proof (cases "next_token {32} t")
  case None then show ?thesis using assms(1) by (simp add: cmd_ok_def)
next
  case (Some p)
  obtain w r where p: "p = (w, r)" by fastforce
  show ?thesis
  proof (cases "next_token {32} r")
    case None then show ?thesis by (simp add: cmd_ok_def Some p del: bytes_of_simps)
  next
    case (Some q)
    obtain a r' where "q = (a, r')" by fastforce
    then show ?thesis using assms Some \<open>next_token {32} t = Some p\<close> p
      by (auto simp: cmd_ok_def simp del: bytes_of_simps)
  qed
qed

lemma run_cmd_cong:
  assumes "cmd_ok A dev t" and "\<And>k. k \<notin> dev \<Longrightarrow> f k = g k"
  shows "run_cmd A f t = run_cmd A g t"
proof -
  have "f (hex_addr A a) = g (hex_addr A a)"
    if "next_token {32} t = Some (bytes_of ''peek'', r)" "next_token {32} r = Some (a, r')" for r a r'
    using assms that by (simp add: cmd_ok_def del: bytes_of_simps)
  then show ?thesis by (auto simp: run_cmd_def split: option.split simp del: bytes_of_simps)
qed

section \<open>Steps\<close>

lemma strtoul_hex:
  assumes "cstr m p a" and "hex_word a"
  shows "\<exists>e. strtoul A m p 16 = Inr (hex_arg A a, e)"
  using strtoul_number[of m p "[]" "[]" a "[]" 16 A] assms
  by (auto simp: hex_word_def stops_def sign_neg_def hex_arg_def Let_def min_def)

lemma shell_hash_law:
  assumes "cstr m w t"
  shows "shell_hash m w = Inr (if t = bytes_of ''peek'' then CMD_PEEK else if t = bytes_of ''poke'' then CMD_POKE else 0)"
proof -
  have l: "cstr m (Ptr (Lit ''peek'') 0) (bytes_of ''peek'')" "cstr m (Ptr (Lit ''poke'') 0) (bytes_of ''poke'')"
    by (rule cstr_Lit, simp add: of_char_def)+
  obtain r1 r2 where "strcmp m w (Ptr (Lit ''peek'') 0) = Inr r1" "r1 = 0 \<longleftrightarrow> t = bytes_of ''peek''"
    "strcmp m w (Ptr (Lit ''poke'') 0) = Inr r2" "r2 = 0 \<longleftrightarrow> t = bytes_of ''poke''"
    using strcmp_cstr[OF assms l(1)] strcmp_cstr[OF assms l(2)] by blast
  then show ?thesis unfolding shell_hash_def by (simp del: bytes_of_simps)
qed

definition buf_only :: "'a shell_state_scheme \<Rightarrow> 'a shell_state_scheme \<Rightarrow> bool" where
  "buf_only s s' \<longleftrightarrow> (\<forall>ob. ob \<noteq> shellbuf_obj \<longrightarrow> mem s' ob = mem s ob) \<and> shellptr s' = shellptr s \<and> histptr s' = histptr s"

lemma cstr_writable: "cstr m (Ptr ob i) t \<Longrightarrow> \<not> is_lit ob \<Longrightarrow> writable (Ptr ob i) (Suc (length t))"
  by (simp add: cstr_iff_rd)

context shell_console
begin

definition quiet :: "'a shell_state_scheme \<Rightarrow> 'a shell_state_scheme \<Rightarrow> bool" where
  "quiet s s' \<longleftrightarrow> inv s' \<and> scr s' = scr s \<and> buf_only s s'"

lemma quiet_upd:
  assumes "inv s" and "\<forall>ob. ob \<noteq> shellbuf_obj \<longrightarrow> m ob = mem s ob"
  shows "quiet s (s\<lparr>mem := m, olds := p\<rparr>)"
  using assms scr_upd(2)[where s = s and m = m and p = p] by (simp add: quiet_def buf_only_def)

lemma quiet_trans: "quiet s s' \<Longrightarrow> quiet s' s'' \<Longrightarrow> quiet s s''"
  by (simp add: quiet_def buf_only_def)

lemma strtok_law:
  assumes "inv s" and p: "Ptr shellbuf_obj i = (if p0 = Null then olds s else p0)" and t: "cstr (mem s) (Ptr shellbuf_obj i) t"
  shows "case next_token {32} t of
      None \<Rightarrow> \<exists>s'. shell_strtok p0 s = Inr (Null, s') \<and> quiet s s'
    | Some (tok, rest) \<Rightarrow> \<exists>k j s'. shell_strtok p0 s = Inr (Ptr shellbuf_obj k, s') \<and> quiet s s' \<and>
        i \<le> k \<and> cstr (mem s') (Ptr shellbuf_obj k) tok \<and> olds s' = Ptr shellbuf_obj j \<and>
        cstr (mem s') (Ptr shellbuf_obj j) rest"
proof -
  have d: "cstr (mem s) (Ptr (Lit '' '') 0) [32]"
    using cstr_Lit[of "'' ''" "mem s"] by (simp add: of_char_def)
  have w: "writable (Ptr shellbuf_obj i) (length t)"
    using writable_mono[OF cstr_writable[OF t], of "length t"] by simp
  note tok = strtok_next_token[OF p t d w]
  show ?thesis
  proof (cases "next_token {32} t")
    case None
    then obtain e where "strtok (mem s) (olds s) p0 (Ptr (Lit '' '') 0) = Inr (Null, e, mem s)" using tok by auto
    then show ?thesis using None quiet_upd[OF assms(1), of "mem s" e] by (auto simp: shell_strtok_def)
  next
    case (Some a)
    obtain x r where a: "a = (x, r)" by fastforce
    from tok Some a obtain k j m' where m': "strtok (mem s) (olds s) p0 (Ptr (Lit '' '') 0) =
        Inr (Ptr shellbuf_obj (i + k), Ptr shellbuf_obj (i + j), m')" "0 \<le> k"
        "cstr m' (Ptr shellbuf_obj (i + k)) x" "cstr m' (Ptr shellbuf_obj (i + j)) r"
        "below_same (Ptr shellbuf_obj (i + (k + int (length x)))) (mem s) m'"
      by (auto simp del: cstr.simps)
    let ?s = "s\<lparr>mem := m', olds := Ptr shellbuf_obj (i + j)\<rparr>"
    have "shell_strtok p0 s = Inr (Ptr shellbuf_obj (i + k), ?s)" using m'(1) by (simp add: shell_strtok_def)
    moreover have "quiet s ?s" using below_same_other[OF m'(5)] by (intro quiet_upd[OF assms(1)]) simp
    ultimately show ?thesis using Some a m'(2-4) by (auto simp del: cstr.simps)
  qed
qed

lemma printf_text:
  assumes "inv s" and "0 \<notin> set (bytes_of l)" and "37 \<notin> set (bytes_of l)" and "length l < 2 ^ 31"
  shows "\<exists>u. shell_printf A fp con l [] s = Inr u \<and> inv u \<and> keeps dev s u \<and> scr u = fold emitf (bytes_of l) (scr s)"
proof -
  let ?its = "map Txt (bytes_of l)"
  have "concat (map item_fmt ?its) = bytes_of l" "concat (map item_out ?its) = bytes_of l"
    "concat (map item_args ?its) = []"
    by (induction l) simp_all
  moreover have "list_all (item_ok (mem s)) ?its" using assms(2,3) by (auto simp: list_all_iff)
  ultimately show ?thesis using printf_law[OF assms(1), of l ?its "[]" "bytes_of l" A fp] assms(2,4) by simp
qed

lemma hex_item:
  assumes "wd \<in> {[56], [50]}"
  shows "item_ok m (IntC [48] wd 88 w)"
    "item_out (IntC [48] wd 88 (word_of_int x)) = hex_text (dec_value wd) x"
  using assms by (auto simp: flag_chars_def isdigit_def dec_value_def hex_text_def alt_prefix_def spec_value_def
      spec_base_def)

lemma length_hex_text: "w \<le> 8 \<Longrightarrow> length (hex_text w x) \<le> 41"
proof -
  assume w: "w \<le> 8"
  have "uint (word_of_int x :: u32) < 2 ^ 32"
    using unsigned_less[of "word_of_int x :: u32", where 'a = int] by simp
  then have "length (int_text (uint (word_of_int x :: u32)) 16 False False) \<le> 33"
    by (intro length_int_text) simp_all
  with w show ?thesis by (simp add: hex_text_def pad_text_def)
qed

lemma printf_hex:
  assumes "inv s" and "l = ''%08X'' @ sep @ ''%02X''" and "sep \<in> {'': '', '' = ''}"
    and "text = hex_text 8 x @ bytes_of sep @ hex_text 2 y"
  shows "\<exists>u. shell_printf A fp con l [VI32 (word_of_int x), VI32 (word_of_int y)] s = Inr u \<and>
    inv u \<and> keeps dev s u \<and> scr u = fold emitf text (scr s)"
proof -
  let ?its = "IntC [48] [56] 88 (word_of_int x) # map Txt (bytes_of sep) @ [IntC [48] [50] 88 (word_of_int y)]"
  have d: "dec_value [56] = 8" "dec_value [50] = 2" by (simp_all add: dec_value_def)
  have fmt: "bytes_of l = concat (map item_fmt ?its)" "0 \<notin> set (bytes_of l)"
    using assms(2,3) by (auto simp: of_char_def)
  have ok: "list_all (item_ok (mem s)) ?its"
    using hex_item(1)[of "[56]"] hex_item(1)[of "[50]"] assms(3) by (auto simp: of_char_def simp del: item_ok.simps(2))
  have args: "[VI32 (word_of_int x), VI32 (word_of_int y)] = concat (map item_args ?its)"
    using assms(3) by auto
  have out: "text = concat (map item_out ?its)"
    using hex_item(2)[of "[56]" x] hex_item(2)[of "[50]" y] assms(3,4) d by (auto simp del: item_out.simps(2))
  have len: "length text < 2 ^ 31"
  proof -
    have "length sep \<le> 3" using assms(3) by auto
    then have "length text \<le> 41 + 3 + 41"
      using length_hex_text[of 8 x] length_hex_text[of 2 y] unfolding assms(4) by simp
    then show ?thesis by simp
  qed
  show ?thesis by (rule printf_law[OF assms(1) fmt ok args out len])
qed

lemma printf_unknown:
  assumes "inv s" and "cstr (mem s) (Ptr shellbuf_obj k) w"
  shows "\<exists>u. shell_printf A fp con ''Unknown command: %s'' [VPtr (Ptr shellbuf_obj k)] s = Inr u \<and>
    inv u \<and> keeps dev s u \<and> scr u = fold emitf (bytes_of ''Unknown command: '' @ w) (scr s)"
proof -
  let ?its = "map Txt (bytes_of ''Unknown command: '') @ [StrC (Ptr shellbuf_obj k) w]"
  have "length w \<le> 256" using assms(2) by (cases "0 \<le> k") (auto simp: cstr_iff_rd)
  then have len: "length (bytes_of ''Unknown command: '' @ w) < 2 ^ 31" by simp
  have ok: "list_all (item_ok (mem s)) ?its"
    using assms(2) by (simp add: in_object_def of_char_def del: cstr.simps)
  show ?thesis
    by (rule printf_law[OF assms(1) _ _ ok _ _ len]) (simp_all add: of_char_def)
qed

lemma phys_addr:
  "0 \<le> int_of_ulong (hex_arg A a) mod 2 ^ long_bits A" "int_of_ulong (hex_arg A a) mod 2 ^ long_bits A < 2 ^ 64"
proof -
  have "int_of_ulong (hex_arg A a) mod 2 ^ long_bits A < 2 ^ long_bits A" by simp
  moreover have "(2 :: int) ^ long_bits A \<le> 2 ^ 64" by (simp add: long_bits_def)
  ultimately show "int_of_ulong (hex_arg A a) mod 2 ^ long_bits A < 2 ^ 64" by linarith
qed simp

lemma phys_access:
  assumes "plain (hex_addr A a)"
  shows "phys_load A plain m (int_of_ulong (hex_arg A a)) = Inr (m Phys (hex_addr A a))"
    "phys_store A plain m (int_of_ulong (hex_arg A a)) v = Inr (m(Phys := (m Phys)(hex_addr A a := v)))"
  using assms phys_addr[of A a] by (simp_all add: phys_load_def phys_store_def phys_ptr_def hex_addr_def)

text \<open>A piece of the shell printed \<open>text\<close> and poked \<open>eff\<close>.\<close>

definition did :: "u8 list \<Rightarrow> (nat \<times> u8) option \<Rightarrow> 'a shell_state_scheme \<Rightarrow> 'a shell_state_scheme \<Rightarrow> bool" where
  "did text eff s u \<longleftrightarrow> inv u \<and> scr u = fold emitf text (scr s) \<and>
     (\<forall>ob. ob \<noteq> Phys \<longrightarrow> ob \<notin> scratch \<longrightarrow> ob \<noteq> shellbuf_obj \<longrightarrow> mem u ob = mem s ob) \<and>
     shellptr u = shellptr s \<and> histptr u = histptr s \<and>
     (\<forall>k. k \<notin> dev \<longrightarrow> mem u Phys k = (case eff of Some (a, v) \<Rightarrow> if k = a then v else mem s Phys k | None \<Rightarrow> mem s Phys k))"

lemma did_print:
  assumes "quiet s s1" and "inv u" and "keeps dev s1 u" and "scr u = fold emitf text (scr s1)"
  shows "did text None s u"
  using assms by (simp add: did_def quiet_def buf_only_def keeps_def)

lemma did_trans:
  assumes "did t1 eff s s1" and "inv u" and "keeps dev s1 u" and "scr u = fold emitf t2 (scr s1)"
  shows "did (t1 @ t2) eff s u"
  using assms by (simp add: did_def keeps_def)

lemma did_quiet: "quiet s s1 \<Longrightarrow> did text eff s1 u \<Longrightarrow> did text eff s u"
  by (auto simp: did_def quiet_def buf_only_def split: option.split)

definition peek_out :: "arch \<Rightarrow> (nat \<Rightarrow> u8) \<Rightarrow> u8 list \<Rightarrow> u8 list" where
  "peek_out A phys r = (case next_token {32} r of
      None \<Rightarrow> bytes_of ''Usage: peek <location>''
    | Some (a, _) \<Rightarrow> hex_text 8 (int_of_ulong (hex_arg A a)) @ bytes_of '': '' @ hex_text 2 (uint (phys (hex_addr A a))))"

lemma peek_law:
  assumes "inv s" and o: "olds s = Ptr shellbuf_obj j" and r: "cstr (mem s) (Ptr shellbuf_obj j) r"
    and ok: "\<And>a r'. next_token {32} r = Some (a, r') \<Longrightarrow> hex_word a \<and> con_plain con (hex_addr A a)"
  shows "\<exists>u. shell_peek A fp con s = Inr u \<and> did (peek_out A (mem s Phys) r) None s u"
proof -
  have p: "Ptr shellbuf_obj j = (if Null = Null then olds s else Null)" by (simp add: o)
  note tok = strtok_law[OF assms(1) p r]
  show ?thesis
  proof (cases "next_token {32} r")
    case None
    then obtain s1 where s1: "shell_strtok Null s = Inr (Null, s1)" "quiet s s1" using tok by auto
    then have "inv s1" by (simp add: quiet_def)
    then obtain u where "shell_printf A fp con ''Usage: peek <location>'' [] s1 = Inr u" "inv u" "keeps dev s1 u"
        "scr u = fold emitf (bytes_of ''Usage: peek <location>'') (scr s1)"
      using printf_text[of s1 "''Usage: peek <location>''" A fp] by (auto simp: of_char_def)
    then show ?thesis using s1(1) did_print[OF s1(2)] None
      by (auto simp: shell_peek_def peek_out_def simp del: bytes_of_simps)
  next
    case (Some x)
    obtain a r' where x: "x = (a, r')" by fastforce
    obtain k j' s1 where s1: "shell_strtok Null s = Inr (Ptr shellbuf_obj k, s1)" "quiet s s1"
        "cstr (mem s1) (Ptr shellbuf_obj k) a"
      using tok Some x by (auto simp del: cstr.simps)
    have i: "inv s1" and ph: "mem s1 Phys = mem s Phys" using s1(2) by (simp_all add: quiet_def buf_only_def)
    obtain e where e: "strtoul A (mem s1) (Ptr shellbuf_obj k) 16 = Inr (hex_arg A a, e)"
      using strtoul_hex[OF s1(3)] ok[OF Some[unfolded x]] by blast
    let ?x = "int_of_ulong (hex_arg A a)" and ?b = "mem s Phys (hex_addr A a)"
    obtain u where u: "shell_printf A fp con (''%08X'' @ '': '' @ ''%02X'') [VI32 (word_of_int ?x), VI32 (word_of_int (uint ?b))] s1 = Inr u"
        "inv u" "keeps dev s1 u" "scr u = fold emitf (hex_text 8 ?x @ bytes_of '': '' @ hex_text 2 (uint ?b)) (scr s1)"
      using printf_hex[OF i refl _ refl, of "'': ''" A fp ?x "uint ?b"] by blast
    have "shell_peek A fp con s = Inr u"
      using s1(1) e u(1) phys_access(1)[of "con_plain con" A a "mem s1"] ok[OF Some[unfolded x]] by (simp add: shell_peek_def ph Let_def)
    then show ?thesis using did_print[OF s1(2) u(2-4)] Some x by (simp add: peek_out_def del: bytes_of_simps)
  qed
qed

definition poke_out :: "arch \<Rightarrow> u8 list \<Rightarrow> u8 list \<times> (nat \<times> u8) option" where
  "poke_out A r = (case next_token {32} r of
      None \<Rightarrow> (bytes_of ''Usage: poke <location> <value>'', None)
    | Some (a, r') \<Rightarrow> (case next_token {32} r' of
          None \<Rightarrow> (bytes_of ''Usage: poke <location> <value>'', None)
        | Some (v, _) \<Rightarrow>
            (hex_text 8 (int_of_ulong (hex_arg A a)) @ bytes_of '' = '' @ hex_text 2 (int_of_ulong (hex_arg A v)),
             Some (hex_addr A a, word_of_int (int_of_ulong (hex_arg A v))))))"

lemma poke_usage:
  assumes "quiet s s1"
  shows "\<exists>u. shell_printf A fp con ''Usage: poke <location> <value>'' [] s1 = Inr u \<and>
    did (bytes_of ''Usage: poke <location> <value>'') None s u"
proof -
  have "inv s1" using assms by (simp add: quiet_def)
  then obtain u where "shell_printf A fp con ''Usage: poke <location> <value>'' [] s1 = Inr u" "inv u" "keeps dev s1 u"
      "scr u = fold emitf (bytes_of ''Usage: poke <location> <value>'') (scr s1)"
    using printf_text[of s1 "''Usage: poke <location> <value>''" A fp] by (auto simp: of_char_def)
  then show ?thesis using did_print[OF assms] by blast
qed

lemma poke_store:
  assumes "quiet s s1" and "hex_addr A a \<notin> dev"
    and "inv u" "keeps dev s1 u" "scr u = fold emitf text (scr s1)"
    and "m = (mem u)(Phys := (mem u Phys)(hex_addr A a := v))"
  shows "did text (Some (hex_addr A a, v)) s (u\<lparr>mem := m\<rparr>)"
proof -
  have "scr (u\<lparr>mem := m\<rparr>) = scr u" using assms(2,6) scr_upd(1)[where s = u and m = m] by auto
  then show ?thesis
    using assms did_print[OF assms(1,3-5)] by (simp add: did_def)
qed

lemma poke_law:
  assumes "inv s" and o: "olds s = Ptr shellbuf_obj j" and r: "cstr (mem s) (Ptr shellbuf_obj j) r"
    and ok: "\<And>a r'. next_token {32} r = Some (a, r') \<Longrightarrow> hex_word a \<and> hex_addr A a \<notin> dev \<and> con_plain con (hex_addr A a)"
    and ok': "\<And>a r' v r''. next_token {32} r = Some (a, r') \<Longrightarrow> next_token {32} r' = Some (v, r'') \<Longrightarrow> hex_word v"
  shows "\<exists>u. shell_poke A fp con s = Inr u \<and> did (fst (poke_out A r)) (snd (poke_out A r)) s u"
proof -
  have p: "Ptr shellbuf_obj j = (if Null = Null then olds s else Null)" by (simp add: o)
  note tok = strtok_law[OF assms(1) p r]
  show ?thesis
  proof (cases "next_token {32} r")
    case None
    then obtain s1 where s1: "shell_strtok Null s = Inr (Null, s1)" "quiet s s1" using tok by auto
    from poke_usage[OF s1(2), of A fp] s1(1) None show ?thesis
      by (auto simp: shell_poke_def poke_out_def simp del: bytes_of_simps)
  next
    case (Some x)
    obtain a r' where x: "x = (a, r')" by fastforce
    note a = Some[unfolded x]
    obtain k j' s1 where s1: "shell_strtok Null s = Inr (Ptr shellbuf_obj k, s1)" "quiet s s1"
        "cstr (mem s1) (Ptr shellbuf_obj k) a" "olds s1 = Ptr shellbuf_obj j'" "cstr (mem s1) (Ptr shellbuf_obj j') r'"
      using tok a by (auto simp del: cstr.simps)
    have i: "inv s1" using s1(2) by (simp add: quiet_def)
    obtain e where e: "strtoul A (mem s1) (Ptr shellbuf_obj k) 16 = Inr (hex_arg A a, e)"
      using strtoul_hex[OF s1(3)] ok[OF a] by blast
    have p': "Ptr shellbuf_obj j' = (if Null = Null then olds s1 else Null)" by (simp add: s1(4))
    note tok' = strtok_law[OF i p' s1(5)]
    show ?thesis
    proof (cases "next_token {32} r'")
      case None
      then obtain s2 where s2: "shell_strtok Null s1 = Inr (Null, s2)" "quiet s1 s2" using tok' by auto
      from poke_usage[OF quiet_trans[OF s1(2) s2(2)], of A fp] s1(1) s2(1) e a None show ?thesis
        by (auto simp: shell_poke_def poke_out_def Let_def simp del: bytes_of_simps)
    next
      case (Some y)
      obtain v r'' where y: "y = (v, r'')" by fastforce
      note v = Some[unfolded y]
      obtain k' s2 where s2: "shell_strtok Null s1 = Inr (Ptr shellbuf_obj k', s2)" "quiet s1 s2"
          "cstr (mem s2) (Ptr shellbuf_obj k') v"
        using tok' v by (auto simp del: cstr.simps)
      have q: "quiet s s2" by (rule quiet_trans[OF s1(2) s2(2)])
      then have i2: "inv s2" by (simp add: quiet_def)
      obtain e' where e': "strtoul A (mem s2) (Ptr shellbuf_obj k') 16 = Inr (hex_arg A v, e')"
        using strtoul_hex[OF s2(3) ok'[OF a v]] by blast
      let ?x = "int_of_ulong (hex_arg A a)" and ?v = "int_of_ulong (hex_arg A v)"
      obtain u where u: "shell_printf A fp con (''%08X'' @ '' = '' @ ''%02X'') [VI32 (word_of_int ?x), VI32 (word_of_int ?v)] s2 = Inr u"
          "inv u" "keeps dev s2 u" "scr u = fold emitf (hex_text 8 ?x @ bytes_of '' = '' @ hex_text 2 ?v) (scr s2)"
        using printf_hex[OF i2 refl _ refl, of "'' = ''" A fp ?x ?v] by blast
      define m where "m = (mem u)(Phys := (mem u Phys)(hex_addr A a := word_of_int ?v))"
      have "shell_poke A fp con s = Inr (u\<lparr>mem := m\<rparr>)"
        using s1(1) s2(1) e e' u(1) phys_access(2)[of "con_plain con" A a "mem u"] ok[OF a] by (simp add: shell_poke_def Let_def m_def)
      then show ?thesis
        using poke_store[OF q _ u(2-4) m_def] ok[OF a] a v by (simp add: poke_out_def del: bytes_of_simps)
    qed
  qed
qed

lemma command_law:
  assumes "inv s" and "cstr (mem s) (Ptr shellbuf_obj 0) t" and run: "run_cmd A (mem s Phys) t = Some (out, eff)"
    and ok: "cmd_ok A (dev \<union> {k. \<not> con_plain con k}) t"
  shows "\<exists>u. bindR (shell_strtok (shellbuf 0) s) (\<lambda>(word, s). shell_command A fp con word s) = Inr u \<and> did out eff s u"
proof -
  have p: "Ptr shellbuf_obj 0 = (if shellbuf 0 = Null then olds s else shellbuf 0)" by (simp add: shellbuf_def)
  obtain w r where w: "next_token {32} t = Some (w, r)" using run by (auto simp: run_cmd_def split: option.splits)
  obtain k j s1 where s1: "shell_strtok (shellbuf 0) s = Inr (Ptr shellbuf_obj k, s1)" "quiet s s1"
      "cstr (mem s1) (Ptr shellbuf_obj k) w" "olds s1 = Ptr shellbuf_obj j" "cstr (mem s1) (Ptr shellbuf_obj j) r"
    using strtok_law[OF assms(1) p assms(2)] w by (auto simp del: cstr.simps)
  have i: "inv s1" and ph: "mem s1 Phys = mem s Phys" using s1(2) by (simp_all add: quiet_def buf_only_def)
  note hash = shell_hash_law[OF s1(3)]
  consider (peek) "w = bytes_of ''peek''" | (poke) "w = bytes_of ''poke''"
    | (other) "w \<noteq> bytes_of ''peek''" "w \<noteq> bytes_of ''poke''" by blast
  then have "\<exists>u. shell_command A fp con (Ptr shellbuf_obj k) s1 = Inr u \<and> did out eff s1 u"
  proof cases
    case peek
    then have "hex_word a \<and> con_plain con (hex_addr A a)" if "next_token {32} r = Some (a, r')" for a r'
      using ok w that by (simp add: cmd_ok_def del: bytes_of_simps)
    then obtain u where "shell_peek A fp con s1 = Inr u" "did (peek_out A (mem s Phys) r) None s1 u"
      using peek_law[OF i s1(4,5), of A fp] unfolding ph by blast
    moreover have "out = peek_out A (mem s Phys) r" "eff = None"
      using run peek w by (auto simp: run_cmd_def peek_out_def split: option.splits simp del: bytes_of_simps)
    ultimately show ?thesis using hash peek by (simp add: shell_command_def)
  next
    case poke
    then have "w \<noteq> bytes_of ''peek''" by (simp add: of_char_def)
    have "hex_word a \<and> hex_addr A a \<notin> dev \<and> con_plain con (hex_addr A a)" if "next_token {32} r = Some (a, r')" for a r'
      using ok w that poke by (simp add: cmd_ok_def del: bytes_of_simps)
    moreover have "hex_word v" if "next_token {32} r = Some (a, r')" "next_token {32} r' = Some (v, r'')" for a r' v r''
      using ok w that poke by (simp add: cmd_ok_def del: bytes_of_simps)
    ultimately obtain u where "shell_poke A fp con s1 = Inr u" "did (fst (poke_out A r)) (snd (poke_out A r)) s1 u"
      using poke_law[OF i s1(4,5), of A fp] by blast
    moreover have "out = fst (poke_out A r)" "eff = snd (poke_out A r)"
      using run poke w \<open>w \<noteq> bytes_of ''peek''\<close>
      by (auto simp: run_cmd_def poke_out_def split: option.splits simp del: bytes_of_simps)
    ultimately show ?thesis using hash poke by (simp add: shell_command_def CMD_PEEK_def CMD_POKE_def of_char_def)
  next
    case other
    obtain u where u: "shell_printf A fp con ''Unknown command: %s'' [VPtr (Ptr shellbuf_obj k)] s1 = Inr u"
        "inv u" "keeps dev s1 u" "scr u = fold emitf (bytes_of ''Unknown command: '' @ w) (scr s1)"
      using printf_unknown[OF i s1(3)] by blast
    moreover have "out = bytes_of ''Unknown command: '' @ w" "eff = None"
      using run other w by (auto simp: run_cmd_def simp del: bytes_of_simps)
    moreover have "quiet s1 s1" using i by (simp add: quiet_def buf_only_def)
    ultimately show ?thesis using hash other did_print[of s1 s1 u]
      by (simp add: shell_command_def CMD_PEEK_def CMD_POKE_def del: bytes_of_simps)
  qed
  then show ?thesis using s1(1) did_quiet[OF s1(2)] by auto
qed

end

section \<open>History\<close>

lemma shell_save_law:
  "\<exists>m. shell_save s = Inr (s\<lparr>mem := m, shellptr := 0, histptr := histptr s + 1\<rparr>) \<and>
     rd m (shellbuf 0) 256 = replicate 256 0 \<and>
     rd m (shellhist (uint (histptr s))) 256 = rd (mem s) (shellbuf 0) 256 \<and>
     load m (shellptr_hist (uint (histptr s))) = Inr (shellptr s) \<and>
     (\<forall>ob. ob \<notin> {shellbuf_obj, shellhist_obj, shellptr_hist_obj} \<longrightarrow> m ob = mem s ob)"
proof -
  define h where "h = uint (histptr s)"
  have h: "0 \<le> h" "h < 256" using unsigned_less[of "histptr s", where 'a = int] by (simp_all add: h_def)
  let ?b = "rd (mem s) (shellbuf 0) 256"
  define m1 where "m1 = wr (mem s) (shellhist h) ?b"
  define m2 where "m2 = wr m1 (shellptr_hist h) [shellptr s]"
  define m3 where "m3 = wr m2 (shellbuf 0) (replicate 256 0)"
  have w: "writable (shellhist h) 256" "writable (shellptr_hist h) 1" "length ?b = 256"
    using h by (simp_all add: shellhist_def shellptr_hist_def)
  have "memcpy (mem s) (shellhist h) (shellbuf 0) (int 256) = Inr (shellhist h, m1)"
    unfolding m1_def using w by (intro memcpy_wr) (simp_all add: shellhist_def shellbuf_def)
  moreover have "store m1 (shellptr_hist h) (shellptr s) = Inr m2" unfolding m2_def by (rule store_wr[OF w(2)])
  moreover have "memset m2 (shellbuf 0) 0 (int 256) = Inr (shellbuf 0, m3)"
    unfolding m3_def using memset_wr[of "shellbuf 0" 256 m2 0] by simp
  ultimately have "shell_save s = Inr (s\<lparr>mem := m3, shellptr := 0, histptr := histptr s + 1\<rparr>)"
    by (simp add: shell_save_def flip: h_def)
  moreover have "rd m3 (shellbuf 0) 256 = replicate 256 0"
    unfolding m3_def using rd_wr_same[of "shellbuf 0" "replicate 256 0" m2] by simp
  moreover have "rd m3 (shellhist h) 256 = ?b"
  proof -
    have "m3 shellhist_obj = m1 shellhist_obj" by (simp add: m3_def m2_def shellbuf_def shellptr_hist_def)
    then have "rd m3 (shellhist h) 256 = rd m1 (shellhist h) 256"
      unfolding shellhist_def by (rule rd_cong)
    then show ?thesis using rd_wr_same[of "shellhist h" ?b "mem s"] w by (simp add: m1_def)
  qed
  moreover have "load m3 (shellptr_hist h) = Inr (shellptr s)"
    using h by (simp add: m3_def m2_def shellbuf_def shellptr_hist_def wr_nth)
  moreover have "\<forall>ob. ob \<notin> {shellbuf_obj, shellhist_obj, shellptr_hist_obj} \<longrightarrow> m3 ob = mem s ob"
    by (simp add: m3_def m2_def m1_def shellbuf_def shellptr_hist_def shellhist_def)
  ultimately show ?thesis unfolding h_def by blast
qed

section \<open>The Enter key\<close>

context shell_console
begin

lemma proc_law:
  assumes "inv s" and "line s t" and "run_cmd A (mem s Phys) t = Some (out, eff)" and "cmd_ok A (dev \<union> {k. \<not> con_plain con k}) t"
  shows "\<exists>u. shell_proc A fp con s = Inr u \<and> inv u \<and> line u [] \<and> histptr u = histptr s + 1 \<and>
    scr u = fold emitf (out @ [10]) (scr s) \<and>
    (\<forall>k. k \<notin> dev \<longrightarrow> mem u Phys k = (case eff of Some (a, v) \<Rightarrow> if k = a then v else mem s Phys k | None \<Rightarrow> mem s Phys k))"
proof -
  obtain s1 where s1: "bindR (shell_strtok (shellbuf 0) s) (\<lambda>(word, s). shell_command A fp con word s) = Inr s1"
      "did out eff s s1"
    using command_law[OF assms(1) _ assms(3,4), of fp] line_cstr[OF assms(2)] by (auto simp: shellbuf_def)
  have "inv s1" using s1(2) by (simp add: did_def)
  then obtain s2 where s2: "shell_printf A fp con [CHR 10] [] s1 = Inr s2" "inv s2" "keeps dev s1 s2"
      "scr s2 = fold emitf (bytes_of [CHR 10]) (scr s1)"
    using printf_text[of s1 "[CHR 10]" A fp] by (auto simp: of_char_def)
  have d: "did (out @ [10]) eff s s2" using did_trans[OF s1(2) s2(2,3), of "[10]"] s2(4) by (simp add: of_char_def)
  obtain m where m: "shell_save s2 = Inr (s2\<lparr>mem := m, shellptr := 0, histptr := histptr s2 + 1\<rparr>)"
      "rd m (shellbuf 0) 256 = replicate 256 0"
      "\<forall>ob. ob \<notin> {shellbuf_obj, shellhist_obj, shellptr_hist_obj} \<longrightarrow> m ob = mem s2 ob"
    using shell_save_law[of s2] by blast
  let ?u = "s2\<lparr>mem := m, shellptr := 0, histptr := histptr s2 + 1\<rparr>"
  have "shell_proc A fp con s = Inr ?u"
    using s1(1) s2(1) m(1) by (auto simp: shell_proc_def)
  moreover have "scr ?u = scr s2"
    using scr_upd(4)[where s = s2 and m = m and a = 0 and b = "histptr s2 + 1"] m(3) by simp
  moreover have "line ?u []" using m(2) by (simp add: line_def)
  ultimately show ?thesis using d s2(2) m(3) by (simp add: did_def)
qed

lemma enter_law:
  assumes "inv s" and "line s t" and run: "run_cmd A (mem s Phys) t = Some (out, eff)" and "cmd_ok A (dev \<union> {k. \<not> con_plain con k}) t"
  shows "\<exists>u. kcallback A fp con 10 ks s = Inr u \<and> inv u \<and> line u [] \<and> histptr u = histptr s + 1 \<and>
    scr u = fold emitf (10 # out @ [10, 62]) (posf 0 (scr s)) \<and>
    (\<forall>k. k \<notin> dev \<longrightarrow> mem u Phys k = (case eff of Some (a, v) \<Rightarrow> if k = a then v else mem s Phys k | None \<Rightarrow> mem s Phys k))"
proof -
  obtain s1 where s1: "con_setpos_x con 0 s = Inr s1" "inv s1" "keeps dev s s1" "scr s1 = posf 0 (scr s)"
    using setpos_law[OF assms(1), of 0] by auto
  obtain s2 where s2: "con_putc con 10 s1 = Inr s2" "inv s2" "keeps dev s1 s2" "scr s2 = emitf 10 (scr s1)"
    using putc_law[OF s1(2)] by blast
  have k: "keeps dev s s2" by (rule keeps_trans[OF s1(3) s2(3)])
  have l: "line s2 t" using line_keeps[OF k] assms(2) by simp
  have ph: "mem s2 Phys k = mem s Phys k" if "k \<notin> dev" for k using k that by (simp add: keeps_def)
  have "run_cmd A (mem s2 Phys) t = Some (out, eff)"
    using run run_cmd_cong[OF cmd_ok_mono[OF assms(4), of dev], of "mem s2 Phys" "mem s Phys"] ph by simp
  from proc_law[OF s2(2) l this assms(4), of fp] obtain s3 where s3: "shell_proc A fp con s2 = Inr s3" "inv s3"
      "line s3 []" "histptr s3 = histptr s2 + 1" "scr s3 = fold emitf (out @ [10]) (scr s2)"
      "\<forall>k. k \<notin> dev \<longrightarrow> mem s3 Phys k = (case eff of Some (a, v) \<Rightarrow> if k = a then v else mem s2 Phys k | None \<Rightarrow> mem s2 Phys k)"
    by blast
  obtain s4 where s4: "con_puts con (Ptr (Lit ''>'') 0) s3 = Inr s4" "inv s4" "keeps dev s3 s4" "scr s4 = emitf 62 (scr s3)"
    using puts_prompt[OF s3(2)] by blast
  have "kcallback A fp con 10 ks s = Inr s4" using s1(1) s2(1) s3(1) s4(1) by (simp add: kcallback_def)
  moreover have "line s4 []" using line_keeps[OF s4(3)] s3(3) by simp
  moreover have "histptr s4 = histptr s + 1" using s3(4) s4(3) k by (simp add: keeps_def)
  moreover have "scr s4 = fold emitf (10 # out @ [10, 62]) (posf 0 (scr s))"
    using s4(4) s3(5) s2(4) s1(4) by simp
  moreover have "mem s4 Phys k = (case eff of Some (a, v) \<Rightarrow> if k = a then v else mem s Phys k | None \<Rightarrow> mem s Phys k)"
    if "k \<notin> dev" for k
    using that s3(6) s4(3) ph[OF that] by (auto simp: keeps_def split: option.split)
  ultimately show ?thesis using s4(2) by blast
qed

text \<open>The beginning of the Enter key's handling.\<close>

lemma enter_start:
  assumes "inv s" and "line s t"
  shows "\<exists>s2. kcallback A fp con 10 ks s = bindR (shell_proc A fp con s2) (\<lambda>s. con_puts con (Ptr (Lit ''>'') 0) s) \<and>
    inv s2 \<and> keeps dev s s2 \<and> line s2 t \<and> cstr (mem s2) (Ptr shellbuf_obj 0) t"
proof -
  obtain s1 where s1: "con_setpos_x con 0 s = Inr s1" "inv s1" "keeps dev s s1"
    using setpos_law[OF assms(1), of 0] by auto
  obtain s2 where s2: "con_putc con 10 s1 = Inr s2" "inv s2" "keeps dev s1 s2" using putc_law[OF s1(2)] by blast
  have k: "keeps dev s s2" by (rule keeps_trans[OF s1(3) s2(3)])
  have l: "line s2 t" using line_keeps[OF k] assms(2) by simp
  then have "cstr (mem s2) (Ptr shellbuf_obj 0) t" using line_cstr[OF l] by (simp add: shellbuf_def)
  with s1(1) s2 k l show ?thesis by (intro exI[of _ s2]) (simp add: kcallback_def del: cstr.simps)
qed

text \<open>A line of blanks only: \<open>strtok\<close> returns null and \<open>strcmp\<close> dereferences it.\<close>

lemma enter_blank:
  assumes "inv s" and "line s t" and "next_token {32} t = None"
  shows "kcallback A fp con 10 ks s = Inl NullDeref"
proof -
  obtain s2 where s2: "kcallback A fp con 10 ks s = bindR (shell_proc A fp con s2) (\<lambda>s. con_puts con (Ptr (Lit ''>'') 0) s)"
      "inv s2" "cstr (mem s2) (Ptr shellbuf_obj 0) t"
    using enter_start[OF assms(1,2)] by blast
  from strtok_law[OF s2(2) _ s2(3), of "shellbuf 0"] assms(3) obtain s3 where
    "shell_strtok (shellbuf 0) s2 = Inr (Null, s3)" by (auto simp: shellbuf_def)
  moreover have "shell_hash m Null = Inl NullDeref" for m by (simp add: shell_hash_def strcmp.simps)
  ultimately show ?thesis using s2(1) by (simp add: shell_proc_def shell_command_def)
qed

text \<open>
  The line goes to the history after \<open>strtok\<close> has cut it: the entry is the first word, the
  length kept beside it that of the whole line.
\<close>

lemma first_word_cut:
  assumes "inv s" and t: "cstr (mem s) (Ptr shellbuf_obj 0) (w @ 32 # r)" and w: "w \<noteq> []" "32 \<notin> set w"
  shows "\<exists>s'. shell_strtok (shellbuf 0) s = Inr (Ptr shellbuf_obj 0, s') \<and> quiet s s' \<and> cstr (mem s') (Ptr shellbuf_obj 0) w"
proof -
  let ?p = "Ptr shellbuf_obj 0" and ?t = "w @ 32 # r"
  have d: "cstr (mem s) (Ptr (Lit '' '') 0) [32]"
    using cstr_Lit[of "'' ''" "mem s"] by (simp add: of_char_def)
  have wr: "writable ?p (length ?t)" using writable_mono[OF cstr_writable[OF t], of "length ?t"] by simp
  have p: "?p = (if shellbuf 0 = Null then olds s else shellbuf 0)" by (simp add: shellbuf_def)
  have dw: "dropWhile (\<lambda>c. c \<in> set [32]) ?t = ?t" "takeWhile (\<lambda>c. c \<in> set [32]) ?t = []"
    using w by (cases w; auto)+
  have tw: "takeWhile (\<lambda>c. c \<notin> set [32]) ?t = w" using w(2) by (subst takeWhile_append2) auto
  have run: "strtok (mem s) (olds s) (shellbuf 0) (Ptr (Lit '' '') 0) =
      Inr (?p, Ptr shellbuf_obj (int (length w) + 1), wr (mem s) (Ptr shellbuf_obj (int (length w))) [0])"
    using strtok_step_at(3)[OF p t d wr dw(1)[symmetric] tw[symmetric] refl refl] dw(2) by simp
  have "next_token {32} ?t = Some (w, r)" using w dw tw by (simp add: next_token_def Let_def)
  with strtok_next_token[OF p t d wr] run
  have "cstr (wr (mem s) (Ptr shellbuf_obj (int (length w))) [0]) ?p w" by (auto simp del: cstr.simps)
  moreover have "quiet s (s\<lparr>mem := wr (mem s) (Ptr shellbuf_obj (int (length w))) [0], olds := Ptr shellbuf_obj (int (length w) + 1)\<rparr>)"
    by (rule quiet_upd[OF assms(1)]) simp
  ultimately show ?thesis using run by (simp add: shell_strtok_def del: cstr.simps)
qed

lemma history_first_word:
  assumes "inv s" and l: "line s (w @ 32 # r)" and w: "w \<noteq> []" "32 \<notin> set w"
    and other: "w \<noteq> bytes_of ''peek''" "w \<noteq> bytes_of ''poke''"
  shows "\<exists>u. kcallback A fp con 10 ks s = Inr u \<and> histptr u = histptr s + 1 \<and> cstr (mem u) (shellhist (uint (histptr s))) w \<and>
    load (mem u) (shellptr_hist (uint (histptr s))) = Inr (of_nat (length w + 1 + length r))"
proof -
  obtain s2 where s2: "kcallback A fp con 10 ks s = bindR (shell_proc A fp con s2) (\<lambda>s. con_puts con (Ptr (Lit ''>'') 0) s)"
      "inv s2" "keeps dev s s2" "cstr (mem s2) (Ptr shellbuf_obj 0) (w @ 32 # r)"
    using enter_start[OF assms(1) l] by blast
  obtain s3 where s3: "shell_strtok (shellbuf 0) s2 = Inr (Ptr shellbuf_obj 0, s3)" "quiet s2 s3" "cstr (mem s3) (Ptr shellbuf_obj 0) w"
    using first_word_cut[OF s2(2,4) w] by blast
  have i3: "inv s3" using s3(2) by (simp add: quiet_def)
  obtain s4 where s4: "shell_printf A fp con ''Unknown command: %s'' [VPtr (Ptr shellbuf_obj 0)] s3 = Inr s4" "inv s4" "keeps dev s3 s4"
    using printf_unknown[OF i3 s3(3)] by blast
  obtain s5 where s5: "shell_printf A fp con [CHR 10] [] s4 = Inr s5" "inv s5" "keeps dev s4 s5"
    using printf_text[OF s4(2), of "[CHR 10]" A fp] by (auto simp: of_char_def)
  have k: "keeps dev s3 s5" by (rule keeps_trans[OF s4(3) s5(3)])
  have vars: "histptr s5 = histptr s" "shellptr s5 = shellptr s" "mem s5 shellbuf_obj = mem s3 shellbuf_obj"
    using k s3(2) s2(3) by (simp_all add: keeps_def quiet_def buf_only_def)
  obtain m where m: "shell_save s5 = Inr (s5\<lparr>mem := m, shellptr := 0, histptr := histptr s5 + 1\<rparr>)"
      "rd m (shellhist (uint (histptr s5))) 256 = rd (mem s5) (shellbuf 0) 256"
      "load m (shellptr_hist (uint (histptr s5))) = Inr (shellptr s5)"
      "\<forall>ob. ob \<notin> {shellbuf_obj, shellhist_obj, shellptr_hist_obj} \<longrightarrow> m ob = mem s5 ob"
    using shell_save_law[of s5] by blast
  let ?u = "s5\<lparr>mem := m, shellptr := 0, histptr := histptr s5 + 1\<rparr>"
  have "shell_proc A fp con s2 = Inr ?u"
    using s3(1) s4(1) s5(1) m(1) shell_hash_law[OF s3(3)] other
    by (simp add: shell_proc_def shell_command_def CMD_PEEK_def CMD_POKE_def del: bytes_of_simps)
  moreover have "inv ?u" using s5(2) by simp
  then obtain u where u: "con_puts con (Ptr (Lit ''>'') 0) ?u = Inr u" "keeps dev ?u u" using puts_prompt by blast
  have hist: "cstr m (shellhist (uint (histptr s))) w"
  proof -
    have "cstr (mem s5) (shellbuf 0) w" using s3(3) cstr_cong[of "mem s5" shellbuf_obj "mem s3"] vars(3) by (simp add: shellbuf_def)
    then have "rd (mem s5) (shellbuf 0) (Suc (length w)) = w @ [0]" "0 \<notin> set w" "length w < 256"
      by (auto simp: cstr_iff_rd shellbuf_def)
    moreover have "0 \<le> uint (histptr s)" "uint (histptr s) < 256" using unsigned_less[of "histptr s", where 'a = int] by simp_all
    moreover have "rd m (shellhist (uint (histptr s))) (Suc (length w)) = rd (mem s5) (shellbuf 0) (Suc (length w))"
      using m(2) \<open>length w < 256\<close> vars(1) unfolding shellhist_def shellbuf_def
      by (metis Suc_leI rd_take)
    ultimately show ?thesis by (simp add: cstr_iff_rd shellhist_def)
  qed
  have "mem u ob = m ob" if "ob \<in> {shellhist_obj, shellptr_hist_obj}" for ob using u(2) that by (auto simp: keeps_def)
  then have "cstr (mem u) (shellhist (uint (histptr s))) w" "load (mem u) (shellptr_hist (uint (histptr s))) = Inr (shellptr s)"
    using hist m(3) vars cstr_cong[of "mem u" shellhist_obj m] load_cong[of "mem u" shellptr_hist_obj m]
    by (simp_all add: shellhist_def shellptr_hist_def del: cstr.simps load.simps)
  moreover have "shellptr s = of_nat (length w + 1 + length r)"
  proof -
    have "unat (shellptr s) = length w + 1 + length r" using l by (simp add: line_def)
    moreover have "shellptr s = of_nat (unat (shellptr s))" by simp
    ultimately show ?thesis by simp
  qed
  moreover have "histptr u = histptr s + 1" using u(2) vars(1) by (simp add: keeps_def)
  ultimately show ?thesis using s2(1) u(1) \<open>shell_proc A fp con s2 = Inr ?u\<close> by auto
qed

end

section \<open>A full line\<close>

text \<open>The loop of \<open>puts\<close> on an object without a terminator.\<close>

context console_out
begin

lemma puts_loop_unterminated:
  assumes "\<forall>k < length t. obj_byte (mem s) ob (nat i + k) = t ! k" and "0 \<le> i" and "i + int (length t) = int (osize ob)"
    and "0 \<notin> set t" and "ob \<noteq> Phys" and "foldR putc t s = Inr u"
  shows "puts_loop putc (Ptr ob i) s = Inl OutOfBounds"
  using assms(1-4,6)
proof (induction t arbitrary: i s)
  case Nil
  then show ?case by (simp add: puts_loop.simps)
next
  case (Cons c t)
  obtain s1 where s1: "putc c s = Inr s1" "foldR putc t s1 = Inr u" using Cons.prems(5) by auto
  have c: "load (mem s) (Ptr ob i) = Inr c" using Cons.prems(1)[rule_format, of 0] Cons.prems(2,3) by simp
  have "\<forall>k < length t. obj_byte (mem s1) ob (nat (i + 1) + k) = t ! k"
    using Cons.prems(1)[rule_format, of "Suc k" for k] Cons.prems(2) obj_byte_cong[of "mem s1" ob "mem s", OF putc_frame[OF s1(1) assms(5)]]
    by (simp add: nat_add_distrib)
  then have "puts_loop putc (Ptr ob (i + 1)) s1 = Inl OutOfBounds"
    using Cons.prems(2-4) s1(2) by (intro Cons.IH) auto
  then show ?case using c s1(1) Cons.prems(4) by (simp add: puts_loop.simps[of putc "Ptr ob i"] del: load.simps)
qed

end

lemma plain_keys_edit: "list_all (\<lambda>(c, ks). plain_key A c ks) keys \<Longrightarrow> fold (edit A) keys t = t @ map fst keys"
  by (induction keys arbitrary: t) (auto simp: edit_def plain_key_def)

context shell_console
begin

text \<open>The buffer has room for 255 characters and their terminator; the next one takes its place.\<close>

lemma full_line_insert:
  assumes "inv s" and "line s t" and "length t = 255" and "plain_key A c ks"
  shows "kcallback A fp con c ks s = Inl OutOfBounds"
proof -
  have c: "c \<noteq> 0" "c \<noteq> 10" "ks AND kbd_bcksp A = 0" "ks AND kbd_up = 0" "ks AND kbd_down = 0"
    using assms(4) by (simp_all add: plain_key_def)
  have b: "rd (mem s) (shellbuf 0) 256 = t @ [0]" and p: "uint (shellptr s) = int 255"
    using assms(2,3) by (simp_all add: line_def uint_nat)
  obtain m where m: "store (mem s) (shellbuf (uint (shellptr s))) c = Inr m" "rd m (shellbuf 0) 256 = (t @ [0])[255 := c]"
      "\<forall>ob. ob \<noteq> shellbuf_obj \<longrightarrow> m ob = mem s ob"
    using rd_store_shellbuf[OF b, of 255 c] unfolding p by auto
  let ?s = "s\<lparr>mem := m, shellptr := shellptr s + 1\<rparr>"
  have "inv ?s" using assms(1) by simp
  then obtain s1 where s1: "con_setpos_x con 1 ?s = Inr s1" "inv s1" "keeps dev ?s s1"
    using setpos_law[of ?s 1] by auto
  have full: "rd (mem s1) (shellbuf 0) 256 = t @ [c]"
    using m(2) s1(3) assms(3) rd_cong[of "mem s1" shellbuf_obj m 0 256] by (simp add: keeps_def shellbuf_def list_update_append)
  obtain u where u: "foldR (con_putc con) (t @ [c]) s1 = Inr u" using fold_law[OF s1(2)] by blast
  have "puts_loop (con_putc con) (Ptr shellbuf_obj 0) s1 = Inl OutOfBounds"
  proof (rule puts_loop_unterminated[OF _ _ _ _ _ u])
    show "\<forall>k < length (t @ [c]). obj_byte (mem s1) shellbuf_obj (nat 0 + k) = (t @ [c]) ! k"
      using full assms(3) nth_rd[of _ 256 "mem s1" shellbuf_obj 0] by (auto simp: shellbuf_def simp flip: full)
    show "0 \<notin> set (t @ [c])" using assms(2) c(1) by (auto simp: line_def)
  qed (use assms(3) in simp_all)
  then show ?thesis
    using c m(1) s1(1) by (simp add: kcallback_def kcallback_insert_def PROMPT_LEN_def puts_law puts_with_def shellbuf_def)
qed

lemma long_line_overruns:
  assumes "inv s" and "line s []" and "list_all (\<lambda>(c, ks). plain_key A c ks) keys" and "length keys = 256"
  shows "foldR (\<lambda>(c, ks). kcallback A fp con c ks) keys s = Inl OutOfBounds"
proof -
  obtain ks c k where keys: "keys = ks @ [(c, k)]" using assms(4) by (cases keys rule: rev_cases) (auto intro: prod.exhaust)
  have ks: "length ks = 255" "list_all (\<lambda>(c, ks). plain_key A c ks) ks" "plain_key A c k" using assms(3,4) by (simp_all add: keys)
  have "\<forall>x \<in> set ks. editing A x" using ks(2) by (auto simp: list_all_iff editing_def)
  then obtain s' where s': "foldR (\<lambda>(c, ks). kcallback A fp con c ks) ks s = Inr s'" "inv s'" "line s' (map fst ks)"
    using edit_session[OF assms(1,2), of ks A fp] ks(1) plain_keys_edit[OF ks(2), of "[]"] by auto
  show ?thesis using full_line_insert[OF s'(2,3) _ ks(3), of fp] s'(1) ks(1) by (simp add: keys foldR_append)
qed

end

end
