(* ===== verification/Frame.thy ===== *)
theory Frame
  imports ShellCmd
begin

text \<open>
  What no run of \<open>printf\<close> or of the shell can break: any property of the state that the
  console operations keep and that does not depend on memory or on the shell's own variables. This
  holds of every format and every key, also those outside the contracts of the other theories.
  The locales \<open>stable_putc\<close> and \<open>stable_console\<close> state the requirement for a character
  output and for a whole console.
\<close>

section \<open>\<open>printf\<close>\<close>

locale stable_putc =
  fixes putc :: "('a lib_state_scheme) putc_fun" and P :: "'a lib_state_scheme \<Rightarrow> bool"
  assumes putc_P: "putc c s = Inr s' \<Longrightarrow> P s \<Longrightarrow> P s'"
    and mem_P: "P s \<Longrightarrow> P (s\<lparr>mem := m\<rparr>)"
begin

lemma displayCharacter_P: "displayCharacter putc c cs = Inr (a, s') \<Longrightarrow> P (snd cs) \<Longrightarrow> P s'"
  by (cases cs) (auto simp: displayCharacter_def dest: putc_P)

lemma displayString_loop_P: "displayString_loop putc p i cs = Inr (a, s') \<Longrightarrow> P (snd cs) \<Longrightarrow> P s'"
proof (induction "ptr_room (ptr_add p i)" arbitrary: i cs rule: less_induct)
  case less
  from less.prems(1) obtain b where b: "load (mem (snd cs)) (ptr_add p i) = Inr b"
    by (subst (asm) displayString_loop.simps) auto
  show ?case
  proof (cases "b = 0")
    case True
    then show ?thesis using less.prems b by (subst (asm) displayString_loop.simps) auto
  next
    case False
    then obtain a1 s1 where s1: "displayCharacter putc b cs = Inr (a1, s1)"
        "displayString_loop putc p (i + 1) (a1, s1) = Inr (a, s')"
      using less.prems(1) b by (subst (asm) displayString_loop.simps) auto
    show ?thesis
      using less.hyps[OF ptr_room_load_add[OF b] s1(2)] displayCharacter_P[OF s1(1) less.prems(2)] by simp
  qed
qed

lemma displayString_P: "displayString putc p cs = Inr (a, s') \<Longrightarrow> P (snd cs) \<Longrightarrow> P s'"
  unfolding displayString_def by (rule displayString_loop_P)

lemma show_int_P: "show_int putc v b pl sp w l z cs = Inr (a, s') \<Longrightarrow> P (snd cs) \<Longrightarrow> P s'"
  by (cases cs) (auto simp: show_int_def dest!: displayString_P intro: mem_P)

lemma show_arg_P: "show_arg putc f b arg ap cs = Inr (ap', a, s') \<Longrightarrow> P (snd cs) \<Longrightarrow> P s'"
  by (auto simp: show_arg_def dest: show_int_P split: option.splits)

lemma show_count_P: "show_count A f ap cs = Inr (ap', a, s') \<Longrightarrow> P (snd cs) \<Longrightarrow> P s'"
  by (cases cs) (auto simp: show_count_def intro: mem_P split: option.splits)

lemma show_double_P: "show_double fp putc f em b ap cs = Inr (ex, ap', a, s') \<Longrightarrow> P (snd cs) \<Longrightarrow> P s'"
  unfolding show_double_def
  by (auto simp: Let_def dest!: show_int_P displayCharacter_P displayString_P simp: mem_P split: if_splits)

lemma convert_P:
  assumes "convert A fp putc f ap cs = Inr (ap', a, s')" and "P (snd cs)"
  shows "P s'"
proof -
  obtain chars s where cs: "cs = (chars, s)" by fastforce
  have ok: "P (s\<lparr>mem := m\<rparr>)" for m using assms(2) cs mem_P by simp
  show ?thesis using assms(1) ok unfolding convert_def cs
    by (auto simp: Let_def split: if_splits prod.splits
        dest!: show_int_P show_arg_P show_count_P show_double_P displayCharacter_P displayString_P)
qed

lemma vprintf_loop_P: "vprintf_loop A fp putc fmt i ap cs = Inr (a, s') \<Longrightarrow> P (snd cs) \<Longrightarrow> P s'"
proof (induction "ptr_room (ptr_add fmt i)" arbitrary: i ap cs rule: less_induct)
  case less
  from less.prems(1) obtain c where c: "load (mem (snd cs)) (ptr_add fmt i) = Inr c"
    by (subst (asm) vprintf_loop.simps) auto
  consider (nul) "c = 0" | (conv) "c = 37" | (plain) "c \<noteq> 0" "c \<noteq> 37" by blast
  then show ?case
  proof cases
    case nul
    then show ?thesis using less.prems c by (subst (asm) vprintf_loop.simps) auto
  next
    case conv
    then obtain i' f ap' ap'' a1 s1 where s1: "parse_spec (mem (snd cs)) fmt (i + 1) ap = Inr (i', f, ap')"
        "convert A fp putc f ap' cs = Inr (ap'', a1, s1)" "vprintf_loop A fp putc fmt (i' + 1) ap'' (a1, s1) = Inr (a, s')"
      using less.prems(1) c by (subst (asm) vprintf_loop.simps) auto
    have "ptr_room (ptr_add fmt (i' + 1)) < ptr_room (ptr_add fmt i)"
      using ptr_room_later[OF c, of i'] parse_spec_index[OF s1(1)] by simp
    from less.hyps[OF this s1(3)] convert_P[OF s1(2) less.prems(2)] show ?thesis by simp
  next
    case plain
    then obtain a1 s1 where s1: "displayCharacter putc c cs = Inr (a1, s1)"
        "vprintf_loop A fp putc fmt (i + 1) ap (a1, s1) = Inr (a, s')"
      using less.prems(1) c by (subst (asm) vprintf_loop.simps) auto
    show ?thesis
      using less.hyps[OF ptr_room_load_add[OF c] s1(2)] displayCharacter_P[OF s1(1) less.prems(2)] by simp
  qed
qed

lemma printf_P: "printf A fp putc fmt ap s = Inr (a, s') \<Longrightarrow> P s \<Longrightarrow> P s'"
  unfolding printf_def vprintf_def by (rule vprintf_loop_P) (auto intro: mem_P)

lemma puts_loop_P: "puts_loop putc p s = Inr s' \<Longrightarrow> P s \<Longrightarrow> P s'"
proof (induction "ptr_room p" arbitrary: p s rule: less_induct)
  case less
  from less.prems(1) obtain b where b: "load (mem s) p = Inr b" by (subst (asm) puts_loop.simps) auto
  show ?case
  proof (cases "b = 0")
    case True
    then show ?thesis using less.prems b by (subst (asm) puts_loop.simps) auto
  next
    case False
    then obtain s1 where "putc b s = Inr s1" "puts_loop putc (ptr_add p 1) s1 = Inr s'"
      using less.prems(1) b by (subst (asm) puts_loop.simps) auto
    then show ?thesis using less.hyps[OF ptr_room_load[OF b]] putc_P less.prems(2) by blast
  qed
qed

lemma puts_P: "puts_with putc p s = Inr s' \<Longrightarrow> P s \<Longrightarrow> P s'"
  by (auto simp: puts_with_def split: if_splits dest: puts_loop_P)

end

section \<open>The shell\<close>

locale stable_console =
  fixes con :: "('a shell_state_scheme) console" and P :: "'a shell_state_scheme \<Rightarrow> bool"
  assumes con_putc_P: "con_putc con c s = Inr s' \<Longrightarrow> P s \<Longrightarrow> P s'"
    and con_puts_P: "con_puts con p s = Inr s' \<Longrightarrow> P s \<Longrightarrow> P s'"
    and con_setpos_x_P: "con_setpos_x con x s = Inr s' \<Longrightarrow> P s \<Longrightarrow> P s'"
    and con_clrline_P: "con_clrline con s = Inr s' \<Longrightarrow> P s \<Longrightarrow> P s'"
    and vars_P: "P s \<Longrightarrow> P (s\<lparr>mem := m, olds := p, shellptr := a, histptr := b\<rparr>)"

sublocale stable_console \<subseteq> stable_putc "con_putc con" P
proof
  show "P s'" if "con_putc con c s = Inr s'" "P s" for c s s' using that by (rule con_putc_P)
  show "P (s\<lparr>mem := m\<rparr>)" if "P s" for s m
    using vars_P[where s = s and m = m and p = "olds s" and a = "shellptr s" and b = "histptr s"] that by simp
qed

context stable_console
begin

lemma vars_P' [simp]:
  assumes "P s"
  shows "P (s\<lparr>mem := m\<rparr>)" "P (s\<lparr>mem := m, olds := p\<rparr>)" "P (s\<lparr>mem := m, shellptr := a\<rparr>)"
    "P (s\<lparr>mem := m, shellptr := a, histptr := b\<rparr>)" "P (s\<lparr>shellptr := a\<rparr>)"
  using vars_P[where s = s and m = m and p = "olds s" and a = "shellptr s" and b = "histptr s"]
    vars_P[where s = s and m = m and p = p and a = "shellptr s" and b = "histptr s"]
    vars_P[where s = s and m = m and p = "olds s" and a = a and b = "histptr s"]
    vars_P[where s = s and m = m and p = "olds s" and a = a and b = b]
    vars_P[where s = s and m = "mem s" and p = "olds s" and a = a and b = "histptr s"] assms
  by simp_all

lemma shell_printf_P: "shell_printf A fp con fmt args s = Inr s' \<Longrightarrow> P s \<Longrightarrow> P s'"
  by (auto simp: shell_printf_def dest: printf_P)

lemma shell_strtok_P: "shell_strtok p s = Inr (w, s') \<Longrightarrow> P s \<Longrightarrow> P s'"
  by (auto simp: shell_strtok_def)

lemma shell_peek_P: "shell_peek A fp con s = Inr s' \<Longrightarrow> P s \<Longrightarrow> P s'"
  by (auto simp: shell_peek_def Let_def dest!: shell_strtok_P dest: shell_printf_P split: if_splits)

lemma shell_poke_P: "shell_poke A fp con s = Inr s' \<Longrightarrow> P s \<Longrightarrow> P s'"
  by (auto simp: shell_poke_def Let_def dest!: shell_strtok_P shell_printf_P split: if_splits)

lemma shell_save_P: "shell_save s = Inr s' \<Longrightarrow> P s \<Longrightarrow> P s'"
  by (auto simp: shell_save_def)

lemma shell_proc_P: "shell_proc A fp con s = Inr s' \<Longrightarrow> P s \<Longrightarrow> P s'"
  by (auto simp: shell_proc_def shell_command_def dest!: shell_strtok_P
      shell_peek_P shell_poke_P shell_printf_P shell_save_P split: if_splits)

lemma kcallback_backspace_P: "kcallback_backspace con s = Inr s' \<Longrightarrow> P s \<Longrightarrow> P s'"
  by (auto simp: kcallback_backspace_def Let_def dest!: con_puts_P con_setpos_x_P con_clrline_P split: if_splits)

lemma kcallback_recall_P: "kcallback_recall con d s = Inr s' \<Longrightarrow> P s \<Longrightarrow> P s'"
  by (auto simp: kcallback_recall_def Let_def dest!: con_setpos_x_P)

lemma kcallback_insert_P: "kcallback_insert con c s = Inr s' \<Longrightarrow> P s \<Longrightarrow> P s'"
  by (auto simp: kcallback_insert_def dest!: con_setpos_x_P)

lemma kcallback_P:
  assumes "kcallback A fp con c ks s = Inr s'" and "P s"
  shows "P s'"
  using assms unfolding kcallback_def
  by (auto split: if_splits dest: con_putc_P con_puts_P con_setpos_x_P shell_proc_P
      kcallback_backspace_P kcallback_recall_P kcallback_insert_P)

end

end
