(* ===== verification/I386.thy ===== *)
theory I386
  imports Kbd Frame
begin

text \<open>
  The i386 kernel put together: \<open>kernel/arch/i386/arch.c\<close> (interrupt descriptor table,
  interrupt controller, exceptions), \<open>kmain\<close> of \<open>kernel/kernel.c\<close>, and the keyboard
  interrupts that drive the machine afterwards as a step relation. The shell's interface is
  interpreted on the VGA console here.
\<close>

section \<open>Definitions\<close>

definition add_idt_entry :: "int \<Rightarrow> u32 \<Rightarrow> u8 \<Rightarrow> i386_state \<Rightarrow> i386_state res" where
  "add_idt_entry v isr fl s =
     bindR (set_at (idt s) v
       \<lparr>offset_l = ucast (isr AND 0xFFFF), segment = 0x0008, reserved = 0, flags = fl,
        offset_h = ucast (drop_bit 16 isr AND 0xFFFF)\<rparr>) (\<lambda>t. Inr (s\<lparr>idt := t\<rparr>))"

definition out_wait :: "u16 \<Rightarrow> u8 \<Rightarrow> i386_state \<Rightarrow> i386_state" where
  "out_wait port data s = iowait (outb port data s)"

definition pic_remap :: "u8 \<Rightarrow> u8 \<Rightarrow> i386_state \<Rightarrow> i386_state" where
  "pic_remap off1 off2 s =
     out_wait 0x21 0x01 (out_wait 0x21 0x01 (out_wait 0xA1 0x2 (out_wait 0x21 0x2
       (out_wait 0xA1 off2 (out_wait 0x21 off1 (out_wait 0xA0 0x11 (out_wait 0x20 0x11 s)))))))"

function fill_idt :: "image \<Rightarrow> int \<Rightarrow> i386_state \<Rightarrow> i386_state res" where
  "fill_idt img i s =
     (if i < 32 then
        bindR (get_at (isr_stub_table img) i) (\<lambda>isr.
        bindR (add_idt_entry i isr 0x8E s) (fill_idt img (i + 1)))
      else Inr s)"
  by pat_completeness auto
termination by (relation "measure (\<lambda>(img, i, s). nat (32 - i))") auto

declare fill_idt.simps [simp del]

definition kprintf :: "'d fpu \<Rightarrow> string \<Rightarrow> 'd va list \<Rightarrow> i386_state \<Rightarrow> i386_state res" where
  "kprintf fp fmt args s = bindR (printf I386 fp putc (Ptr (Lit fmt) 0) args s) (\<lambda>(_, s). Inr s)"

definition arch_init :: "'d fpu \<Rightarrow> image \<Rightarrow> kfun option \<Rightarrow> i386_state \<Rightarrow> i386_state res" where
  "arch_init fp img kc s =
     (let s = vga_init (keyboard_init kc s) in
      bindR (fill_idt img 0 s) (\<lambda>s.
      let s = s\<lparr>idt_base := idt_addr img, idt_limit := 8 * 256 - 1\<rparr>;
          s = s\<lparr>idtr := Some (idt_base s, idt_limit s)\<rparr>
      in
      bindR (kprintf fp (''[i386] IDT is at 0x%08X, %u bytes long'' @ [CHR 10]) [VI32 (idt_base s), VI32 (ucast (idt_limit s))] s) (\<lambda>s.
      let s = outb 0xA1 0xFF (outb 0x21 0xFD (pic_remap 0x20 0x28 s)) in
      bindR (add_idt_entry 0x21 (keyboard_stub img) 0x8E s) (\<lambda>s. Inr (s\<lparr>iflag := True\<rparr>)))))"

definition exception_handler :: "'d fpu \<Rightarrow> u32 \<Rightarrow> u32 \<Rightarrow> i386_state \<Rightarrow> i386_state res" where
  "exception_handler fp vec eip s = kprintf fp (''Exception 0x%02X at %08X!'' @ [CHR 10]) [VI32 vec, VI32 eip] s"

definition exception_handler_err :: "'d fpu \<Rightarrow> u32 \<Rightarrow> u32 \<Rightarrow> u32 \<Rightarrow> i386_state \<Rightarrow> i386_state res" where
  "exception_handler_err fp vec code eip s =
     kprintf fp (''Exception 0x%02X at %08X, error code 0x%X'' @ [CHR 10]) [VI32 vec, VI32 eip, VI32 code] s"

text \<open>\<open>kmain\<close> up to its endless loop of \<open>hlt\<close>; the loop itself changes nothing.\<close>

definition kmain :: "'d fpu \<Rightarrow> image \<Rightarrow> i386_state \<Rightarrow> i386_state res" where
  "kmain fp img s =
     bindR (arch_init fp img (Some Kcallback) s) (\<lambda>s.
     bindR (kprintf fp (''Hello World!'' @ [CHR 10]) [] s) (\<lambda>s. shell_init (vga_console img) s))"

text \<open>The callback that \<open>kmain\<close> installs is the shell's.\<close>

definition shell_code :: "'d fpu \<Rightarrow> image \<Rightarrow> callback" where
  "shell_code fp img f c ks s = (case f of Kcallback \<Rightarrow> kcallback I386 fp (vga_console img) c ks s)"

definition key_irq :: "'d fpu \<Rightarrow> image \<Rightarrow> u8 \<Rightarrow> i386_state \<Rightarrow> i386_state res" where
  "key_irq fp img sc s = keyboard (shell_code fp img) (s\<lparr>port_in := (port_in s)(0x60 := sc)\<rparr>)"

text \<open>
  The machine while it runs: started by \<open>kmain\<close>, then one keyboard interrupt after the other,
  each with a scan code of the keyboard's choice, as long as the handler returns.
\<close>

inductive running :: "'d fpu \<Rightarrow> image \<Rightarrow> i386_state \<Rightarrow> u8 list \<Rightarrow> i386_state \<Rightarrow> bool"
  for fp :: "'d fpu" and img :: image and s0 :: i386_state where
  boot: "kmain fp img s0 = Inr s \<Longrightarrow> running fp img s0 [] s"
| irq: "running fp img s0 scs s \<Longrightarrow> iflag s \<Longrightarrow> key_irq fp img sc s = Inr s' \<Longrightarrow> running fp img s0 (scs @ [sc]) s'"

inductive_cases running_NilE: "running fp img s0 [] s"

section \<open>The shell on this console\<close>

definition screen_addrs :: "nat set" where
  "screen_addrs = {k. \<not> off_screen k}"

definition term_pos :: "u8 \<Rightarrow> terminal \<Rightarrow> terminal" where
  "term_pos x t = t\<lparr>cx := unat x\<rparr>"

definition term_clr :: "terminal \<Rightarrow> terminal" where
  "term_clr t = t\<lparr>grid := (grid t)[cy t := replicate 80 0 @ drop 80 (grid t ! cy t)]\<rparr>"

lemma putS_vars: "shellptr (putS c s) = shellptr s" "histptr (putS c s) = histptr s"
  by (simp_all add: putS_def newlineS_def scrollS_def drawS_def cursor_def outb_def Let_def)

lemma clrline_term:
  assumes "vga_ok s"
  shows "\<exists>s'. clrline s = Inr s' \<and> vga_ok s' \<and> keeps screen_addrs s s' \<and> term_of s' = term_clr (term_of s)"
proof -
  define y where "y = unat (ty s)"
  have ok: "ty s < 25" "y < 25" using assms by (simp_all add: vga_ok_def y_def word_less_nat_alt)
  obtain s' where s': "clrline s = Inr s'" "tx s' = tx s" "ty s' = ty s"
      "row (mem s') y = replicate 80 0 @ drop 80 (row (mem s) y)" "\<forall>y'. y' \<noteq> y \<longrightarrow> row (mem s') y' = row (mem s) y'"
      "\<forall>k. off_screen k \<longrightarrow> mem s' Phys k = mem s Phys k" "\<forall>ob. ob \<noteq> Phys \<longrightarrow> mem s' ob = mem s ob"
    using clrline_row[OF ok(1)] unfolding y_def by blast
  have vars: "olds s' = olds s" "shellptr s' = shellptr s" "histptr s' = histptr s"
    using s'(1) by (auto simp: clrline_mem)
  have "map (row (mem s')) [0..<25] = (map (row (mem s)) [0..<25])[y := replicate 80 0 @ drop 80 (map (row (mem s)) [0..<25] ! y)]"
    (is "?l = ?r")
  proof (rule nth_equalityI)
    fix i assume "i < length ?l"
    then have "i < 25" by simp
    then show "?l ! i = ?r ! i" using ok(2) s'(4,5) by (cases "i = y") (simp_all del: upt_rec_numeral)
  qed simp
  then have "term_of s' = term_clr (term_of s)"
    using s'(2,3) by (simp add: term_of_def term_clr_def y_def del: upt_rec_numeral)
  moreover have "vga_ok s'" using assms s'(2,3) by (simp add: vga_ok_def)
  ultimately show ?thesis using s' vars by (auto simp: keeps_def screen_addrs_def)
qed

lemma term_of_vars:
  assumes "\<forall>k \<in> screen_addrs. m Phys k = mem s Phys k"
  shows "term_of (s\<lparr>mem := m, olds := p, shellptr := a, histptr := b\<rparr>) = term_of s"
proof -
  have "row m y = row (mem s) y" if "y < 25" for y
    using assms that by (intro nth_equalityI) (auto simp: screen_addrs_def off_screen_def)
  then have "map (row m) [0..<25] = map (row (mem s)) [0..<25]" by (intro map_cong) simp_all
  then show ?thesis by (simp add: term_of_def del: upt_rec_numeral)
qed

interpretation vga_shell: shell_console "vga_console img" vga_ok screen_addrs term_of emit term_pos term_clr for img
proof unfold_locales
  fix c ob f and s s' :: i386_state assume "con_putc (vga_console img) c s = Inr s'" "ob \<noteq> Phys"
  then show "con_putc (vga_console img) c (s\<lparr>mem := (mem s)(ob := f)\<rparr>) = Inr (s'\<lparr>mem := (mem s')(ob := f)\<rparr>)"
    by (auto simp: vga_console_def intro: vga.putc_obj)
next
  fix c and s s' :: i386_state assume "con_putc (vga_console img) c s = Inr s'"
  then show "olds s' = olds s" by (auto simp: vga_console_def intro: vga.putc_olds)
next
  fix c s assume "vga_ok s"
  then show "\<exists>s'. con_putc (vga_console img) c s = Inr s' \<and> vga_ok s' \<and> keeps screen_addrs s s' \<and> term_of s' = emit c (term_of s)"
    using putS_term[of s c] putS_off_screen[of s]
    by (simp add: vga_console_def putc_eq keeps_def putS_frame putS_vars screen_addrs_def)
next
  fix p s show "con_puts (vga_console img) p s = puts_with (con_putc (vga_console img)) p s"
    by (simp add: vga_console_def puts_def[abs_def])
next
  fix x :: u8 and s assume "vga_ok s" "x \<le> 1"
  then have x: "x \<le> 80" "\<not> WIDTH < uint x" by (auto simp: WIDTH_def word_le_def)
  then show "\<exists>s'. con_setpos_x (vga_console img) x s = Inr s' \<and> vga_ok s' \<and> keeps screen_addrs s s' \<and> term_of s' = term_pos x (term_of s)"
    using \<open>vga_ok s\<close> by (simp add: vga_console_def setpos_x_def vga_ok_def keeps_def term_of_def term_pos_def del: upt_rec_numeral)
next
  fix s assume "vga_ok s"
  then show "\<exists>s'. con_clrline (vga_console img) s = Inr s' \<and> vga_ok s' \<and> keeps screen_addrs s s' \<and> term_of s' = term_clr (term_of s)"
    using clrline_term[of s] by (simp add: vga_console_def)
next
  fix m p a b and s :: i386_state show "vga_ok (s\<lparr>mem := m, olds := p, shellptr := a, histptr := b\<rparr>) = vga_ok s"
    by (simp add: vga_ok_def)
next
  fix m p a b and s :: i386_state assume "\<forall>k \<in> screen_addrs. m Phys k = mem s Phys k"
  then show "term_of (s\<lparr>mem := m, olds := p, shellptr := a, histptr := b\<rparr>) = term_of s" by (rule term_of_vars)
qed

text \<open>Commands are run for addresses of memory that belongs to nobody; the screen is not among it.\<close>

lemma free_off_screen: "i386_free img k \<Longrightarrow> off_screen k"
  by (auto simp: i386_free_def off_screen_def)

lemma vga_enter:
  assumes "vga_ok s" and "line s t" and "run_cmd A (mem s Phys) t = Some (out, eff)"
    and "cmd_ok A {k. \<not> i386_free img k} t"
  shows "\<exists>u. kcallback A fp (vga_console img) 10 ks s = Inr u \<and> vga_ok u \<and> line u [] \<and> histptr u = histptr s + 1 \<and>
    term_of u = fold emit (10 # out @ [10, 62]) (term_pos 0 (term_of s)) \<and>
    (\<forall>k. off_screen k \<longrightarrow> mem u Phys k = (case eff of Some (a, v) \<Rightarrow> if k = a then v else mem s Phys k | None \<Rightarrow> mem s Phys k))"
proof -
  have "screen_addrs \<union> {k. \<not> con_plain (vga_console img) k} \<subseteq> {k. \<not> i386_free img k}"
    using free_off_screen[of img] by (auto simp: screen_addrs_def vga_console_def)
  from vga_shell.enter_law[OF assms(1-3) cmd_ok_mono[OF assms(4) this], of fp ks]
  show ?thesis by (auto simp: screen_addrs_def)
qed

section \<open>Initialisation\<close>

definition idt_entry :: "u32 \<Rightarrow> u8 \<Rightarrow> idtent" where
  "idt_entry isr fl = \<lparr>offset_l = ucast (isr AND 0xFFFF), segment = 0x0008, reserved = 0, flags = fl,
     offset_h = ucast (drop_bit 16 isr AND 0xFFFF)\<rparr>"

text \<open>The address the processor reads from an entry.\<close>

definition gate_offset :: "idtent \<Rightarrow> u32" where
  "gate_offset e = push_bit 16 (ucast (offset_h e)) OR ucast (offset_l e)"

lemma gate_offset_entry: "gate_offset (idt_entry isr fl) = isr"
proof -
  have low: "isr AND 0xFFFF = take_bit 16 isr" for isr :: u32
    by (simp add: take_bit_eq_mask mask_eq_exp_minus_1)
  have "bit (gate_offset (idt_entry isr fl)) n = bit isr n" if "n < 32" for n
    using that by (cases "n < 16") (auto simp: gate_offset_def idt_entry_def low bit_simps)
  then show ?thesis by (intro bit_word_eqI) simp
qed

lemma flags_entry [simp]: "flags (idt_entry isr fl) = fl"
  by (simp add: idt_entry_def)

lemma add_idt_entry_law:
  "k < length (idt s) \<Longrightarrow> add_idt_entry (int k) isr fl s = Inr (s\<lparr>idt := (idt s)[k := idt_entry isr fl]\<rparr>)"
  by (simp add: add_idt_entry_def set_at_Inr idt_entry_def)

lemma fill_idt_law:
  assumes "length (idt s) = 256" and "length (isr_stub_table img) = 32" and "k \<le> 32"
    and "take k (idt s) = map (\<lambda>isr. idt_entry isr 0x8E) (take k (isr_stub_table img))"
  shows "fill_idt img (int k) s =
    Inr (s\<lparr>idt := map (\<lambda>isr. idt_entry isr 0x8E) (isr_stub_table img) @ drop 32 (idt s)\<rparr>)"
  using assms
proof (induction "32 - k" arbitrary: k s)
  case 0
  then have "idt s = map (\<lambda>isr. idt_entry isr 0x8E) (isr_stub_table img) @ drop 32 (idt s)"
    using append_take_drop_id[of 32 "idt s"] by simp
  with 0 show ?case by (simp add: fill_idt.simps)
next
  case (Suc d)
  let ?isr = "isr_stub_table img ! k" and ?f = "\<lambda>isr. idt_entry isr 0x8E"
  let ?s = "s\<lparr>idt := (idt s)[k := ?f ?isr]\<rparr>"
  have k: "k < 32" using Suc.hyps(2) by simp
  have "take (Suc k) ((idt s)[k := ?f ?isr]) = map ?f (take (Suc k) (isr_stub_table img))"
    using Suc.prems k by (simp add: take_Suc_conv_app_nth)
  then have "fill_idt img (int (Suc k)) ?s = Inr (?s\<lparr>idt := map ?f (isr_stub_table img) @ drop 32 (idt ?s)\<rparr>)"
    using Suc.prems k Suc.hyps(2) by (intro Suc.hyps(1)) simp_all
  moreover have "fill_idt img (int k) s = fill_idt img (int (Suc k)) ?s"
    using k Suc.prems by (subst fill_idt.simps) (simp add: get_at_def add_idt_entry_law add.commute)
  ultimately show ?case using k by simp
qed

definition pic_log :: "(u16 \<times> u8) list" where
  "pic_log = concat (map (\<lambda>pd. [pd, (0x80, 0)])
     [(0x20, 0x11), (0xA0, 0x11), (0x21, 0x20), (0xA1, 0x28), (0x21, 0x02), (0xA1, 0x02), (0x21, 0x01), (0x21, 0x01)])"

lemma pic_remap_outs: "pic_remap 0x20 0x28 s = s\<lparr>outs := outs s @ pic_log\<rparr>"
  by (simp add: pic_remap_def out_wait_def iowait_def outb_def pic_log_def)

text \<open>The fields no console operation and no key touches.\<close>

definition dev_fields :: "i386_state \<Rightarrow> u8 \<times> u8 \<times> kfun option \<times> idtent list \<times> (u32 \<times> u16) option \<times> bool" where
  "dev_fields s = (kstate s, extended s, kcall s, idt s, idtr s, iflag s)"

definition fixed_dev :: "u8 \<times> u8 \<times> kfun option \<times> idtent list \<times> (u32 \<times> u16) option \<times> bool \<Rightarrow> i386_state \<Rightarrow> bool" where
  "fixed_dev d s \<longleftrightarrow> dev_fields s = d \<and> vga_ok s"

lemma putS_dev: "dev_fields (putS c s) = dev_fields s"
  by (simp add: dev_fields_def putS_def newlineS_def scrollS_def drawS_def cursor_def outb_def Let_def)

interpretation vga_putc_stable: stable_putc putc "fixed_dev d" for d
  by unfold_locales (auto simp: putc_eq fixed_dev_def putS_dev putS_term, simp_all add: dev_fields_def vga_ok_def)

interpretation vga_stable: stable_console "vga_console img" "fixed_dev d" for img d
proof unfold_locales
  fix p and s s' :: i386_state assume "con_puts (vga_console img) p s = Inr s'" "fixed_dev d s"
  then show "fixed_dev d s'" by (auto simp: vga_console_def puts_def dest: vga_putc_stable.puts_P)
next
  fix c and s s' :: i386_state assume "con_putc (vga_console img) c s = Inr s'" "fixed_dev d s"
  then show "fixed_dev d s'" by (auto simp: vga_console_def dest: vga_putc_stable.putc_P)
next
  fix x and s s' :: i386_state assume "con_setpos_x (vga_console img) x s = Inr s'" "fixed_dev d s"
  then show "fixed_dev d s'"
    by (auto simp: vga_console_def setpos_x_def fixed_dev_def dev_fields_def vga_ok_def WIDTH_def word_le_def split: if_splits)
qed (auto simp: vga_console_def clrline_mem fixed_dev_def dev_fields_def vga_ok_def)

lemma kprintf_items:
  assumes "vga_ok s" and "bytes_of fmt = concat (map item_fmt its)" and "0 \<notin> set (bytes_of fmt)"
    and "list_all (item_ok (mem s)) its" and "args = concat (map item_args its)"
    and "text = concat (map item_out its)" and "length text < 2 ^ 31"
  shows "\<exists>u. kprintf fp fmt args s = Inr u \<and> vga_ok u \<and> keeps screen_addrs s u \<and>
    term_of u = fold emit text (term_of s) \<and> dev_fields u = dev_fields s"
proof -
  have k: "kprintf fp fmt args s = shell_printf I386 fp (vga_console img) fmt args s"
    by (simp add: kprintf_def shell_printf_def vga_console_def)
  obtain u where u: "shell_printf I386 fp (vga_console img) fmt args s = Inr u" "vga_ok u" "keeps screen_addrs s u"
      "term_of u = fold emit text (term_of s)"
    using vga_shell.printf_law[OF assms] by blast
  have "fixed_dev (dev_fields s) u"
    using vga_stable.shell_printf_P[OF u(1)] assms(1) by (simp add: fixed_dev_def)
  then show ?thesis using u k by (auto simp: fixed_dev_def)
qed

definition idt_text :: "image \<Rightarrow> u8 list" where
  "idt_text img = bytes_of ''[i386] IDT is at 0x'' @ hex_text 8 (uint (idt_addr img)) @ bytes_of '', 2047 bytes long'' @ [10]"

lemma arch_init_print:
  assumes "vga_ok s"
  shows "\<exists>u. kprintf fp (''[i386] IDT is at 0x%08X, %u bytes long'' @ [CHR 10]) [VI32 (idt_addr img), VI32 2047] s = Inr u \<and>
    vga_ok u \<and> keeps screen_addrs s u \<and> term_of u = fold emit (idt_text img) (term_of s) \<and> dev_fields u = dev_fields s"
proof -
  let ?its = "map Txt (bytes_of ''[i386] IDT is at 0x'') @ [IntC [48] [56] 88 (idt_addr img), Txt 44, Txt 32, IntC [] [] 117 2047]
    @ map Txt (bytes_of '' bytes long'') @ [Txt 10]"
  have d: "digs 10 2047 = bytes_of ''2047''" by (simp add: digs.simps digit_char_def digits_def of_char_def)
  have out1: "item_out (IntC [48] [56] 88 (idt_addr img)) = hex_text 8 (uint (idt_addr img))"
    using vga_shell.hex_item(2)[of "[56]" "uint (idt_addr img)"] by (simp add: dec_value_def)
  have "item_out (IntC [] [] 117 2047) = bytes_of ''2047''"
    by (simp add: alt_prefix_def pad_text_def int_text_def spec_value_def spec_base_def sign_text_def dec_value_def d del: bytes_of_simps)
  with out1 have out: "idt_text img = concat (map item_out ?its)"
    by (simp add: idt_text_def of_char_def del: item_out.simps(2))
  have len: "length (idt_text img) < 2 ^ 31"
    using vga_shell.length_hex_text[of 8 "uint (idt_addr img)"] by (simp add: idt_text_def)
  have ok: "list_all (item_ok (mem s)) ?its"
    by (simp add: of_char_def flag_chars_def isdigit_def dec_value_def)
  show ?thesis by (rule kprintf_items[OF assms _ _ ok _ out len]) (simp_all add: of_char_def)
qed

text \<open>The machine is set up: what the state satisfies after \<open>arch_init\<close>.\<close>

definition booted :: "image \<Rightarrow> i386_state \<Rightarrow> bool" where
  "booted img s \<longleftrightarrow> length (idt s) = 256 \<and> idtr s = Some (idt_addr img, 2047) \<and> iflag s \<and> kcall s = Some Kcallback \<and>
     (\<forall>i < 32. gate_offset (idt s ! i) = isr_stub_table img ! i \<and> flags (idt s ! i) = 0x8E) \<and>
     gate_offset (idt s ! 0x21) = keyboard_stub img \<and> flags (idt s ! 0x21) = 0x8E"

lemma arch_init_law:
  assumes "length (idt s) = 256" and "length (isr_stub_table img) = 32"
  shows "\<exists>u. arch_init fp img (Some Kcallback) s = Inr u \<and> vga_ok u \<and> booted img u \<and>
    (\<exists>pre. outs u = pre @ pic_log @ [(0x21, 0xFD), (0xA1, 0xFF)]) \<and> kstate u = kstate s \<and> extended u = extended s \<and>
    shellptr u = shellptr s \<and> histptr u = histptr s \<and>
    term_of u = fold emit (idt_text img) \<lparr>grid = grid (term_of s), cx = 0, cy = 0\<rparr>"
proof -
  let ?f = "\<lambda>isr. idt_entry isr 0x8E"
  define t where "t = map ?f (isr_stub_table img) @ drop 32 (idt s)"
  have t: "length t = 256" using assms by (simp add: t_def)
  define s1 where "s1 = (vga_init (keyboard_init (Some Kcallback) s))\<lparr>idt := t, idt_base := idt_addr img, idt_limit := 2047,
    idtr := Some (idt_addr img, 2047)\<rparr>"
  have fill: "fill_idt img 0 (vga_init (keyboard_init (Some Kcallback) s)) =
      Inr ((vga_init (keyboard_init (Some Kcallback) s))\<lparr>idt := t\<rparr>)"
    using fill_idt_law[of "vga_init (keyboard_init (Some Kcallback) s)" img 0] assms
    by (simp add: t_def vga_init_def keyboard_init_def)
  have ok: "vga_ok s1" "term_of s1 = \<lparr>grid = grid (term_of s), cx = 0, cy = 0\<rparr>"
    by (simp_all add: s1_def vga_ok_def vga_init_def keyboard_init_def term_of_def del: upt_rec_numeral)
  obtain s2 where s2: "kprintf fp (''[i386] IDT is at 0x%08X, %u bytes long'' @ [CHR 10]) [VI32 (idt_addr img), VI32 2047] s1 = Inr s2"
      "vga_ok s2" "keeps screen_addrs s1 s2" "term_of s2 = fold emit (idt_text img) (term_of s1)" "dev_fields s2 = dev_fields s1"
    using arch_init_print[OF ok(1)] by blast
  have d: "kstate s2 = kstate s" "extended s2 = extended s" "kcall s2 = Some Kcallback" "idt s2 = t"
      "idtr s2 = Some (idt_addr img, 2047)" "shellptr s2 = shellptr s" "histptr s2 = histptr s"
    using s2(3,5) by (simp_all add: dev_fields_def s1_def vga_init_def keyboard_init_def keeps_def)
  define s3 where "s3 = s2\<lparr>outs := outs s2 @ pic_log @ [(0x21, 0xFD), (0xA1, 0xFF)],
    idt := t[0x21 := ?f (keyboard_stub img)], iflag := True\<rparr>"
  have "arch_init fp img (Some Kcallback) s = Inr s3"
    using fill s2(1) add_idt_entry_law[of 33] t d(4)
    by (simp add: arch_init_def Let_def s1_def[symmetric] pic_remap_outs outb_def s3_def)
  moreover have "booted img s3"
    using d t assms(2) by (auto simp: booted_def s3_def gate_offset_entry nth_append t_def nth_list_update)
  moreover have "vga_ok s3" "term_of s3 = term_of s2"
    using s2(2) by (simp_all add: s3_def vga_ok_def term_of_def del: upt_rec_numeral)
  moreover have "\<exists>pre. outs s3 = pre @ pic_log @ [(0x21, 0xFD), (0xA1, 0xFF)]" "kstate s3 = kstate s" "extended s3 = extended s"
    "shellptr s3 = shellptr s" "histptr s3 = histptr s"
    using d by (simp_all add: s3_def)
  ultimately show ?thesis using s2(4) ok(2) by auto
qed

lemma kmain_law:
  assumes "length (idt s) = 256" and "length (isr_stub_table img) = 32" and "shellptr s = 0"
  shows "\<exists>u. kmain fp img s = Inr u \<and> vga_ok u \<and> booted img u \<and> kstate u = kstate s \<and> extended u = extended s \<and>
    line u [] \<and> histptr u = histptr s \<and>
    term_of u = fold emit (idt_text img @ bytes_of ''Hello World!'' @ [10, 62]) \<lparr>grid = grid (term_of s), cx = 0, cy = 0\<rparr>"
proof -
  obtain s1 where s1: "arch_init fp img (Some Kcallback) s = Inr s1" "vga_ok s1" "booted img s1" "kstate s1 = kstate s"
      "extended s1 = extended s" "shellptr s1 = shellptr s" "histptr s1 = histptr s"
      "term_of s1 = fold emit (idt_text img) \<lparr>grid = grid (term_of s), cx = 0, cy = 0\<rparr>"
    using arch_init_law[OF assms(1,2), of fp] by blast
  let ?its = "map Txt (bytes_of ''Hello World!'') @ [Txt 10]"
  have ok: "list_all (item_ok (mem s1)) ?its" by (simp add: of_char_def)
  obtain s2 where s2: "kprintf fp (''Hello World!'' @ [CHR 10]) [] s1 = Inr s2" "vga_ok s2" "keeps screen_addrs s1 s2"
      "term_of s2 = fold emit (bytes_of ''Hello World!'' @ [10]) (term_of s1)" "dev_fields s2 = dev_fields s1"
    using kprintf_items[OF s1(2) _ _ ok, of "''Hello World!'' @ [CHR 10]" "[]" "bytes_of ''Hello World!'' @ [10]" fp]
    by (auto simp: of_char_def)
  define m where "m = wr (mem s2) (shellbuf 0) (replicate 256 0)"
  have m: "memset (mem s2) (shellbuf 0) 0 256 = Inr (shellbuf 0, m)"
    using memset_wr[of "shellbuf 0" 256 "mem s2" 0] by (simp add: m_def)
  have "m Phys = mem s2 Phys" by (simp add: m_def shellbuf_def)
  then have t: "term_of (s2\<lparr>mem := m\<rparr>) = term_of s2" using vga_shell.scr_upd(1)[where s = s2 and m = m] by simp
  have "vga_ok (s2\<lparr>mem := m\<rparr>)" using s2(2) by simp
  then obtain u where u: "con_puts (vga_console img) (Ptr (Lit ''>'') 0) (s2\<lparr>mem := m\<rparr>) = Inr u" "vga_ok u"
      "keeps screen_addrs (s2\<lparr>mem := m\<rparr>) u" "term_of u = emit 62 (term_of s2)"
    using vga_shell.puts_prompt[of "s2\<lparr>mem := m\<rparr>"] t by auto
  have "fixed_dev (dev_fields s2) (s2\<lparr>mem := m\<rparr>)" using s2(2) by (simp add: fixed_dev_def dev_fields_def)
  from vga_stable.con_puts_P[OF u(1) this] have "dev_fields u = dev_fields s1" using s2(5) by (simp add: fixed_dev_def)
  then have d: "kstate u = kstate s" "extended u = extended s" "booted img u"
    using s1(3-5) by (simp_all add: dev_fields_def booted_def)
  have "rd m (shellbuf 0) 256 = replicate 256 0"
    using rd_wr_same[of "shellbuf 0" "replicate 256 0" "mem s2"] by (simp add: m_def)
  then have "line (s2\<lparr>mem := m\<rparr>) []" using s2(3) s1(6) assms(3) by (simp add: line_def keeps_def)
  then have l: "line u []" using line_keeps[OF u(3)] by simp
  have h: "histptr u = histptr s" using u(3) s2(3) s1(7) by (simp add: keeps_def)
  have "kmain fp img s = Inr u" using s1(1) s2(1) m u(1) by (simp add: kmain_def shell_init_def)
  then show ?thesis using u(2,4) d l h s2(4) s1(8) by simp
qed

section \<open>Keyboard interrupts\<close>

lemma shell_code_fixed: "shell_code fp img f c ks s = Inr s' \<Longrightarrow> fixed_dev d s \<Longrightarrow> fixed_dev d s'"
  by (auto simp: shell_code_def split: kfun.splits dest: vga_stable.kcallback_P)

definition kbd_ok :: "i386_state \<Rightarrow> bool" where
  "kbd_ok s \<longleftrightarrow> vga_ok s \<and> extended s \<in> {0, 1} \<and> kcall s = Some Kcallback"

lemma set_kbd_simps [simp]:
  "vga_ok (set_kbd kx s) = vga_ok s" "kcall (set_kbd kx s) = kcall s" "kstate (set_kbd kx s) = fst kx"
  "extended (set_kbd kx s) = (if snd kx then 1 else 0)" "idt (set_kbd kx s) = idt s" "idtr (set_kbd kx s) = idtr s"
  "iflag (set_kbd kx s) = iflag s"
  by (simp_all add: set_kbd_def vga_ok_def)

text \<open>One interrupt: the key is decoded, the shell is called for it, the controller is acknowledged.\<close>

lemma key_irq_decode:
  assumes "kbd_ok s" and "decode (kstate s, extended s \<noteq> 0) sc = (kx, ev)"
  shows "key_irq fp img sc s = (let s1 = set_kbd kx (s\<lparr>port_in := (port_in s)(0x60 := sc)\<rparr>) in
     case ev of Quiet \<Rightarrow> Inr (outb 0x20 0x20 s1) | BadIndex \<Rightarrow> Inl OutOfBounds
       | Key c \<Rightarrow> bindR (kcallback I386 fp (vga_console img) c (fst kx) s1) (\<lambda>s. Inr (outb 0x20 0x20 s)))"
  using keyboard_decode[of "s\<lparr>port_in := (port_in s)(0x60 := sc)\<rparr>" kx ev "shell_code fp img"] assms
  by (auto simp: key_irq_def kbd_ok_def inb_def deliver_def call_kcallback_def shell_code_def Let_def split: key_event.splits)

lemma key_irq_fixed:
  assumes "key_irq fp img sc s = Inr s'" and "kbd_ok s" and "decode (kstate s, extended s \<noteq> 0) sc = (kx, ev)"
  shows "kbd_ok s'" "(kstate s', extended s' \<noteq> 0) = kx" "idt s' = idt s" "idtr s' = idtr s" "iflag s' = iflag s"
    "\<exists>pre. outs s' = pre @ [(0x20, 0x20)]"
proof -
  define s1 where "s1 = set_kbd kx (s\<lparr>port_in := (port_in s)(0x60 := sc)\<rparr>)"
  obtain s2 where s2: "s' = outb 0x20 0x20 s2" "s2 = s1 \<or> (\<exists>c. kcallback I386 fp (vga_console img) c (fst kx) s1 = Inr s2)"
    using assms(1) unfolding key_irq_decode[OF assms(2,3)] by (auto simp: Let_def s1_def split: key_event.splits)
  have "fixed_dev (dev_fields s1) s1" using assms(2) by (simp add: fixed_dev_def s1_def kbd_ok_def) (simp add: vga_ok_def)
  then have "fixed_dev (dev_fields s1) s2" using s2(2) vga_stable.kcallback_P by blast
  then have f: "dev_fields s2 = dev_fields s1" "vga_ok s2" by (simp_all add: fixed_dev_def)
  then show "kbd_ok s'" "(kstate s', extended s' \<noteq> 0) = kx" "idt s' = idt s" "idtr s' = idtr s" "iflag s' = iflag s"
    "\<exists>pre. outs s' = pre @ [(0x20, 0x20)]"
    using assms(2) unfolding s2(1) by (auto simp: kbd_ok_def dev_fields_def outb_def s1_def vga_ok_def prod_eq_iff)
qed

lemma running_inv:
  assumes "running fp img s0 scs s" and "length (idt s0) = 256" and "length (isr_stub_table img) = 32"
    and "shellptr s0 = 0" and "kstate s0 = 0" and "extended s0 = 0"
  shows "kbd_ok s \<and> booted img s \<and> (kstate s, extended s \<noteq> 0) = decodes scs (0, False) \<and>
    (scs \<noteq> [] \<longrightarrow> (\<exists>pre. outs s = pre @ [(0x20, 0x20)]))"
  using assms
proof (induction rule: running.induct)
  case (boot s)
  obtain u where "kmain fp img s0 = Inr u" "vga_ok u" "booted img u" "kstate u = 0" "extended u = 0"
    using kmain_law[OF boot.prems(1-3), of fp] boot.prems(4,5) by auto
  then show ?case using boot.hyps by (auto simp: kbd_ok_def decodes_def booted_def)
next
  case (irq scs s sc s')
  obtain kx ev where d: "decode (kstate s, extended s \<noteq> 0) sc = (kx, ev)" by fastforce
  have IH: "kbd_ok s" "booted img s" "(kstate s, extended s \<noteq> 0) = decodes scs (0, False)" using irq by auto
  note f = key_irq_fixed[OF irq.hyps(3) IH(1) d]
  have "decodes (scs @ [sc]) (0, False) = kx" using d unfolding IH(3) by (simp add: decodes_def)
  moreover have "kcall s' = kcall s" using f(1) IH(1) by (simp add: kbd_ok_def)
  ultimately show ?case using f IH(2) by (simp add: booted_def)
qed

text \<open>Keys that edit the line, through the interrupt handler.\<close>

lemma line_set_kbd [simp]: "line (set_kbd kx s) t = line s t" "line (s\<lparr>port_in := f\<rparr>) t = line s t"
  "line (outb p d s) t = line s t"
  by (simp_all add: line_def set_kbd_def outb_def)

lemma kbd_bits: "kbd_bcksp I386 = KBD_BCKSP" "kbd_up = KBD_UP" "kbd_down = KBD_DOWN"
  by (simp_all add: kbd_bcksp_def kbd_up_def kbd_down_def KBD_BCKSP_def KBD_UP_def KBD_DOWN_def)

lemma key_irq_edit:
  assumes "kbd_ok s" and "line s t" and "length t < 255"
    and "decode (kstate s, extended s \<noteq> 0) sc = (kx, Key c)" and "editing I386 (c, fst kx)"
  shows "\<exists>s'. key_irq fp img sc s = Inr s' \<and> kbd_ok s' \<and> line s' (edit I386 (c, fst kx) t)"
proof -
  define s1 where "s1 = set_kbd kx (s\<lparr>port_in := (port_in s)(0x60 := sc)\<rparr>)"
  have s1: "vga_ok s1" "line s1 t" using assms(1,2) by (simp_all add: s1_def kbd_ok_def) (simp add: vga_ok_def)
  have "length t + length [(c, fst kx)] \<le> 255" using assms(3) by simp
  from vga_shell.edit_session[where img = img, OF s1, of "[(c, fst kx)]" I386 fp] this assms(5) obtain u where
    "kcallback I386 fp (vga_console img) c (fst kx) s1 = Inr u" "line u (edit I386 (c, fst kx) t)" by auto
  then have "key_irq fp img sc s = Inr (outb 0x20 0x20 u)" "line (outb 0x20 0x20 u) (edit I386 (c, fst kx) t)"
    using key_irq_decode[OF assms(1,4), of fp] by (simp_all add: Let_def flip: s1_def)
  then show ?thesis using key_irq_fixed(1)[OF _ assms(1,4)] by blast
qed

end
