(* ===== verification/Session.thy ===== *)
theory Session
  imports I386
begin

text \<open>
  A whole session at the keyboard of the i386 machine: what a sequence of scan codes types, and what
  the machine does when the interrupts for it are followed by the Enter key.
\<close>

text \<open>The keys that a sequence of scan codes delivers to the shell, each with the modifier bits in force.\<close>

fun typed_keys :: "u8 \<times> bool \<Rightarrow> u8 list \<Rightarrow> (u8 \<times> u8) list" where
  "typed_keys kx [] = []"
| "typed_keys kx (sc # scs) =
     (case decode kx sc of
        (kx', Key c) \<Rightarrow> (c, fst kx') # typed_keys kx' scs
      | (kx', _) \<Rightarrow> typed_keys kx' scs)"

text \<open>Scan codes of keys that edit the line, of modifiers and of releases.\<close>

fun edits_only :: "u8 \<times> bool \<Rightarrow> u8 list \<Rightarrow> bool" where
  "edits_only kx [] = True"
| "edits_only kx (sc # scs) =
     (case decode kx sc of
        (kx', Quiet) \<Rightarrow> edits_only kx' scs
      | (kx', Key c) \<Rightarrow> editing I386 (c, fst kx') \<and> edits_only kx' scs
      | (kx', BadIndex) \<Rightarrow> False)"

lemma typed_key: "decode kx sc = (kx', Key c) \<Longrightarrow> typed_keys kx (sc # scs) = (c, fst kx') # typed_keys kx' scs"
  and typed_quiet: "decode kx sc = (kx', Quiet) \<Longrightarrow> typed_keys kx (sc # scs) = typed_keys kx' scs"
  and edits_key: "decode kx sc = (kx', Key c) \<Longrightarrow> edits_only kx (sc # scs) \<longleftrightarrow> editing I386 (c, fst kx') \<and> edits_only kx' scs"
  and edits_quiet: "decode kx sc = (kx', Quiet) \<Longrightarrow> edits_only kx (sc # scs) \<longleftrightarrow> edits_only kx' scs"
  by simp_all

lemma mem_set_kbd [simp]: "mem (set_kbd kx s) = mem s" "mem (outb p v s) = mem s" "term_of (outb p v s) = term_of s"
  by (simp_all add: set_kbd_def outb_def term_of_def)

lemma term_set_kbd [simp]: "term_of (set_kbd kx s) = term_of s" "term_of (s\<lparr>port_in := f\<rparr>) = term_of s"
  by (simp_all add: set_kbd_def term_of_def)

lemma key_irq_quiet:
  assumes "kbd_ok s" and "line s t" and "decode (kstate s, extended s \<noteq> 0) sc = (kx, Quiet)"
  shows "\<exists>s'. key_irq fp img sc s = Inr s' \<and> kbd_ok s' \<and> line s' t \<and> (kstate s', extended s' \<noteq> 0) = kx \<and> mem s' = mem s"
proof -
  let ?s = "outb 0x20 0x20 (set_kbd kx (s\<lparr>port_in := (port_in s)(0x60 := sc)\<rparr>))"
  have k: "key_irq fp img sc s = Inr ?s" using key_irq_decode[OF assms(1,3), of fp] by (simp add: Let_def)
  show ?thesis using key_irq_fixed(1,2)[OF k assms(1,3)] k assms(2) by auto
qed

lemma key_irq_edits:
  assumes "kbd_ok s" and "line s t" and "length t < 255"
    and "decode (kstate s, extended s \<noteq> 0) sc = (kx, Key c)" and "editing I386 (c, fst kx)"
  shows "\<exists>s'. key_irq fp img sc s = Inr s' \<and> kbd_ok s' \<and> line s' (edit I386 (c, fst kx) t) \<and> (kstate s', extended s' \<noteq> 0) = kx \<and>
    only_objs {shellbuf_obj} screen_addrs s s'"
proof -
  define s1 where "s1 = set_kbd kx (s\<lparr>port_in := (port_in s)(0x60 := sc)\<rparr>)"
  have s1: "vga_ok s1" "line s1 t" using assms(1,2) by (simp_all add: s1_def kbd_ok_def) (simp add: vga_ok_def)
  have m: "mem s1 = mem s" by (simp add: s1_def)
  have "length t + length [(c, fst kx)] \<le> 255" using assms(3) by simp
  from vga_shell.edit_session[where img = img, OF s1, of "[(c, fst kx)]" I386 fp] this assms(5) obtain u where
    u: "kcallback I386 fp (vga_console img) c (fst kx) s1 = Inr u" "line u (edit I386 (c, fst kx) t)" "only_objs {shellbuf_obj} screen_addrs s1 u" by auto
  then have k: "key_irq fp img sc s = Inr (outb 0x20 0x20 u)" "line (outb 0x20 0x20 u) (edit I386 (c, fst kx) t)"
    using key_irq_decode[OF assms(1,4), of fp] by (simp_all add: Let_def flip: s1_def)
  moreover have "only_objs {shellbuf_obj} screen_addrs s (outb 0x20 0x20 u)" using u(3) m by (simp add: only_objs_def)
  ultimately show ?thesis using key_irq_fixed(1,2)[OF k(1) assms(1,4)] by blast
qed

lemma length_edit: "length (edit A k t) \<le> length t + 1"
  by (cases k) (auto simp: edit_def)

lemma typing:
  assumes "kbd_ok s" and "line s t" and "(kstate s, extended s \<noteq> 0) = kx" and "edits_only kx scs"
    and "length t + length (typed_keys kx scs) \<le> 255"
  shows "\<exists>u. foldR (key_irq fp img) scs s = Inr u \<and> kbd_ok u \<and> line u (fold (edit I386) (typed_keys kx scs) t) \<and>
    (kstate u, extended u \<noteq> 0) = decodes scs kx \<and> only_objs {shellbuf_obj} screen_addrs s u"
  using assms
proof (induction scs arbitrary: s t kx)
  case Nil
  then show ?case by (auto simp: decodes_def)
next
  case (Cons sc scs)
  obtain kx' ev where d: "decode kx sc = (kx', ev)" by fastforce
  have d': "decode (kstate s, extended s \<noteq> 0) sc = (kx', ev)" using d Cons.prems(3) by simp
  show ?case
  proof (cases ev)
    case Quiet
    then obtain s' where s': "key_irq fp img sc s = Inr s'" "kbd_ok s'" "line s' t" "(kstate s', extended s' \<noteq> 0) = kx'" "mem s' = mem s"
      using key_irq_quiet[OF Cons.prems(1,2), of sc kx' fp] d' by auto
    from Cons.IH[OF s'(2-4)] Cons.prems d Quiet s' show ?thesis
      by (fastforce simp: decodes_def only_objs_def)
  next
    case (Key c)
    have e: "editing I386 (c, fst kx')" "edits_only kx' scs" "length t < 255" using Cons.prems(4,5) d Key by auto
    obtain s' where s': "key_irq fp img sc s = Inr s'" "kbd_ok s'" "line s' (edit I386 (c, fst kx') t)" "(kstate s', extended s' \<noteq> 0) = kx'"
        "only_objs {shellbuf_obj} screen_addrs s s'"
      using key_irq_edits[OF Cons.prems(1,2) e(3) _ e(1), of sc fp] d' Key by auto
    have "length (edit I386 (c, fst kx') t) + length (typed_keys kx' scs) \<le> 255"
      using Cons.prems(5) d Key length_edit[of I386 "(c, fst kx')" t] by simp
    from Cons.IH[OF s'(2-4) e(2) this] show ?thesis
      using d Key s'(1,5) only_objs_trans by (fastforce simp: decodes_def)
  next
    case BadIndex
    then show ?thesis using Cons.prems(4) d by simp
  qed
qed

lemma decode_enter: "decode kx 0x1C = (kx, Key 10)"
  by (cases kx) (simp add: decode_def arrow_bit_def key_char_def keymap_def keymap_shift_def of_char_def ISALPHA_def)

lemma enter_irq:
  assumes "kbd_ok s" and "line s t" and "run_cmd I386 (mem s Phys) t = Some (out, eff)" and "cmd_ok I386 {k. \<not> i386_free img k} t"
  shows "\<exists>w. key_irq fp img 0x1C s = Inr w \<and> kbd_ok w \<and> line w [] \<and>
    term_of w = fold emit (10 # out @ [10, 62]) (term_pos 0 (term_of s)) \<and>
    (\<forall>k. off_screen k \<longrightarrow> mem w Phys k = (case eff of Some (a, v) \<Rightarrow> if k = a then v else mem s Phys k | None \<Rightarrow> mem s Phys k))"
proof -
  let ?kx = "(kstate s, extended s \<noteq> 0)"
  define s1 where "s1 = set_kbd ?kx (s\<lparr>port_in := (port_in s)(0x60 := 0x1C)\<rparr>)"
  have s1: "vga_ok s1" "line s1 t" "mem s1 = mem s" "term_of s1 = term_of s"
    using assms(1,2) by (simp_all add: s1_def kbd_ok_def) (simp add: vga_ok_def)
  obtain u where u: "kcallback I386 fp (vga_console img) 10 (fst ?kx) s1 = Inr u" "line u []"
      "term_of u = fold emit (10 # out @ [10, 62]) (term_pos 0 (term_of s))"
      "\<forall>k. off_screen k \<longrightarrow> mem u Phys k = (case eff of Some (a, v) \<Rightarrow> if k = a then v else mem s Phys k | None \<Rightarrow> mem s Phys k)"
    using vga_enter[OF s1(1,2) _ assms(4), of out eff fp "fst ?kx"] assms(3) unfolding s1(3,4) by auto
  have k: "key_irq fp img 0x1C s = Inr (outb 0x20 0x20 u)"
    using key_irq_decode[OF assms(1) decode_enter, of fp] u(1) by (simp add: Let_def flip: s1_def)
  show ?thesis using k u key_irq_fixed(1)[OF k assms(1) decode_enter] by auto
qed

end
