(* ===== verification/KernelProps.thy ===== *)
theory KernelProps
  imports Session
begin

text \<open>
  Properties of the i386 kernel: boot, keyboard, line editing, commands and history, each stated on
  the functions of the sources with the VGA console in place of the abstract one.
\<close>

section \<open>States for concrete runs\<close>

definition demo_image :: image where
  "demo_image = \<lparr>isr_stub_table = map (\<lambda>k. 0x10100 + 16 * of_nat k) [0..<32], keyboard_stub = 0x10800, idt_addr = 0x18000,
     kernel_end = 0x29000, ram_top = 0x1000000\<rparr>"

definition typed :: "u8 list \<Rightarrow> i386_state" where
  "typed t = i386_start\<lparr>mem := wr (\<lambda>_ _. 0) (shellbuf 0) (t @ replicate (256 - length t) 0), shellptr := of_nat (length t), kcall := Some Kcallback\<rparr>"

lemma image_ok_stubs: "image_ok img \<Longrightarrow> length (isr_stub_table img) = 32"
  by (simp add: image_ok_def)

lemma length_demo [simp]: "length (isr_stub_table demo_image) = 32"
  by (simp add: demo_image_def)

lemma demo_ok: "image_ok demo_image"
proof -
  have "unat (0x10100 + 16 * of_nat k :: u32) = 0x10100 + 16 * k" if "k < 32" for k
    using that by (simp add: unat_word_ariths unat_of_nat)
  then show ?thesis by (auto simp: image_ok_def demo_image_def list_all_iff)
qed

lemma start_fields [simp]:
  "length (idt i386_start) = 256" "shellptr i386_start = 0" "kstate i386_start = 0" "extended i386_start = 0"
  "histptr i386_start = 0" "tx i386_start = 0" "ty i386_start = 0"
  by (simp_all add: i386_start_def)

lemma typed_ok [simp]: "vga_ok (typed t)" "histptr (typed t) = 0" "kbd_ok (typed t)" "kstate (typed t) = 0" "extended (typed t) = 0"
  by (simp_all add: typed_def vga_ok_def i386_start_def kbd_ok_def)

lemma typed_line: "length t \<le> 255 \<Longrightarrow> 0 \<notin> set t \<Longrightarrow> line (typed t) t"
  using rd_wr_same[of "shellbuf 0" "t @ replicate (256 - length t) 0" "\<lambda>_ _. 0"]
  by (simp add: line_def typed_def unat_of_nat)

section \<open>Lines and tokens\<close>

lemma store_nul_line:
  assumes "line s t" and "length t < 255"
  shows "\<exists>m. store (mem s) (shellbuf (uint (shellptr s))) 0 = Inr m \<and> rd m (shellbuf 0) 256 = rd (mem s) (shellbuf 0) 256"
proof -
  have p: "uint (shellptr s) = int (length t)" using assms(1) by (simp add: line_def uint_nat)
  have w: "writable (shellbuf (int (length t))) 1" using assms(2) by (simp add: shellbuf_def)
  have "load (mem s) (ptr_add (shellbuf 0) (int (length t))) = Inr 0"
    using cstr_load[OF line_cstr[OF assms(1)], of "length t"] by simp
  then have "mem s shellbuf_obj (length t) = 0" using assms(2) by (simp add: shellbuf_def)
  then have "wr (mem s) (shellbuf (int (length t))) [0] = mem s" by (auto simp: shellbuf_def fun_eq_iff wr.simps less_Suc_eq_le dest: order.antisym)
  then show ?thesis using store_wr[OF w, of "mem s" 0] p by simp
qed

lemma hex_word_plain: "hex_word a \<Longrightarrow> c \<in> set a \<Longrightarrow> c \<noteq> 0 \<and> c \<noteq> 10 \<and> c \<noteq> 32"
  by (auto simp: hex_word_def list_all_iff is_digit_def digit_val_def ISDIGIT_def ISALPHA_def)

lemma next_token_word:
  assumes "w \<noteq> []" and "32 \<notin> set w"
  shows "next_token {32} w = Some (w, [])" "next_token {32} (w @ 32 # r) = Some (w, r)"
proof -
  have dw: "dropWhile (\<lambda>c. c \<in> {32}) w = w" "dropWhile (\<lambda>c. c \<in> {32}) (w @ 32 # r) = w @ 32 # r"
    using assms by (cases w; auto)+
  have tw: "takeWhile (\<lambda>c. c \<notin> {32}) w = w" using assms(2) by (auto simp: takeWhile_eq_all_conv)
  have tw2: "takeWhile (\<lambda>c. c \<notin> {32}) (w @ 32 # r) = w" using assms(2) by (subst takeWhile_append2) auto
  show "next_token {32} w = Some (w, [])" unfolding next_token_def Let_def dw tw using assms(1) by simp
  show "next_token {32} (w @ 32 # r) = Some (w, r)" unfolding next_token_def Let_def dw tw2 by simp
qed

lemma hex_tokens:
  assumes "hex_word a"
  shows "next_token {32} a = Some (a, [])" "next_token {32} (a @ 32 # r) = Some (a, r)"
  using assms next_token_word[of a] hex_word_plain[OF assms] by (auto simp: hex_word_def)

lemma cmd_tokens:
  "next_token {32} (bytes_of ''poke '' @ r) = Some (bytes_of ''poke'', r)"
  "next_token {32} (bytes_of ''peek '' @ r) = Some (bytes_of ''peek'', r)"
  using next_token_word(2)[of "bytes_of ''poke''" r] next_token_word(2)[of "bytes_of ''peek''" r] by (simp_all add: of_char_def)

lemma fold_edit_plain: "fold (edit I386) (map (\<lambda>c. (c, 0)) xs) [] = xs"
proof -
  have "fold (edit I386) (map (\<lambda>c. (c, 0)) xs) ys = ys @ xs" for ys
    by (induction xs arbitrary: ys) (simp_all add: edit_def)
  then show ?thesis by simp
qed

section \<open>Boot\<close>

text \<open>C11: the kernel boots. From any state with a fresh line counter, \<open>kmain\<close> runs to its idle
  loop: the interrupt table is loaded with the 32 exception stubs and the keyboard stub as present
  ring-0 interrupt gates whose offsets are the stubs' addresses, interrupts are on, the shell's line is
  empty, and the screen shows the IDT message, the greeting and the prompt.\<close>

theorem kmain_boots:
  assumes "length (idt s) = 256" and "length (isr_stub_table img) = 32" and "shellptr s = 0"
  shows "\<exists>u. kmain fp img s = Inr u \<and> vga_ok u \<and> booted img u \<and> line u [] \<and>
    term_of u = fold emit (idt_text img @ bytes_of ''Hello World!'' @ [10, 62]) \<lparr>grid = grid (term_of s), cx = 0, cy = 0\<rparr>"
  using kmain_law[OF assms] by blast

theorem kmain_boots_witness:
  "\<exists>u. kmain int_fpu demo_image i386_start = Inr u \<and> booted demo_image u \<and> line u []"
  using kmain_boots[of i386_start demo_image int_fpu] by auto

text \<open>The order in which \<open>arch_init\<close> programs the interrupt controllers. The last port writes
  before interrupts are enabled are the remapping sequence, then the two masks that leave only the
  keyboard line open. ICW3 of the first controller is 2 and ICW4 goes twice to its data port, never to
  that of the second controller.\<close>

theorem arch_init_programs_pic:
  assumes "length (idt s) = 256" and "length (isr_stub_table img) = 32"
  shows "\<exists>u pre. arch_init fp img (Some Kcallback) s = Inr u \<and> iflag u \<and>
    outs u = pre @ concat (map (\<lambda>pd. [pd, (0x80, 0)])
      [(0x20, 0x11), (0xA0, 0x11), (0x21, 0x20), (0xA1, 0x28), (0x21, 0x02), (0xA1, 0x02), (0x21, 0x01), (0x21, 0x01)]) @
      [(0x21, 0xFD), (0xA1, 0xFF)]"
  using arch_init_law[OF assms, of fp] unfolding pic_log_def booted_def by blast

theorem arch_init_programs_pic_witness:
  "\<exists>u pre. arch_init int_fpu demo_image (Some Kcallback) i386_start = Inr u \<and>
    outs u = pre @ concat (map (\<lambda>pd. [pd, (0x80, 0)])
      [(0x20, 0x11), (0xA0, 0x11), (0x21, 0x20), (0xA1, 0x28), (0x21, 0x02), (0xA1, 0x02), (0x21, 0x01), (0x21, 0x01)]) @
      [(0x21, 0xFD), (0xA1, 0xFF)]"
  using arch_init_programs_pic[of i386_start demo_image int_fpu] by auto

section \<open>The running machine\<close>

text \<open>C1: the invariant of the running machine. After boot and any sequence of handled keyboard
  interrupts the cursor is on the screen, the callback is the shell's, the interrupt table still holds
  the gates installed at boot, the keyboard state is that of the decoder run over the scan codes, and the
  last write to a port was the end-of-interrupt command. The interrupts are those of any keys, commands
  entered among them; a peek or a poke at an address that is neither free memory nor the display is not
  a handled interrupt here (\<open>Unmodelled\<close>), for it may be the kernel's own.\<close>

theorem machine_invariant:
  assumes "running fp img s0 scs s" and "length (idt s0) = 256" and "image_ok img"
    and "shellptr s0 = 0" and "kstate s0 = 0" and "extended s0 = 0"
  shows "kbd_ok s \<and> booted img s \<and> (kstate s, extended s \<noteq> 0) = decodes scs (0, False) \<and>
    (scs \<noteq> [] \<longrightarrow> (\<exists>pre. outs s = pre @ [(0x20, 0x20)]))"
  by (rule running_inv[OF assms(1,2) image_ok_stubs[OF assms(3)] assms(4-6)])

lemma runs_a: "\<exists>s. running int_fpu demo_image i386_start [0x1E] s"
proof -
  obtain u where u: "kmain int_fpu demo_image i386_start = Inr u" "vga_ok u" "booted demo_image u" "kstate u = 0"
      "extended u = 0" "line u []"
    using kmain_law[of i386_start demo_image int_fpu] by auto
  have ok: "kbd_ok u" using u by (simp add: kbd_ok_def booted_def)
  have dec: "decode (kstate u, extended u \<noteq> 0) 0x1E = ((0, False), Key 97)"
    using u(4,5) by (simp add: decode_def arrow_bit_def key_char_def keymap_def of_char_def ISALPHA_def KBD_CAPS_def)
  have "editing I386 (97, 0)" by (simp add: editing_def plain_key_def)
  then obtain s' where "key_irq int_fpu demo_image 0x1E u = Inr s'" using key_irq_edit[OF ok u(6) _ dec, of int_fpu] by auto
  with running.irq[OF running.boot[OF u(1)]] u(3) show ?thesis by (fastforce simp: booted_def)
qed

theorem machine_invariant_witness:
  "\<exists>s. running int_fpu demo_image i386_start [0x1E] s \<and> kbd_ok s \<and> booted demo_image s \<and> kstate s = 0"
proof -
  obtain s where s: "running int_fpu demo_image i386_start [0x1E] s" using runs_a by blast
  have "decodes [0x1E] (0, False) = (0, False)" by (simp add: decodes_def decode_def arrow_bit_def)
  with machine_invariant[OF s _ demo_ok] s show ?thesis by auto
qed

text \<open>What the modifier bits mean. In a running machine the shift bit is set exactly when the last
  shift scan code was a press, the caps bit exactly when caps lock was pressed an odd number of times,
  the backspace bit exactly when the last backspace scan code was a press.\<close>

theorem modifier_bits_track_keys:
  assumes "running fp img s0 scs s" and "length (idt s0) = 256" and "length (isr_stub_table img) = 32"
    and "shellptr s0 = 0" and "kstate s0 = 0" and "extended s0 = 0"
  shows "(bit (kstate s) 0 \<longleftrightarrow> shift_held scs) \<and> (bit (kstate s) 1 \<longleftrightarrow> caps_on scs) \<and> (bit (kstate s) 2 \<longleftrightarrow> bcksp_held scs)"
proof -
  have "kstate s = fst (decodes scs (0, False))" using running_inv[OF assms] by (metis fst_conv)
  then show ?thesis using decodes_bits[of scs] by simp
qed

theorem modifier_bits_track_keys_witness:
  "\<exists>s. running int_fpu demo_image i386_start [0x1E] s \<and> \<not> bit (kstate s) 0 \<and> \<not> bit (kstate s) 1"
proof -
  obtain s where s: "running int_fpu demo_image i386_start [0x1E] s" using runs_a by blast
  from modifier_bits_track_keys[OF this] s show ?thesis by (auto simp: shift_held_def caps_on_def)
qed

section \<open>The keyboard\<close>

text \<open>C15: the interrupt handler \<open>keyboard\<close> is the decoder \<open>decode\<close>: it updates the modifier
  state and the prefix flag as the decoder does, delivers the decoded key, if there is one, to the
  callback, and then acknowledges the interrupt, for every callback and every scan code.\<close>

theorem keyboard_is_decoder:
  assumes "extended s \<in> {0, 1}" and "decode (kstate s, extended s \<noteq> 0) (inb 0x60 s) = (kx, ev)"
  shows "keyboard code s = bindR (deliver code ev (set_kbd kx s)) (\<lambda>s. Inr (outb 0x20 0x20 s))"
  by (rule keyboard_decode[OF assms])

theorem keyboard_is_decoder_witness:
  "keyboard (\<lambda>f c ks s. Inr s) (i386_start\<lparr>port_in := \<lambda>_. 0x3A\<rparr>) =
    Inr (outb 0x20 0x20 (i386_start\<lparr>port_in := \<lambda>_. 0x3A, kstate := 2\<rparr>))"
  using keyboard_is_decoder[of "i386_start\<lparr>port_in := \<lambda>_. 0x3A\<rparr>" "(2, False)" Quiet "\<lambda>f c ks s. Inr s"]
  by (simp add: decode_def inb_def KBD_CAPS_def deliver_def set_kbd_def i386_start_def)

text \<open>C35: a scan code outside the key maps (0, or a make code from 0x3B on that is not an arrow key,
  such as the function keys and the keypad) makes the handler read outside its tables.\<close>

theorem unmapped_key_reads_out_of_bounds:
  assumes "kbd_ok s" and "sc = 0 \<or> 0x3A < sc \<and> sc < 0x80" and "sc \<notin> {0x48, 0x50, 0x4B, 0x4D}"
  shows "key_irq fp img sc s = Inl OutOfBounds"
proof -
  have top: "sc AND 0x80 = 0"
  proof -
    have "unat sc < 2 ^ 7" using assms(2) by (auto simp: word_less_nat_alt)
    then have "\<not> bit (unat sc) 7" by (simp add: bit_iff_odd)
    then have "\<not> bit sc 7" by (simp add: bit_unsigned_iff)
    then show ?thesis using and_exp_eq_0_iff_not_bit[of sc 7] by simp
  qed
  have nots: "sc \<noteq> 0xE0" "sc \<noteq> 0x0E" "sc \<noteq> 0x8E" "sc \<noteq> 0x2A" "sc \<noteq> 0x36" "sc \<noteq> 0xAA" "sc \<noteq> 0xB6" "sc \<noteq> 0x3A"
    "sc \<noteq> 0xC8" "sc \<noteq> 0xD0" "sc \<noteq> 0xCB" "sc \<noteq> 0xCD"
    using assms(2) by auto
  have "sc = 0 \<or> 57 < sc" using assms(2) by (auto simp: word_less_nat_alt)
  then have "key_char (kstate s) sc = BadIndex" using top by (simp add: key_char_def)
  moreover have "arrow_bit sc = None" using nots assms(3) by (simp add: arrow_bit_def)
  ultimately have "decode (kstate s, extended s \<noteq> 0) sc = ((kstate s, extended s \<noteq> 0), BadIndex)"
    using nots by (simp add: decode_def)
  from key_irq_decode[OF assms(1) this] show ?thesis by simp
qed

theorem unmapped_key_reads_out_of_bounds_witness: "key_irq int_fpu demo_image 0x3B (typed []) = Inl OutOfBounds"
  using unmapped_key_reads_out_of_bounds[of "typed []" "0x3B" int_fpu] by simp

section \<open>Line editing\<close>

text \<open>C10: a line-editing session. Plain keys and backspaces, delivered one after the other to the
  shell's callback, leave in the buffer exactly the edited text, terminated and with its length in
  \<open>shellptr\<close>, as long as it has at most 255 characters; no memory but the buffer, the screen and
  \<open>printf\<close>'s scratch buffers changes.\<close>

theorem editing_keeps_line:
  assumes "vga_ok s" and "line s t" and "\<forall>k \<in> set keys. editing I386 k" and "length t + length keys \<le> 255"
  shows "\<exists>s'. foldR (\<lambda>(c, ks). kcallback I386 fp (vga_console img) c ks) keys s = Inr s' \<and> vga_ok s' \<and>
    line s' (fold (edit I386) keys t) \<and> histptr s' = histptr s \<and> only_objs {shellbuf_obj} screen_addrs s s'"
  by (rule vga_shell.edit_session[OF assms])

theorem editing_keeps_line_witness:
  "\<exists>s'. foldR (\<lambda>(c, ks). kcallback I386 int_fpu (vga_console demo_image) c ks) [(97, 0), (98, 0), (0, KBD_BCKSP), (99, 0)] (typed []) = Inr s' \<and>
    line s' [97, 99]"
proof -
  have "\<forall>k \<in> set [(97, 0), (98, 0), (0, KBD_BCKSP), (99, 0)]. editing I386 k"
    by (simp add: editing_def plain_key_def kbd_bcksp_def KBD_BCKSP_def)
  from editing_keeps_line[where img = demo_image, OF typed_ok(1) typed_line this, of "[]" int_fpu] show ?thesis
    by (auto simp: edit_def kbd_bcksp_def KBD_BCKSP_def)
qed

text \<open>C5: from the keyboard to the command. From boot, the interrupts for any sequence of editing keys,
  modifiers and releases (as many keys as the line can hold) build the line that these keys type, and
  the interrupt for Enter then runs it: the screen shows exactly what the reference interpreter prints
  for this line, and off the screen physical memory changes only in the byte that the interpreter
  pokes. As in C9 the address of a peek or a poke is one of free memory.\<close>

theorem typed_command_runs:
  assumes "kmain fp img s = Inr b" and "length (idt s) = 256" and "image_ok img" and "shellptr s = 0"
    and "kstate s = 0" and "extended s = 0" and "edits_only (0, False) scs" and "length (typed_keys (0, False) scs) \<le> 255"
    and "t = fold (edit I386) (typed_keys (0, False) scs) []"
    and "run_cmd I386 (mem b Phys) t = Some (out, eff)" and "cmd_ok I386 {k. \<not> i386_free img k} t"
  shows "\<exists>u w. foldR (key_irq fp img) scs b = Inr u \<and> line u t \<and> key_irq fp img 0x1C u = Inr w \<and> line w [] \<and>
    term_of w = fold emit (10 # out @ [10, 62]) (term_pos 0 (term_of u)) \<and>
    (\<forall>k. off_screen k \<longrightarrow> mem w Phys k = (case eff of Some (a, v) \<Rightarrow> if k = a then v else mem b Phys k | None \<Rightarrow> mem b Phys k))"
proof -
  have r: "kbd_ok b" "(kstate b, extended b \<noteq> 0) = (0, False)"
    using running_inv[OF running.boot[OF assms(1)] assms(2) image_ok_stubs[OF assms(3)] assms(4-6)] by (simp_all add: decodes_def)
  have "line b []" using kmain_law[OF assms(2) image_ok_stubs[OF assms(3)] assms(4), of fp] assms(1) by auto
  then obtain u where u: "foldR (key_irq fp img) scs b = Inr u" "kbd_ok u" "line u t" "only_objs {shellbuf_obj} screen_addrs b u"
    using typing[OF r(1) _ r(2) assms(7), of "[]" fp] assms(8,9) by auto
  have ph: "mem u Phys k = mem b Phys k" if "k \<notin> screen_addrs" for k using u(4) that by (simp add: only_objs_def)
  have "cmd_ok I386 screen_addrs t"
    using free_off_screen[of img] by (intro cmd_ok_mono[OF assms(11)]) (auto simp: screen_addrs_def)
  from run_cmd_cong[OF this ph] have run: "run_cmd I386 (mem u Phys) t = Some (out, eff)" using assms(10) by simp
  show ?thesis using enter_irq[OF u(2,3) run assms(11), of fp] u(1,3) ph by (fastforce simp: screen_addrs_def split: option.splits)
qed

text \<open>The keys p, o, k, e, blank, 5, blank, 7, each pressed and released.\<close>

definition poke_keys :: "u8 list" where
  "poke_keys = [0x19, 0x99, 0x18, 0x98, 0x25, 0xA5, 0x12, 0x92, 0x39, 0xB9, 0x06, 0x86, 0x39, 0xB9, 0x08, 0x88]"

lemma poke_presses:
  "decode (0, False) 0x19 = ((0, False), Key 112)"
  "decode (0, False) 0x18 = ((0, False), Key 111)"
  "decode (0, False) 0x25 = ((0, False), Key 107)"
  "decode (0, False) 0x12 = ((0, False), Key 101)"
  "decode (0, False) 0x39 = ((0, False), Key 32)"
  "decode (0, False) 0x06 = ((0, False), Key 53)"
  "decode (0, False) 0x08 = ((0, False), Key 55)"
  by (simp_all add: decode_def arrow_bit_def key_char_def keymap_def of_char_def ISALPHA_def KBD_CAPS_def)

lemma poke_releases:
  "decode (0, False) 0x99 = ((0, False), Quiet)"
  "decode (0, False) 0x98 = ((0, False), Quiet)"
  "decode (0, False) 0xA5 = ((0, False), Quiet)"
  "decode (0, False) 0x92 = ((0, False), Quiet)"
  "decode (0, False) 0xB9 = ((0, False), Quiet)"
  "decode (0, False) 0x86 = ((0, False), Quiet)"
  "decode (0, False) 0x88 = ((0, False), Quiet)"
  by (simp_all add: decode_def arrow_bit_def key_char_def)

lemma plain_editing: "c \<noteq> 0 \<Longrightarrow> c \<noteq> 10 \<Longrightarrow> c < 128 \<Longrightarrow> editing I386 (c, 0)"
  by (simp add: editing_def plain_key_def)

lemma poke_keys: "edits_only (0, False) poke_keys"
  "typed_keys (0, False) poke_keys = map (\<lambda>c. (c, 0)) (bytes_of ''poke 5 7'')"
  unfolding poke_keys_def poke_presses[THEN typed_key] poke_releases[THEN typed_quiet] poke_presses[THEN edits_key]
    poke_releases[THEN edits_quiet]
  by (simp_all add: plain_editing of_char_def)

theorem typed_command_runs_witness:
  "\<exists>b u w. kmain int_fpu demo_image i386_start = Inr b \<and> foldR (key_irq int_fpu demo_image) poke_keys b = Inr u \<and>
    line u (bytes_of ''poke 5 7'') \<and> key_irq int_fpu demo_image 0x1C u = Inr w \<and> mem w Phys 5 = 7"
proof -
  obtain b where b: "kmain int_fpu demo_image i386_start = Inr b" using kmain_law[of i386_start demo_image int_fpu] by auto
  have w: "hex_word [53]" "hex_word [55]" by (simp_all add: hex_word_def is_digit_def digit_val_def ISDIGIT_def)
  have tok: "next_token {32} (bytes_of ''poke 5 7'') = Some (bytes_of ''poke'', [53, 32, 55])"
    "next_token {32} [53, 32, 55] = Some ([53], [55])" "next_token {32} [55] = Some ([55], [])"
    using cmd_tokens(1)[of "[53, 32, 55]"] hex_tokens(2)[OF w(1), of "[55]"] hex_tokens(1)[OF w(2)] by (simp_all add: of_char_def)
  have ne: "bytes_of ''poke'' \<noteq> bytes_of ''peek''" by (simp add: of_char_def)
  have arg: "hex_arg I386 [53] = 5" "hex_arg I386 [55] = 7"
    by (simp_all add: hex_arg_def digit_of_def digit_val_def ISDIGIT_def ULONG_MAX_def long_bits_def)
  have num: "hex_addr I386 [53] = 5" "word_of_int (int_of_ulong 7) = (7 :: u8)" by (simp_all add: hex_addr_def arg int_of_ulong_def long_bits_def)
  have run: "\<exists>out. run_cmd I386 f (bytes_of ''poke 5 7'') = Some (out, Some (5, 7))" for f
    unfolding run_cmd_def tok using ne by (simp add: tok arg num del: bytes_of_simps)
  then obtain out where out: "run_cmd I386 (mem b Phys) (bytes_of ''poke 5 7'') = Some (out, Some (5, 7))" by blast
  have ok: "cmd_ok I386 {k. \<not> i386_free demo_image k} (bytes_of ''poke 5 7'')"
    unfolding cmd_ok_def tok by (simp add: tok w num i386_free_def demo_image_def del: bytes_of_simps)
  have len: "length (typed_keys (0, False) poke_keys) \<le> 255" by (simp add: poke_keys)
  from typed_command_runs[OF b _ demo_ok _ _ _ poke_keys(1) len refl] out ok b show ?thesis
    by (fastforce simp: poke_keys(2) fold_edit_plain off_screen_def simp del: bytes_of_simps)
qed

text \<open>C38: an arrow key to the side, or the release of any arrow key, reaches the shell as the character
  0 and is inserted: the counter moves on over the terminator. What the user sees stays the same, but no
  line is in the buffer any more, and characters typed later end up behind a NUL where \<open>puts\<close>
  and \<open>strtok\<close> never see them.\<close>

theorem side_arrow_breaks_line:
  assumes "vga_ok s" and "line s t" and "length t < 255"
    and "ks AND kbd_bcksp I386 = 0" and "ks AND kbd_up = 0" and "ks AND kbd_down = 0"
  shows "\<exists>s'. kcallback I386 fp (vga_console img) 0 ks s = Inr s' \<and> cstr (mem s') (shellbuf 0) t \<and>
    unat (shellptr s') = length t + 1 \<and> (\<forall>t'. \<not> line s' t')"
proof -
  obtain m where m: "store (mem s) (shellbuf (uint (shellptr s))) 0 = Inr m" "rd m (shellbuf 0) 256 = rd (mem s) (shellbuf 0) 256"
    using store_nul_line[OF assms(2,3)] by blast
  let ?s = "s\<lparr>mem := m, shellptr := shellptr s + 1\<rparr>"
  have ptr: "unat (shellptr s + 1) = length t + 1"
    using assms(2,3) unat_add_1[of "shellptr s" 255] by (simp add: line_def word_less_nat_alt)
  obtain s1 where s1: "con_setpos_x (vga_console img) 1 ?s = Inr s1" "vga_ok s1" "keeps screen_addrs ?s s1"
    using vga_shell.setpos_law[of ?s 1] assms(1) by (auto simp: vga_ok_def)
  have c: "cstr m (shellbuf 0) t" using line_cstr[of "s\<lparr>mem := m\<rparr>" t] assms(2) m(2) by (simp add: line_def)
  have b1: "mem s1 shellbuf_obj = m shellbuf_obj" using s1(3) by (simp add: keeps_def)
  then have c1: "cstr (mem s1) (Ptr shellbuf_obj 0) t" using c cstr_cong[of "mem s1" shellbuf_obj m] by (simp add: shellbuf_def)
  obtain s2 where s2: "con_puts (vga_console img) (shellbuf 0) s1 = Inr s2" "vga_ok s2" "keeps screen_addrs s1 s2"
    using vga_shell.puts_str[OF s1(2) c1] by (auto simp: shellbuf_def)
  have b2: "mem s2 shellbuf_obj = m shellbuf_obj" "shellptr s2 = shellptr s + 1" using s1(3) s2(3) b1 by (simp_all add: keeps_def)
  have run: "kcallback I386 fp (vga_console img) 0 ks s = Inr s2"
    using assms(4-6) m(1) s1(1) s2(1) by (simp add: kcallback_def kcallback_insert_def PROMPT_LEN_def)
  have c2: "cstr (mem s2) (shellbuf 0) t" using c cstr_cong[of "mem s2" shellbuf_obj m] b2 by (simp add: shellbuf_def)
  have "\<not> line s2 t'" for t'
  proof
    assume l: "line s2 t'"
    have "t' = t" using cstr_unique[OF line_cstr[OF l] c2] .
    then show False using l b2(2) ptr by (simp add: line_def)
  qed
  then show ?thesis using run c2 b2 ptr by auto
qed

theorem side_arrow_breaks_line_witness:
  "\<exists>s'. kcallback I386 int_fpu (vga_console demo_image) 0 KBD_RIGHT (typed [97]) = Inr s' \<and> (\<forall>t'. \<not> line s' t')"
  using side_arrow_breaks_line[OF typed_ok(1) typed_line, of "[97]" KBD_RIGHT int_fpu]
  by (auto simp: KBD_RIGHT_def kbd_bcksp_def kbd_up_def kbd_down_def)

section \<open>Commands\<close>

text \<open>C9: the Enter key runs the line. The shell prints on the terminal exactly what the reference
  \<open>run_cmd\<close> gives for the line (values peeked, usage texts, unknown commands), stores exactly the
  byte it names, in memory that is not the screen changes nothing else, and starts a new empty line.
  The address of a peek or a poke is one of free memory (\<open>i386_free\<close>): not in the kernel, its
  descriptor table, the display or the rest of the region below 1 MB.\<close>

theorem enter_runs_command:
  assumes "image_ok img" and "vga_ok s" and "line s t" and "run_cmd I386 (mem s Phys) t = Some (out, eff)"
    and "cmd_ok I386 {k. \<not> i386_free img k} t"
  shows "\<exists>u. kcallback I386 fp (vga_console img) 10 ks s = Inr u \<and> vga_ok u \<and> line u [] \<and> histptr u = histptr s + 1 \<and>
    term_of u = fold emit (10 # out @ [10, 62]) (term_pos 0 (term_of s)) \<and>
    (\<forall>k. off_screen k \<longrightarrow> mem u Phys k = (case eff of Some (a, v) \<Rightarrow> if k = a then v else mem s Phys k | None \<Rightarrow> mem s Phys k))"
  by (rule vga_enter[OF assms(2-5)])

theorem enter_runs_command_witness:
  "\<exists>u. kcallback I386 int_fpu (vga_console demo_image) 10 0 (typed (bytes_of ''help'')) = Inr u \<and> line u [] \<and>
    term_of u = fold emit (10 # bytes_of ''Unknown command: help'' @ [10, 62]) (term_pos 0 (term_of (typed (bytes_of ''help''))))"
proof -
  have tok: "next_token {32} (bytes_of ''help'') = Some (bytes_of ''help'', [])" by (simp add: next_token_def of_char_def)
  have ne: "bytes_of ''help'' \<noteq> bytes_of ''peek''" "bytes_of ''help'' \<noteq> bytes_of ''poke''" by (simp_all add: of_char_def)
  have "run_cmd I386 f (bytes_of ''help'') = Some (bytes_of ''Unknown command: help'', None)" for f
    unfolding run_cmd_def tok using ne by (simp add: of_char_def)
  moreover have "cmd_ok I386 dev (bytes_of ''help'')" for dev using ne by (simp add: cmd_ok_def tok del: bytes_of_simps)
  moreover have "line (typed (bytes_of ''help'')) (bytes_of ''help'')" by (rule typed_line) (simp_all add: of_char_def)
  ultimately show ?thesis using enter_runs_command[OF demo_ok typed_ok(1), of "bytes_of ''help''" "bytes_of ''help''" _ _ int_fpu 0] by blast
qed

text \<open>C17: poke and peek. After \<open>poke a v\<close>, typing \<open>peek a\<close> and Enter prints the low byte of
  \<open>v\<close> at the address, for all hexadecimal arguments whose address is in free memory: neither the
  kernel's own code and variables nor the display, the firmware's memory or a device.\<close>

theorem poke_then_peek:
  assumes "image_ok img" and "vga_ok s" and "line s (bytes_of ''poke '' @ a @ [32] @ v)" and "hex_word a" and "hex_word v"
    and "i386_free img (hex_addr I386 a)"
  shows "\<exists>u1 u2 w. kcallback I386 fp (vga_console img) 10 0 s = Inr u1 \<and>
    foldR (\<lambda>(c, ks). kcallback I386 fp (vga_console img) c ks) (map (\<lambda>c. (c, 0)) (bytes_of ''peek '' @ a)) u1 = Inr u2 \<and>
    kcallback I386 fp (vga_console img) 10 0 u2 = Inr w \<and>
    term_of w = fold emit (10 # hex_text 8 (int_of_ulong (hex_arg I386 a)) @ bytes_of '': '' @
      hex_text 2 (uint (word_of_int (int_of_ulong (hex_arg I386 v)) :: u8)) @ [10, 62]) (term_pos 0 (term_of u2))"
proof -
  note toks = hex_tokens[OF assms(4)] hex_tokens(1)[OF assms(5)]
  let ?b = "word_of_int (int_of_ulong (hex_arg I386 v)) :: u8"
  have ok1: "cmd_ok I386 {k. \<not> i386_free img k} (bytes_of ''poke '' @ a @ [32] @ v)"
    using assms(4-6) toks by (simp add: cmd_ok_def cmd_tokens del: bytes_of_simps)
  have pp: "bytes_of ''poke'' \<noteq> bytes_of ''peek''" by (simp add: of_char_def)
  then obtain o1 where run1: "run_cmd I386 (mem s Phys) (bytes_of ''poke '' @ a @ [32] @ v) = Some (o1, Some (hex_addr I386 a, ?b))"
    using toks by (simp add: run_cmd_def cmd_tokens del: bytes_of_simps)
  obtain u1 where u1: "kcallback I386 fp (vga_console img) 10 0 s = Inr u1" "vga_ok u1" "line u1 []"
      "\<forall>k. off_screen k \<longrightarrow> mem u1 Phys k = (if k = hex_addr I386 a then ?b else mem s Phys k)"
    using vga_enter[OF assms(2,3) run1 ok1, of fp 0] by auto
  let ?t = "bytes_of ''peek '' @ a"
  have keys: "\<forall>k \<in> set (map (\<lambda>c. (c, 0)) ?t). editing I386 k"
    using hex_word_plain[OF assms(4)] by (auto simp: editing_def plain_key_def of_char_def)
  have len: "length ?t \<le> 255" using assms(3) by (simp add: line_def)
  have ed: "fold (edit I386) (map (\<lambda>c. (c, 0)) ?t) [] = ?t" by (rule fold_edit_plain)
  obtain u2 where u2: "foldR (\<lambda>(c, ks). kcallback I386 fp (vga_console img) c ks) (map (\<lambda>c. (c, 0)) ?t) u1 = Inr u2" "vga_ok u2"
      "line u2 ?t" "only_objs {shellbuf_obj} screen_addrs u1 u2"
    using vga_shell.edit_session[where img = img, OF u1(2,3) keys, of fp] len ed by auto
  have "mem u2 Phys (hex_addr I386 a) = ?b" using u2(4) u1(4) free_off_screen[OF assms(6)] by (simp add: only_objs_def screen_addrs_def)
  then have run2: "run_cmd I386 (mem u2 Phys) ?t =
      Some (hex_text 8 (int_of_ulong (hex_arg I386 a)) @ bytes_of '': '' @ hex_text 2 (uint ?b), None)"
    using toks by (simp add: run_cmd_def cmd_tokens del: bytes_of_simps)
  have ok2: "cmd_ok I386 {k. \<not> i386_free img k} ?t" using assms(4,6) toks pp by (simp add: cmd_ok_def cmd_tokens del: bytes_of_simps)
  show ?thesis using u1(1) u2(1) vga_enter[OF u2(2,3) run2 ok2, of fp 0] by auto
qed

theorem poke_then_peek_witness:
  "\<exists>u1 u2 w. kcallback I386 int_fpu (vga_console demo_image) 10 0 (typed (bytes_of ''poke 10 7F'')) = Inr u1 \<and>
    foldR (\<lambda>(c, ks). kcallback I386 int_fpu (vga_console demo_image) c ks) (map (\<lambda>c. (c, 0)) (bytes_of ''peek 10'')) u1 = Inr u2 \<and>
    kcallback I386 int_fpu (vga_console demo_image) 10 0 u2 = Inr w"
proof -
  have "line (typed (bytes_of ''poke 10 7F'')) (bytes_of ''poke '' @ bytes_of ''10'' @ [32] @ bytes_of ''7F'')"
    using typed_line[of "bytes_of ''poke 10 7F''"] by (simp add: of_char_def)
  moreover have "hex_word (bytes_of ''10'')" "hex_word (bytes_of ''7F'')"
    by (simp_all add: hex_word_def is_digit_def digit_val_def ISDIGIT_def ISALPHA_def ISUPPER_def of_char_def)
  moreover have "i386_free demo_image (hex_addr I386 (bytes_of ''10''))"
    by (simp add: hex_addr_def hex_arg_def digit_of_def digit_val_def ISDIGIT_def ISALPHA_def ISUPPER_def of_char_def int_of_ulong_def long_bits_def ULONG_MAX_def i386_free_def demo_image_def)
  ultimately show ?thesis
    using poke_then_peek[OF demo_ok typed_ok(1), of "bytes_of ''poke 10 7F''" "bytes_of ''10''" "bytes_of ''7F''" int_fpu] by fastforce
qed

text \<open>C37: an empty line, or one of blanks only, ends in a null pointer dereference when Enter is pressed:
  \<open>strtok\<close> returns null and \<open>shell_hash\<close> passes it to \<open>strcmp\<close>.\<close>

theorem enter_on_blank_line_faults:
  assumes "vga_ok s" and "line s t" and "set t \<subseteq> {32}"
  shows "kcallback I386 fp (vga_console img) 10 ks s = Inl NullDeref"
proof -
  have "dropWhile (\<lambda>c. c \<in> {32}) t = []" using assms(3) by (auto simp: dropWhile_eq_Nil_conv)
  then have "next_token {32} t = None" by (simp add: next_token_def)
  from vga_shell.enter_blank[OF assms(1,2) this] show ?thesis .
qed

theorem enter_on_blank_line_faults_witness: "kcallback I386 int_fpu (vga_console demo_image) 10 0 (typed []) = Inl NullDeref"
  using enter_on_blank_line_faults[OF typed_ok(1) typed_line, of "[]" int_fpu demo_image 0] by simp

text \<open>C36: the line has no limit. Any 256 plain keys from an empty line fill the buffer without a
  terminator (the counter wraps to 0 at the same time), and printing it reads past its end.\<close>

theorem line_of_256_overruns:
  assumes "vga_ok s" and "line s []" and "list_all (\<lambda>(c, ks). plain_key I386 c ks) keys" and "length keys = 256"
  shows "foldR (\<lambda>(c, ks). kcallback I386 fp (vga_console img) c ks) keys s = Inl OutOfBounds"
  by (rule vga_shell.long_line_overruns[OF assms])

theorem line_of_256_overruns_witness:
  "foldR (\<lambda>(c, ks). kcallback I386 int_fpu (vga_console demo_image) c ks) (replicate 256 (0x61, 0)) (typed []) = Inl OutOfBounds"
proof -
  have "list_all (\<lambda>(c, ks). plain_key I386 c ks) (replicate 256 (0x61, 0))" by (simp add: list_all_iff plain_key_def)
  from line_of_256_overruns[OF typed_ok(1) typed_line this, of int_fpu] show ?thesis by simp
qed

section \<open>History\<close>

text \<open>C39: what goes to the history of a line of several words (other than the two commands) is its first
  word, because the buffer is saved after \<open>strtok\<close> has cut it, with the length of the whole line beside it.\<close>

theorem history_keeps_first_word:
  assumes "vga_ok s" and "line s (w @ 32 # r)" and "w \<noteq> []" and "32 \<notin> set w"
    and "w \<noteq> bytes_of ''peek''" and "w \<noteq> bytes_of ''poke''"
  shows "\<exists>u. kcallback I386 fp (vga_console img) 10 ks s = Inr u \<and> histptr u = histptr s + 1 \<and>
    cstr (mem u) (shellhist (uint (histptr s))) w \<and>
    load (mem u) (shellptr_hist (uint (histptr s))) = Inr (of_nat (length w + 1 + length r))"
  by (rule vga_shell.history_first_word[OF assms])

theorem history_keeps_first_word_witness:
  "\<exists>u. kcallback I386 int_fpu (vga_console demo_image) 10 0 (typed (bytes_of ''echo hi'')) = Inr u \<and>
    cstr (mem u) (shellhist 0) (bytes_of ''echo'') \<and> load (mem u) (shellptr_hist 0) = Inr 7"
proof -
  have "line (typed (bytes_of ''echo hi'')) (bytes_of ''echo'' @ 32 # bytes_of ''hi'')"
    using typed_line[of "bytes_of ''echo hi''"] by (simp add: of_char_def)
  from history_keeps_first_word[OF typed_ok(1) this, of int_fpu demo_image 0] show ?thesis
    by (auto simp: of_char_def simp del: cstr.simps load.simps)
qed

text \<open>C40: the history is not checked at its ends. The up key before any command was entered reads before
  the array, the down key at the last of the 256 entries behind it, on every console.\<close>

theorem history_ends_unchecked:
  assumes "c \<noteq> 10" and "ks AND kbd_bcksp A = 0"
    and "histptr s = 0 \<and> ks AND kbd_up \<noteq> 0 \<or> histptr s = 255 \<and> ks AND kbd_up = 0 \<and> ks AND kbd_down \<noteq> 0"
  shows "kcallback A fp con c ks s = Inl OutOfBounds"
  using assms
  by (auto simp: kcallback_def kcallback_recall_def memcpy_def copy_up.simps shellhist_def)

theorem history_ends_unchecked_witness: "kcallback I386 int_fpu (vga_console demo_image) 0 KBD_UP (typed []) = Inl OutOfBounds"
  using history_ends_unchecked[of 0 KBD_UP I386 "typed []" int_fpu "vga_console demo_image"]
  by (simp add: kbd_bcksp_def kbd_up_def KBD_UP_def)

end
