(* ===== verification/Efi.thy ===== *)
theory Efi
  imports Prelude
begin

text \<open>
  The ground of the boot loader (\<open>efi/\<close>): physical memory as bytes under 64-bit addresses,
  little-endian reads, the firmware's services and the library functions of gnu-efi. Firmware and
  library are not part of the sources: they are the parameter \<open>efi_api\<close>; what the loader
  relies on of the three memory functions is \<open>lib_ok\<close>. \<open>Print\<close> only shows text; its
  calls are kept in a log.
\<close>

type_synonym pmem = "u64 \<Rightarrow> u8"
type_synonym status = u64

section \<open>Memory\<close>

fun le :: "pmem \<Rightarrow> u64 \<Rightarrow> nat \<Rightarrow> nat" where
  "le m a 0 = 0"
| "le m a (Suc n) = unat (m a) + 256 * le m (a + 1) n"

definition r8 :: "pmem \<Rightarrow> u64 \<Rightarrow> u8" where "r8 m a = m a"
definition r16 :: "pmem \<Rightarrow> u64 \<Rightarrow> u16" where "r16 m a = of_nat (le m a 2)"
definition r32 :: "pmem \<Rightarrow> u64 \<Rightarrow> u32" where "r32 m a = of_nat (le m a 4)"
definition r64 :: "pmem \<Rightarrow> u64 \<Rightarrow> u64" where "r64 m a = of_nat (le m a 8)"

definition bytes_at :: "pmem \<Rightarrow> u64 \<Rightarrow> nat \<Rightarrow> u8 list" where
  "bytes_at m a n = map (\<lambda>k. m (a + of_nat k)) [0..<n]"

definition within :: "u64 \<Rightarrow> u64 \<Rightarrow> u64 \<Rightarrow> bool" where
  "within a d n \<longleftrightarrow> a - d < n"

definition w64 :: "u64 \<Rightarrow> u64 \<Rightarrow> pmem \<Rightarrow> pmem" where
  "w64 d v m = (\<lambda>a. if within a d 8 then ucast (drop_bit (8 * unat (a - d)) v) else m a)"

text \<open>The documented effect of \<open>CopyMem\<close> and \<open>SetMem\<close>, and of a file read into a buffer.\<close>

definition copy_bytes :: "u64 \<Rightarrow> u64 \<Rightarrow> u64 \<Rightarrow> pmem \<Rightarrow> pmem" where
  "copy_bytes d src n m = (\<lambda>a. if within a d n then m (src + (a - d)) else m a)"

definition set_bytes :: "u64 \<Rightarrow> u64 \<Rightarrow> u8 \<Rightarrow> pmem \<Rightarrow> pmem" where
  "set_bytes d n v m = (\<lambda>a. if within a d n then v else m a)"

definition put_bytes :: "u64 \<Rightarrow> u8 list \<Rightarrow> pmem \<Rightarrow> pmem" where
  "put_bytes d bs m = (\<lambda>a. if unat (a - d) < length bs then bs ! unat (a - d) else m a)"

section \<open>Firmware and library\<close>

datatype parg = PNum u64 | PStr string | PMem u64

record config_entry =
  VendorGuid :: "u8 list"
  VendorTable :: u64

record gop_mode =
  FrameBufferBase :: u64
  HorizontalResolution :: u32
  VerticalResolution :: u32
  PixelsPerScanLine :: u32
  PixelFormat :: u32

record memory_map =
  mm_size :: u64
  mm_key :: u64
  mm_desc_size :: u64
  mm_desc_ver :: u32

record 'w efi_api =
  EFI_ERROR :: "status \<Rightarrow> bool"
  EFI_INVALID_PARAMETER :: status
  EFI_UNSUPPORTED :: status
  EFI_NOT_FOUND :: status
  EFI_SUCCESS :: status
  EFI_SIZE_TO_PAGES :: "u64 \<Rightarrow> u64"
  SIZE_OF_EFI_FILE_INFO :: u64
  ACPI_20_TABLE_GUID :: "u8 list"
  ACPI_TABLE_GUID :: "u8 list"
  CompareMem :: "u8 list \<Rightarrow> u8 list \<Rightarrow> int"
  CopyMem :: "u64 \<Rightarrow> u64 \<Rightarrow> u64 \<Rightarrow> pmem \<Rightarrow> pmem"
  SetMem :: "u64 \<Rightarrow> u64 \<Rightarrow> u8 \<Rightarrow> pmem \<Rightarrow> pmem"
  AllocatePool :: "u64 \<Rightarrow> 'w \<Rightarrow> status \<times> u64 \<times> 'w"
  FreePool :: "u64 \<Rightarrow> 'w \<Rightarrow> 'w"
  AllocateAnyPages :: "u64 \<Rightarrow> 'w \<Rightarrow> status \<times> u64 \<times> 'w"
  AllocateAddress :: "u64 \<Rightarrow> u64 \<Rightarrow> 'w \<Rightarrow> status \<times> 'w"
  GetFileSize :: "u64 \<Rightarrow> 'w \<Rightarrow> status \<times> u64 \<times> 'w"          \<comment> \<open>\<open>GetInfo\<close>, its \<open>FileSize\<close>\<close>
  ReadFile :: "u64 \<Rightarrow> 'w \<Rightarrow> status \<times> u8 list \<times> 'w"           \<comment> \<open>\<open>Read\<close> of at most so many bytes\<close>
  LocateFileSystem :: "'w \<Rightarrow> status \<times> 'w"
  OpenKernel :: "'w \<Rightarrow> status \<times> 'w"                           \<comment> \<open>\<open>OpenVolume\<close>, then \<open>Open\<close>\<close>
  LocateGraphics :: "'w \<Rightarrow> status \<times> gop_mode \<times> 'w"
  GetMemoryMap :: "u64 \<Rightarrow> u64 \<Rightarrow> 'w \<Rightarrow> memory_map \<times> u8 list \<times> 'w"
    \<comment> \<open>size and buffer passed in; the values left in the variables and what is written to the buffer\<close>
  ExitBootServices :: "u64 \<Rightarrow> 'w \<Rightarrow> status \<times> 'w"
  config_tables :: "config_entry list"
  current_el :: u64

record 'w efi_state =
  pm :: pmem
  plog :: "(string \<times> parg list) list"
  fw :: 'w

definition print :: "string \<Rightarrow> parg list \<Rightarrow> 'w efi_state \<Rightarrow> 'w efi_state" where
  "print fmt args s = s\<lparr>plog := plog s @ [(fmt, args)]\<rparr>"

definition lib_ok :: "'w efi_api \<Rightarrow> bool" where
  "lib_ok api \<longleftrightarrow> CopyMem api = copy_bytes \<and> SetMem api = set_bytes \<and>
     (\<forall>xs ys. length xs = length ys \<longrightarrow> (CompareMem api xs ys = 0 \<longleftrightarrow> xs = ys))"

section \<open>Laws\<close>

lemma print_sel [simp]: "pm (print fmt args s) = pm s" "fw (print fmt args s) = fw s"
  by (simp_all add: print_def)

lemma le_cong: "(\<And>k. k < n \<Longrightarrow> m' (a + of_nat k) = m (a + of_nat k)) \<Longrightarrow> le m' a n = le m a n"
proof (induction n arbitrary: a)
  case (Suc n)
  have "m' a = m a" using Suc.prems[of 0] by simp
  moreover have "le m' (a + 1) n = le m (a + 1) n"
  proof (rule Suc.IH)
    fix k assume "k < n"
    then show "m' (a + 1 + of_nat k) = m (a + 1 + of_nat k)" using Suc.prems[of "Suc k"] by (simp add: add.assoc)
  qed
  ultimately show ?case by simp
qed simp

lemma le_bound: "le m a n < 256 ^ n"
proof (induction n arbitrary: a)
  case (Suc n)
  have "unat (m a) < 256" using unsigned_less[of "m a", where 'a = nat] by simp
  then show ?case using Suc.IH[of "a + 1"] by simp
qed simp

lemma r_cong:
  assumes "\<And>k. k < 8 \<Longrightarrow> m' (a + of_nat k) = m (a + of_nat k)"
  shows "r64 m' a = r64 m a" "r32 m' a = r32 m a" "r16 m' a = r16 m a"
proof -
  show "r64 m' a = r64 m a" using le_cong[of 8 m' a m] assms by (simp add: r64_def)
  show "r32 m' a = r32 m a" using le_cong[of 4 m' a m] assms by (simp add: r32_def)
  show "r16 m' a = r16 m a" using le_cong[of 2 m' a m] assms by (simp add: r16_def)
qed

lemma within_self [simp]: "within (d + k) d n \<longleftrightarrow> k < n"
  by (simp add: within_def)

lemma bytes_at_cong: "(\<And>k. k < n \<Longrightarrow> m' (a + of_nat k) = m (a + of_nat k)) \<Longrightarrow> bytes_at m' a n = bytes_at m a n"
  by (simp add: bytes_at_def)

lemma length_bytes_at [simp]: "length (bytes_at m a n) = n"
  by (simp add: bytes_at_def)

end
