(* ===== verification/Acpi.thy ===== *)
theory Acpi
  imports Efi
begin

text \<open>
  Searching the ACPI tables, \<open>efi/acpi.c\<close>, and the serial port lookup \<open>find_uart\<close> of
  \<open>efi/main.c\<close>. Field offsets are those of the packed structures of \<open>efi/include/acpi.h\<close>.
  The second part gives the search as a list operation: the first non-null entry whose table carries
  the signature.
\<close>

section \<open>Structures\<close>

definition RSDP_Signature :: "pmem \<Rightarrow> u64 \<Rightarrow> u8 list" where "RSDP_Signature m p = bytes_at m p 8"
definition RSDP_Revision :: "pmem \<Rightarrow> u64 \<Rightarrow> u8" where "RSDP_Revision m p = r8 m (p + 15)"
definition RsdtAddress :: "pmem \<Rightarrow> u64 \<Rightarrow> u32" where "RsdtAddress m p = r32 m (p + 16)"
definition XsdtAddress :: "pmem \<Rightarrow> u64 \<Rightarrow> u64" where "XsdtAddress m p = r64 m (p + 24)"

definition Header_Signature :: "pmem \<Rightarrow> u64 \<Rightarrow> u8 list" where "Header_Signature m p = bytes_at m p 4"
definition Header_Length :: "pmem \<Rightarrow> u64 \<Rightarrow> u32" where "Header_Length m p = r32 m (p + 4)"
definition header_size :: u64 where "header_size = 36"

definition Xsdt_Entry :: "pmem \<Rightarrow> u64 \<Rightarrow> nat \<Rightarrow> u64" where "Xsdt_Entry m p i = r64 m (p + header_size + 8 * of_nat i)"
definition Rsdt_Entry :: "pmem \<Rightarrow> u64 \<Rightarrow> nat \<Rightarrow> u64" where "Rsdt_Entry m p i = ucast (r32 m (p + header_size + 4 * of_nat i))"

definition Spcr_InterfaceType :: "pmem \<Rightarrow> u64 \<Rightarrow> u8" where "Spcr_InterfaceType m p = r8 m (p + 36)"
definition Spcr_AddressSpaceId :: "pmem \<Rightarrow> u64 \<Rightarrow> u8" where "Spcr_AddressSpaceId m p = r8 m (p + 40)"
definition Spcr_Address :: "pmem \<Rightarrow> u64 \<Rightarrow> u64" where "Spcr_Address m p = r64 m (p + 44)"
definition Spcr_BaudRate :: "pmem \<Rightarrow> u64 \<Rightarrow> u8" where "Spcr_BaudRate m p = r8 m (p + 58)"

section \<open>The search\<close>

fun find_config :: "'w efi_api \<Rightarrow> u8 list \<Rightarrow> string \<Rightarrow> config_entry list \<Rightarrow> 'w efi_state \<Rightarrow> u64 option \<times> 'w efi_state" where
  "find_config api guid msg [] s = (None, s)"
| "find_config api guid msg (e # es) s =
     (if CompareMem api (VendorGuid e) guid = 0
      then (Some (VendorTable e), print msg [PNum (VendorTable e)] s)
      else find_config api guid msg es s)"

text \<open>0 is \<open>NULL\<close>.\<close>

definition FindAcpiTable :: "'w efi_api \<Rightarrow> 'w efi_state \<Rightarrow> u64 \<times> 'w efi_state" where
  "FindAcpiTable api s =
     (case find_config api (ACPI_20_TABLE_GUID api) (''Found ACPI 2.0 table: %p'' @ [CHR 10]) (config_tables api) s of
        (Some t, s) \<Rightarrow> (t, s)
      | (None, s) \<Rightarrow>
          (case find_config api (ACPI_TABLE_GUID api) (''Found ACPI 1.0 table: %p'' @ [CHR 10]) (config_tables api) s of
             (Some t, s) \<Rightarrow> (t, s)
           | (None, s) \<Rightarrow> (0, s)))"

text \<open>The loop over the entries of an RSDT or XSDT; \<open>n\<close> entries are left from \<open>i\<close> on.\<close>

fun scan_entries :: "'w efi_api \<Rightarrow> u8 list \<Rightarrow> (pmem \<Rightarrow> nat \<Rightarrow> u64) \<Rightarrow> nat \<Rightarrow> nat \<Rightarrow> 'w efi_state \<Rightarrow> u64 \<times> 'w efi_state" where
  "scan_entries api sig ent i 0 s = (0, s)"
| "scan_entries api sig ent i (Suc n) s =
     (let h = ent (pm s) i in
      if h = 0 then scan_entries api sig ent (Suc i) n s
      else
        let s = print (''Entry %u: %.4a at %p'' @ [CHR 10]) [PNum (of_nat i), PMem h, PNum h] s in
        if CompareMem api (Header_Signature (pm s) h) sig = 0
        then (h, print (''Found ACPI table: %p'' @ [CHR 10]) [PNum h] s)
        else scan_entries api sig ent (Suc i) n s)"

text \<open>\<open>(Length - sizeof(ACPI_TABLE_HEADER)) / width\<close>, in 64-bit arithmetic.\<close>

definition entry_count :: "u32 \<Rightarrow> u64 \<Rightarrow> u64" where
  "entry_count len width = (ucast len - header_size) div width"

definition use_rsdt :: "'w efi_api \<Rightarrow> u8 list \<Rightarrow> u64 \<Rightarrow> 'w efi_state \<Rightarrow> u64 \<times> 'w efi_state" where
  "use_rsdt api sig rsdp s =
     (let rsdt = ucast (RsdtAddress (pm s) rsdp);
          s = print (''RSDT Address: 0x%x'' @ [CHR 10]) [PNum rsdt] s
      in if rsdt = 0 \<or> rsdt < 0x1000 then (0, print (''ERROR: Invalid RSDT address'' @ [CHR 10]) [] s)
      else if CompareMem api (Header_Signature (pm s) rsdt) (bytes_of ''RSDT'') \<noteq> 0
      then (0, print (''ERROR: Invalid RSDT signature: %.4a'' @ [CHR 10]) [PMem rsdt] s)
      else
        let n = entry_count (Header_Length (pm s) rsdt) 4;
            s = print (''Found RSDT: %p, entries: %u'' @ [CHR 10]) [PNum rsdt, PNum n] s
        in scan_entries api sig (\<lambda>m. Rsdt_Entry m rsdt) 0 (unat n) s)"

definition use_xsdt :: "'w efi_api \<Rightarrow> u8 list \<Rightarrow> u64 \<Rightarrow> 'w efi_state \<Rightarrow> u64 \<times> 'w efi_state" where
  "use_xsdt api sig rsdp s =
     (let xsdt = XsdtAddress (pm s) rsdp;
          s = print (''XSDT Address: 0x%lx'' @ [CHR 10]) [PNum xsdt] s
      in if xsdt = 0 \<or> xsdt < 0x1000 then
        use_rsdt api sig rsdp (print (''ERROR: Invalid XSDT address, falling back to RSDT'' @ [CHR 10]) [] s)
      else if CompareMem api (Header_Signature (pm s) xsdt) (bytes_of ''XSDT'') \<noteq> 0 then
        use_rsdt api sig rsdp (print (''ERROR: Invalid XSDT signature: %.4a, falling back to RSDT'' @ [CHR 10]) [PMem xsdt] s)
      else
        let s = print ''Found XSDT: %p'' [PNum xsdt] s;
            n = entry_count (Header_Length (pm s) xsdt) 8;
            s = print ('', entries: %u'' @ [CHR 10]) [PNum n] s
        in scan_entries api sig (\<lambda>m. Xsdt_Entry m xsdt) 0 (unat n) s)"

definition FindAcpiTableBySignature :: "'w efi_api \<Rightarrow> u8 list \<Rightarrow> 'w efi_state \<Rightarrow> u64 \<times> 'w efi_state" where
  "FindAcpiTableBySignature api sig s =
     (let (rsdp, s) = FindAcpiTable api (print (''Finding RSDP'' @ [CHR 10]) [] s);
          s = print (''Found RSDP: %p'' @ [CHR 10]) [PNum rsdp] s
      in if rsdp = 0 then (0, s)
      else if CompareMem api (RSDP_Signature (pm s) rsdp) (bytes_of ''RSD PTR '') \<noteq> 0 then
        (0, print (''Expected: 'RSD PTR ', got: '%.8a'' @ [CHR 39, CHR 10]) [PMem rsdp]
              (print (''ERROR: Invalid RSDP signature'' @ [CHR 10]) [] s))
      else
        let s = print (''RSDP Revision: %u'' @ [CHR 10]) [PNum (ucast (RSDP_Revision (pm s) rsdp))] s;
            s = print (''RSDT Address: 0x%x'' @ [CHR 10]) [PNum (ucast (RsdtAddress (pm s) rsdp))] s;
            s = print (''Looking for SDT's'' @ [CHR 10]) [] s
        in if 2 \<le> RSDP_Revision (pm s) rsdp then use_xsdt api sig rsdp s else use_rsdt api sig rsdp s)"

section \<open>\<open>find_uart\<close>\<close>

record serial_info_t =
  ser_base :: u64
  ser_baud :: u32
  ser_type :: u8
  ser_model :: u16

definition spcr_baud :: "u8 \<Rightarrow> u32" where
  "spcr_baud b = (if b = 3 then 9600 else if b = 4 then 19200 else if b = 6 then 57600 else 115200)"

definition spcr_type :: "u8 \<Rightarrow> u8" where
  "spcr_type a = (if a = 0 then 1 else if a = 1 then 2 else 0)"

text \<open>\<open>result.model\<close> is not set before the table is found: \<open>junk\<close> is what the variable holds.
  The loader runs on aarch64, so the COM1 fallback is not compiled.\<close>

definition find_uart :: "'w efi_api \<Rightarrow> u16 \<Rightarrow> 'w efi_state \<Rightarrow> serial_info_t \<times> 'w efi_state" where
  "find_uart api junk s =
     (let result = \<lparr>ser_base = 0, ser_baud = 0, ser_type = 0, ser_model = junk\<rparr>;
          s = print (''Finding SPCR'' @ [CHR 10]) [] s;
          (spcr, s) = FindAcpiTableBySignature api (bytes_of ''SPCR'') s
      in if spcr \<noteq> 0 then
        let s = print ''Found SPCR'' [] s;
            result = \<lparr>ser_base = Spcr_Address (pm s) spcr, ser_baud = spcr_baud (Spcr_BaudRate (pm s) spcr),
              ser_type = spcr_type (Spcr_AddressSpaceId (pm s) spcr), ser_model = ucast (Spcr_InterfaceType (pm s) spcr)\<rparr>
        in (result, print ('', base %p, type %u, baud %u'' @ [CHR 10])
              [PNum (ser_base result), PNum (ucast (ser_type result)), PNum (ucast (ser_baud result))] s)
      else (result, print [CHR 10] [] (print ''SPCR not found'' [] s)))"

section \<open>What the search returns\<close>

lemma find_config_fst:
  assumes "lib_ok api" and "\<forall>e \<in> set es. length (VendorGuid e) = length guid"
  shows "fst (find_config api guid msg es s) = map_option VendorTable (List.find (\<lambda>e. VendorGuid e = guid) es)"
  using assms(2)
proof (induction es)
  case (Cons e es)
  then have "CompareMem api (VendorGuid e) guid = 0 \<longleftrightarrow> VendorGuid e = guid" using assms(1) by (simp add: lib_ok_def)
  with Cons show ?case by simp
qed simp

lemma find_config_pm: "pm (snd (find_config api guid msg es s)) = pm s"
  by (induction es) simp_all

text \<open>The entries of a table, as far as the loop looks at them, and the first with a signature.\<close>

definition first_table :: "u8 list \<Rightarrow> (pmem \<Rightarrow> nat \<Rightarrow> u64) \<Rightarrow> nat \<Rightarrow> nat \<Rightarrow> pmem \<Rightarrow> u64" where
  "first_table sig ent i n m =
     (case List.find (\<lambda>h. h \<noteq> 0 \<and> Header_Signature m h = sig) (map (ent m) [i..<i + n]) of None \<Rightarrow> 0 | Some h \<Rightarrow> h)"

lemma scan_entries_first:
  assumes "lib_ok api" and "length sig = 4"
  shows "fst (scan_entries api sig ent i n s) = first_table sig ent i n (pm s) \<and> pm (snd (scan_entries api sig ent i n s)) = pm s"
proof (induction n arbitrary: i s)
  case 0
  then show ?case by (simp add: first_table_def)
next
  case (Suc n)
  have cmp: "CompareMem api (Header_Signature m h) sig = 0 \<longleftrightarrow> Header_Signature m h = sig" for m h
    using assms by (simp add: lib_ok_def Header_Signature_def)
  have up: "[i..<i + Suc n] = i # [Suc i..<Suc i + n]" by (simp add: upt_conv_Cons del: upt_Suc)
  have step: "first_table sig ent i (Suc n) (pm s) =
      (let h = ent (pm s) i in if h \<noteq> 0 \<and> Header_Signature (pm s) h = sig then h else first_table sig ent (Suc i) n (pm s))"
    unfolding first_table_def up by (simp add: Let_def)
  show ?case unfolding step using Suc.IH[of "Suc i"] by (simp add: Let_def cmp)
qed

lemma use_rsdt_pm: "lib_ok api \<Longrightarrow> length sig = 4 \<Longrightarrow> pm (snd (use_rsdt api sig rsdp s)) = pm s"
  by (simp add: use_rsdt_def Let_def scan_entries_first)

text \<open>Where the tables are listed: the XSDT of a revision 2 pointer when it is sound, else the RSDT.\<close>

datatype sdt = NoSdt | Xsdt u64 | Rsdt u64

definition root_sdt :: "pmem \<Rightarrow> u64 \<Rightarrow> sdt" where
  "root_sdt m rsdp =
     (let x = XsdtAddress m rsdp; r = ucast (RsdtAddress m rsdp) in
      if rsdp = 0 \<or> RSDP_Signature m rsdp \<noteq> bytes_of ''RSD PTR '' then NoSdt
      else if 2 \<le> RSDP_Revision m rsdp \<and> 0x1000 \<le> x \<and> Header_Signature m x = bytes_of ''XSDT'' then Xsdt x
      else if 0x1000 \<le> r \<and> Header_Signature m r = bytes_of ''RSDT'' then Rsdt r else NoSdt)"

definition acpi_lookup :: "pmem \<Rightarrow> u8 list \<Rightarrow> u64 \<Rightarrow> u64" where
  "acpi_lookup m sig rsdp =
     (case root_sdt m rsdp of
        NoSdt \<Rightarrow> 0
      | Xsdt x \<Rightarrow> first_table sig (\<lambda>m. Xsdt_Entry m x) 0 (unat (entry_count (Header_Length m x) 8)) m
      | Rsdt r \<Rightarrow> first_table sig (\<lambda>m. Rsdt_Entry m r) 0 (unat (entry_count (Header_Length m r) 4)) m)"

lemma zero_or_less: "(x :: u64) = 0 \<or> x < 0x1000 \<longleftrightarrow> \<not> 0x1000 \<le> x"
  by (auto simp: not_le)

lemma FindAcpiTable_state:
  "fst (FindAcpiTable api s) = fst (FindAcpiTable api s')" "pm (snd (FindAcpiTable api s)) = pm s"
proof -
  have fst: "fst (find_config api guid msg es t) = fst (find_config api guid msg es t')" for guid msg es t t'
    by (induction es) simp_all
  show "fst (FindAcpiTable api s) = fst (FindAcpiTable api s')"
    unfolding FindAcpiTable_def
    by (smt (verit) fst fst_conv option.case_eq_if prod.case_eq_if)
  show "pm (snd (FindAcpiTable api s)) = pm s"
    using find_config_pm[of api "ACPI_20_TABLE_GUID api" "''Found ACPI 2.0 table: %p'' @ [CHR 10]" "config_tables api" s]
    by (auto simp: FindAcpiTable_def split: prod.split option.split) (metis find_config_pm snd_conv)+
qed

lemma CompareMem_refl: "lib_ok api \<Longrightarrow> CompareMem api xs xs = 0"
  by (simp add: lib_ok_def)

lemma CompareMem_signature:
  assumes "lib_ok api" and "length w = 4"
  shows "CompareMem api (Header_Signature m r) (bytes_of w) = 0 \<longleftrightarrow> Header_Signature m r = bytes_of w"
  using assms by (simp add: lib_ok_def Header_Signature_def)

definition rsdt_table :: "u8 list \<Rightarrow> u64 \<Rightarrow> pmem \<Rightarrow> u64" where
  "rsdt_table sig r m = (if 0x1000 \<le> r \<and> Header_Signature m r = bytes_of ''RSDT''
    then first_table sig (\<lambda>m. Rsdt_Entry m r) 0 (unat (entry_count (Header_Length m r) 4)) m else 0)"

lemma use_rsdt_lookup:
  assumes "lib_ok api" and "length sig = 4"
  shows "fst (use_rsdt api sig rsdp s) = rsdt_table sig (ucast (RsdtAddress (pm s) rsdp)) (pm s)"
proof -
  define r where "r = (ucast (RsdtAddress (pm s) rsdp) :: u64)"
  show ?thesis
    unfolding use_rsdt_def Let_def r_def[symmetric] zero_or_less
    using CompareMem_signature[OF assms(1), of "''RSDT''" "pm s" r] scan_entries_first[OF assms]
    by (cases "0x1000 \<le> r"; cases "Header_Signature (pm s) r = bytes_of ''RSDT''")
      (simp_all add: rsdt_table_def del: bytes_of_simps)
qed

lemma use_xsdt_lookup:
  assumes "lib_ok api" and "length sig = 4"
  shows "fst (use_xsdt api sig rsdp s) = (let x = XsdtAddress (pm s) rsdp in
      if 0x1000 \<le> x \<and> Header_Signature (pm s) x = bytes_of ''XSDT''
      then first_table sig (\<lambda>m. Xsdt_Entry m x) 0 (unat (entry_count (Header_Length (pm s) x) 8)) (pm s)
      else rsdt_table sig (ucast (RsdtAddress (pm s) rsdp)) (pm s))" (is ?lookup)
    and "pm (snd (use_xsdt api sig rsdp s)) = pm s" (is ?same)
proof -
  define x where "x = XsdtAddress (pm s) rsdp"
  note facts = CompareMem_signature[OF assms(1), of "''XSDT''" "pm s" x] scan_entries_first[OF assms]
    use_rsdt_lookup[OF assms] use_rsdt_pm[OF assms]
  show ?lookup
    unfolding use_xsdt_def Let_def x_def[symmetric] zero_or_less using facts
    by (cases "0x1000 \<le> x"; cases "Header_Signature (pm s) x = bytes_of ''XSDT''") (simp_all del: bytes_of_simps)
  show ?same
    unfolding use_xsdt_def Let_def x_def[symmetric] zero_or_less using facts
    by (cases "0x1000 \<le> x"; cases "Header_Signature (pm s) x = bytes_of ''XSDT''") (simp_all del: bytes_of_simps)
qed

lemma acpi_lookup_cases:
  "acpi_lookup m sig rsdp =
     (if rsdp = 0 \<or> RSDP_Signature m rsdp \<noteq> bytes_of ''RSD PTR '' then 0
      else let x = XsdtAddress m rsdp in
        if 2 \<le> RSDP_Revision m rsdp \<and> 0x1000 \<le> x \<and> Header_Signature m x = bytes_of ''XSDT''
        then first_table sig (\<lambda>m. Xsdt_Entry m x) 0 (unat (entry_count (Header_Length m x) 8)) m
        else rsdt_table sig (ucast (RsdtAddress m rsdp)) m)"
  by (simp add: acpi_lookup_def root_sdt_def rsdt_table_def Let_def del: bytes_of_simps)

lemma find_by_signature:
  assumes "lib_ok api" and "length sig = 4"
  shows "fst (FindAcpiTableBySignature api sig s) = acpi_lookup (pm s) sig (fst (FindAcpiTable api s))" (is ?lookup)
    and "pm (snd (FindAcpiTableBySignature api sig s)) = pm s" (is ?same)
proof -
  obtain p s1 where p: "FindAcpiTable api (print (''Finding RSDP'' @ [CHR 10]) [] s) = (p, s1)" by fastforce
  have pm1: "pm s1 = pm s" and p': "fst (FindAcpiTable api s) = p"
    using FindAcpiTable_state(2)[of api "print (''Finding RSDP'' @ [CHR 10]) [] s"]
      FindAcpiTable_state(1)[of api "print (''Finding RSDP'' @ [CHR 10]) [] s" s] unfolding p by simp_all
  have cmp8: "CompareMem api (RSDP_Signature (pm s) p) (bytes_of ''RSD PTR '') = 0 \<longleftrightarrow> RSDP_Signature (pm s) p = bytes_of ''RSD PTR ''"
    using assms(1) by (simp add: lib_ok_def RSDP_Signature_def del: bytes_of_simps)
  note facts = cmp8 CompareMem_refl[OF assms(1)] use_xsdt_lookup[OF assms] use_rsdt_lookup[OF assms] use_rsdt_pm[OF assms]
  show ?lookup
    unfolding FindAcpiTableBySignature_def Let_def p p' prod.case acpi_lookup_cases
    by (cases "p = 0"; cases "RSDP_Signature (pm s) p = bytes_of ''RSD PTR ''"; cases "2 \<le> RSDP_Revision (pm s) p")
      (simp_all add: facts pm1 Let_def del: bytes_of_simps)
  show ?same
    unfolding FindAcpiTableBySignature_def Let_def p prod.case
    by (cases "p = 0"; cases "RSDP_Signature (pm s) p = bytes_of ''RSD PTR ''"; cases "2 \<le> RSDP_Revision (pm s) p")
      (simp_all add: facts pm1 del: bytes_of_simps)
qed

lemma find_uart_spcr:
  assumes "lib_ok api"
  shows "fst (find_uart api junk s) =
    (let t = acpi_lookup (pm s) (bytes_of ''SPCR'') (fst (FindAcpiTable api s)) in
     if t \<noteq> 0 then \<lparr>ser_base = Spcr_Address (pm s) t, ser_baud = spcr_baud (Spcr_BaudRate (pm s) t),
       ser_type = spcr_type (Spcr_AddressSpaceId (pm s) t), ser_model = ucast (Spcr_InterfaceType (pm s) t)\<rparr>
     else \<lparr>ser_base = 0, ser_baud = 0, ser_type = 0, ser_model = junk\<rparr>)"
proof -
  have f: "fst (FindAcpiTableBySignature api (bytes_of ''SPCR'') (print (''Finding SPCR'' @ [CHR 10]) [] s)) =
      acpi_lookup (pm s) (bytes_of ''SPCR'') (fst (FindAcpiTable api s))"
    "pm (snd (FindAcpiTableBySignature api (bytes_of ''SPCR'') (print (''Finding SPCR'' @ [CHR 10]) [] s))) = pm s"
    using find_by_signature[OF assms, of "bytes_of ''SPCR''" "print (''Finding SPCR'' @ [CHR 10]) [] s"]
      FindAcpiTable_state(1)[of api "print (''Finding SPCR'' @ [CHR 10]) [] s" s] by simp_all
  obtain t s1 where t: "FindAcpiTableBySignature api (bytes_of ''SPCR'') (print (''Finding SPCR'' @ [CHR 10]) [] s) = (t, s1)"
    by fastforce
  show ?thesis using f unfolding find_uart_def Let_def t by (simp del: bytes_of_simps)
qed

text \<open>The search only prints.\<close>

lemma scan_entries_fw: "fw (snd (scan_entries api sig ent i n s)) = fw s"
  by (induction api sig ent i n s rule: scan_entries.induct) (simp_all add: Let_def)

lemma find_config_fw: "fw (snd (find_config api guid msg es s)) = fw s"
  by (induction es) simp_all

lemma FindAcpiTable_fw: "fw (snd (FindAcpiTable api s)) = fw s"
  using find_config_fw[of api "ACPI_20_TABLE_GUID api" "''Found ACPI 2.0 table: %p'' @ [CHR 10]" "config_tables api" s]
  by (auto simp: FindAcpiTable_def split: prod.split option.split) (metis find_config_fw snd_conv)+

lemma use_rsdt_fw: "fw (snd (use_rsdt api sig rsdp s)) = fw s"
  by (simp add: use_rsdt_def Let_def scan_entries_fw)

lemma use_xsdt_fw: "fw (snd (use_xsdt api sig rsdp s)) = fw s"
  by (simp add: use_xsdt_def Let_def scan_entries_fw use_rsdt_fw)

lemma FindAcpiTableBySignature_fw: "fw (snd (FindAcpiTableBySignature api sig s)) = fw s"
proof -
  obtain p s1 where p: "FindAcpiTable api (print (''Finding RSDP'' @ [CHR 10]) [] s) = (p, s1)" by fastforce
  have "fw s1 = fw s" using FindAcpiTable_fw[of api "print (''Finding RSDP'' @ [CHR 10]) [] s"] unfolding p by simp
  then show ?thesis
    unfolding FindAcpiTableBySignature_def Let_def p prod.case by (simp add: use_rsdt_fw use_xsdt_fw del: bytes_of_simps)
qed

lemma find_uart_frame:
  assumes "lib_ok api"
  shows "fw (snd (find_uart api junk s)) = fw s" "pm (snd (find_uart api junk s)) = pm s"
proof -
  obtain t s1 where t: "FindAcpiTableBySignature api (bytes_of ''SPCR'') (print (''Finding SPCR'' @ [CHR 10]) [] s) = (t, s1)"
    by fastforce
  have "fw s1 = fw s" "pm s1 = pm s"
    using FindAcpiTableBySignature_fw[of api "bytes_of ''SPCR''" "print (''Finding SPCR'' @ [CHR 10]) [] s"]
      find_by_signature(2)[OF assms, of "bytes_of ''SPCR''" "print (''Finding SPCR'' @ [CHR 10]) [] s"] unfolding t by simp_all
  then show "fw (snd (find_uart api junk s)) = fw s" "pm (snd (find_uart api junk s)) = pm s"
    unfolding find_uart_def Let_def t by simp_all
qed

end
