(* ===== verification/Elf.thy ===== *)
theory Elf
  imports Efi
begin

text \<open>
  The ELF loader \<open>load_elf\<close> of \<open>efi/main.c\<close>: reading the file, validating the header,
  sizing, allocating, copying the segments and applying the relocations of a position-independent
  kernel. Field offsets are those of the ELF-64 format. The headers are read from the file buffer in
  memory each time, as the code does; the second part shows what ends up in memory.
\<close>

section \<open>Structures\<close>

definition e_type :: "pmem \<Rightarrow> u64 \<Rightarrow> u16" where "e_type m p = r16 m (p + 16)"
definition e_entry :: "pmem \<Rightarrow> u64 \<Rightarrow> u64" where "e_entry m p = r64 m (p + 24)"
definition e_phoff :: "pmem \<Rightarrow> u64 \<Rightarrow> u64" where "e_phoff m p = r64 m (p + 32)"
definition e_phentsize :: "pmem \<Rightarrow> u64 \<Rightarrow> u16" where "e_phentsize m p = r16 m (p + 54)"
definition e_phnum :: "pmem \<Rightarrow> u64 \<Rightarrow> u16" where "e_phnum m p = r16 m (p + 56)"

record phdr =
  p_type :: u32
  p_offset :: u64
  p_vaddr :: u64
  p_filesz :: u64
  p_memsz :: u64

text \<open>\<open>i * ehdr->e_phentsize\<close> is a product of \<open>int\<close>s.\<close>

definition phdr_addr :: "pmem \<Rightarrow> u64 \<Rightarrow> nat \<Rightarrow> u64" where
  "phdr_addr m elf i = elf + e_phoff m elf + scast (of_nat i * ucast (e_phentsize m elf) :: u32)"

definition phdr_at :: "pmem \<Rightarrow> u64 \<Rightarrow> nat \<Rightarrow> phdr" where
  "phdr_at m elf i =
     (let p = phdr_addr m elf i in
      \<lparr>p_type = r32 m p, p_offset = r64 m (p + 8), p_vaddr = r64 m (p + 16), p_filesz = r64 m (p + 32), p_memsz = r64 m (p + 40)\<rparr>)"

definition ET_EXEC :: u16 where "ET_EXEC = 2"
definition ET_DYN :: u16 where "ET_DYN = 3"
definition PT_LOAD :: u32 where "PT_LOAD = 1"
definition PT_DYNAMIC :: u32 where "PT_DYNAMIC = 2"
definition R_AARCH64_RELATIVE :: u64 where "R_AARCH64_RELATIVE = 1027"

section \<open>First pass\<close>

definition widen :: "phdr \<Rightarrow> u64 \<times> u64 \<Rightarrow> u64 \<times> u64" where
  "widen ph = (\<lambda>(mn, mx).
     if p_type ph = PT_LOAD
     then (if p_vaddr ph < mn then p_vaddr ph else mn,
           if mx < p_vaddr ph + p_memsz ph then p_vaddr ph + p_memsz ph else mx)
     else (mn, mx))"

definition vaddr_range :: "pmem \<Rightarrow> u64 \<Rightarrow> u64 \<times> u64" where
  "vaddr_range m elf = fold (\<lambda>i. widen (phdr_at m elf i)) [0..<unat (e_phnum m elf)] (- 1, 0)"

section \<open>Second pass\<close>

definition free_elf :: "'w efi_api \<Rightarrow> u64 \<Rightarrow> 'w efi_state \<Rightarrow> 'w efi_state" where
  "free_elf api elf s = s\<lparr>fw := FreePool api elf (fw s)\<rparr>"

text \<open>
  Copying one segment: file contents, then zeros up to its size in memory. The header is read
  again from the buffer after each store, as \<open>phdr\<close> points there.
\<close>

definition copy_segment :: "'w efi_api \<Rightarrow> u64 \<Rightarrow> u64 \<Rightarrow> u64 \<Rightarrow> nat \<Rightarrow> pmem \<Rightarrow> pmem" where
  "copy_segment api dest src elf i m =
     (let ph = phdr_at m elf i;
          m = (if 0 < p_filesz ph then CopyMem api dest src (p_filesz ph) m else m);
          ph = phdr_at m elf i
      in if p_filesz ph < p_memsz ph then SetMem api (dest + p_filesz ph) (p_memsz ph - p_filesz ph) 0 m else m)"

text \<open>One round of the loop; an error status ends the function.\<close>

definition load_segment :: "'w efi_api \<Rightarrow> bool \<Rightarrow> u64 \<Rightarrow> u64 \<Rightarrow> nat \<Rightarrow> 'w efi_state \<Rightarrow> status option \<times> 'w efi_state" where
  "load_segment api is_pie base_addr elf i s =
     (let ph = phdr_at (pm s) elf i in
      if p_type ph = PT_LOAD then
        let dest = base_addr + p_vaddr ph; src = elf + p_offset ph in
        if \<not> is_pie then
          let (st, w) = AllocateAddress api (p_vaddr ph) (EFI_SIZE_TO_PAGES api (p_memsz ph)) (fw s);
              s = s\<lparr>fw := w\<rparr>
          in if EFI_ERROR api st
          then (Some st, free_elf api elf (print (''Failed to allocate at 0x%lx: %r'' @ [CHR 10]) [PNum (p_vaddr ph), PNum st] s))
          else (None, s\<lparr>pm := copy_segment api dest src elf i (SetMem api dest (p_memsz ph) 0 (pm s))\<rparr>)
        else (None, s\<lparr>pm := copy_segment api dest src elf i (pm s)\<rparr>)
      else (None, s))"

text \<open>The loop over the program headers, from \<open>i\<close> on; the bound is read in every round.\<close>

function load_segments :: "'w efi_api \<Rightarrow> bool \<Rightarrow> u64 \<Rightarrow> u64 \<Rightarrow> nat \<Rightarrow> 'w efi_state \<Rightarrow> status option \<times> 'w efi_state" where
  "load_segments api is_pie base_addr elf i s =
     (if i < unat (e_phnum (pm s) elf) then
        (case load_segment api is_pie base_addr elf i s of
           (Some st, s) \<Rightarrow> (Some st, s)
         | (None, s) \<Rightarrow> load_segments api is_pie base_addr elf (Suc i) s)
      else (None, s))"
  by pat_completeness auto
termination
proof (relation "measure (\<lambda>(api, is_pie, base_addr, elf, i, s). 65536 - i)", goal_cases)
  case (2 api is_pie base_addr elf i s)
  moreover have "unat (e_phnum (pm s) elf) < 65536" using unsigned_less[of "e_phnum (pm s) elf", where 'a = nat] by simp
  ultimately show ?case by simp
qed simp

declare load_segments.simps [simp del]

section \<open>Relocations\<close>

record rela_info =
  rela_addr :: u64
  rela_size :: u64
  rela_ent :: u64

partial_function (option) scan_dynamic :: "pmem \<Rightarrow> u64 \<Rightarrow> rela_info \<Rightarrow> rela_info option" where
  "scan_dynamic m d ri =
     (if r64 m d = 0 then Some ri
      else scan_dynamic m (d + 16)
        (if r64 m d = 7 then ri\<lparr>rela_addr := r64 m (d + 8)\<rparr>
         else if r64 m d = 8 then ri\<lparr>rela_size := r64 m (d + 8)\<rparr>
         else if r64 m d = 9 then ri\<lparr>rela_ent := r64 m (d + 8)\<rparr> else ri))"

text \<open>\<open>rela[i]\<close>: an entry has 24 bytes.\<close>

definition apply_rela :: "u64 \<Rightarrow> u64 \<Rightarrow> nat \<Rightarrow> pmem \<Rightarrow> pmem" where
  "apply_rela base_addr rela i m =
     (let p = rela + 24 * of_nat i in
      if r64 m (p + 8) AND 0xffffffff = R_AARCH64_RELATIVE
      then w64 (base_addr + r64 m p) (base_addr + r64 m (p + 16)) m else m)"

definition apply_relas :: "u64 \<Rightarrow> rela_info \<Rightarrow> 'w efi_state \<Rightarrow> 'w efi_state" where
  "apply_relas base_addr ri s =
     (if rela_addr ri \<noteq> 0 \<and> rela_size ri \<noteq> 0 \<and> rela_ent ri \<noteq> 0 then
        let n = rela_size ri div rela_ent ri in
        print (''Applied %d relocations'' @ [CHR 10]) [PNum n]
          (s\<lparr>pm := fold (apply_rela base_addr (base_addr + rela_addr ri)) [0..<unat n] (pm s)\<rparr>)
      else s)"

text \<open>\<open>None\<close>: the dynamic section has no end and the scan does not return.\<close>

definition relocate :: "u64 \<Rightarrow> u64 \<Rightarrow> 'w efi_state \<Rightarrow> 'w efi_state option" where
  "relocate base_addr elf s =
     (case List.find (\<lambda>i. p_type (phdr_at (pm s) elf i) = PT_DYNAMIC) [0..<unat (e_phnum (pm s) elf)] of
        None \<Rightarrow> Some s
      | Some i \<Rightarrow>
          let dyn = base_addr + p_vaddr (phdr_at (pm s) elf i) in
          if dyn = 0 then Some s
          else map_option (\<lambda>ri. apply_relas base_addr ri s)
                 (scan_dynamic (pm s) dyn \<lparr>rela_addr = 0, rela_size = 0, rela_ent = 0\<rparr>))"

section \<open>\<open>load_elf\<close>\<close>

datatype loaded = Failed status | Loaded u64 u64    \<comment> \<open>entry point and base\<close>

definition finish_elf :: "'w efi_api \<Rightarrow> bool \<Rightarrow> u64 \<Rightarrow> u64 \<Rightarrow> u64 \<Rightarrow> 'w efi_state \<Rightarrow> loaded \<times> 'w efi_state" where
  "finish_elf api is_pie base_addr load_base elf s =
     (let entry = base_addr + e_entry (pm s) elf;
          s = print (''ELF loaded successfully'' @ [CHR 10]) [] s;
          s = print (''Type: %s'' @ [CHR 10]) [PStr (if is_pie then ''PIE (ET_DYN)'' else ''non-PIE (ET_EXEC)'')] s;
          s = print (''Load base: 0x%lx'' @ [CHR 10]) [PNum load_base] s;
          s = print (''Entry point: 0x%lx'' @ [CHR 10]) [PNum entry] s
      in (Loaded entry base_addr, free_elf api elf s))"

definition load_image :: "'w efi_api \<Rightarrow> bool \<Rightarrow> u64 \<Rightarrow> u64 \<Rightarrow> u64 \<Rightarrow> 'w efi_state \<Rightarrow> (loaded \<times> 'w efi_state) option" where
  "load_image api is_pie base_addr load_base elf s =
     (case load_segments api is_pie base_addr elf 0 s of
        (Some st, s) \<Rightarrow> Some (Failed st, s)
      | (None, s) \<Rightarrow>
          map_option (finish_elf api is_pie base_addr load_base elf)
            (if is_pie then relocate base_addr elf s else Some s))"

definition place_image :: "'w efi_api \<Rightarrow> u64 \<Rightarrow> 'w efi_state \<Rightarrow> (loaded \<times> 'w efi_state) option" where
  "place_image api elf s =
     (let is_pie = (e_type (pm s) elf = ET_DYN);
          (min_vaddr, max_vaddr) = vaddr_range (pm s) elf;
          total_size = max_vaddr - min_vaddr
      in if is_pie then
        let (st, addr, w) = AllocateAnyPages api (EFI_SIZE_TO_PAGES api total_size) (fw s); s = s\<lparr>fw := w\<rparr> in
        if EFI_ERROR api st
        then Some (Failed st, free_elf api elf (print (''Failed to allocate memory for PIE: %r'' @ [CHR 10]) [PNum st] s))
        else load_image api True (addr - min_vaddr) addr elf (s\<lparr>pm := SetMem api addr total_size 0 (pm s)\<rparr>)
      else load_image api False 0 min_vaddr elf s)"

definition check_elf :: "'w efi_api \<Rightarrow> u64 \<Rightarrow> 'w efi_state \<Rightarrow> (loaded \<times> 'w efi_state) option" where
  "check_elf api elf s =
     (if pm s elf \<noteq> 0x7F \<or> pm s (elf + 1) \<noteq> 0x45 \<or> pm s (elf + 2) \<noteq> 0x4C \<or> pm s (elf + 3) \<noteq> 0x46
      then Some (Failed (EFI_INVALID_PARAMETER api), free_elf api elf (print (''Invalid ELF magic'' @ [CHR 10]) [] s))
      else if pm s (elf + 4) \<noteq> 2
      then Some (Failed (EFI_UNSUPPORTED api), free_elf api elf (print (''Not a 64-bit ELF'' @ [CHR 10]) [] s))
      else if e_type (pm s) elf \<noteq> ET_EXEC \<and> e_type (pm s) elf \<noteq> ET_DYN
      then Some (Failed (EFI_UNSUPPORTED api),
        free_elf api elf (print (''Unsupported ELF type: %d'' @ [CHR 10]) [PNum (ucast (e_type (pm s) elf))] s))
      else place_image api elf s)"

definition load_elf :: "'w efi_api \<Rightarrow> 'w efi_state \<Rightarrow> (loaded \<times> 'w efi_state) option" where
  "load_elf api s =
     (let (st, file_info, w) = AllocatePool api (SIZE_OF_EFI_FILE_INFO api + 256) (fw s); s = s\<lparr>fw := w\<rparr> in
      if EFI_ERROR api st then Some (Failed st, print (''Failed to allocate pool for file info: %r'' @ [CHR 10]) [PNum st] s)
      else
        let (st, elf_size, w) = GetFileSize api file_info (fw s); s = s\<lparr>fw := w\<rparr> in
        if EFI_ERROR api st
        then Some (Failed st, free_elf api file_info (print (''Failed to get file info: %r'' @ [CHR 10]) [PNum st] s))
        else
          let s = free_elf api file_info s;
              (st, elf, w) = AllocatePool api elf_size (fw s); s = s\<lparr>fw := w\<rparr>
          in if EFI_ERROR api st
          then Some (Failed st, print (''Failed to allocate buffer for ELF: %r'' @ [CHR 10]) [PNum st] s)
          else
            let (st, bs, w) = ReadFile api elf_size (fw s); s = s\<lparr>fw := w, pm := put_bytes elf bs (pm s)\<rparr> in
            if EFI_ERROR api st
            then Some (Failed st, free_elf api elf (print (''Failed to read ELF file: %r'' @ [CHR 10]) [PNum st] s))
            else check_elf api elf s)"

section \<open>Words in memory\<close>

lemma le_digits:
  assumes "\<And>k. k < n \<Longrightarrow> unat (m (a + of_nat k)) = x div 256 ^ k mod 256"
  shows "le m a n = x mod 256 ^ n"
  using assms
proof (induction n arbitrary: a x)
  case (Suc n)
  have "le m (a + 1) n = x div 256 mod 256 ^ n"
  proof (rule Suc.IH)
    fix k assume "k < n"
    then have "unat (m (a + of_nat (Suc k))) = x div 256 ^ Suc k mod 256" by (intro Suc.prems) simp
    then show "unat (m (a + 1 + of_nat k)) = x div 256 div 256 ^ k mod 256" by (simp add: add.assoc div_mult2_eq)
  qed
  moreover have "unat (m a) = x mod 256" using Suc.prems[of 0] by simp
  ultimately show ?case using mod_mult2_eq[of x 256 "256 ^ n"] by simp
qed simp

lemma unat_byte: "unat (ucast (drop_bit (8 * k) v) :: u8) = unat (v :: u64) div 256 ^ k mod 256"
proof -
  have "unat (ucast (drop_bit (8 * k) v) :: u8) = unat (drop_bit (8 * k) v) mod 256"
    by (simp add: unsigned_ucast_eq take_bit_eq_mod)
  also have "unat (drop_bit (8 * k) v) = unat v div 2 ^ (8 * k)"
    unfolding unat_drop_bit_eq by (simp add: drop_bit_eq_div)
  finally show ?thesis by (simp add: power_mult)
qed

lemma r64_w64: "r64 (w64 d v m) d = v"
proof -
  have "le (w64 d v m) d 8 = unat v mod 256 ^ 8"
  proof (rule le_digits)
    fix k :: nat assume k: "k < 8"
    then have u: "unat (of_nat k :: u64) = k" by (simp add: unat_of_nat)
    then have "(of_nat k :: u64) < 8" using k by (simp add: word_less_nat_alt)
    then show "unat (w64 d v m (d + of_nat k)) = unat v div 256 ^ k mod 256"
      by (simp add: w64_def u unat_byte)
  qed
  moreover have "unat v < 256 ^ 8" using unsigned_less[of v, where 'a = nat] by simp
  ultimately show ?thesis by (simp add: r64_def)
qed

section \<open>The image in memory\<close>

lemma below_split:
  fixes k f n :: u64
  assumes "f \<le> n"
  shows "k - f < n - f \<longleftrightarrow> f \<le> k \<and> k < n"
proof (cases "f \<le> k")
  case True
  then show ?thesis using assms by (auto simp: word_less_nat_alt word_le_nat_alt unat_sub)
next
  case False
  have "unat (n - f) = unat n - unat f" using assms by (simp add: unat_sub)
  moreover have "unat (k - f) = 2 ^ 64 + unat k - unat f"
    using False by (simp add: unat_sub_if' not_le word_less_nat_alt)
  moreover have "unat n < 2 ^ 64" using unsigned_less[of n, where 'a = nat] by simp
  ultimately show ?thesis using False by (simp add: word_less_nat_alt not_le word_le_nat_alt)
qed

text \<open>The copy with a header that does not change under it.\<close>

definition copy_fields :: "'w efi_api \<Rightarrow> u64 \<Rightarrow> u64 \<Rightarrow> phdr \<Rightarrow> pmem \<Rightarrow> pmem" where
  "copy_fields api dest src ph m =
     (let m = (if 0 < p_filesz ph then CopyMem api dest src (p_filesz ph) m else m) in
      if p_filesz ph < p_memsz ph then SetMem api (dest + p_filesz ph) (p_memsz ph - p_filesz ph) 0 m else m)"

lemma copy_segment_fields:
  assumes "phdr_at (if 0 < p_filesz (phdr_at m elf i) then CopyMem api dest src (p_filesz (phdr_at m elf i)) m else m) elf i = phdr_at m elf i"
  shows "copy_segment api dest src elf i m = copy_fields api dest src (phdr_at m elf i) m"
  unfolding copy_segment_def copy_fields_def Let_def assms by (rule refl)

lemma copy_fields_mem:
  assumes "lib_ok api" and "p_filesz ph \<le> p_memsz ph"
  shows "copy_fields api dest src ph m a =
    (if a - dest < p_filesz ph then m (src + (a - dest)) else if a - dest < p_memsz ph then 0 else m a)"
proof -
  have lib: "CopyMem api = copy_bytes" "SetMem api = set_bytes" using assms(1) by (simp_all add: lib_ok_def)
  have r: "within a (dest + p_filesz ph) (p_memsz ph - p_filesz ph) \<longleftrightarrow> p_filesz ph \<le> a - dest \<and> a - dest < p_memsz ph"
    using below_split[OF assms(2), of "a - dest"] by (simp add: within_def diff_diff_eq)
  show ?thesis
  proof (cases "p_filesz ph < p_memsz ph")
    case True
    then show ?thesis using r
      by (auto simp: copy_fields_def lib Let_def copy_bytes_def set_bytes_def within_def word_gt_0)
  next
    case False
    then have "p_filesz ph = p_memsz ph" using assms(2) by simp
    then show ?thesis by (auto simp: copy_fields_def lib Let_def copy_bytes_def within_def word_gt_0)
  qed
qed

text \<open>
  When a file can be loaded: the buffer of \<open>size\<close> bytes holds the headers and the contents of
  the segments, no segment is larger in the file than in memory, segments do not overlap, and the
  memory they go to, for a load at \<open>base\<close>, is apart from the buffer.
\<close>

definition elf_fits :: "pmem \<Rightarrow> u64 \<Rightarrow> u64 \<Rightarrow> u64 \<Rightarrow> bool" where
  "elf_fits m elf sz base \<longleftrightarrow>
     (\<forall>k < 64. within (elf + k) elf sz) \<and>
     (\<forall>i < unat (e_phnum m elf). \<forall>k < 56. within (phdr_addr m elf i + k) elf sz) \<and>
     (\<forall>i < unat (e_phnum m elf). let ph = phdr_at m elf i in p_type ph = PT_LOAD \<longrightarrow>
        p_filesz ph \<le> p_memsz ph \<and> (\<forall>k < p_filesz ph. within (elf + p_offset ph + k) elf sz) \<and>
        (\<forall>k < p_memsz ph. \<not> within (base + p_vaddr ph + k) elf sz) \<and>
        (\<forall>j < unat (e_phnum m elf). let ph' = phdr_at m elf j in j \<noteq> i \<longrightarrow> p_type ph' = PT_LOAD \<longrightarrow>
           (\<forall>k < p_memsz ph. \<not> within (base + p_vaddr ph + k) (base + p_vaddr ph') (p_memsz ph'))))"

definition same_buffer :: "u64 \<Rightarrow> u64 \<Rightarrow> pmem \<Rightarrow> pmem \<Rightarrow> bool" where
  "same_buffer elf sz m m' \<longleftrightarrow> (\<forall>a. within a elf sz \<longrightarrow> m' a = m a)"

text \<open>The segment \<open>i\<close> of the file in \<open>m\<close> is in place in \<open>m'\<close>.\<close>

definition segment_loaded :: "pmem \<Rightarrow> u64 \<Rightarrow> u64 \<Rightarrow> pmem \<Rightarrow> nat \<Rightarrow> bool" where
  "segment_loaded m elf base m' i \<longleftrightarrow>
     (let ph = phdr_at m elf i in p_type ph = PT_LOAD \<longrightarrow>
        (\<forall>k < p_memsz ph. m' (base + p_vaddr ph + k) = (if k < p_filesz ph then m (elf + p_offset ph + k) else 0)))"

lemma r_in_buffer:
  assumes "same_buffer elf sz m m'" and "\<And>k. k < of_nat n \<Longrightarrow> within (p + k) elf sz" and "off + 8 \<le> n" and "n \<le> 64"
  shows "r64 m' (p + of_nat off) = r64 m (p + of_nat off)" "r32 m' (p + of_nat off) = r32 m (p + of_nat off)"
    "r16 m' (p + of_nat off) = r16 m (p + of_nat off)"
proof -
  have "m' (p + of_nat off + of_nat k) = m (p + of_nat off + of_nat k)" if "k < 8" for k
  proof -
    have "unat (of_nat (off + k) :: u64) = off + k" "unat (of_nat n :: u64) = n"
      using assms(3,4) that by (simp_all add: unat_of_nat del: of_nat_add)
    then have "(of_nat (off + k) :: u64) < of_nat n" using assms(3) that by (simp add: word_less_nat_alt del: of_nat_add)
    from assms(2)[OF this] show ?thesis using assms(1) by (simp add: same_buffer_def add.assoc)
  qed
  then show "r64 m' (p + of_nat off) = r64 m (p + of_nat off)" "r32 m' (p + of_nat off) = r32 m (p + of_nat off)"
    "r16 m' (p + of_nat off) = r16 m (p + of_nat off)"
    by (intro r_cong; simp)+
qed

lemma headers_kept:
  assumes "elf_fits m elf sz base" and "same_buffer elf sz m m'"
  shows "e_phnum m' elf = e_phnum m elf" "e_entry m' elf = e_entry m elf" "phdr_addr m' elf i = phdr_addr m elf i"
proof -
  have in64: "within (elf + k) elf sz" if "k < of_nat 64" for k using assms(1) that by (simp add: elf_fits_def)
  note rd = r_in_buffer[OF assms(2) in64]
  show num: "e_phnum m' elf = e_phnum m elf" using rd(3)[of 64 56] by (simp add: e_phnum_def)
  show "e_entry m' elf = e_entry m elf" using rd(1)[of 64 24] by (simp add: e_entry_def)
  have "e_phoff m' elf = e_phoff m elf" using rd(1)[of 64 32] by (simp add: e_phoff_def)
  moreover have "e_phentsize m' elf = e_phentsize m elf" using rd(3)[of 64 54] by (simp add: e_phentsize_def)
  ultimately show "phdr_addr m' elf i = phdr_addr m elf i" by (simp add: phdr_addr_def)
qed

lemma phdr_kept:
  assumes "elf_fits m elf sz base" and "same_buffer elf sz m m'" and "i < unat (e_phnum m elf)"
  shows "phdr_at m' elf i = phdr_at m elf i"
proof -
  let ?p = "phdr_addr m elf i"
  have in56: "within (?p + k) elf sz" if "k < of_nat 56" for k using assms(1,3) that by (simp add: elf_fits_def)
  note rd = r_in_buffer[OF assms(2) in56]
  show ?thesis
    using rd(2)[of 56 0] rd(1)[of 56 8] rd(1)[of 56 16] rd(1)[of 56 32] rd(1)[of 56 40]
    by (simp add: phdr_at_def headers_kept[OF assms(1,2)] Let_def)
qed

lemma elf_fits_kept:
  assumes "elf_fits m elf sz base" and "same_buffer elf sz m m'"
  shows "elf_fits m' elf sz base"
  using assms(1) phdr_kept[OF assms] headers_kept[OF assms] unfolding elf_fits_def by (auto simp: Let_def)

text \<open>One segment, copied at its place: the buffer and every other segment's place are untouched.\<close>

lemma load_one:
  assumes "lib_ok api" and fits: "elf_fits m elf sz base" and i: "i < unat (e_phnum m elf)" and "pm s = m"
  shows "\<exists>s'. load_segment api True base elf i s = (None, s') \<and> same_buffer elf sz m (pm s') \<and>
    segment_loaded m elf base (pm s') i \<and> fw s' = fw s \<and> plog s' = plog s \<and>
    (\<forall>a. (p_type (phdr_at m elf i) = PT_LOAD \<longrightarrow> \<not> within a (base + p_vaddr (phdr_at m elf i)) (p_memsz (phdr_at m elf i))) \<longrightarrow>
       pm s' a = m a)"
proof (cases "p_type (phdr_at m elf i) = PT_LOAD")
  case True
  define ph where "ph = phdr_at m elf i"
  have load: "p_type ph = PT_LOAD" using True by (simp add: ph_def)
  have f: "p_filesz ph \<le> p_memsz ph" "\<And>k. k < p_memsz ph \<Longrightarrow> \<not> within (base + p_vaddr ph + k) elf sz"
    using fits i load unfolding elf_fits_def ph_def by (simp_all add: Let_def)
  define m1 where "m1 = copy_fields api (base + p_vaddr ph) (elf + p_offset ph) ph m"
  note cs = copy_fields_mem[OF assms(1) f(1), of "base + p_vaddr ph" "elf + p_offset ph" m, folded m1_def]
  have out: "m1 a = m a" if "\<not> within a (base + p_vaddr ph) (p_memsz ph)" for a
    using that f(1) cs[of a] by (auto simp: within_def)
  have "same_buffer elf sz m m1" unfolding same_buffer_def
  proof (intro allI impI)
    fix a assume a: "within a elf sz"
    have "a = base + p_vaddr ph + (a - (base + p_vaddr ph))" by simp
    then have "\<not> within a (base + p_vaddr ph) (p_memsz ph)" using f(2)[of "a - (base + p_vaddr ph)"] a by (auto simp: within_def)
    then show "m1 a = m a" by (rule out)
  qed
  moreover have "segment_loaded m elf base m1 i"
    unfolding segment_loaded_def ph_def[symmetric] Let_def using cs by simp
  moreover have "load_segment api True base elf i s = (None, s\<lparr>pm := m1\<rparr>)"
  proof -
    define mc where "mc = (if 0 < p_filesz ph then CopyMem api (base + p_vaddr ph) (elf + p_offset ph) (p_filesz ph) m else m)"
    have "same_buffer elf sz m mc" unfolding same_buffer_def
    proof (intro allI impI)
      fix a assume a: "within a elf sz"
      have "a = base + p_vaddr ph + (a - (base + p_vaddr ph))" by simp
      then have "\<not> within a (base + p_vaddr ph) (p_filesz ph)"
        using f(2)[of "a - (base + p_vaddr ph)"] a less_le_trans[OF _ f(1)] by (auto simp: within_def)
      then show "mc a = m a" using assms(1) by (simp add: mc_def lib_ok_def copy_bytes_def)
    qed
    from phdr_kept[OF fits this i] have "copy_segment api (base + p_vaddr ph) (elf + p_offset ph) elf i m = m1"
      unfolding m1_def ph_def mc_def by (rule copy_segment_fields)
    then show ?thesis using load assms(4) by (simp add: load_segment_def Let_def flip: ph_def)
  qed
  ultimately show ?thesis using out load by (auto simp: ph_def)
next
  case False
  then show ?thesis using assms(4) by (auto simp: load_segment_def same_buffer_def segment_loaded_def Let_def)
qed

fun load_list :: "'w efi_api \<Rightarrow> u64 \<Rightarrow> u64 \<Rightarrow> nat list \<Rightarrow> 'w efi_state \<Rightarrow> status option \<times> 'w efi_state" where
  "load_list api base elf [] s = (None, s)"
| "load_list api base elf (i # is) s =
     (case load_segment api True base elf i s of
        (Some st, s) \<Rightarrow> (Some st, s)
      | (None, s) \<Rightarrow> load_list api base elf is s)"

lemma load_segments_list:
  assumes "lib_ok api" and "elf_fits (pm s) elf sz base" and "i \<le> unat (e_phnum (pm s) elf)"
  shows "load_segments api True base elf i s = load_list api base elf [i..<unat (e_phnum (pm s) elf)] s"
  using assms(2,3)
proof (induction "unat (e_phnum (pm s) elf) - i" arbitrary: i s)
  case 0
  then show ?case by (simp add: load_segments.simps)
next
  case (Suc n)
  then have i: "i < unat (e_phnum (pm s) elf)" by simp
  obtain s1 where s1: "load_segment api True base elf i s = (None, s1)" "same_buffer elf sz (pm s) (pm s1)"
    using load_one[OF assms(1) Suc.prems(1) i refl] by blast
  have num: "e_phnum (pm s1) elf = e_phnum (pm s) elf" by (rule headers_kept(1)[OF Suc.prems(1) s1(2)])
  have "load_segments api True base elf (Suc i) s1 = load_list api base elf [Suc i..<unat (e_phnum (pm s1) elf)] s1"
    using Suc.hyps i num by (intro Suc.hyps(1) elf_fits_kept[OF Suc.prems(1) s1(2)]) simp_all
  then show ?case using i s1(1) num
    by (simp add: load_segments.simps[of api True base elf i] upt_conv_Cons)
qed

lemma load_all:
  assumes "lib_ok api" and "elf_fits m elf sz base" and "pm s = m" and "distinct is" and "set is \<subseteq> {..<unat (e_phnum m elf)}"
  shows "\<exists>s'. load_list api base elf is s = (None, s') \<and> same_buffer elf sz m (pm s') \<and> fw s' = fw s \<and> plog s' = plog s \<and>
    (\<forall>i \<in> set is. segment_loaded m elf base (pm s') i) \<and>
    (\<forall>a. (\<forall>i \<in> set is. p_type (phdr_at m elf i) = PT_LOAD \<longrightarrow>
       \<not> within a (base + p_vaddr (phdr_at m elf i)) (p_memsz (phdr_at m elf i))) \<longrightarrow> pm s' a = m a)"
  using assms(2-)
proof (induction "is" arbitrary: s m)
  case Nil
  then show ?case by (auto simp: same_buffer_def)
next
  case (Cons i "is")
  have i: "i < unat (e_phnum m elf)" using Cons.prems(4) by simp
  obtain s1 where s1: "load_segment api True base elf i s = (None, s1)" "same_buffer elf sz m (pm s1)"
      "segment_loaded m elf base (pm s1) i" "fw s1 = fw s" "plog s1 = plog s"
      "\<And>a. (p_type (phdr_at m elf i) = PT_LOAD \<Longrightarrow> \<not> within a (base + p_vaddr (phdr_at m elf i)) (p_memsz (phdr_at m elf i))) \<Longrightarrow> pm s1 a = m a"
    using load_one[OF assms(1) Cons.prems(1) i Cons.prems(2)] by blast
  note kept = phdr_kept[OF Cons.prems(1) s1(2)] headers_kept[OF Cons.prems(1) s1(2)]
  have "set is \<subseteq> {..<unat (e_phnum (pm s1) elf)}" using Cons.prems(4) kept(2) by simp
  from Cons.IH[OF elf_fits_kept[OF Cons.prems(1) s1(2)] refl _ this] Cons.prems(3) obtain s2 where
    s2: "load_list api base elf is s1 = (None, s2)" "same_buffer elf sz (pm s1) (pm s2)" "fw s2 = fw s1" "plog s2 = plog s1"
      "\<And>j. j \<in> set is \<Longrightarrow> segment_loaded (pm s1) elf base (pm s2) j"
      "\<And>a. (\<And>j. j \<in> set is \<Longrightarrow> p_type (phdr_at (pm s1) elf j) = PT_LOAD \<Longrightarrow>
         \<not> within a (base + p_vaddr (phdr_at (pm s1) elf j)) (p_memsz (phdr_at (pm s1) elf j))) \<Longrightarrow> pm s2 a = pm s1 a"
    by auto
  have js: "j < unat (e_phnum m elf)" if "j \<in> set is" for j using that Cons.prems(4) by auto
  have buf: "same_buffer elf sz m (pm s2)" using s1(2) s2(2) by (simp add: same_buffer_def)
  have "segment_loaded m elf base (pm s2) j" if j: "j \<in> set is" for j
  proof -
    have off: "within (elf + p_offset (phdr_at m elf j) + k) elf sz"
      if "p_type (phdr_at m elf j) = PT_LOAD" "k < p_filesz (phdr_at m elf j)" for k
      using Cons.prems(1) js[OF j] that unfolding elf_fits_def by (simp add: Let_def)
    show ?thesis using s2(5)[OF j] off s1(2)
      unfolding segment_loaded_def kept(1)[OF js[OF j]] Let_def same_buffer_def by auto
  qed
  moreover have "segment_loaded m elf base (pm s2) i"
  proof (cases "p_type (phdr_at m elf i) = PT_LOAD")
    case True
    define ph where "ph = phdr_at m elf i"
    have "pm s2 (base + p_vaddr ph + k) = pm s1 (base + p_vaddr ph + k)" if "k < p_memsz ph" for k
    proof (rule s2(6))
      fix j assume j: "j \<in> set is" "p_type (phdr_at (pm s1) elf j) = PT_LOAD"
      have "j \<noteq> i" using j(1) Cons.prems(3) by auto
      then show "\<not> within (base + p_vaddr ph + k) (base + p_vaddr (phdr_at (pm s1) elf j)) (p_memsz (phdr_at (pm s1) elf j))"
        using Cons.prems(1) i True js[OF j(1)] j(2) that unfolding elf_fits_def kept(1)[OF js[OF j(1)]] ph_def by (simp add: Let_def)
    qed
    then show ?thesis using s1(3) unfolding segment_loaded_def Let_def ph_def by simp
  qed (simp add: segment_loaded_def)
  moreover have "pm s2 a = m a" if "\<forall>j \<in> set (i # is). p_type (phdr_at m elf j) = PT_LOAD \<longrightarrow>
       \<not> within a (base + p_vaddr (phdr_at m elf j)) (p_memsz (phdr_at m elf j))" for a
  proof -
    have "pm s2 a = pm s1 a" using that kept(1)[OF js] by (intro s2(6)) auto
    also have "\<dots> = m a" using that by (intro s1(6)) auto
    finally show ?thesis .
  qed
  moreover have "load_list api base elf (i # is) s = (None, s2)" using s1(1) s2(1) Cons.prems(2) by simp
  ultimately show ?case using buf s1(4,5) s2(3,4) by (intro exI[of _ s2]) auto
qed

end
