(* ===== verification/ElfSpec.thy ===== *)
theory ElfSpec
  imports Elf
begin

text \<open>
  What \<open>load_elf\<close> achieves for a well-formed position-independent kernel: the segments are in
  place in the pages the firmware gave, and every relative relocation is applied.
\<close>

section \<open>The address range\<close>

lemma widen_mono:
  assumes "fold (\<lambda>i. widen (f i)) is (mn, mx) = (mn', mx')"
  shows "mn' \<le> mn \<and> mx \<le> mx'"
  using assms
proof (induction "is" arbitrary: mn mx)
  case (Cons i "is")
  obtain a b where ab: "widen (f i) (mn, mx) = (a, b)" by fastforce
  then have "a \<le> mn" "mx \<le> b" by (auto simp: widen_def split: if_splits)
  moreover have "fold (\<lambda>i. widen (f i)) is (a, b) = (mn', mx')" using Cons.prems ab by simp
  ultimately show ?case using Cons.IH[of a b] by auto
qed auto

lemma vaddr_range_covers:
  assumes "fold (\<lambda>i. widen (f i)) is (mn, mx) = (mn', mx')" and "i \<in> set is" and "p_type (f i) = PT_LOAD"
  shows "mn' \<le> p_vaddr (f i) \<and> p_vaddr (f i) + p_memsz (f i) \<le> mx'"
  using assms
proof (induction "is" arbitrary: mn mx)
  case (Cons j "is")
  obtain a b where ab: "widen (f j) (mn, mx) = (a, b)" by fastforce
  have rest: "fold (\<lambda>i. widen (f i)) is (a, b) = (mn', mx')" using Cons.prems ab by simp
  show ?case
  proof (cases "i \<in> set is")
    case True
    then show ?thesis using Cons.IH[OF rest True Cons.prems(3)] by simp
  next
    case False
    then have "a \<le> p_vaddr (f i)" "p_vaddr (f i) + p_memsz (f i) \<le> b"
      using Cons.prems ab by (auto simp: widen_def split: if_splits)
    then show ?thesis using widen_mono[OF rest] by auto
  qed
qed auto

section \<open>Well-formed files\<close>

text \<open>
  The file in the buffer of \<open>sz\<close> bytes at \<open>elf\<close>: headers and contents of the segments lie
  in the buffer, no segment is larger in the file than in memory or wraps around the address space,
  and the segments are apart from each other.
\<close>

definition elf_valid :: "pmem \<Rightarrow> u64 \<Rightarrow> u64 \<Rightarrow> bool" where
  "elf_valid m elf sz \<longleftrightarrow>
     (\<forall>k < 64. within (elf + k) elf sz) \<and>
     (\<forall>i < unat (e_phnum m elf). \<forall>k < 56. within (phdr_addr m elf i + k) elf sz) \<and>
     (\<forall>i < unat (e_phnum m elf). let ph = phdr_at m elf i in p_type ph = PT_LOAD \<longrightarrow>
        p_filesz ph \<le> p_memsz ph \<and> p_vaddr ph \<le> p_vaddr ph + p_memsz ph \<and>
        (\<forall>k < p_filesz ph. within (elf + p_offset ph + k) elf sz) \<and>
        (\<forall>j < unat (e_phnum m elf). let ph' = phdr_at m elf j in j \<noteq> i \<longrightarrow> p_type ph' = PT_LOAD \<longrightarrow>
           (\<forall>k < p_memsz ph. \<not> within (p_vaddr ph + k) (p_vaddr ph') (p_memsz ph'))))"

lemma in_range:
  fixes v k n mn mx :: u64
  assumes "mn \<le> v" and "v \<le> v + n" and "v + n \<le> mx" and "k < n"
  shows "v + k - mn < mx - mn"
proof -
  have "unat v < 2 ^ 64" "unat n < 2 ^ 64"
    using unsigned_less[of v, where 'a = nat] unsigned_less[of n, where 'a = nat] by simp_all
  then have vn: "unat (v + n) = unat v + unat n"
    using assms(2,4) by (simp add: unat_plus_if' word_le_nat_alt word_less_nat_alt split: if_splits)
  have "unat (v + n) < 2 ^ 64" using unsigned_less[of "v + n", where 'a = nat] by simp
  then have vk: "unat (v + k) = unat v + unat k" using assms(4) vn by (simp add: unat_plus_if' word_less_nat_alt)
  have "mn \<le> v + k" "v + k < mx" using assms vn vk by (auto simp: word_le_nat_alt word_less_nat_alt)
  then show ?thesis by (auto simp: word_less_nat_alt word_le_nat_alt unat_sub)
qed

lemma elf_valid_fits:
  assumes valid: "elf_valid m elf sz" and range: "vaddr_range m elf = (mn, mx)"
    and apart: "\<And>a. within a elf sz \<Longrightarrow> \<not> within a addr (mx - mn)"
  shows "elf_fits m elf sz (addr - mn)"
proof -
  have "\<not> within (addr - mn + p_vaddr ph + k) elf sz"
    if "i < unat (e_phnum m elf)" "ph = phdr_at m elf i" "p_type ph = PT_LOAD" "k < p_memsz ph" for i ph k
  proof -
    have "mn \<le> p_vaddr ph" "p_vaddr ph + p_memsz ph \<le> mx"
      using vaddr_range_covers[OF range[unfolded vaddr_range_def], of i] that by simp_all
    moreover have "p_vaddr ph \<le> p_vaddr ph + p_memsz ph"
      using valid that unfolding elf_valid_def by (simp add: Let_def)
    ultimately have "within (addr - mn + p_vaddr ph + k) addr (mx - mn)"
      using in_range[of mn "p_vaddr ph" "p_memsz ph" mx k] that(4) by (simp add: within_def algebra_simps)
    then show ?thesis using apart by blast
  qed
  then show ?thesis
    using valid unfolding elf_valid_def elf_fits_def by (simp add: Let_def within_def algebra_simps)
qed

lemma same_buffer_SetMem:
  assumes "lib_ok api" and "\<And>a. within a elf sz \<Longrightarrow> \<not> within a addr n"
  shows "same_buffer elf sz m (SetMem api addr n 0 m)"
  using assms by (simp add: same_buffer_def lib_ok_def set_bytes_def)

lemma segment_loaded_buffer:
  assumes "elf_fits m elf sz base" and "same_buffer elf sz m m'" and "i < unat (e_phnum m elf)"
    and "segment_loaded m' elf base m'' i"
  shows "segment_loaded m elf base m'' i"
proof -
  have "m' (elf + p_offset (phdr_at m elf i) + k) = m (elf + p_offset (phdr_at m elf i) + k)"
    if "p_type (phdr_at m elf i) = PT_LOAD" "k < p_filesz (phdr_at m elf i)" for k
    using assms(1-3) that unfolding elf_fits_def same_buffer_def by (simp add: Let_def)
  then show ?thesis using assms(4) unfolding segment_loaded_def phdr_kept[OF assms(1-3)] Let_def by auto
qed

lemma place_pie:
  assumes lib: "lib_ok api" and pie: "e_type (pm s) elf = ET_DYN" and valid: "elf_valid (pm s) elf sz"
    and range: "vaddr_range (pm s) elf = (mn, mx)"
    and pages: "AllocateAnyPages api (EFI_SIZE_TO_PAGES api (mx - mn)) (fw s) = (st, addr, w)" "\<not> EFI_ERROR api st"
    and apart: "\<And>a. within a elf sz \<Longrightarrow> \<not> within a addr (mx - mn)"
  shows "\<exists>s1. place_image api elf s = map_option (finish_elf api True (addr - mn) addr elf) (relocate (addr - mn) elf s1) \<and>
    same_buffer elf sz (pm s) (pm s1) \<and>
    (\<forall>i < unat (e_phnum (pm s) elf). segment_loaded (pm s) elf (addr - mn) (pm s1) i)"
proof -
  define s0 where "s0 = s\<lparr>fw := w, pm := SetMem api addr (mx - mn) 0 (pm s)\<rparr>"
  have buf: "same_buffer elf sz (pm s) (pm s0)" using same_buffer_SetMem[OF lib apart] by (simp add: s0_def)
  note fits = elf_valid_fits[OF valid range apart]
  have "set [0..<unat (e_phnum (pm s0) elf)] \<subseteq> {..<unat (e_phnum (pm s0) elf)}" by auto
  from load_all[OF lib elf_fits_kept[OF fits buf] refl _ this] obtain s1 where
    s1: "load_list api (addr - mn) elf [0..<unat (e_phnum (pm s0) elf)] s0 = (None, s1)"
      "same_buffer elf sz (pm s0) (pm s1)" "\<forall>i < unat (e_phnum (pm s0) elf). segment_loaded (pm s0) elf (addr - mn) (pm s1) i"
    by auto
  have "place_image api elf s = load_image api True (addr - mn) addr elf s0"
    using pie range pages by (simp add: place_image_def s0_def)
  also have "\<dots> = map_option (finish_elf api True (addr - mn) addr elf) (relocate (addr - mn) elf s1)"
    using s1(1) load_segments_list[OF lib elf_fits_kept[OF fits buf], of 0] by (simp add: load_image_def)
  finally show ?thesis
    using s1(2,3) buf headers_kept(1)[OF fits buf] segment_loaded_buffer[OF fits buf]
    by (auto simp: same_buffer_def)
qed

section \<open>Relocations\<close>

text \<open>Entry \<open>i\<close> of the table at \<open>rela\<close>.\<close>

definition rela_relative :: "pmem \<Rightarrow> u64 \<Rightarrow> nat \<Rightarrow> bool" where
  "rela_relative m rela i \<longleftrightarrow> r64 m (rela + 24 * of_nat i + 8) AND 0xffffffff = R_AARCH64_RELATIVE"

definition rela_target :: "pmem \<Rightarrow> u64 \<Rightarrow> u64 \<Rightarrow> nat \<Rightarrow> u64" where
  "rela_target m base rela i = base + r64 m (rela + 24 * of_nat i)"

definition rela_value :: "pmem \<Rightarrow> u64 \<Rightarrow> u64 \<Rightarrow> nat \<Rightarrow> u64" where
  "rela_value m base rela i = base + r64 m (rela + 24 * of_nat i + 16)"

text \<open>The words to relocate are apart from each other and from the entries of the table.\<close>

definition relas_apart :: "pmem \<Rightarrow> u64 \<Rightarrow> u64 \<Rightarrow> nat set \<Rightarrow> bool" where
  "relas_apart m base rela I \<longleftrightarrow> (\<forall>i \<in> I. rela_relative m rela i \<longrightarrow>
     (\<forall>k < 8. (\<forall>j \<in> I. \<not> within (rela_target m base rela i + k) (rela + 24 * of_nat j) 24) \<and>
        (\<forall>j \<in> I. j \<noteq> i \<longrightarrow> rela_relative m rela j \<longrightarrow>
          \<not> within (rela_target m base rela i + k) (rela_target m base rela j) 8)))"

lemma relas_apart_D:
  assumes "relas_apart m base rela I" and "i \<in> I" and "j \<in> I" and "rela_relative m rela i" and "k < 8"
  shows "\<not> within (rela_target m base rela i + k) (rela + 24 * of_nat j) 24"
    and "j \<noteq> i \<Longrightarrow> rela_relative m rela j \<Longrightarrow> \<not> within (rela_target m base rela i + k) (rela_target m base rela j) 8"
  using assms unfolding relas_apart_def by blast+

lemma not_within_flip:
  assumes "\<And>k. k < n \<Longrightarrow> \<not> within (d + k) p sz" and "x < sz"
  shows "\<not> within (p + x) d n"
proof
  assume "within (p + x) d n"
  then have "\<not> within (d + (p + x - d)) p sz" by (intro assms(1)) (simp add: within_def)
  then show False using assms(2) by (simp add: within_def)
qed

lemma r64_apart:
  assumes "\<And>k. k < 8 \<Longrightarrow> \<not> within (p + k) d 8"
  shows "r64 (w64 d v m) p = r64 m p"
proof -
  have "w64 d v m (p + of_nat k) = m (p + of_nat k)" if "k < 8" for k
  proof -
    have "(of_nat k :: u64) < 8" using that by (simp add: word_less_nat_alt unat_of_nat)
    from assms[OF this] show ?thesis by (simp add: w64_def)
  qed
  then show ?thesis by (intro r_cong)
qed

lemma small_off: "k < 8 \<Longrightarrow> k < (24 :: u64)" "k < 8 \<Longrightarrow> 8 + k < (24 :: u64)" "k < 8 \<Longrightarrow> 16 + k < (24 :: u64)" for k :: u64
proof -
  assume "k < 8"
  then have "unat k < 8" by (simp add: word_less_nat_alt)
  then have "unat (8 + k) = 8 + unat k" "unat (16 + k) = 16 + unat k" by (simp_all add: unat_word_ariths)
  with \<open>unat k < 8\<close> show "k < 24" "8 + k < 24" "16 + k < 24" by (simp_all add: word_less_nat_alt)
qed

lemma rela_kept:
  assumes "\<And>k. k < 8 \<Longrightarrow> \<not> within (d + k) (rela + 24 * of_nat j) 24"
  shows "rela_relative (w64 d v m) rela j = rela_relative m rela j" "rela_target (w64 d v m) base rela j = rela_target m base rela j"
    "rela_value (w64 d v m) base rela j = rela_value m base rela j"
proof -
  let ?p = "rela + 24 * of_nat j"
  have nw: "\<not> within (?p + x) d 8" if "x < 24" for x by (rule not_within_flip[OF assms that])
  have "r64 (w64 d v m) ?p = r64 m ?p" using nw small_off(1) by (intro r64_apart) blast
  moreover have "r64 (w64 d v m) (?p + 8) = r64 m (?p + 8)"
    using nw small_off(2) by (intro r64_apart) (metis add.assoc)
  moreover have "r64 (w64 d v m) (?p + 16) = r64 m (?p + 16)"
    using nw small_off(3) by (intro r64_apart) (metis add.assoc)
  ultimately show "rela_relative (w64 d v m) rela j = rela_relative m rela j"
    "rela_target (w64 d v m) base rela j = rela_target m base rela j" "rela_value (w64 d v m) base rela j = rela_value m base rela j"
    by (simp_all add: rela_relative_def rela_target_def rela_value_def)
qed

lemma relocs_applied:
  assumes "relas_apart m base rela (set is)" and "distinct is"
  defines "m' \<equiv> fold (apply_rela base rela) is m"
  shows "(\<forall>i \<in> set is. rela_relative m rela i \<longrightarrow> r64 m' (rela_target m base rela i) = rela_value m base rela i) \<and>
    (\<forall>a. (\<forall>i \<in> set is. rela_relative m rela i \<longrightarrow> \<not> within a (rela_target m base rela i) 8) \<longrightarrow> m' a = m a)"
  using assms(1,2) unfolding m'_def
proof (induction "is" arbitrary: m)
  case (Cons i "is")
  define m1 where "m1 = apply_rela base rela i m"
  define d v where "d = rela_target m base rela i" and "v = rela_value m base rela i"
  have m1: "m1 = (if rela_relative m rela i then w64 d v m else m)"
    by (simp add: m1_def apply_rela_def rela_relative_def d_def v_def rela_target_def rela_value_def Let_def)
  have table: "\<not> within (d + k) (rela + 24 * of_nat j) 24" if "rela_relative m rela i" "k < 8" "j \<in> set (i # is)" for k j
    using relas_apart_D(1)[OF Cons.prems(1)] that unfolding d_def by simp
  have others: "\<not> within (d + k) (rela_target m base rela j) 8" if "rela_relative m rela i" "k < 8" "j \<in> set is" "rela_relative m rela j" for k j
    using relas_apart_D(2)[OF Cons.prems(1)] Cons.prems(2) that unfolding d_def by auto
  have kept: "rela_relative m1 rela j = rela_relative m rela j" "rela_target m1 base rela j = rela_target m base rela j"
      "rela_value m1 base rela j = rela_value m base rela j" if "j \<in> set is" for j
    using that rela_kept[of d rela j] table by (auto simp: m1)
  have "relas_apart m1 base rela (set is)" using Cons.prems(1) unfolding relas_apart_def by (simp add: kept)
  note IH = Cons.IH[OF this]
  have i_notin: "i \<notin> set is" "distinct is" using Cons.prems(2) by simp_all
  let ?m' = "fold (apply_rela base rela) is m1"
  have un: "?m' a = m1 a" if "\<And>j. j \<in> set is \<Longrightarrow> rela_relative m rela j \<Longrightarrow> \<not> within a (rela_target m base rela j) 8" for a
    using IH[OF i_notin(2)] that kept by auto
  have done_i: "r64 ?m' d = v" if rel: "rela_relative m rela i"
  proof -
    have "?m' (d + of_nat k) = m1 (d + of_nat k)" if "k < 8" for k
    proof (rule un)
      fix j assume "j \<in> set is" "rela_relative m rela j"
      moreover have "(of_nat k :: u64) < 8" using that by (simp add: word_less_nat_alt unat_of_nat)
      ultimately show "\<not> within (d + of_nat k) (rela_target m base rela j) 8" using others rel by blast
    qed
    then have "r64 ?m' d = r64 m1 d" by (intro r_cong)
    then show ?thesis using rel by (simp add: m1 r64_w64)
  qed
  have rest: "r64 ?m' (rela_target m base rela j) = rela_value m base rela j" if "j \<in> set is" "rela_relative m rela j" for j
    using IH[OF i_notin(2)] kept[OF that(1)] that by auto
  have same: "?m' a = m a" if "\<forall>j \<in> set (i # is). rela_relative m rela j \<longrightarrow> \<not> within a (rela_target m base rela j) 8" for a
    using un[of a] that by (auto simp: m1 w64_def d_def)
  show ?case using done_i rest same by (auto simp: d_def v_def m1_def)
qed simp

section \<open>The dynamic section\<close>

text \<open>The scan ends when the section has a terminating entry.\<close>

lemma scan_dynamic_ends:
  assumes "r64 m (d + 16 * of_nat n) = 0"
  shows "\<exists>ri'. scan_dynamic m d ri = Some ri'"
  using assms
proof (induction n arbitrary: d ri)
  case 0
  then show ?case by (simp add: scan_dynamic.simps)
next
  case (Suc n)
  have "r64 m (d + 16 + 16 * of_nat n) = 0" using Suc.prems by (simp add: algebra_simps)
  then show ?case using Suc.IH by (subst scan_dynamic.simps) simp
qed

lemma relocate_applies:
  assumes find: "List.find (\<lambda>i. p_type (phdr_at (pm s) elf i) = PT_DYNAMIC) [0..<unat (e_phnum (pm s) elf)] = Some i"
    and dyn: "dyn = base + p_vaddr (phdr_at (pm s) elf i)" "dyn \<noteq> 0"
    and scan: "scan_dynamic (pm s) dyn \<lparr>rela_addr = 0, rela_size = 0, rela_ent = 0\<rparr> = Some ri"
    and nz: "rela_addr ri \<noteq> 0" "rela_size ri \<noteq> 0" "rela_ent ri \<noteq> 0"
    and n: "n = unat (rela_size ri div rela_ent ri)" and rela: "rela = base + rela_addr ri"
    and apart: "relas_apart (pm s) base rela {..<n}"
  shows "\<exists>s'. relocate base elf s = Some s' \<and> fw s' = fw s \<and>
    (\<forall>i < n. rela_relative (pm s) rela i \<longrightarrow> r64 (pm s') (rela_target (pm s) base rela i) = rela_value (pm s) base rela i) \<and>
    (\<forall>a. (\<forall>i < n. rela_relative (pm s) rela i \<longrightarrow> \<not> within a (rela_target (pm s) base rela i) 8) \<longrightarrow> pm s' a = pm s a)"
proof -
  have "set [0..<n] = {..<n}" by auto
  note app = relocs_applied[of "pm s" base rela "[0..<n]", unfolded this, OF apart]
  have "relocate base elf s = Some (apply_relas base ri s)" using find dyn scan by (simp add: relocate_def Let_def)
  moreover have "pm (apply_relas base ri s) = fold (apply_rela base rela) [0..<n] (pm s)" "fw (apply_relas base ri s) = fw s"
    using nz by (simp_all add: apply_relas_def Let_def n rela)
  ultimately show ?thesis using app by auto
qed

text \<open>From the file to the image: \<open>load_elf\<close> of a valid position-independent file.\<close>

lemma load_elf_pie:
  assumes lib: "lib_ok api"
    and info: "AllocatePool api (SIZE_OF_EFI_FILE_INFO api + 256) (fw s) = (st1, fi, w1)" "\<not> EFI_ERROR api st1"
    and sz: "GetFileSize api fi w1 = (st2, sz, w2)" "\<not> EFI_ERROR api st2"
    and buf: "AllocatePool api sz (FreePool api fi w2) = (st3, elf, w3)" "\<not> EFI_ERROR api st3"
    and rd: "ReadFile api sz w3 = (st4, bs, w4)" "\<not> EFI_ERROR api st4"
    and m: "m = put_bytes elf bs (pm s)"
    and magic: "bytes_at m elf 5 = [0x7F, 0x45, 0x4C, 0x46, 2]" and pie: "e_type m elf = ET_DYN"
    and valid: "elf_valid m elf sz" and range: "vaddr_range m elf = (mn, mx)"
    and pages: "AllocateAnyPages api (EFI_SIZE_TO_PAGES api (mx - mn)) w4 = (st5, addr, w5)" "\<not> EFI_ERROR api st5"
    and apart: "\<And>a. within a elf sz \<Longrightarrow> \<not> within a addr (mx - mn)"
  shows "\<exists>s1. load_elf api s = map_option (finish_elf api True (addr - mn) addr elf) (relocate (addr - mn) elf s1) \<and>
    same_buffer elf sz m (pm s1) \<and> (\<forall>i < unat (e_phnum m elf). segment_loaded m elf (addr - mn) (pm s1) i)"
proof -
  define s4 where "s4 = s\<lparr>fw := w4, pm := m\<rparr>"
  have five: "[0..<5] = [0, 1, 2, 3, 4::nat]" by (simp add: upt_rec numeral_eq_Suc)
  have mg: "m elf = 0x7F" "m (elf + 1) = 0x45" "m (elf + 2) = 0x4C" "m (elf + 3) = 0x46" "m (elf + 4) = 2"
    using magic unfolding bytes_at_def five by simp_all
  have "load_elf api s = check_elf api elf s4"
    using info sz buf rd by (simp add: load_elf_def free_elf_def s4_def m)
  also have "\<dots> = place_image api elf s4"
    using mg pie by (simp add: check_elf_def s4_def ET_DYN_def ET_EXEC_def)
  finally have run: "load_elf api s = place_image api elf s4" .
  have s4: "pm s4 = m" "fw s4 = w4" by (simp_all add: s4_def)
  show ?thesis unfolding run
    using place_pie[OF lib, of s4 elf sz mn mx st5 addr w5, unfolded s4, OF pie valid range pages apart] by blast
qed

text \<open>What is rejected: the buffer is freed and nothing outside it was written.\<close>

lemma check_elf_rejects:
  assumes "bytes_at (pm s) elf 4 \<noteq> [0x7F, 0x45, 0x4C, 0x46] \<or> pm s (elf + 4) \<noteq> 2 \<or> e_type (pm s) elf \<notin> {ET_EXEC, ET_DYN}"
  shows "\<exists>st s'. check_elf api elf s = Some (Failed st, s') \<and> st \<in> {EFI_INVALID_PARAMETER api, EFI_UNSUPPORTED api} \<and>
    fw s' = FreePool api elf (fw s) \<and> pm s' = pm s"
proof -
  have four: "[0..<4] = [0, 1, 2, 3::nat]" by (simp add: upt_rec numeral_eq_Suc)
  show ?thesis using assms by (auto simp: check_elf_def free_elf_def bytes_at_def four)
qed

end
