(* ===== verification/Boot.thy ===== *)
theory Boot
  imports Acpi ElfSpec
begin

text \<open>
  \<open>efi_main\<close> of \<open>efi/main.c\<close>: opening and loading the kernel, collecting
  \<open>boot_info_t\<close> (\<open>efi/include/boot.h\<close>) in memory, \<open>print_info\<close>, leaving the
  firmware and the jump. Variables that C leaves uninitialised are the parameter \<open>boot_junk\<close>.
\<close>

section \<open>Stores of structure fields\<close>

definition w32 :: "u64 \<Rightarrow> u32 \<Rightarrow> pmem \<Rightarrow> pmem" where
  "w32 d v m = (\<lambda>a. if within a d 4 then ucast (drop_bit (8 * unat (a - d)) v) else m a)"

definition w16 :: "u64 \<Rightarrow> u16 \<Rightarrow> pmem \<Rightarrow> pmem" where
  "w16 d v m = (\<lambda>a. if within a d 2 then ucast (drop_bit (8 * unat (a - d)) v) else m a)"

definition w8 :: "u64 \<Rightarrow> u8 \<Rightarrow> pmem \<Rightarrow> pmem" where
  "w8 d v m = (\<lambda>a. if within a d 1 then v else m a)"

section \<open>\<open>boot_info_t\<close>\<close>

record framebuffer_info_t =
  framebuffer :: u64
  fb_width :: u32
  fb_height :: u32
  fb_pitch :: u32
  fb_pixel_format :: u32

record memory_map_info_t =
  memory_map :: u64
  memory_map_size :: u64
  memory_map_descriptor_size :: u64
  memory_map_version :: u32

record boot_info_t =
  bi_fb :: framebuffer_info_t
  bi_serial :: serial_info_t
  bi_mmap :: memory_map_info_t

text \<open>The structure in memory, with the field offsets of the 64-bit ABI.\<close>

definition read_fb :: "pmem \<Rightarrow> u64 \<Rightarrow> framebuffer_info_t" where
  "read_fb m p = \<lparr>framebuffer = r64 m p, fb_width = r32 m (p + 8), fb_height = r32 m (p + 12),
     fb_pitch = r32 m (p + 16), fb_pixel_format = r32 m (p + 20)\<rparr>"

definition read_serial :: "pmem \<Rightarrow> u64 \<Rightarrow> serial_info_t" where
  "read_serial m p = \<lparr>ser_base = r64 m (p + 24), ser_baud = r32 m (p + 32), ser_type = r8 m (p + 36), ser_model = r16 m (p + 38)\<rparr>"

definition read_mmap :: "pmem \<Rightarrow> u64 \<Rightarrow> memory_map_info_t" where
  "read_mmap m p = \<lparr>memory_map = r64 m (p + 40), memory_map_size = r64 m (p + 48),
     memory_map_descriptor_size = r64 m (p + 56), memory_map_version = r32 m (p + 64)\<rparr>"

definition read_boot_info :: "pmem \<Rightarrow> u64 \<Rightarrow> boot_info_t" where
  "read_boot_info m p = \<lparr>bi_fb = read_fb m p, bi_serial = read_serial m p, bi_mmap = read_mmap m p\<rparr>"

definition sizeof_boot_info_t :: u64 where "sizeof_boot_info_t = 72"

definition store_fb :: "u64 \<Rightarrow> gop_mode \<Rightarrow> pmem \<Rightarrow> pmem" where
  "store_fb p g m =
     w32 (p + 20) (PixelFormat g) (w32 (p + 16) (PixelsPerScanLine g) (w32 (p + 12) (VerticalResolution g)
       (w32 (p + 8) (HorizontalResolution g) (w64 p (FrameBufferBase g) m))))"

definition store_serial :: "u64 \<Rightarrow> serial_info_t \<Rightarrow> pmem \<Rightarrow> pmem" where
  "store_serial p u m = w16 (p + 38) (ser_model u) (w8 (p + 36) (ser_type u) (w32 (p + 32) (ser_baud u) (w64 (p + 24) (ser_base u) m)))"

definition store_mmap :: "u64 \<Rightarrow> u64 \<Rightarrow> memory_map \<Rightarrow> pmem \<Rightarrow> pmem" where
  "store_mmap p mmap mm m =
     w32 (p + 64) (mm_desc_ver mm) (w64 (p + 56) (mm_desc_size mm) (w64 (p + 48) (mm_size mm) (w64 (p + 40) mmap m)))"

section \<open>\<open>print_info\<close>\<close>

definition print_fb :: "framebuffer_info_t \<Rightarrow> 'w efi_state \<Rightarrow> 'w efi_state" where
  "print_fb fb s =
     (let s = print (''  Framebuffer info:'' @ [CHR 10]) [] s;
          s = print (''    Address: %p'' @ [CHR 10]) [PNum (framebuffer fb)] s;
          s = print ''    Dimensions: %ux%u, %u pitch'' [PNum (ucast (fb_width fb)), PNum (ucast (fb_height fb)), PNum (ucast (fb_pitch fb))] s
      in print (''    Pixel format: %u'' @ [CHR 10, CHR 10]) [PNum (ucast (fb_pixel_format fb))] s)"

definition print_serial :: "serial_info_t \<Rightarrow> 'w efi_state \<Rightarrow> 'w efi_state" where
  "print_serial u s =
     (let s = print (''  Serial info:'' @ [CHR 10]) [] s;
          s = print (''    Address: %p (%s)'' @ [CHR 10]) [PNum (ser_base u),
                PStr (if ser_type u \<noteq> 0 then (if ser_type u = 1 then ''MMIO'' else ''Port'') else ''????'')] s;
          s = print (''    Baud: %u'' @ [CHR 10]) [PNum (ucast (ser_baud u))] s
      in print (''    Model: %u'' @ [CHR 10, CHR 10]) [PNum (ucast (ser_model u))] s)"

text \<open>One descriptor; the fields of \<open>EFI_MEMORY_DESCRIPTOR\<close> are at their UEFI offsets.\<close>

definition print_descriptor :: "memory_map_info_t \<Rightarrow> nat \<Rightarrow> 'w efi_state \<Rightarrow> 'w efi_state" where
  "print_descriptor mi i s =
     (let s = print (''    Entry %d:'' @ [CHR 10]) [PNum (of_nat i)] s;
          desc = memory_map mi + of_nat i * memory_map_descriptor_size mi;
          s = print (''      Attribute %u, type %u'' @ [CHR 10]) [PNum (r64 (pm s) (desc + 32)), PNum (ucast (r32 (pm s) desc))] s;
          s = print (''      Physical address: %p'' @ [CHR 10]) [PNum (r64 (pm s) (desc + 8))] s;
          s = print (''      Virtual address: %p'' @ [CHR 10]) [PNum (r64 (pm s) (desc + 16))] s
      in print (''      %u pages (%u padding)'' @ [CHR 10, CHR 10]) [PNum (r64 (pm s) (desc + 24)), PNum (ucast (r32 (pm s) (desc + 4)))] s)"

text \<open>The quotient is cut to a 32-bit \<open>int\<close>; a quotient by 0 is 0, as the processor computes it.\<close>

definition map_count :: "memory_map_info_t \<Rightarrow> u32" where
  "map_count mi = ucast (memory_map_size mi div memory_map_descriptor_size mi)"

definition shown_count :: "u32 \<Rightarrow> nat" where
  "shown_count count = (if 8 < sint count then 8 else nat (sint count))"

definition print_mmap :: "memory_map_info_t \<Rightarrow> 'w efi_state \<Rightarrow> 'w efi_state" where
  "print_mmap mi s =
     (let count = map_count mi;
          s = print (''  Memory map:'' @ [CHR 10]) [] s;
          s = print ''    %u entries'' [PNum (ucast count)] s;
          s = (if 8 < sint count then print '' (truncated to 8)'' [] s else s);
          s = print ('', version %u'' @ [CHR 10]) [PNum (ucast (memory_map_version mi))] s
      in fold (print_descriptor mi) [0..<shown_count count] s)"

definition print_info :: "u64 \<Rightarrow> 'w efi_state \<Rightarrow> 'w efi_state" where
  "print_info p s =
     (let info = read_boot_info (pm s) p;
          s = print (''Boot info:'' @ [CHR 10]) [] s;
          s = (if framebuffer (bi_fb info) \<noteq> 0 then print_fb (bi_fb info) s else s);
          s = (if ser_base (bi_serial info) \<noteq> 0 then print_serial (bi_serial info) s else s)
      in if memory_map (bi_mmap info) \<noteq> 0 then print_mmap (bi_mmap info) s else s)"

section \<open>\<open>efi_main\<close>\<close>

record boot_junk =
  junk_entry :: u64
  junk_base :: u64
  junk_model :: u16

datatype efi_result = Returns status | Jumps u64 u64 u64     \<comment> \<open>entry point, \<open>boot_info\<close>, base\<close>

definition get_graphics :: "'w efi_api \<Rightarrow> u64 \<Rightarrow> 'w efi_state \<Rightarrow> 'w efi_state" where
  "get_graphics api info s =
     (let (st, g, w) = LocateGraphics api (fw s); s = s\<lparr>fw := w\<rparr> in
      if \<not> EFI_ERROR api st then s\<lparr>pm := store_fb info g (pm s)\<rparr> else s)"

definition get_serial :: "'w efi_api \<Rightarrow> boot_junk \<Rightarrow> u64 \<Rightarrow> 'w efi_state \<Rightarrow> 'w efi_state" where
  "get_serial api junk info s =
     (let (u, s) = find_uart api (junk_model junk) s in s\<lparr>pm := store_serial info u (pm s)\<rparr>)"

text \<open>The map key is the second result. Statuses of these calls are not looked at.\<close>

definition get_memory_map :: "'w efi_api \<Rightarrow> u64 \<Rightarrow> 'w efi_state \<Rightarrow> u64 \<times> 'w efi_state" where
  "get_memory_map api info s =
     (let (m1, _, w) = GetMemoryMap api 0 0 (fw s);
          mmap_size = mm_size m1 + mm_desc_size m1 * 8;
          (_, mmap, w) = AllocatePool api mmap_size w;
          (m2, bs, w) = GetMemoryMap api mmap_size mmap w;
          s = s\<lparr>fw := w, pm := store_mmap info mmap m2 (put_bytes mmap bs (pm s))\<rparr>
      in (mm_key m2, s))"

definition leave_firmware :: "'w efi_api \<Rightarrow> u64 \<Rightarrow> u64 \<Rightarrow> u64 \<Rightarrow> u64 \<Rightarrow> 'w efi_state \<Rightarrow> efi_result \<times> 'w efi_state" where
  "leave_firmware api elf_entry base info map_key s =
     (if current_el api \<noteq> 2
      then (Returns (EFI_UNSUPPORTED api), print (''Error: Current EL is not EL2, cannot jump to kernel'' @ [CHR 10]) [] s)
      else
        let s = print (''Exiting boot services, jumping to kernel at %p, with boot_info at %p...'' @ [CHR 10]) [PNum elf_entry, PNum info] s;
            (st, w) = ExitBootServices api map_key (fw s); s = s\<lparr>fw := w\<rparr>
        in if EFI_ERROR api st then (Returns st, print (''Error exiting: %r'' @ [CHR 10]) [PNum st] s)
        else (Jumps elf_entry info base, s))"

definition boot_kernel :: "'w efi_api \<Rightarrow> boot_junk \<Rightarrow> u64 \<Rightarrow> u64 \<Rightarrow> 'w efi_state \<Rightarrow> efi_result \<times> 'w efi_state" where
  "boot_kernel api junk elf_entry base s =
     (let (_, info, w) = AllocatePool api sizeof_boot_info_t (fw s);
          s = s\<lparr>fw := w, pm := SetMem api info sizeof_boot_info_t 0 (pm s)\<rparr>;
          s = get_graphics api info s;
          s = get_serial api junk info s;
          (map_key, s) = get_memory_map api info s
      in leave_firmware api elf_entry base info map_key (print_info info s))"

definition KERNEL_PATH :: string where "KERNEL_PATH = CHR 0x5C # ''kernel.elf''"

definition efi_main :: "'w efi_api \<Rightarrow> boot_junk \<Rightarrow> 'w efi_state \<Rightarrow> (efi_result \<times> 'w efi_state) option" where
  "efi_main api junk s =
     (let (st, w) = LocateFileSystem api (fw s); s = s\<lparr>fw := w\<rparr> in
      if EFI_ERROR api st then Some (Returns st, print (''Filesystem error: %r'' @ [CHR 10]) [PNum st] s)
      else
        let (st, w) = OpenKernel api (fw s); s = s\<lparr>fw := w\<rparr> in
        if EFI_ERROR api st then
          Some (Returns st,
            if st = EFI_NOT_FOUND api then print (''Kernel not found: %s'' @ [CHR 10]) [PStr KERNEL_PATH] s
            else print (''Failed to open kernel: %r'' @ [CHR 10]) [PNum st] s)
        else
          map_option (\<lambda>(r, s).
            let (st, elf_entry, base) =
                  (case r of Failed st \<Rightarrow> (st, junk_entry junk, junk_base junk) | Loaded e b \<Rightarrow> (EFI_SUCCESS api, e, b))
            in if EFI_ERROR api st then (Returns elf_entry, s) else boot_kernel api junk elf_entry base s)
          (load_elf api s))"

section \<open>Reading fields back\<close>

lemma unat_ucast_byte: "unat (ucast (drop_bit (8 * k) v) :: u8) = unat (v :: 'a::len word) div 256 ^ k mod 256"
proof -
  have "unat (ucast (drop_bit (8 * k) v) :: u8) = unat (drop_bit (8 * k) v) mod 256"
    by (simp add: unsigned_ucast_eq take_bit_eq_mod)
  also have "unat (drop_bit (8 * k) v) = unat v div 2 ^ (8 * k)"
    unfolding unat_drop_bit_eq by (simp add: drop_bit_eq_div)
  finally show ?thesis by (simp add: power_mult)
qed

lemma le_stored:
  assumes "n \<le> 8" and "\<And>a. within a d (of_nat n) \<Longrightarrow> m a = ucast (drop_bit (8 * unat (a - d)) (v :: 'a::len word))"
  shows "le m d n = unat v mod 256 ^ n"
proof (rule le_digits)
  fix k assume k: "k < n"
  then have u: "unat (of_nat k :: u64) = k" "unat (of_nat n :: u64) = n" using assms(1) by (simp_all add: unat_of_nat)
  then have "(of_nat k :: u64) < of_nat n" using k by (simp add: word_less_nat_alt)
  then show "unat (m (d + of_nat k)) = unat v div 256 ^ k mod 256" using assms(2) u by (simp add: unat_ucast_byte)
qed

lemma r_stored [simp]: "r32 (w32 d v m) d = v" "r16 (w16 d v' m) d = v'" "r8 (w8 d v'' m) d = v''"
proof -
  have "le (w32 d v m) d 4 = unat v mod 256 ^ 4" by (rule le_stored) (simp_all add: w32_def)
  moreover have "unat v < 256 ^ 4" using unsigned_less[of v, where 'a = nat] by simp
  ultimately show "r32 (w32 d v m) d = v" by (simp add: r32_def)
  have "le (w16 d v' m) d 2 = unat v' mod 256 ^ 2" by (rule le_stored) (simp_all add: w16_def)
  moreover have "unat v' < 256 ^ 2" using unsigned_less[of v', where 'a = nat] by simp
  ultimately show "r16 (w16 d v' m) d = v'" by (simp add: r16_def)
  show "r8 (w8 d v'' m) d = v''" by (simp add: r8_def w8_def within_def)
qed

text \<open>Two fields at offsets \<open>o1\<close> and \<open>o2\<close> that do not overlap.\<close>

definition same_except :: "u64 \<Rightarrow> nat \<Rightarrow> pmem \<Rightarrow> pmem \<Rightarrow> bool" where
  "same_except d n m m' \<longleftrightarrow> (\<forall>a. \<not> within a d (of_nat n) \<longrightarrow> m' a = m a)"

definition fields_apart :: "u64 \<Rightarrow> nat \<Rightarrow> u64 \<Rightarrow> nat \<Rightarrow> bool" where
  "fields_apart o1 n1 o2 n2 \<longleftrightarrow> unat o1 < 100 \<and> unat o2 < 100 \<and> n1 \<le> 8 \<and> n2 \<le> 8 \<and>
     (unat o1 + n1 \<le> unat o2 \<or> unat o2 + n2 \<le> unat o1)"

lemma not_within_field:
  assumes "fields_apart o1 n1 o2 n2" and "k < n1"
  shows "\<not> within (p + o1 + of_nat k) (p + o2) (of_nat n2)"
proof -
  have u: "unat (of_nat k :: u64) = k" "unat (of_nat n2 :: u64) = n2"
    using assms by (simp_all add: fields_apart_def unat_of_nat)
  then have u1: "unat (o1 + of_nat k) = unat o1 + k" using assms by (simp add: fields_apart_def unat_plus_if')
  have "p + o1 + of_nat k - (p + o2) = o1 + of_nat k - o2" by (metis add.assoc add_diff_cancel_left)
  moreover have "n2 \<le> unat (o1 + of_nat k - o2)" using assms u1 by (auto simp: fields_apart_def unat_sub_if')
  ultimately show ?thesis unfolding within_def word_less_nat_alt u(2) by (simp only: not_less)
qed

lemma le_field:
  assumes "same_except (p + o2) n2 m m'" and "fields_apart o1 n1 o2 n2"
  shows "le m' (p + o1) n1 = le m (p + o1) n1"
  using assms(1) not_within_field[OF assms(2)] by (intro le_cong) (simp add: same_except_def)

lemma stores_same_except:
  "same_except d 8 m (w64 d v m)" "same_except d 4 m (w32 d v4 m)" "same_except d 2 m (w16 d v2 m)" "same_except d 1 m (w8 d v1 m)"
  by (simp_all add: same_except_def w64_def w32_def w16_def w8_def)

lemma r8_le: "r8 m a = of_nat (le m a 1)"
  by (simp add: r8_def)

lemma r_field:
  assumes "same_except (p + o2) n2 m m'"
  shows "fields_apart o1 8 o2 n2 \<Longrightarrow> r64 m' (p + o1) = r64 m (p + o1)" "fields_apart o1 4 o2 n2 \<Longrightarrow> r32 m' (p + o1) = r32 m (p + o1)"
    "fields_apart o1 2 o2 n2 \<Longrightarrow> r16 m' (p + o1) = r16 m (p + o1)" "fields_apart o1 1 o2 n2 \<Longrightarrow> r8 m' (p + o1) = r8 m (p + o1)"
  using le_field[OF assms] by (simp_all only: r64_def r32_def r16_def r8_le)

lemmas r_over_store =
  r_field[OF stores_same_except(1)] r_field[OF stores_same_except(2)] r_field[OF stores_same_except(3)] r_field[OF stores_same_except(4)]

lemmas r_over_store_0 = r_over_store[where ?o1.0 = 0, simplified] r_over_store[where ?o2.0 = 0, simplified]

lemmas field_simps = r_over_store r_over_store_0 fields_apart_def r64_w64

lemma read_fb_stores:
  "read_fb (store_fb p g m) p = \<lparr>framebuffer = FrameBufferBase g, fb_width = HorizontalResolution g, fb_height = VerticalResolution g,
     fb_pitch = PixelsPerScanLine g, fb_pixel_format = PixelFormat g\<rparr>"
  "read_fb (store_serial p u m) p = read_fb m p" "read_fb (store_mmap p a mm m) p = read_fb m p"
  by (simp_all add: read_fb_def store_fb_def store_serial_def store_mmap_def field_simps)

lemma read_serial_stores:
  "read_serial (store_serial p u m) p = u" "read_serial (store_mmap p a mm m) p = read_serial m p"
  by (simp_all add: read_serial_def store_serial_def store_mmap_def field_simps)

lemma read_mmap_stores:
  "read_mmap (store_mmap p a mm m) p = \<lparr>memory_map = a, memory_map_size = mm_size mm,
     memory_map_descriptor_size = mm_desc_size mm, memory_map_version = mm_desc_ver mm\<rparr>"
  by (simp add: read_mmap_def store_mmap_def field_simps)

section \<open>The hand-over\<close>

lemma print_sel_fold: "pm (fold (print_descriptor mi) is s) = pm s \<and> fw (fold (print_descriptor mi) is s) = fw s"
  by (induction "is" arbitrary: s) (simp_all add: print_descriptor_def Let_def)

lemma print_info_frame: "pm (print_info p s) = pm s" "fw (print_info p s) = fw s"
  by (simp_all add: print_info_def Let_def print_fb_def print_serial_def print_mmap_def print_sel_fold)

lemma put_bytes_other:
  assumes "\<And>k. k < length bs \<Longrightarrow> a \<noteq> d + of_nat k"
  shows "put_bytes d bs m a = m a"
  using assms[of "unat (a - d)"] by (auto simp: put_bytes_def)

lemma read_parts_cong:
  assumes "\<And>a. within a p 72 \<Longrightarrow> m' a = m a"
  shows "read_fb m' p = read_fb m p" "read_serial m' p = read_serial m p"
proof -
  have byte: "m' (p + of_nat i) = m (p + of_nat i)" if "i < 72" for i
    using that assms[of "p + of_nat i"] by (simp add: word_less_nat_alt unat_of_nat)
  have le: "le m' (p + of_nat i) n = le m (p + of_nat i) n" if "i + n \<le> 72" for i n
    using that byte[of "i + k" for k] by (intro le_cong) (simp add: add.assoc)
  show "read_fb m' p = read_fb m p" "read_serial m' p = read_serial m p"
    using le[of 0 8] le[of 8 4] le[of 12 4] le[of 16 4] le[of 20 4] le[of 24 8] le[of 32 4] le[of 36 1] le[of 38 2]
    by (simp_all only: read_fb_def read_serial_def r64_def r32_def r16_def r8_le) simp_all
qed

lemma stores_outside:
  assumes "\<not> within a p 72"
  shows "store_fb p g m a = m a" "store_serial p u m a = m a" "store_mmap p d mm m a = m a"
proof -
  have out: "\<not> within a (p + o1) n" if "unat o1 + unat n \<le> 72" for o1 n
  proof
    assume w: "within a (p + o1) n"
    define k where "k = a - (p + o1)"
    have "unat k < unat n" using w by (simp add: within_def word_less_nat_alt k_def)
    moreover have "a - p = o1 + k" by (simp add: k_def algebra_simps)
    moreover have "unat (o1 + k) \<le> unat o1 + unat k" by (simp add: unat_plus_if')
    ultimately have "unat (a - p) < 72" using that by simp
    then show False using assms by (simp add: within_def word_less_nat_alt)
  qed
  then show "store_fb p g m a = m a" "store_serial p u m a = m a" "store_mmap p d mm m a = m a"
    using out[of 0]
    by (simp_all add: store_fb_def store_serial_def store_mmap_def w64_def w32_def w16_def w8_def)
qed

lemma find_uart_cong:
  assumes "lib_ok api" and "pm s = pm s'"
  shows "fst (find_uart api junk s) = fst (find_uart api junk s')"
  unfolding find_uart_spcr[OF assms(1)] assms(2) FindAcpiTable_state(1)[of api s s'] by (rule refl)

lemma boot_kernel_jumps:
  assumes lib: "lib_ok api"
    and info: "AllocatePool api sizeof_boot_info_t (fw s) = (st0, info, w0)"
    and gop: "LocateGraphics api w0 = (st1, g, w1)" "\<not> EFI_ERROR api st1"
    and map1: "GetMemoryMap api 0 0 w1 = (m1, bs1, w2)"
    and pool: "AllocatePool api (mm_size m1 + mm_desc_size m1 * 8) w2 = (st2, mmap, w3)"
    and map2: "GetMemoryMap api (mm_size m1 + mm_desc_size m1 * 8) mmap w3 = (m2, bs, w4)"
    and apart: "\<And>k. k < length bs \<Longrightarrow> \<not> within (mmap + of_nat k) info sizeof_boot_info_t"
    and el: "current_el api = 2" and leave: "ExitBootServices api (mm_key m2) w4 = (st3, w5)" "\<not> EFI_ERROR api st3"
  shows "\<exists>s'. boot_kernel api junk e b s = (Jumps e info b, s') \<and> fw s' = w5 \<and>
    read_boot_info (pm s') info =
      \<lparr>bi_fb = \<lparr>framebuffer = FrameBufferBase g, fb_width = HorizontalResolution g, fb_height = VerticalResolution g,
         fb_pitch = PixelsPerScanLine g, fb_pixel_format = PixelFormat g\<rparr>,
       bi_serial = fst (find_uart api (junk_model junk) (s\<lparr>pm := store_fb info g (set_bytes info sizeof_boot_info_t 0 (pm s))\<rparr>)),
       bi_mmap = \<lparr>memory_map = mmap, memory_map_size = mm_size m2, memory_map_descriptor_size = mm_desc_size m2,
         memory_map_version = mm_desc_ver m2\<rparr>\<rparr> \<and>
    (\<forall>a. \<not> within a info sizeof_boot_info_t \<longrightarrow> (\<forall>k < length bs. a \<noteq> mmap + of_nat k) \<longrightarrow> pm s' a = pm s a)"
proof -
  define mA where "mA = store_fb info g (set_bytes info sizeof_boot_info_t 0 (pm s))"
  define sA where "sA = s\<lparr>fw := w1, pm := mA\<rparr>"
  obtain u sU where u: "find_uart api (junk_model junk) sA = (u, sU)" by fastforce
  have sU: "fw sU = w1" "pm sU = mA" using find_uart_frame[OF lib, of "junk_model junk" sA] u by (simp_all add: sA_def)
  have u': "u = fst (find_uart api (junk_model junk) (s\<lparr>pm := mA\<rparr>))"
    using find_uart_cong[OF lib, of sA "s\<lparr>pm := mA\<rparr>" "junk_model junk"] u by (simp add: sA_def)
  define mB where "mB = put_bytes mmap bs (store_serial info u mA)"
  define mC where "mC = store_mmap info mmap m2 mB"
  have SetMem: "SetMem api = set_bytes" using lib by (simp add: lib_ok_def)
  have get: "get_graphics api info (s\<lparr>fw := w0, pm := SetMem api info sizeof_boot_info_t 0 (pm s)\<rparr>) = sA"
    using gop by (simp add: get_graphics_def sA_def mA_def SetMem)
  have ser: "get_serial api junk info sA = sU\<lparr>pm := store_serial info u mA\<rparr>"
    using u sU by (simp add: get_serial_def)
  have map: "get_memory_map api info (sU\<lparr>pm := store_serial info u mA\<rparr>) = (mm_key m2, sU\<lparr>fw := w4, pm := mC\<rparr>)"
    using map1 pool map2 sU by (simp add: get_memory_map_def mB_def mC_def)
  define s3 where "s3 = print_info info (sU\<lparr>fw := w4, pm := mC\<rparr>)"
  have s3: "pm s3 = mC" "fw s3 = w4" by (simp_all add: s3_def print_info_frame)
  have run: "boot_kernel api junk e b s = leave_firmware api e b info (mm_key m2) s3"
    using info get ser map by (simp add: boot_kernel_def s3_def Let_def)
  have mB: "mB a = store_serial info u mA a" if "within a info 72" for a
    unfolding mB_def using apart that by (intro put_bytes_other) (auto simp: sizeof_boot_info_t_def)
  have rd: "read_boot_info mC info =
      \<lparr>bi_fb = \<lparr>framebuffer = FrameBufferBase g, fb_width = HorizontalResolution g, fb_height = VerticalResolution g,
         fb_pitch = PixelsPerScanLine g, fb_pixel_format = PixelFormat g\<rparr>, bi_serial = u,
       bi_mmap = \<lparr>memory_map = mmap, memory_map_size = mm_size m2, memory_map_descriptor_size = mm_desc_size m2,
         memory_map_version = mm_desc_ver m2\<rparr>\<rparr>"
  proof -
    have "read_fb mB info = read_fb mA info" "read_serial mB info = u"
      using read_parts_cong[of info mB "store_serial info u mA", OF mB] by (simp_all add: read_fb_stores read_serial_stores)
    then show ?thesis
      unfolding read_boot_info_def mC_def read_fb_stores(3) read_serial_stores(2) read_mmap_stores
      by (simp add: read_fb_stores mA_def)
  qed
  have out: "mC a = pm s a" if "\<not> within a info 72" "\<forall>k < length bs. a \<noteq> mmap + of_nat k" for a
    using that put_bytes_other[of bs a mmap]
    by (simp add: mC_def mB_def mA_def stores_outside set_bytes_def sizeof_boot_info_t_def)
  show ?thesis
    using el leave s3 rd out unfolding run by (simp add: leave_firmware_def sizeof_boot_info_t_def u' mA_def[unfolded sizeof_boot_info_t_def])
qed

lemma leave_firmware_low_el:
  "current_el api \<noteq> 2 \<Longrightarrow> fst (leave_firmware api e b info key s) = Returns (EFI_UNSUPPORTED api) \<and>
     fw (snd (leave_firmware api e b info key s)) = fw s"
  by (simp add: leave_firmware_def)

lemma efi_main_load_failed:
  assumes "LocateFileSystem api (fw s) = (st1, w1)" and "\<not> EFI_ERROR api st1"
    and "OpenKernel api w1 = (st2, w2)" and "\<not> EFI_ERROR api st2"
    and "load_elf api (s\<lparr>fw := w2\<rparr>) = Some (Failed st, s')" and "EFI_ERROR api st"
  shows "efi_main api junk s = Some (Returns (junk_entry junk), s')"
  using assms by (simp add: efi_main_def)

end
