(* ===== verification/BootProps.thy ===== *)
theory BootProps
  imports Boot
begin

text \<open>
  Properties of the boot loader: the table search, loading and relocating the kernel, the
  hand-over, and the error paths. The concrete firmware \<open>demo_api\<close>, on which the hypotheses on
  firmware and library hold, hands out memory in steps and serves one small file.
\<close>

section \<open>A concrete firmware\<close>

text \<open>A position-independent file with one segment of four bytes in the file and eight in memory.\<close>

definition demo_file :: "u8 list" where
  "demo_file =
     [0x7F, 0x45, 0x4C, 0x46, 2, 1, 1, 0, 0, 0, 0, 0, 0, 0, 0, 0] @
     [3, 0, 183, 0, 1, 0, 0, 0] @ [4, 0, 0, 0, 0, 0, 0, 0] @ [64, 0, 0, 0, 0, 0, 0, 0] @ [0, 0, 0, 0, 0, 0, 0, 0] @
     [0, 0, 0, 0, 64, 0, 56, 0, 1, 0, 0, 0, 0, 0, 0, 0] @
     [1, 0, 0, 0, 5, 0, 0, 0] @ [120, 0, 0, 0, 0, 0, 0, 0] @ [16, 0, 0, 0, 0, 0, 0, 0] @ [0, 0, 0, 0, 0, 0, 0, 0] @
     [4, 0, 0, 0, 0, 0, 0, 0] @ [8, 0, 0, 0, 0, 0, 0, 0] @ [0, 0, 0, 0, 0, 0, 0, 0] @
     [0xAA, 0xBB, 0xCC, 0xDD]"

definition demo_api :: "u64 efi_api" where
  "demo_api = \<lparr>EFI_ERROR = (\<lambda>st. bit st 63), EFI_INVALID_PARAMETER = 0x8000000000000002,
     EFI_UNSUPPORTED = 0x8000000000000003, EFI_NOT_FOUND = 0x800000000000000E, EFI_SUCCESS = 0,
     EFI_SIZE_TO_PAGES = (\<lambda>n. (n + 4095) div 4096), SIZE_OF_EFI_FILE_INFO = 80,
     ACPI_20_TABLE_GUID = [2], ACPI_TABLE_GUID = [1], CompareMem = (\<lambda>xs ys. if xs = ys then 0 else 1),
     CopyMem = copy_bytes, SetMem = set_bytes, AllocatePool = (\<lambda>n w. (0, w, w + 0x10000)),
     FreePool = (\<lambda>p w. w), AllocateAnyPages = (\<lambda>n w. (0, 0x40000000, w)), AllocateAddress = (\<lambda>a n w. (0, w)),
     GetFileSize = (\<lambda>fi w. (0, 0x1000, w)), ReadFile = (\<lambda>n w. (0, demo_file, w)),
     LocateFileSystem = (\<lambda>w. (0, w)), OpenKernel = (\<lambda>w. (0, w)),
     LocateGraphics = (\<lambda>w. (0, \<lparr>FrameBufferBase = 0x80000000, HorizontalResolution = 1024, VerticalResolution = 768,
       PixelsPerScanLine = 1024, PixelFormat = 1\<rparr>, w)),
     GetMemoryMap = (\<lambda>n p w. (\<lparr>mm_size = 96, mm_key = 7, mm_desc_size = 48, mm_desc_ver = 1\<rparr>, [], w)),
     ExitBootServices = (\<lambda>k w. (0, w)), config_tables = [], current_el = 2\<rparr>"

definition demo_state :: "u64 efi_state" where
  "demo_state = \<lparr>pm = (\<lambda>_. 0), plog = [], fw = 0x10000\<rparr>"

lemma demo_lib: "lib_ok demo_api"
  by (simp add: lib_ok_def demo_api_def)

lemma le_numeral: "le m a (numeral n) = unat (m a) + 256 * le m (a + 1) (pred_numeral n)"
  by (simp add: numeral_eq_Suc)

definition demo_mem :: pmem where
  "demo_mem = put_bytes 0x20000 demo_file (\<lambda>_. 0)"

lemma length_demo_file: "length demo_file = 124"
  by (simp add: demo_file_def)

lemma demo_bytes: "demo_mem a = (if unat (a - 0x20000) < 124 then demo_file ! unat (a - 0x20000) else 0)"
  by (simp add: demo_mem_def put_bytes_def length_demo_file)

lemma demo_fields:
  "e_type demo_mem 0x20000 = ET_DYN" "e_entry demo_mem 0x20000 = 4" "e_phoff demo_mem 0x20000 = 64"
  "e_phentsize demo_mem 0x20000 = 56" "e_phnum demo_mem 0x20000 = 1"
  by (simp_all add: e_type_def e_entry_def e_phoff_def e_phentsize_def e_phnum_def ET_DYN_def r16_def r64_def le_numeral
      demo_bytes demo_file_def)

lemma demo_phdr: "phdr_at demo_mem 0x20000 0 = \<lparr>p_type = PT_LOAD, p_offset = 120, p_vaddr = 16, p_filesz = 4, p_memsz = 8\<rparr>"
  by (simp add: phdr_at_def phdr_addr_def demo_fields r32_def r64_def le_numeral demo_bytes demo_file_def PT_LOAD_def)

lemma small_offset:
  fixes k :: u64
  assumes "k < n" and "unat c + unat n \<le> 4096"
  shows "within (0x20000 + c + k) 0x20000 0x1000"
proof -
  have "unat (c + k) = unat c + unat k" using assms by (simp add: word_less_nat_alt unat_plus_if')
  then have "c + k < 0x1000" using assms by (simp add: word_less_nat_alt)
  moreover have "0x20000 + c + k - 0x20000 = c + k" by simp
  ultimately show ?thesis by (simp only: within_def)
qed

lemma demo_valid: "elf_valid demo_mem 0x20000 0x1000"
proof -
  have "phdr_addr demo_mem 0x20000 0 = 0x20000 + 64" by (simp add: phdr_addr_def demo_fields)
  then show ?thesis
    using small_offset[of _ 64 0] small_offset[of _ 56 64] small_offset[of _ 4 120]
    by (simp add: elf_valid_def demo_fields demo_phdr Let_def)
qed

lemma demo_range: "vaddr_range demo_mem 0x20000 = (16, 24)"
  by (simp add: vaddr_range_def demo_fields demo_phdr widen_def)

lemma demo_magic: "bytes_at demo_mem 0x20000 5 = [0x7F, 0x45, 0x4C, 0x46, 2]"
proof -
  have "[0..<5] = [0, 1, 2, 3, 4::nat]" by (simp add: upt_rec numeral_eq_Suc)
  then show ?thesis unfolding bytes_at_def by (simp add: demo_bytes demo_file_def)
qed

lemma demo_apart: "within a 0x20000 0x1000 \<Longrightarrow> \<not> within a 0x40000000 (24 - 16)"
proof
  assume a: "within a 0x20000 0x1000" "within a 0x40000000 (24 - 16)"
  define x where "x = a - (0x20000 :: u64)"
  have "unat x < 0x1000" using a(1) by (simp add: within_def x_def word_less_nat_alt)
  moreover have "a - 0x40000000 = x - 0x3FFE0000" by (simp add: x_def)
  then have "unat (x - 0x3FFE0000) < 8" using a(2) by (simp add: within_def word_less_nat_alt)
  ultimately show False by (simp add: unat_sub_if' split: if_splits)
qed

section \<open>Loading the kernel\<close>

text \<open>C3: loading a position-independent kernel. For a valid file (headers and segment contents in the
  file, segments apart, none larger in the file than in memory) that the firmware reads into a buffer
  apart from the pages it gives, \<open>load_elf\<close> gets to the relocations with every segment in place:
  its bytes at the load address, zeros up to its size in memory, and the file buffer untouched; the
  returned entry point and base are those of the load address.\<close>

theorem pie_kernel_loaded:
  assumes "lib_ok api"
    and "AllocatePool api (SIZE_OF_EFI_FILE_INFO api + 256) (fw s) = (st1, fi, w1)" and "\<not> EFI_ERROR api st1"
    and "GetFileSize api fi w1 = (st2, sz, w2)" and "\<not> EFI_ERROR api st2"
    and "AllocatePool api sz (FreePool api fi w2) = (st3, elf, w3)" and "\<not> EFI_ERROR api st3"
    and "ReadFile api sz w3 = (st4, bs, w4)" and "\<not> EFI_ERROR api st4"
    and "m = put_bytes elf bs (pm s)" and "bytes_at m elf 5 = [0x7F, 0x45, 0x4C, 0x46, 2]" and "e_type m elf = ET_DYN"
    and "elf_valid m elf sz" and "vaddr_range m elf = (mn, mx)"
    and "AllocateAnyPages api (EFI_SIZE_TO_PAGES api (mx - mn)) w4 = (st5, addr, w5)" and "\<not> EFI_ERROR api st5"
    and "\<And>a. within a elf sz \<Longrightarrow> \<not> within a addr (mx - mn)"
  shows "\<exists>s1. load_elf api s = map_option (finish_elf api True (addr - mn) addr elf) (relocate (addr - mn) elf s1) \<and>
    same_buffer elf sz m (pm s1) \<and> (\<forall>i < unat (e_phnum m elf). segment_loaded m elf (addr - mn) (pm s1) i)"
  by (rule load_elf_pie[OF assms])

theorem pie_kernel_loaded_witness:
  "\<exists>s'. load_elf demo_api demo_state = Some (Loaded 0x3FFFFFF4 0x3FFFFFF0, s') \<and>
    pm s' 0x40000000 = 0xAA \<and> pm s' 0x40000003 = 0xDD \<and> pm s' 0x40000004 = 0"
proof -
  let ?base = "0x40000000 - 16 :: u64"
  have "\<exists>s1. load_elf demo_api demo_state =
      map_option (finish_elf demo_api True ?base 0x40000000 0x20000) (relocate ?base 0x20000 s1) \<and>
      same_buffer 0x20000 0x1000 demo_mem (pm s1) \<and> (\<forall>i < unat (e_phnum demo_mem 0x20000). segment_loaded demo_mem 0x20000 ?base (pm s1) i)"
    by (rule pie_kernel_loaded[OF demo_lib _ _ _ _ _ _ _ _ _ demo_magic demo_fields(1) demo_valid demo_range _ _ demo_apart])
      (simp_all add: demo_api_def demo_state_def demo_mem_def, simp_all)
  then obtain s1 where s1: "load_elf demo_api demo_state =
      map_option (finish_elf demo_api True ?base 0x40000000 0x20000) (relocate ?base 0x20000 s1)"
      "same_buffer 0x20000 0x1000 demo_mem (pm s1)" "segment_loaded demo_mem 0x20000 ?base (pm s1) 0"
    by (auto simp: demo_fields)
  note fits = elf_valid_fits[OF demo_valid demo_range demo_apart]
  have hdr: "e_phnum (pm s1) 0x20000 = 1" "e_entry (pm s1) 0x20000 = 4" "phdr_at (pm s1) 0x20000 0 = phdr_at demo_mem 0x20000 0"
    using headers_kept(1,2)[OF fits s1(2)] phdr_kept[OF fits s1(2), of 0] by (simp_all add: demo_fields)
  have "relocate ?base 0x20000 s1 = Some s1" by (simp add: relocate_def hdr demo_phdr PT_LOAD_def PT_DYNAMIC_def)
  then have run: "load_elf demo_api demo_state = Some (finish_elf demo_api True ?base 0x40000000 0x20000 s1)" using s1(1) by simp
  have seg: "k < 8 \<Longrightarrow> pm s1 (?base + 16 + k) = (if k < 4 then demo_mem (0x20000 + 120 + k) else 0)" for k
    using s1(3) unfolding segment_loaded_def Let_def demo_phdr by simp
  have "pm s1 0x40000000 = 0xAA" "pm s1 0x40000003 = 0xDD" "pm s1 0x40000004 = 0"
    using seg[of 0] seg[of 3] seg[of 4] by (simp_all add: demo_bytes demo_file_def)
  then show ?thesis unfolding run by (simp add: finish_elf_def Let_def hdr free_elf_def)
qed

text \<open>C12: relocation. When the scan of the dynamic section yields a relocation table whose targets are
  apart from each other and from the table, \<open>relocate\<close> returns; every word named by a relative
  entry then holds base plus addend and no other byte of memory has changed.\<close>

theorem relocations_applied:
  assumes "List.find (\<lambda>i. p_type (phdr_at (pm s) elf i) = PT_DYNAMIC) [0..<unat (e_phnum (pm s) elf)] = Some i"
    and "dyn = base + p_vaddr (phdr_at (pm s) elf i)" and "dyn \<noteq> 0"
    and "scan_dynamic (pm s) dyn \<lparr>rela_addr = 0, rela_size = 0, rela_ent = 0\<rparr> = Some ri"
    and "rela_addr ri \<noteq> 0" and "rela_size ri \<noteq> 0" and "rela_ent ri \<noteq> 0"
    and "n = unat (rela_size ri div rela_ent ri)" and "rela = base + rela_addr ri"
    and "relas_apart (pm s) base rela {..<n}"
  shows "\<exists>s'. relocate base elf s = Some s' \<and> fw s' = fw s \<and>
    (\<forall>i < n. rela_relative (pm s) rela i \<longrightarrow> r64 (pm s') (rela_target (pm s) base rela i) = rela_value (pm s) base rela i) \<and>
    (\<forall>a. (\<forall>i < n. rela_relative (pm s) rela i \<longrightarrow> \<not> within a (rela_target (pm s) base rela i) 8) \<longrightarrow> pm s' a = pm s a)"
  by (rule relocate_applies[OF assms])

text \<open>A file at 0 whose dynamic section at 0x1000 names one entry, at 0x2000, for the word at 0x3000.\<close>

definition reloc_mem :: pmem where
  "reloc_mem = w64 0x2010 0x55 (w64 0x2008 1027 (w64 0x2000 0x2FF0 (w64 0x1028 24 (w64 0x1020 9 (w64 0x1018 24 (w64 0x1010 8
     (w64 0x1008 0x1FF0 (w64 0x1000 7 ((\<lambda>_. 0)(0x110 := 3, 0x120 := 64, 0x136 := 56, 0x138 := 1, 0x140 := 2, 0x151 := 0x0F, 0x150 := 0xF0))))))))))"

lemma reloc_words:
  "r64 reloc_mem 0x1000 = 7" "r64 reloc_mem 0x1008 = 0x1FF0" "r64 reloc_mem 0x1010 = 8" "r64 reloc_mem 0x1018 = 24"
  "r64 reloc_mem 0x1020 = 9" "r64 reloc_mem 0x1028 = 24" "r64 reloc_mem 0x1030 = 0" "r64 reloc_mem 0x2000 = 0x2FF0"
  "r64 reloc_mem 0x2008 = 1027" "r64 reloc_mem 0x2010 = 0x55"
  by (simp_all add: reloc_mem_def r64_def le_numeral w64_def within_def drop_bit_eq_div)

theorem relocations_applied_witness:
  "\<exists>s'. relocate 0x10 0x100 (demo_state\<lparr>pm := reloc_mem\<rparr>) = Some s' \<and> r64 (pm s') 0x3000 = 0x65"
proof -
  let ?s = "demo_state\<lparr>pm := reloc_mem\<rparr>"
  let ?ri = "\<lparr>rela_addr = 0x1FF0, rela_size = 24, rela_ent = 24\<rparr>"
  have hdr: "e_phnum reloc_mem 0x100 = 1" "phdr_at reloc_mem 0x100 0 = \<lparr>p_type = PT_DYNAMIC, p_offset = 0, p_vaddr = 0xFF0, p_filesz = 0, p_memsz = 0\<rparr>"
    by (simp_all add: e_phnum_def phdr_at_def phdr_addr_def e_phoff_def e_phentsize_def PT_DYNAMIC_def reloc_mem_def r16_def r32_def r64_def
        le_numeral w64_def within_def)
  have scan: "scan_dynamic reloc_mem 0x1000 \<lparr>rela_addr = 0, rela_size = 0, rela_ent = 0\<rparr> = Some ?ri"
    by (simp add: scan_dynamic.simps[of _ "0x1000"] scan_dynamic.simps[of _ "0x1010"] scan_dynamic.simps[of _ "0x1020"]
        scan_dynamic.simps[of _ "0x1030"] reloc_words)
  have apart: "relas_apart reloc_mem 0x10 0x2000 {..<1}"
  proof -
    have "\<not> within (0x3000 + k) 0x2000 24" if "k < 8" for k :: u64
    proof -
      have "unat (0x1000 + k) = 0x1000 + unat k" using that by (simp add: word_less_nat_alt unat_plus_if')
      moreover have "0x3000 + k - 0x2000 = 0x1000 + k" by simp
      ultimately show ?thesis unfolding within_def word_less_nat_alt by simp
    qed
    then show ?thesis by (simp add: relas_apart_def rela_target_def reloc_words)
  qed
  have "\<exists>s'. relocate 0x10 0x100 ?s = Some s' \<and> fw s' = fw ?s \<and>
    (\<forall>i < 1. rela_relative (pm ?s) 0x2000 i \<longrightarrow> r64 (pm s') (rela_target (pm ?s) 0x10 0x2000 i) = rela_value (pm ?s) 0x10 0x2000 i) \<and>
    (\<forall>a. (\<forall>i < 1. rela_relative (pm ?s) 0x2000 i \<longrightarrow> \<not> within a (rela_target (pm ?s) 0x10 0x2000 i) 8) \<longrightarrow> pm s' a = pm ?s a)"
    by (rule relocations_applied[of ?s "0x100" 0 "0x1000" "0x10" ?ri])
      (simp_all add: hdr scan apart[simplified])
  then show ?thesis by (auto simp: rela_relative_def rela_target_def rela_value_def reloc_words R_AARCH64_RELATIVE_def)
qed

text \<open>C29: the scan of the dynamic section returns whenever the section has a terminating entry, at
  whatever distance, and whatever its other entries are.\<close>

theorem dynamic_scan_ends:
  assumes "r64 m (d + 16 * of_nat n) = 0"
  shows "\<exists>ri'. scan_dynamic m d ri = Some ri'"
  by (rule scan_dynamic_ends[OF assms])

theorem dynamic_scan_ends_witness: "\<exists>ri'. scan_dynamic reloc_mem 0x1000 \<lparr>rela_addr = 0, rela_size = 0, rela_ent = 0\<rparr> = Some ri'"
  using dynamic_scan_ends[of reloc_mem "0x1000" 3] by (simp add: reloc_words)

text \<open>C30: files that are not 64-bit ELF executables or shared objects are refused with one of two error
  statuses; the buffer is given back and memory is as it was.\<close>

theorem bad_elf_refused:
  assumes "bytes_at (pm s) elf 4 \<noteq> [0x7F, 0x45, 0x4C, 0x46] \<or> pm s (elf + 4) \<noteq> 2 \<or> e_type (pm s) elf \<notin> {ET_EXEC, ET_DYN}"
  shows "\<exists>st s'. check_elf api elf s = Some (Failed st, s') \<and> st \<in> {EFI_INVALID_PARAMETER api, EFI_UNSUPPORTED api} \<and>
    fw s' = FreePool api elf (fw s) \<and> pm s' = pm s"
  by (rule check_elf_rejects[OF assms])

theorem bad_elf_refused_witness: "\<exists>st s'. check_elf demo_api 0x5000 demo_state = Some (Failed st, s')"
  using bad_elf_refused[of demo_state "0x5000" demo_api] by (auto simp: demo_state_def)

section \<open>The table search\<close>

text \<open>C13: \<open>FindAcpiTableBySignature\<close> returns the first table with the signature listed in the root
  table, and null when there is none: the root table is the XSDT for a root pointer of revision 2 or
  later whose XSDT address and signature are sound, and otherwise the RSDT when that is sound. Memory is
  not changed.\<close>

theorem acpi_search_finds_first:
  assumes "lib_ok api" and "length sig = 4"
  shows "fst (FindAcpiTableBySignature api sig s) = acpi_lookup (pm s) sig (fst (FindAcpiTable api s)) \<and>
    pm (snd (FindAcpiTableBySignature api sig s)) = pm s"
  using find_by_signature[OF assms] by simp

definition acpi_api :: "u64 efi_api" where
  "acpi_api = demo_api\<lparr>config_tables := [\<lparr>VendorGuid = [1], VendorTable = 0x4000\<rparr>, \<lparr>VendorGuid = [2], VendorTable = 0x5000\<rparr>]\<rparr>"

definition acpi_mem :: pmem where
  "acpi_mem = put_bytes 0x5000 (bytes_of ''RSD PTR '' @ [0, 0, 0, 0, 0, 0, 0, 2, 0, 0, 0, 0, 0, 0, 0, 0, 0, 0x60, 0, 0, 0, 0, 0, 0])
     (put_bytes 0x6000 (bytes_of ''XSDT'' @ [52]) (put_bytes 0x6024 [0, 0x71, 0, 0, 0, 0, 0, 0, 0, 0x70] 
       (put_bytes 0x7000 (bytes_of ''SPCR'') (put_bytes 0x7100 (bytes_of ''FACP'') (\<lambda>_. 0)))))"

lemma acpi_lib: "lib_ok acpi_api"
  by (simp add: lib_ok_def acpi_api_def demo_api_def)

lemma acpi_root: "fst (FindAcpiTable acpi_api s) = 0x5000"
  by (simp add: FindAcpiTable_def acpi_api_def demo_api_def)

lemma acpi_sdt: "acpi_lookup acpi_mem (bytes_of ''SPCR'') 0x5000 = 0x7000"
proof -
  have upts: "[0..<4] = [0, 1, 2, 3::nat]" "[0..<8] = [0, 1, 2, 3, 4, 5, 6, 7::nat]" "[0..<2] = [0, 1::nat]"
    by (simp_all add: upt_rec numeral_eq_Suc)
  note ev = acpi_mem_def put_bytes_def of_char_def bytes_at_def upts
  have "RSDP_Signature acpi_mem 0x5000 = bytes_of ''RSD PTR ''" "RSDP_Revision acpi_mem 0x5000 = 2"
    "XsdtAddress acpi_mem 0x5000 = 0x6000" "Header_Signature acpi_mem 0x6000 = bytes_of ''XSDT''"
    "Header_Length acpi_mem 0x6000 = 52" "Xsdt_Entry acpi_mem 0x6000 0 = 0x7100" "Xsdt_Entry acpi_mem 0x6000 1 = 0x7000"
    "Header_Signature acpi_mem 0x7100 = bytes_of ''FACP''" "Header_Signature acpi_mem 0x7000 = bytes_of ''SPCR''"
    by (simp_all add: RSDP_Signature_def RSDP_Revision_def XsdtAddress_def Header_Signature_def Header_Length_def
        Xsdt_Entry_def header_size_def r8_def r32_def r64_def le_numeral ev)
  moreover have "entry_count 52 8 = 2" by (simp add: entry_count_def header_size_def)
  moreover have "bytes_of ''FACP'' \<noteq> bytes_of ''SPCR''" by (simp add: of_char_def)
  ultimately show ?thesis
    by (simp add: acpi_lookup_def root_sdt_def first_table_def upts Let_def del: bytes_of_simps)
qed

theorem acpi_search_finds_first_witness:
  "fst (FindAcpiTableBySignature acpi_api (bytes_of ''SPCR'') (demo_state\<lparr>pm := acpi_mem\<rparr>)) = 0x7000"
  using acpi_search_finds_first[OF acpi_lib, of "bytes_of ''SPCR''" "demo_state\<lparr>pm := acpi_mem\<rparr>"] acpi_root acpi_sdt
  by (simp del: bytes_of_simps)

text \<open>A root table shorter than its own header makes the number of entries wrap around: the search
  then walks at least \<open>2 ^ 60\<close> entries of whatever follows the table.\<close>

theorem short_root_table_wraps:
  assumes "len < 36" and "width \<in> {4, 8}"
  shows "2 ^ 60 \<le> unat (entry_count len width)"
proof -
  have l: "unat (ucast len :: u64) < 36" 
  proof -
    have "unat len < 36" using assms(1) by (simp add: word_less_nat_alt)
    moreover have "unat (ucast len :: u64) = take_bit 64 (unat len)" by (simp add: unsigned_ucast_eq)
    ultimately show ?thesis using take_bit_nat_less_eq_self[of 64 "unat len"] by linarith
  qed
  have "unat (ucast len - 36 :: u64) = 2 ^ 64 + unat (ucast len :: u64) - 36" using l by (simp add: unat_sub_if')
  moreover have "unat width \<in> {4, 8}" using assms(2) by auto
  ultimately show ?thesis using l
    by (auto simp: entry_count_def header_size_def unat_div)
qed

theorem short_root_table_wraps_witness: "2 ^ 60 \<le> unat (entry_count 35 8)"
  using short_root_table_wraps[of 35 8] by simp

section \<open>The hand-over\<close>

text \<open>C4: when \<open>efi_main\<close> gets to the jump, the kernel is entered at the loaded entry point with the
  address of a \<open>boot_info_t\<close> from which the kernel reads back exactly what was collected: the
  graphics mode, the serial port that \<open>find_uart\<close> found, the memory map of the last
  \<open>GetMemoryMap\<close> call, whose key was used to leave the firmware. No byte outside the structure and
  the memory map buffer has changed.\<close>

theorem boot_info_handed_over:
  assumes "lib_ok api"
    and "AllocatePool api sizeof_boot_info_t (fw s) = (st0, info, w0)"
    and "LocateGraphics api w0 = (st1, g, w1)" and "\<not> EFI_ERROR api st1"
    and "GetMemoryMap api 0 0 w1 = (m1, bs1, w2)"
    and "AllocatePool api (mm_size m1 + mm_desc_size m1 * 8) w2 = (st2, mmap, w3)"
    and "GetMemoryMap api (mm_size m1 + mm_desc_size m1 * 8) mmap w3 = (m2, bs, w4)"
    and "\<And>k. k < length bs \<Longrightarrow> \<not> within (mmap + of_nat k) info sizeof_boot_info_t"
    and "current_el api = 2" and "ExitBootServices api (mm_key m2) w4 = (st3, w5)" and "\<not> EFI_ERROR api st3"
  shows "\<exists>s'. boot_kernel api junk e b s = (Jumps e info b, s') \<and> fw s' = w5 \<and>
    read_boot_info (pm s') info =
      \<lparr>bi_fb = \<lparr>framebuffer = FrameBufferBase g, fb_width = HorizontalResolution g, fb_height = VerticalResolution g,
         fb_pitch = PixelsPerScanLine g, fb_pixel_format = PixelFormat g\<rparr>,
       bi_serial = fst (find_uart api (junk_model junk) (s\<lparr>pm := store_fb info g (set_bytes info sizeof_boot_info_t 0 (pm s))\<rparr>)),
       bi_mmap = \<lparr>memory_map = mmap, memory_map_size = mm_size m2, memory_map_descriptor_size = mm_desc_size m2,
         memory_map_version = mm_desc_ver m2\<rparr>\<rparr> \<and>
    (\<forall>a. \<not> within a info sizeof_boot_info_t \<longrightarrow> (\<forall>k < length bs. a \<noteq> mmap + of_nat k) \<longrightarrow> pm s' a = pm s a)"
  by (rule boot_kernel_jumps[OF assms])

theorem boot_info_handed_over_witness:
  "\<exists>s'. boot_kernel demo_api \<lparr>junk_entry = 0, junk_base = 0, junk_model = 9\<rparr> 0x1000 0x2000 demo_state = (Jumps 0x1000 0x10000 0x2000, s') \<and>
    fb_width (bi_fb (read_boot_info (pm s') 0x10000)) = 1024 \<and> memory_map (bi_mmap (read_boot_info (pm s') 0x10000)) = 0x20000"
proof -
  let ?g = "\<lparr>FrameBufferBase = 0x80000000, HorizontalResolution = 1024, VerticalResolution = 768, PixelsPerScanLine = 1024, PixelFormat = 1\<rparr>"
  let ?m = "\<lparr>mm_size = 96, mm_key = 7, mm_desc_size = 48, mm_desc_ver = 1\<rparr>"
  have calls: "AllocatePool demo_api sizeof_boot_info_t (fw demo_state) = (0, 0x10000, 0x20000)"
    "LocateGraphics demo_api 0x20000 = (0, ?g, 0x20000)" "\<not> EFI_ERROR demo_api 0" "GetMemoryMap demo_api n p 0x20000 = (?m, [], 0x20000)"
    "GetMemoryMap demo_api n p 0x30000 = (?m, [], 0x30000)"
    "AllocatePool demo_api n 0x20000 = (0, 0x20000, 0x30000)" "current_el demo_api = 2" "ExitBootServices demo_api k 0x30000 = (0, 0x30000)" for n p k
    by (simp_all add: demo_api_def demo_state_def)
  show ?thesis
    using boot_info_handed_over[OF demo_lib calls(1,2,3,4,6,5) _ calls(7,8,3), of "\<lparr>junk_entry = 0, junk_base = 0, junk_model = 9\<rparr>" "0x1000" "0x2000"]
    by auto
qed

text \<open>The kernel is only entered from EL2: at any other exception level \<open>efi_main\<close>, after
  loading the kernel, returns \<open>EFI_UNSUPPORTED\<close>.\<close>

theorem no_jump_below_el2:
  assumes "current_el api \<noteq> 2"
  shows "fst (boot_kernel api junk e b s) = Returns (EFI_UNSUPPORTED api)"
  using leave_firmware_low_el[OF assms] by (simp add: boot_kernel_def Let_def split: prod.split)

theorem no_jump_below_el2_witness:
  "fst (boot_kernel (demo_api\<lparr>current_el := 1\<rparr>) \<lparr>junk_entry = 0, junk_base = 0, junk_model = 9\<rparr> 0x1000 0x2000 demo_state) =
    Returns 0x8000000000000003"
  using no_jump_below_el2[of "demo_api\<lparr>current_el := 1\<rparr>" "\<lparr>junk_entry = 0, junk_base = 0, junk_model = 9\<rparr>" "0x1000" "0x2000" demo_state]
  by (simp add: demo_api_def)

text \<open>C32: when loading fails, \<open>efi_main\<close> returns the content of a variable that was never set
  instead of the status of the failure.\<close>

theorem load_failure_returns_junk:
  assumes "LocateFileSystem api (fw s) = (st1, w1)" and "\<not> EFI_ERROR api st1"
    and "OpenKernel api w1 = (st2, w2)" and "\<not> EFI_ERROR api st2"
    and "load_elf api (s\<lparr>fw := w2\<rparr>) = Some (Failed st, s')" and "EFI_ERROR api st"
  shows "efi_main api junk s = Some (Returns (junk_entry junk), s')"
  by (rule efi_main_load_failed[OF assms])

theorem load_failure_returns_junk_witness:
  "\<exists>s'. efi_main (demo_api\<lparr>ReadFile := \<lambda>n w. (0x8000000000000007, [], w)\<rparr>) \<lparr>junk_entry = 0x1234, junk_base = 0, junk_model = 9\<rparr> demo_state =
    Some (Returns 0x1234, s')"
proof -
  let ?api = "demo_api\<lparr>ReadFile := \<lambda>n w. (0x8000000000000007, [], w)\<rparr>"
  have err: "EFI_ERROR ?api 0x8000000000000007" by (simp add: demo_api_def)
  obtain s' where "load_elf ?api (demo_state\<lparr>fw := 0x10000\<rparr>) = Some (Failed 0x8000000000000007, s')"
    using err by (simp add: load_elf_def demo_api_def demo_state_def Let_def)
  from load_failure_returns_junk[of ?api demo_state 0 "0x10000" 0 "0x10000", OF _ _ _ _ this err] show ?thesis
    by (simp add: demo_api_def demo_state_def)
qed

end
