(* ===== verification/Xdr.thy ===== *)
theory Xdr
  imports Prelude
begin

text \<open>
  The frame of the generated NFSv4 codec (\<open>src/target/nfs4/prot_xdr.c\<close>). Every filter of
  that file has the shape \<open>bool_t xdr_T (XDR *xdrs, T *objp)\<close> and serves both directions:
  on an encoding stream it appends \<open>*objp\<close>, on a decoding stream it overwrites
  \<open>*objp\<close>. Here a filter maps a stream and an object to the returned truth value, the
  stream and the object after the call.

  The primitive filters belong to the RPC library (libtirpc), not to this repository; they are the
  fields of the parameter \<open>xdrlib\<close>. What the codec relies on is their documented behaviour
  (RFC 4506), collected in \<open>xdr_lib_ok\<close>. The record \<open>xformat\<close> is the
  specification language: which values of a type are well formed, which bytes they become on the
  wire, which objects are ready to be decoded into, and which objects mean the same value (for a
  union: the same discriminant and the same selected member).
\<close>

section \<open>Filters\<close>

type_synonym ('x, 'a) xdrproc = "'x \<Rightarrow> 'a \<Rightarrow> bool \<times> 'x \<times> 'a"

text \<open>
  The primitives that \<open>prot_xdr.c\<close> calls. A counted buffer (\<open>xxx_len\<close>,
  \<open>xxx_val\<close>), a fixed \<open>char[n]\<close> and a C string are lists of bytes; a counted
  buffer whose pointer is \<open>NULL\<close> is the empty list. \<open>bool_t\<close>, \<open>int\<close>,
  \<open>u_int\<close> and the enums are words of 32 bits.
\<close>

record 'x xdrlib =
  xdr_enum :: "('x, u32) xdrproc"
  xdr_bool :: "('x, u32) xdrproc"
  xdr_u_int :: "('x, u32) xdrproc"
  xdr_uint32_t :: "('x, u32) xdrproc"
  xdr_uint64_t :: "('x, u64) xdrproc"
  xdr_int64_t :: "('x, u64) xdrproc"
  xdr_opaque :: "u32 \<Rightarrow> ('x, u8 list) xdrproc"
  xdr_bytes :: "u32 \<Rightarrow> ('x, u8 list) xdrproc"
  xdr_string :: "u32 \<Rightarrow> ('x, u8 list) xdrproc"
  xdr_array_u32 :: "u32 \<Rightarrow> ('x, u32) xdrproc \<Rightarrow> ('x, u32 list) xdrproc"

text \<open>The filter applied to \<open>&objp->field\<close>; the statement
  \<open>if (!f) return FALSE;\<close> before the rest of a body.\<close>

definition on :: "('a \<Rightarrow> 'b) \<Rightarrow> (('b \<Rightarrow> 'b) \<Rightarrow> 'a \<Rightarrow> 'a) \<Rightarrow> ('x, 'b) xdrproc \<Rightarrow> ('x, 'a) xdrproc" where
  "on get upd f = (\<lambda>x p. let (ok, x', v) = f x (get p) in (ok, x', upd (\<lambda>_. v) p))"

definition seq :: "('x, 'a) xdrproc \<Rightarrow> ('x, 'a) xdrproc \<Rightarrow> ('x, 'a) xdrproc" where
  "seq f g = (\<lambda>x p. let (ok, x', p') = f x p in if ok then g x' p' else (False, x', p'))"

text \<open>An arm of a \<open>switch\<close>, an empty arm, and \<open>default: return FALSE;\<close>.\<close>

definition switch :: "('a \<Rightarrow> bool) \<Rightarrow> ('x, 'a) xdrproc \<Rightarrow> ('x, 'a) xdrproc \<Rightarrow> ('x, 'a) xdrproc" where
  "switch c f g = (\<lambda>x p. if c p then f x p else g x p)"

definition pass :: "('x, 'a) xdrproc" where
  "pass = (\<lambda>x p. (True, x, p))"

definition refuse :: "('x, 'a) xdrproc" where
  "refuse = (\<lambda>x p. (False, x, p))"

section \<open>Formats\<close>

record 'a xformat =
  valid :: "'a \<Rightarrow> bool"
  fresh :: "'a \<Rightarrow> bool"
  wire :: "'a \<Rightarrow> u8 list"
  same :: "'a \<Rightarrow> 'a \<Rightarrow> bool"

definition be32 :: "u32 \<Rightarrow> u8 list" where
  "be32 v = [ucast (drop_bit 24 v), ucast (drop_bit 16 v), ucast (drop_bit 8 v), ucast v]"

definition be64 :: "u64 \<Rightarrow> u8 list" where
  "be64 v = be32 (ucast (drop_bit 32 v)) @ be32 (ucast v)"

definition padded :: "u8 list \<Rightarrow> u8 list" where
  "padded bs = bs @ replicate ((4 - length bs mod 4) mod 4) 0"

definition u32_format :: "u32 xformat" where
  "u32_format = \<lparr>valid = (\<lambda>_. True), fresh = (\<lambda>_. True), wire = be32, same = (=)\<rparr>"

definition bool_format :: "u32 xformat" where
  "bool_format = \<lparr>valid = (\<lambda>v. v = 0 \<or> v = 1), fresh = (\<lambda>_. True), wire = be32, same = (=)\<rparr>"

definition u64_format :: "u64 xformat" where
  "u64_format = \<lparr>valid = (\<lambda>_. True), fresh = (\<lambda>_. True), wire = be64, same = (=)\<rparr>"

definition opaque_format :: "u32 \<Rightarrow> u8 list xformat" where
  "opaque_format n = \<lparr>valid = (\<lambda>v. length v = unat n), fresh = (\<lambda>v. length v = unat n), wire = padded, same = (=)\<rparr>"

definition bytes_format :: "u32 \<Rightarrow> u8 list xformat" where
  "bytes_format m = \<lparr>valid = (\<lambda>v. length v \<le> unat m), fresh = (\<lambda>v. v = []),
     wire = (\<lambda>v. be32 (of_nat (length v)) @ padded v), same = (=)\<rparr>"

definition string_format :: "u32 \<Rightarrow> u8 list xformat" where
  "string_format m = (bytes_format m)\<lparr>valid := (\<lambda>v. length v \<le> unat m \<and> 0 \<notin> set v)\<rparr>"

definition array_format :: "u32 \<Rightarrow> 'a xformat \<Rightarrow> 'a list xformat" where
  "array_format m F = \<lparr>valid = (\<lambda>v. length v \<le> unat m \<and> list_all (valid F) v), fresh = (\<lambda>v. v = []),
     wire = (\<lambda>v. be32 (of_nat (length v)) @ concat (map (wire F) v)), same = list_all2 (same F)\<rparr>"

definition pointer_format :: "'a xformat \<Rightarrow> 'a option xformat" where
  "pointer_format F = \<lparr>valid = case_option True (valid F), fresh = (\<lambda>w. w = None),
     wire = case_option (be32 0) (\<lambda>v. be32 1 @ wire F v), same = rel_option (same F)\<rparr>"

text \<open>A member of a struct, two members after each other, the arm that a discriminant selects, an
  arm without data, and a discriminant that no arm accepts.\<close>

definition fld :: "('a \<Rightarrow> 'b) \<Rightarrow> 'b xformat \<Rightarrow> 'a xformat" where
  "fld get F = \<lparr>valid = (\<lambda>v. valid F (get v)), fresh = (\<lambda>w. fresh F (get w)), wire = (\<lambda>v. wire F (get v)),
     same = (\<lambda>u v. same F (get u) (get v))\<rparr>"

definition both :: "'a xformat \<Rightarrow> 'a xformat \<Rightarrow> 'a xformat" where
  "both F G = \<lparr>valid = (\<lambda>v. valid F v \<and> valid G v), fresh = (\<lambda>w. fresh F w \<and> fresh G w), wire = (\<lambda>v. wire F v @ wire G v),
     same = (\<lambda>u v. same F u v \<and> same G u v)\<rparr>"

definition arm :: "('a \<Rightarrow> bool) \<Rightarrow> 'a xformat \<Rightarrow> 'a xformat \<Rightarrow> 'a xformat" where
  "arm c F G = \<lparr>valid = (\<lambda>v. if c v then valid F v else valid G v), fresh = (\<lambda>w. fresh F w \<and> fresh G w),
     wire = (\<lambda>v. if c v then wire F v else wire G v), same = (\<lambda>u v. if c v then same F u v else same G u v)\<rparr>"

definition void :: "'a xformat" where
  "void = \<lparr>valid = (\<lambda>_. True), fresh = (\<lambda>_. True), wire = (\<lambda>_. []), same = (\<lambda>_ _. True)\<rparr>"

definition never :: "'a xformat" where
  "never = \<lparr>valid = (\<lambda>_. False), fresh = (\<lambda>_. True), wire = (\<lambda>_. []), same = (\<lambda>_ _. True)\<rparr>"

lemma fld_simps [simp]: "valid (fld g F) v = valid F (g v)" "fresh (fld g F) w = fresh F (g w)" "wire (fld g F) v = wire F (g v)"
  "same (fld g F) u v = same F (g u) (g v)"
  by (simp_all add: fld_def)

lemma both_simps [simp]: "valid (both F G) v \<longleftrightarrow> valid F v \<and> valid G v" "fresh (both F G) w \<longleftrightarrow> fresh F w \<and> fresh G w"
  "wire (both F G) v = wire F v @ wire G v" "same (both F G) u v \<longleftrightarrow> same F u v \<and> same G u v"
  by (simp_all add: both_def)

lemma arm_simps [simp]: "valid (arm c F G) v = (if c v then valid F v else valid G v)" "fresh (arm c F G) w \<longleftrightarrow> fresh F w \<and> fresh G w"
  "wire (arm c F G) v = (if c v then wire F v else wire G v)" "same (arm c F G) u v = (if c v then same F u v else same G u v)"
  by (simp_all add: arm_def)

lemma end_simps [simp]: "valid void v" "fresh void w" "wire void v = []" "same void u v" "\<not> valid never v" "fresh never w"
  by (simp_all add: void_def never_def)

lemmas base_formats = u32_format_def bool_format_def u64_format_def opaque_format_def bytes_format_def string_format_def array_format_def

lemma fresh_base [simp]: "fresh u32_format w" "fresh bool_format w" "fresh u64_format d" "fresh (bytes_format m) bs = (bs = [])"
  "fresh (array_format m F) xs = (xs = [])" "fresh (pointer_format F) q = (q = None)"
  by (simp_all add: base_formats pointer_format_def)

lemma same_base [simp]: "same u32_format = (=)" "same bool_format = (=)" "same u64_format = (=)" "same (bytes_format m) = (=)"
  "same (opaque_format n) = (=)" "same (string_format m) = (=)" "same (array_format m F) = list_all2 (same F)"
  "same (pointer_format F) = rel_option (same F)"
  by (simp_all add: base_formats pointer_format_def)

section \<open>Filters that implement a format\<close>

text \<open>
  What can be observed of a stream: its direction, the bytes written so far and the room left for
  more, the bytes not yet read.
\<close>

record 'x xview =
  encoding :: "'x \<Rightarrow> bool"
  decoding :: "'x \<Rightarrow> bool"
  written :: "'x \<Rightarrow> u8 list"
  room :: "'x \<Rightarrow> nat"
  unread :: "'x \<Rightarrow> u8 list"

definition encodes :: "'x xview \<Rightarrow> ('x, 'a) xdrproc \<Rightarrow> 'a xformat \<Rightarrow> bool" where
  "encodes V f F \<longleftrightarrow> (\<forall>x v. encoding V x \<longrightarrow> valid F v \<longrightarrow> length (wire F v) \<le> room V x \<longrightarrow>
    (\<exists>x'. f x v = (True, x', v) \<and> encoding V x' \<and> written V x' = written V x @ wire F v \<and>
      room V x' = room V x - length (wire F v)))"

text \<open>Decoding: \<open>K\<close> is what is already known of the object when the filter starts (the
  discriminant of a union), \<open>A\<close> bounds what the filter changes of it.\<close>

definition decodes :: "'x xview \<Rightarrow> ('a \<Rightarrow> 'a \<Rightarrow> bool) \<Rightarrow> ('x, 'a) xdrproc \<Rightarrow> 'a xformat \<Rightarrow> ('a \<Rightarrow> 'a \<Rightarrow> bool) \<Rightarrow> bool" where
  "decodes V K f F A \<longleftrightarrow> (\<forall>y w v r. decoding V y \<longrightarrow> valid F v \<longrightarrow> fresh F w \<longrightarrow> K w v \<longrightarrow> unread V y = wire F v @ r \<longrightarrow>
    (\<exists>y' u. f y w = (True, y', u) \<and> decoding V y' \<and> unread V y' = r \<and> same F u v \<and> A w u))"

definition codecK :: "'x xview \<Rightarrow> ('a \<Rightarrow> 'a \<Rightarrow> bool) \<Rightarrow> ('x, 'a) xdrproc \<Rightarrow> 'a xformat \<Rightarrow> ('a \<Rightarrow> 'a \<Rightarrow> bool) \<Rightarrow> bool" where
  "codecK V K f F A \<longleftrightarrow> encodes V f F \<and> decodes V K f F A"

definition codec :: "'x xview \<Rightarrow> ('x, 'a) xdrproc \<Rightarrow> 'a xformat \<Rightarrow> bool" where
  "codec V f F \<longleftrightarrow> encodes V f F \<and> decodes V (\<lambda>_ _. True) f F (\<lambda>_ _. True)"

definition field_lens :: "('a \<Rightarrow> 'b) \<Rightarrow> (('b \<Rightarrow> 'b) \<Rightarrow> 'a \<Rightarrow> 'a) \<Rightarrow> bool" where
  "field_lens get upd \<longleftrightarrow> (\<forall>p. upd (\<lambda>_. get p) p = p) \<and> (\<forall>p y. get (upd (\<lambda>_. y) p) = y)"

definition sets :: "(('b \<Rightarrow> 'b) \<Rightarrow> 'a \<Rightarrow> 'a) \<Rightarrow> 'a \<Rightarrow> 'a \<Rightarrow> bool" where
  "sets upd w u \<longleftrightarrow> (\<exists>y. u = upd (\<lambda>_. y) w)"

declare field_lens_def [simp] sets_def [simp]

lemma encodesD:
  assumes "encodes V f F" "encoding V x" "valid F v" "length (wire F v) \<le> room V x"
  obtains x' where "f x v = (True, x', v)" "encoding V x'" "written V x' = written V x @ wire F v"
    "room V x' = room V x - length (wire F v)"
  using assms unfolding encodes_def by metis

lemma decodesD:
  assumes "decodes V K f F A" "decoding V y" "valid F v" "fresh F w" "K w v" "unread V y = wire F v @ r"
  obtains y' u where "f y w = (True, y', u)" "decoding V y'" "unread V y' = r" "same F u v" "A w u"
  using assms unfolding decodes_def by metis

lemma codec_on:
  assumes "codec V f F" "field_lens get upd"
  shows "codecK V K (on get upd f) (fld get F) (sets upd)"
proof -
  have "encodes V (on get upd f) (fld get F)"
    unfolding encodes_def
  proof (intro allI impI)
    fix x v assume "encoding V x" "valid (fld get F) v" "length (wire (fld get F) v) \<le> room V x"
    then obtain x' where "f x (get v) = (True, x', get v)" "encoding V x'" "written V x' = written V x @ wire F (get v)"
      "room V x' = room V x - length (wire F (get v))"
      using assms(1) by (auto simp: codec_def elim!: encodesD)
    then show "\<exists>x'. on get upd f x v = (True, x', v) \<and> encoding V x' \<and> written V x' = written V x @ wire (fld get F) v \<and>
      room V x' = room V x - length (wire (fld get F) v)"
      using assms(2) by (simp add: on_def field_lens_def)
  qed
  moreover have "decodes V K (on get upd f) (fld get F) (sets upd)"
    unfolding decodes_def
  proof (intro allI impI)
    fix y w v r assume "decoding V y" "valid (fld get F) v" "fresh (fld get F) w" "unread V y = wire (fld get F) v @ r"
    then obtain y' u where "f y (get w) = (True, y', u)" "decoding V y'" "unread V y' = r" "same F u (get v)"
      using assms(1) by (auto simp: codec_def elim!: decodesD)
    then show "\<exists>y' u. on get upd f y w = (True, y', u) \<and> decoding V y' \<and> unread V y' = r \<and> same (fld get F) u v \<and> sets upd w u"
      using assms(2) by (auto simp: on_def field_lens_def sets_def)
  qed
  ultimately show ?thesis by (simp add: codecK_def)
qed

lemma codec_seqK:
  assumes f: "codecK V K f F A" and g: "codecK V K' g G B"
    and known: "\<And>w v u. K w v \<Longrightarrow> same F u v \<Longrightarrow> A w u \<Longrightarrow> K' u v"
    and fresh: "\<And>w u. fresh G w \<Longrightarrow> A w u \<Longrightarrow> fresh G u"
    and kept: "\<And>u t v. same F u v \<Longrightarrow> B u t \<Longrightarrow> same F t v"
  shows "codecK V K (seq f g) (both F G) (A OO B)"
proof -
  have "encodes V (seq f g) (both F G)"
    unfolding encodes_def
  proof (intro allI impI)
    fix x v assume a: "encoding V x" "valid (both F G) v" "length (wire (both F G) v) \<le> room V x"
    then obtain x1 where 1: "f x v = (True, x1, v)" "encoding V x1" "written V x1 = written V x @ wire F v"
      "room V x1 = room V x - length (wire F v)"
      using f by (auto simp: codecK_def elim!: encodesD[of V f F x v])
    then have "length (wire G v) \<le> room V x1" using a(3) by simp
    then obtain x2 where "g x1 v = (True, x2, v)" "encoding V x2" "written V x2 = written V x1 @ wire G v"
      "room V x2 = room V x1 - length (wire G v)"
      using g a(2) 1(2) by (auto simp: codecK_def elim!: encodesD[of V g G x1 v])
    then show "\<exists>x'. seq f g x v = (True, x', v) \<and> encoding V x' \<and> written V x' = written V x @ wire (both F G) v \<and>
      room V x' = room V x - length (wire (both F G) v)"
      using 1 by (simp add: seq_def)
  qed
  moreover have "decodes V K (seq f g) (both F G) (A OO B)"
    unfolding decodes_def
  proof (intro allI impI)
    fix y w v r assume a: "decoding V y" "valid (both F G) v" "fresh (both F G) w" "K w v" "unread V y = wire (both F G) v @ r"
    have "decodes V K f F A" using f by (simp add: codecK_def)
    then obtain y1 u where 1: "f y w = (True, y1, u)" "decoding V y1" "unread V y1 = wire G v @ r" "same F u v" "A w u"
      using a by (auto elim!: decodesD[of V K f F A y v w "wire G v @ r"])
    have "decodes V K' g G B" using g by (simp add: codecK_def)
    then obtain y2 t where "g y1 u = (True, y2, t)" "decoding V y2" "unread V y2 = r" "same G t v" "B u t"
      using a 1 known fresh by (auto elim!: decodesD[of V K' g G B y1 v u r])
    then show "\<exists>y' u. seq f g y w = (True, y', u) \<and> decoding V y' \<and> unread V y' = r \<and> same (both F G) u v \<and> (A OO B) w u"
      using 1 kept by (auto simp: seq_def)
  qed
  ultimately show ?thesis by (simp add: codecK_def)
qed

lemma codec_on_arm:
  assumes "codec V f F" "field_lens get upd" "\<And>w y. A w (upd (\<lambda>_. y) w)"
  shows "codecK V K (on get upd f) (fld get F) A"
  using codec_on[OF assms(1,2), of K] assms(3) unfolding codecK_def decodes_def sets_def by metis

lemma codec_switch:
  assumes "codecK V K f F A" and "codecK V K g G A" and "\<And>w v. K w v \<Longrightarrow> c w = c v"
  shows "codecK V K (switch c f g) (arm c F G) A"
proof -
  have f: "encodes V f F" "decodes V K f F A" and g: "encodes V g G" "decodes V K g G A"
    using assms(1,2) by (simp_all add: codecK_def)
  have "encodes V (switch c f g) (arm c F G)"
    using f(1) g(1) unfolding encodes_def by (simp add: switch_def)
  moreover have "decodes V K (switch c f g) (arm c F G) A"
    unfolding decodes_def
  proof (intro allI impI)
    fix y w v r assume a: "decoding V y" "valid (arm c F G) v" "fresh (arm c F G) w" "K w v" "unread V y = wire (arm c F G) v @ r"
    then have c: "c w = c v" using assms(3) by blast
    show "\<exists>y' u. switch c f g y w = (True, y', u) \<and> decoding V y' \<and> unread V y' = r \<and> same (arm c F G) u v \<and> A w u"
    proof (cases "c v")
      case True
      then show ?thesis using a c by (auto simp: switch_def intro: decodesD[OF f(2), of y v w r])
    next
      case False
      then show ?thesis using a c by (auto simp: switch_def intro: decodesD[OF g(2), of y v w r])
    qed
  qed
  ultimately show ?thesis by (simp add: codecK_def)
qed

lemma codec_pass: "(\<And>w. A w w) \<Longrightarrow> codecK V K pass void A"
  by (auto simp: codecK_def encodes_def decodes_def pass_def)

lemma codec_refuse: "codecK V K refuse never A"
  by (simp add: codecK_def encodes_def decodes_def)

text \<open>The two shapes of the generated bodies: one member after another, and a discriminant before
  the member it selects.\<close>

lemma codec_seq:
  assumes "codecK V (\<lambda>_ _. True) f F A" and "codecK V (\<lambda>_ _. True) g G B"
    and "\<And>w u. fresh G w \<Longrightarrow> A w u \<Longrightarrow> fresh G u" and "\<And>u t v. same F u v \<Longrightarrow> B u t \<Longrightarrow> same F t v"
  shows "codecK V (\<lambda>_ _. True) (seq f g) (both F G) (A OO B)"
  by (rule codec_seqK[OF assms(1,2)]) (use assms(3,4) in auto)

lemma codec_union:
  assumes "codec V f F" and "field_lens d upd" and "\<And>a b. same F a b \<longleftrightarrow> a = b"
    and "codecK V (\<lambda>w v. d w = d v) (switch c g h) (arm c G H) (\<lambda>u t. d t = d u)"
    and "\<And>w y. fresh (arm c G H) w \<Longrightarrow> fresh (arm c G H) (upd (\<lambda>_. y) w)"
  shows "codecK V (\<lambda>_ _. True) (seq (on d upd f) (switch c g h)) (both (fld d F) (arm c G H)) (\<lambda>_ _. True)"
proof -
  have "codecK V (\<lambda>_ _. True) (seq (on d upd f) (switch c g h)) (both (fld d F) (arm c G H)) (sets upd OO (\<lambda>u t. d t = d u))"
    by (rule codec_seqK[OF codec_on[OF assms(1,2)] assms(4)]) (use assms(3,5) in \<open>auto simp: sets_def simp del: arm_simps\<close>)
  then show ?thesis unfolding codecK_def decodes_def by blast
qed

lemma codecI: "codecK V (\<lambda>_ _. True) f F A \<Longrightarrow> codec V f F"
  unfolding codecK_def codec_def decodes_def by blast

lemmas codec_rules = codec_union codec_seq codec_switch codec_on codec_on_arm codec_pass codec_refuse

section \<open>What the primitives promise\<close>

text \<open>
  \<open>xdr_array\<close> applies the element filter to each element; when decoding it allocates the
  elements and clears them first, so the element filter starts from the cleared element
  \<open>z\<close>.
\<close>

definition xdr_array_ok :: "'x xview \<Rightarrow> 'a \<Rightarrow> (u32 \<Rightarrow> ('x, 'a) xdrproc \<Rightarrow> ('x, 'a list) xdrproc) \<Rightarrow> bool" where
  "xdr_array_ok V z arr \<longleftrightarrow> (\<forall>m f F. codec V f F \<longrightarrow> fresh F z \<longrightarrow> codec V (arr m f) (array_format m F))"

definition xdr_lib_ok :: "'x xdrlib \<Rightarrow> 'x xview \<Rightarrow> bool" where
  "xdr_lib_ok L V \<longleftrightarrow> codec V (xdr_enum L) u32_format \<and> codec V (xdr_bool L) bool_format \<and> codec V (xdr_u_int L) u32_format \<and>
    codec V (xdr_uint32_t L) u32_format \<and> codec V (xdr_uint64_t L) u64_format \<and> codec V (xdr_int64_t L) u64_format \<and>
    (\<forall>n. codec V (xdr_opaque L n) (opaque_format n)) \<and> (\<forall>m. codec V (xdr_bytes L m) (bytes_format m)) \<and>
    (\<forall>m. codec V (xdr_string L m) (string_format m)) \<and> xdr_array_ok V 0 (xdr_array_u32 L)"

text \<open>A counted buffer never exceeds the size that the caller allows: \<open>xdr_bytes\<close> fails
  instead. (Stated on its own, since only the decoding of hostile input needs it.)\<close>

definition xdr_bytes_bounded :: "'x xdrlib \<Rightarrow> bool" where
  "xdr_bytes_bounded L \<longleftrightarrow> (\<forall>m x w x' u. xdr_bytes L m x w = (True, x', u) \<longrightarrow> length u \<le> unat m)"

named_theorems xdr_codecs \<open>filters that implement a format\<close>

lemma lib_codecs [xdr_codecs]:
  assumes "xdr_lib_ok L V"
  shows "codec V (xdr_enum L) u32_format" "codec V (xdr_bool L) bool_format" "codec V (xdr_u_int L) u32_format"
    "codec V (xdr_uint32_t L) u32_format" "codec V (xdr_uint64_t L) u64_format" "codec V (xdr_int64_t L) u64_format"
    "codec V (xdr_opaque L n) (opaque_format n)" "codec V (xdr_bytes L m) (bytes_format m)"
    "codec V (xdr_string L m) (string_format m)" "codec V (xdr_array_u32 L m (xdr_uint32_t L)) (array_format m u32_format)"
  using assms by (simp_all add: xdr_lib_ok_def xdr_array_ok_def u32_format_def)

lemma xdr_array_codec: "xdr_array_ok V z arr \<Longrightarrow> codec V f F \<Longrightarrow> fresh F z \<Longrightarrow> codec V (arr m f) (array_format m F)"
  by (simp add: xdr_array_ok_def)

text \<open>\<open>xdr_pointer\<close> writes whether there is an object and then the object. When decoding it
  allocates a cleared object \<open>z\<close> before it applies the filter.\<close>

definition xdr_pointer_ok :: "'x xview \<Rightarrow> 'a \<Rightarrow> (('x, 'a) xdrproc \<Rightarrow> ('x, 'a option) xdrproc) \<Rightarrow> bool" where
  "xdr_pointer_ok V z ptr \<longleftrightarrow> (\<forall>f F. codec V f F \<longrightarrow> fresh F z \<longrightarrow> codec V (ptr f) (pointer_format F))"

lemma xdr_pointer_codec: "xdr_pointer_ok V z ptr \<Longrightarrow> codec V f F \<Longrightarrow> fresh F z \<Longrightarrow> codec V (ptr f) (pointer_format F)"
  by (simp add: xdr_pointer_ok_def)

lemma codec_never: "codec V f never"
  by (simp add: codec_def encodes_def decodes_def)

text \<open>The laws together give the round trip through any two streams.\<close>

lemma codec_round_trip:
  assumes "codec V f F" "encoding V x" "valid F v" "length (wire F v) \<le> room V x"
  shows "\<exists>x'. f x v = (True, x', v) \<and> written V x' = written V x @ wire F v \<and>
    (\<forall>y w r. decoding V y \<and> fresh F w \<and> unread V y = wire F v @ r \<longrightarrow>
      (\<exists>y' u. f y w = (True, y', u) \<and> unread V y' = r \<and> same F u v))"
proof -
  have e: "encodes V f F" and d: "decodes V (\<lambda>_ _. True) f F (\<lambda>_ _. True)" using assms(1) by (simp_all add: codec_def)
  obtain x' where x': "f x v = (True, x', v)" "written V x' = written V x @ wire F v" using encodesD[OF e assms(2-4)] by metis
  have "\<exists>y' u. f y w = (True, y', u) \<and> unread V y' = r \<and> same F u v"
    if "decoding V y" "fresh F w" "unread V y = wire F v @ r" for y w r
    using decodesD[OF d that(1) assms(3) that(2) TrueI that(3)] by metis
  then show ?thesis using x' by blast
qed

end
