(* ===== verification/Nfs4Types.thy ===== *)
theory Nfs4Types
  imports Xdr
begin

text \<open>
  The basic types of the NFSv4 protocol: records for the structs of \<open>src/target/nfs4/prot.h\<close>, one
  format per struct of the protocol description \<open>prot.x\<close>, one filter per function of
  \<open>prot_xdr.c\<close>, and the proof that each filter implements its format. A union is a record
  with its discriminant and one field per member: a filter reads and writes only the member that the
  discriminant selects, so the overlap of the members is never observed.
\<close>

section \<open>Constants\<close>

definition NFS4_FHSIZE :: u32 where
  "NFS4_FHSIZE = 128"

definition NFS4_VERIFIER_SIZE :: u32 where
  "NFS4_VERIFIER_SIZE = 8"

definition NFS4_OK :: u32 where
  "NFS4_OK = 0"

definition SET_TO_CLIENT_TIME4 :: u32 where
  "SET_TO_CLIENT_TIME4 = 1"

definition NFS4_OTHER_SIZE :: u32 where
  "NFS4_OTHER_SIZE = 12"

definition NFS4_OPAQUE_LIMIT :: u32 where
  "NFS4_OPAQUE_LIMIT = 1024"

section \<open>Types, formats and filters\<close>

definition xdr_nfs_ftype4 :: "'x xdrlib \<Rightarrow> ('x, u32) xdrproc" where
  "xdr_nfs_ftype4 L = xdr_enum L"

definition xdr_nfsstat4 :: "'x xdrlib \<Rightarrow> ('x, u32) xdrproc" where
  "xdr_nfsstat4 L = xdr_enum L"

definition xdr_attrlist4 :: "'x xdrlib \<Rightarrow> ('x, u8 list) xdrproc" where
  "xdr_attrlist4 L = xdr_bytes L (- 1)"

definition xdr_bitmap4 :: "'x xdrlib \<Rightarrow> ('x, u32 list) xdrproc" where
  "xdr_bitmap4 L = xdr_array_u32 L (- 1) (xdr_uint32_t L)"

definition xdr_changeid4 :: "'x xdrlib \<Rightarrow> ('x, u64) xdrproc" where
  "xdr_changeid4 L = xdr_uint64_t L"

definition xdr_clientid4 :: "'x xdrlib \<Rightarrow> ('x, u64) xdrproc" where
  "xdr_clientid4 L = xdr_uint64_t L"

definition xdr_count4 :: "'x xdrlib \<Rightarrow> ('x, u32) xdrproc" where
  "xdr_count4 L = xdr_uint32_t L"

definition xdr_length4 :: "'x xdrlib \<Rightarrow> ('x, u64) xdrproc" where
  "xdr_length4 L = xdr_uint64_t L"

definition xdr_mode4 :: "'x xdrlib \<Rightarrow> ('x, u32) xdrproc" where
  "xdr_mode4 L = xdr_uint32_t L"

definition xdr_nfs_cookie4 :: "'x xdrlib \<Rightarrow> ('x, u64) xdrproc" where
  "xdr_nfs_cookie4 L = xdr_uint64_t L"

definition xdr_nfs_fh4 :: "'x xdrlib \<Rightarrow> ('x, u8 list) xdrproc" where
  "xdr_nfs_fh4 L = xdr_bytes L NFS4_FHSIZE"

definition xdr_nfs_lease4 :: "'x xdrlib \<Rightarrow> ('x, u32) xdrproc" where
  "xdr_nfs_lease4 L = xdr_uint32_t L"

definition xdr_offset4 :: "'x xdrlib \<Rightarrow> ('x, u64) xdrproc" where
  "xdr_offset4 L = xdr_uint64_t L"

definition xdr_qop4 :: "'x xdrlib \<Rightarrow> ('x, u32) xdrproc" where
  "xdr_qop4 L = xdr_uint32_t L"

definition xdr_sec_oid4 :: "'x xdrlib \<Rightarrow> ('x, u8 list) xdrproc" where
  "xdr_sec_oid4 L = xdr_bytes L (- 1)"

definition xdr_seqid4 :: "'x xdrlib \<Rightarrow> ('x, u32) xdrproc" where
  "xdr_seqid4 L = xdr_uint32_t L"

definition xdr_utf8string :: "'x xdrlib \<Rightarrow> ('x, u8 list) xdrproc" where
  "xdr_utf8string L = xdr_bytes L (- 1)"

definition xdr_utf8str_cis :: "'x xdrlib \<Rightarrow> ('x, u8 list) xdrproc" where
  "xdr_utf8str_cis L = xdr_utf8string L"

definition xdr_utf8str_cs :: "'x xdrlib \<Rightarrow> ('x, u8 list) xdrproc" where
  "xdr_utf8str_cs L = xdr_utf8string L"

definition xdr_utf8str_mixed :: "'x xdrlib \<Rightarrow> ('x, u8 list) xdrproc" where
  "xdr_utf8str_mixed L = xdr_utf8string L"

definition xdr_component4 :: "'x xdrlib \<Rightarrow> ('x, u8 list) xdrproc" where
  "xdr_component4 L = xdr_utf8str_cs L"

definition xdr_linktext4 :: "'x xdrlib \<Rightarrow> ('x, u8 list) xdrproc" where
  "xdr_linktext4 L = xdr_bytes L (- 1)"

definition xdr_ascii_REQUIRED4 :: "'x xdrlib \<Rightarrow> ('x, u8 list) xdrproc" where
  "xdr_ascii_REQUIRED4 L = xdr_utf8string L"

definition xdr_nfs_lockid4 :: "'x xdrlib \<Rightarrow> ('x, u64) xdrproc" where
  "xdr_nfs_lockid4 L = xdr_uint64_t L"

definition xdr_verifier4 :: "'x xdrlib \<Rightarrow> ('x, u8 list) xdrproc" where
  "xdr_verifier4 L = xdr_opaque L NFS4_VERIFIER_SIZE"

record nfstime4 =
  nfstime4_seconds :: u64
  nfstime4_nseconds :: u32

definition nfstime4_format :: "nfstime4 xformat" where
  "nfstime4_format =
     both (fld nfstime4_seconds u64_format) (
     fld nfstime4_nseconds u32_format)"

definition xdr_nfstime4 :: "'x xdrlib \<Rightarrow> ('x, nfstime4) xdrproc" where
  "xdr_nfstime4 L =
     seq (on nfstime4_seconds nfstime4_seconds_update (xdr_int64_t L)) (
     on nfstime4_nseconds nfstime4_nseconds_update (xdr_uint32_t L))"

definition xdr_time_how4 :: "'x xdrlib \<Rightarrow> ('x, u32) xdrproc" where
  "xdr_time_how4 L = xdr_enum L"

record settime4 =
  settime4_set_it :: u32
  settime4_time :: nfstime4

definition settime4_format :: "settime4 xformat" where
  "settime4_format =
     both (fld settime4_set_it u32_format) (
     arm (\<lambda>p. settime4_set_it p = SET_TO_CLIENT_TIME4) (fld settime4_time nfstime4_format) (
     void))"

definition xdr_settime4 :: "'x xdrlib \<Rightarrow> ('x, settime4) xdrproc" where
  "xdr_settime4 L =
     seq (on settime4_set_it settime4_set_it_update (xdr_time_how4 L)) (
     switch (\<lambda>p. settime4_set_it p = SET_TO_CLIENT_TIME4) (on settime4_time settime4_time_update (xdr_nfstime4 L)) (
     pass))"

record fsid4 =
  fsid4_major :: u64
  fsid4_minor :: u64

definition fsid4_format :: "fsid4 xformat" where
  "fsid4_format =
     both (fld fsid4_major u64_format) (
     fld fsid4_minor u64_format)"

definition xdr_fsid4 :: "'x xdrlib \<Rightarrow> ('x, fsid4) xdrproc" where
  "xdr_fsid4 L =
     seq (on fsid4_major fsid4_major_update (xdr_uint64_t L)) (
     on fsid4_minor fsid4_minor_update (xdr_uint64_t L))"

definition xdr_acetype4 :: "'x xdrlib \<Rightarrow> ('x, u32) xdrproc" where
  "xdr_acetype4 L = xdr_uint32_t L"

definition xdr_aceflag4 :: "'x xdrlib \<Rightarrow> ('x, u32) xdrproc" where
  "xdr_aceflag4 L = xdr_uint32_t L"

definition xdr_acemask4 :: "'x xdrlib \<Rightarrow> ('x, u32) xdrproc" where
  "xdr_acemask4 L = xdr_uint32_t L"

record nfsace4 =
  nfsace4_type :: u32
  nfsace4_flag :: u32
  nfsace4_access_mask :: u32
  nfsace4_who :: "u8 list"

definition nfsace4_format :: "nfsace4 xformat" where
  "nfsace4_format =
     both (fld nfsace4_type u32_format) (
     both (fld nfsace4_flag u32_format) (
     both (fld nfsace4_access_mask u32_format) (
     fld nfsace4_who (bytes_format (- 1)))))"

definition xdr_nfsace4 :: "'x xdrlib \<Rightarrow> ('x, nfsace4) xdrproc" where
  "xdr_nfsace4 L =
     seq (on nfsace4_type nfsace4_type_update (xdr_acetype4 L)) (
     seq (on nfsace4_flag nfsace4_flag_update (xdr_aceflag4 L)) (
     seq (on nfsace4_access_mask nfsace4_access_mask_update (xdr_acemask4 L)) (
     on nfsace4_who nfsace4_who_update (xdr_utf8str_mixed L))))"

record specdata4 =
  specdata4_specdata1 :: u32
  specdata4_specdata2 :: u32

definition specdata4_format :: "specdata4 xformat" where
  "specdata4_format =
     both (fld specdata4_specdata1 u32_format) (
     fld specdata4_specdata2 u32_format)"

definition xdr_specdata4 :: "'x xdrlib \<Rightarrow> ('x, specdata4) xdrproc" where
  "xdr_specdata4 L =
     seq (on specdata4_specdata1 specdata4_specdata1_update (xdr_uint32_t L)) (
     on specdata4_specdata2 specdata4_specdata2_update (xdr_uint32_t L))"

record fattr4 =
  fattr4_attrmask :: "u32 list"
  fattr4_attr_vals :: "u8 list"

definition fattr4_format :: "fattr4 xformat" where
  "fattr4_format =
     both (fld fattr4_attrmask (array_format (- 1) u32_format)) (
     fld fattr4_attr_vals (bytes_format (- 1)))"

definition xdr_fattr4 :: "'x xdrlib \<Rightarrow> ('x, fattr4) xdrproc" where
  "xdr_fattr4 L =
     seq (on fattr4_attrmask fattr4_attrmask_update (xdr_bitmap4 L)) (
     on fattr4_attr_vals fattr4_attr_vals_update (xdr_attrlist4 L))"

record change_info4 =
  change_info4_atomic :: u32
  change_info4_before :: u64
  change_info4_after :: u64

definition change_info4_format :: "change_info4 xformat" where
  "change_info4_format =
     both (fld change_info4_atomic bool_format) (
     both (fld change_info4_before u64_format) (
     fld change_info4_after u64_format))"

definition xdr_change_info4 :: "'x xdrlib \<Rightarrow> ('x, change_info4) xdrproc" where
  "xdr_change_info4 L =
     seq (on change_info4_atomic change_info4_atomic_update (xdr_bool L)) (
     seq (on change_info4_before change_info4_before_update (xdr_changeid4 L)) (
     on change_info4_after change_info4_after_update (xdr_changeid4 L)))"

record clientaddr4 =
  clientaddr4_r_netid :: "u8 list"
  clientaddr4_r_addr :: "u8 list"

definition clientaddr4_format :: "clientaddr4 xformat" where
  "clientaddr4_format =
     both (fld clientaddr4_r_netid (string_format (- 1))) (
     fld clientaddr4_r_addr (string_format (- 1)))"

definition xdr_clientaddr4 :: "'x xdrlib \<Rightarrow> ('x, clientaddr4) xdrproc" where
  "xdr_clientaddr4 L =
     seq (on clientaddr4_r_netid clientaddr4_r_netid_update (xdr_string L (- 1))) (
     on clientaddr4_r_addr clientaddr4_r_addr_update (xdr_string L (- 1)))"

record cb_client4 =
  cb_client4_cb_program :: u32
  cb_client4_cb_location :: clientaddr4

definition cb_client4_format :: "cb_client4 xformat" where
  "cb_client4_format =
     both (fld cb_client4_cb_program u32_format) (
     fld cb_client4_cb_location clientaddr4_format)"

definition xdr_cb_client4 :: "'x xdrlib \<Rightarrow> ('x, cb_client4) xdrproc" where
  "xdr_cb_client4 L =
     seq (on cb_client4_cb_program cb_client4_cb_program_update (xdr_u_int L)) (
     on cb_client4_cb_location cb_client4_cb_location_update (xdr_clientaddr4 L))"

record stateid4 =
  stateid4_seqid :: u32
  stateid4_other :: "u8 list"

definition stateid4_format :: "stateid4 xformat" where
  "stateid4_format =
     both (fld stateid4_seqid u32_format) (
     fld stateid4_other (opaque_format NFS4_OTHER_SIZE))"

definition xdr_stateid4 :: "'x xdrlib \<Rightarrow> ('x, stateid4) xdrproc" where
  "xdr_stateid4 L =
     seq (on stateid4_seqid stateid4_seqid_update (xdr_uint32_t L)) (
     on stateid4_other stateid4_other_update (xdr_opaque L NFS4_OTHER_SIZE))"

record nfs_client_id4 =
  nfs_client_id4_verifier :: "u8 list"
  nfs_client_id4_id :: "u8 list"

definition nfs_client_id4_format :: "nfs_client_id4 xformat" where
  "nfs_client_id4_format =
     both (fld nfs_client_id4_verifier (opaque_format NFS4_VERIFIER_SIZE)) (
     fld nfs_client_id4_id (bytes_format NFS4_OPAQUE_LIMIT))"

definition xdr_nfs_client_id4 :: "'x xdrlib \<Rightarrow> ('x, nfs_client_id4) xdrproc" where
  "xdr_nfs_client_id4 L =
     seq (on nfs_client_id4_verifier nfs_client_id4_verifier_update (xdr_verifier4 L)) (
     on nfs_client_id4_id nfs_client_id4_id_update (xdr_bytes L NFS4_OPAQUE_LIMIT))"

record open_owner4 =
  open_owner4_clientid :: u64
  open_owner4_owner :: "u8 list"

definition open_owner4_format :: "open_owner4 xformat" where
  "open_owner4_format =
     both (fld open_owner4_clientid u64_format) (
     fld open_owner4_owner (bytes_format NFS4_OPAQUE_LIMIT))"

definition xdr_open_owner4 :: "'x xdrlib \<Rightarrow> ('x, open_owner4) xdrproc" where
  "xdr_open_owner4 L =
     seq (on open_owner4_clientid open_owner4_clientid_update (xdr_clientid4 L)) (
     on open_owner4_owner open_owner4_owner_update (xdr_bytes L NFS4_OPAQUE_LIMIT))"

record lock_owner4 =
  lock_owner4_clientid :: u64
  lock_owner4_owner :: "u8 list"

definition lock_owner4_format :: "lock_owner4 xformat" where
  "lock_owner4_format =
     both (fld lock_owner4_clientid u64_format) (
     fld lock_owner4_owner (bytes_format NFS4_OPAQUE_LIMIT))"

definition xdr_lock_owner4 :: "'x xdrlib \<Rightarrow> ('x, lock_owner4) xdrproc" where
  "xdr_lock_owner4 L =
     seq (on lock_owner4_clientid lock_owner4_clientid_update (xdr_clientid4 L)) (
     on lock_owner4_owner lock_owner4_owner_update (xdr_bytes L NFS4_OPAQUE_LIMIT))"

definition xdr_nfs_lock_type4 :: "'x xdrlib \<Rightarrow> ('x, u32) xdrproc" where
  "xdr_nfs_lock_type4 L = xdr_enum L"

section \<open>The filters implement the formats\<close>

lemma nfs_ftype4_codec [xdr_codecs]: "xdr_lib_ok L V \<Longrightarrow> codec V (xdr_nfs_ftype4 L) u32_format"
  unfolding xdr_nfs_ftype4_def by (intro xdr_codecs)

lemma nfsstat4_codec [xdr_codecs]: "xdr_lib_ok L V \<Longrightarrow> codec V (xdr_nfsstat4 L) u32_format"
  unfolding xdr_nfsstat4_def by (intro xdr_codecs)

lemma attrlist4_codec [xdr_codecs]: "xdr_lib_ok L V \<Longrightarrow> codec V (xdr_attrlist4 L) (bytes_format (- 1))"
  unfolding xdr_attrlist4_def by (intro xdr_codecs)

lemma bitmap4_codec [xdr_codecs]: "xdr_lib_ok L V \<Longrightarrow> codec V (xdr_bitmap4 L) (array_format (- 1) u32_format)"
  unfolding xdr_bitmap4_def by (intro xdr_codecs)

lemma changeid4_codec [xdr_codecs]: "xdr_lib_ok L V \<Longrightarrow> codec V (xdr_changeid4 L) u64_format"
  unfolding xdr_changeid4_def by (intro xdr_codecs)

lemma clientid4_codec [xdr_codecs]: "xdr_lib_ok L V \<Longrightarrow> codec V (xdr_clientid4 L) u64_format"
  unfolding xdr_clientid4_def by (intro xdr_codecs)

lemma count4_codec [xdr_codecs]: "xdr_lib_ok L V \<Longrightarrow> codec V (xdr_count4 L) u32_format"
  unfolding xdr_count4_def by (intro xdr_codecs)

lemma length4_codec [xdr_codecs]: "xdr_lib_ok L V \<Longrightarrow> codec V (xdr_length4 L) u64_format"
  unfolding xdr_length4_def by (intro xdr_codecs)

lemma mode4_codec [xdr_codecs]: "xdr_lib_ok L V \<Longrightarrow> codec V (xdr_mode4 L) u32_format"
  unfolding xdr_mode4_def by (intro xdr_codecs)

lemma nfs_cookie4_codec [xdr_codecs]: "xdr_lib_ok L V \<Longrightarrow> codec V (xdr_nfs_cookie4 L) u64_format"
  unfolding xdr_nfs_cookie4_def by (intro xdr_codecs)

lemma nfs_fh4_codec [xdr_codecs]: "xdr_lib_ok L V \<Longrightarrow> codec V (xdr_nfs_fh4 L) (bytes_format NFS4_FHSIZE)"
  unfolding xdr_nfs_fh4_def by (intro xdr_codecs)

lemma nfs_lease4_codec [xdr_codecs]: "xdr_lib_ok L V \<Longrightarrow> codec V (xdr_nfs_lease4 L) u32_format"
  unfolding xdr_nfs_lease4_def by (intro xdr_codecs)

lemma offset4_codec [xdr_codecs]: "xdr_lib_ok L V \<Longrightarrow> codec V (xdr_offset4 L) u64_format"
  unfolding xdr_offset4_def by (intro xdr_codecs)

lemma qop4_codec [xdr_codecs]: "xdr_lib_ok L V \<Longrightarrow> codec V (xdr_qop4 L) u32_format"
  unfolding xdr_qop4_def by (intro xdr_codecs)

lemma sec_oid4_codec [xdr_codecs]: "xdr_lib_ok L V \<Longrightarrow> codec V (xdr_sec_oid4 L) (bytes_format (- 1))"
  unfolding xdr_sec_oid4_def by (intro xdr_codecs)

lemma seqid4_codec [xdr_codecs]: "xdr_lib_ok L V \<Longrightarrow> codec V (xdr_seqid4 L) u32_format"
  unfolding xdr_seqid4_def by (intro xdr_codecs)

lemma utf8string_codec [xdr_codecs]: "xdr_lib_ok L V \<Longrightarrow> codec V (xdr_utf8string L) (bytes_format (- 1))"
  unfolding xdr_utf8string_def by (intro xdr_codecs)

lemma utf8str_cis_codec [xdr_codecs]: "xdr_lib_ok L V \<Longrightarrow> codec V (xdr_utf8str_cis L) (bytes_format (- 1))"
  unfolding xdr_utf8str_cis_def by (intro xdr_codecs)

lemma utf8str_cs_codec [xdr_codecs]: "xdr_lib_ok L V \<Longrightarrow> codec V (xdr_utf8str_cs L) (bytes_format (- 1))"
  unfolding xdr_utf8str_cs_def by (intro xdr_codecs)

lemma utf8str_mixed_codec [xdr_codecs]: "xdr_lib_ok L V \<Longrightarrow> codec V (xdr_utf8str_mixed L) (bytes_format (- 1))"
  unfolding xdr_utf8str_mixed_def by (intro xdr_codecs)

lemma component4_codec [xdr_codecs]: "xdr_lib_ok L V \<Longrightarrow> codec V (xdr_component4 L) (bytes_format (- 1))"
  unfolding xdr_component4_def by (intro xdr_codecs)

lemma linktext4_codec [xdr_codecs]: "xdr_lib_ok L V \<Longrightarrow> codec V (xdr_linktext4 L) (bytes_format (- 1))"
  unfolding xdr_linktext4_def by (intro xdr_codecs)

lemma ascii_REQUIRED4_codec [xdr_codecs]: "xdr_lib_ok L V \<Longrightarrow> codec V (xdr_ascii_REQUIRED4 L) (bytes_format (- 1))"
  unfolding xdr_ascii_REQUIRED4_def by (intro xdr_codecs)

lemma nfs_lockid4_codec [xdr_codecs]: "xdr_lib_ok L V \<Longrightarrow> codec V (xdr_nfs_lockid4 L) u64_format"
  unfolding xdr_nfs_lockid4_def by (intro xdr_codecs)

lemma verifier4_codec [xdr_codecs]: "xdr_lib_ok L V \<Longrightarrow> codec V (xdr_verifier4 L) (opaque_format NFS4_VERIFIER_SIZE)"
  unfolding xdr_verifier4_def by (intro xdr_codecs)

lemma nfstime4_codec [xdr_codecs]: "xdr_lib_ok L V \<Longrightarrow> codec V (xdr_nfstime4 L) nfstime4_format"
  unfolding xdr_nfstime4_def nfstime4_format_def by (rule codecI, (rule codec_rules xdr_codecs | assumption | (auto)[1])+)

lemma time_how4_codec [xdr_codecs]: "xdr_lib_ok L V \<Longrightarrow> codec V (xdr_time_how4 L) u32_format"
  unfolding xdr_time_how4_def by (intro xdr_codecs)

lemma settime4_codec [xdr_codecs]: "xdr_lib_ok L V \<Longrightarrow> codec V (xdr_settime4 L) settime4_format"
  unfolding xdr_settime4_def settime4_format_def by (rule codecI, (rule codec_rules xdr_codecs | assumption | (auto)[1])+)

lemma fsid4_codec [xdr_codecs]: "xdr_lib_ok L V \<Longrightarrow> codec V (xdr_fsid4 L) fsid4_format"
  unfolding xdr_fsid4_def fsid4_format_def by (rule codecI, (rule codec_rules xdr_codecs | assumption | (auto)[1])+)

lemma acetype4_codec [xdr_codecs]: "xdr_lib_ok L V \<Longrightarrow> codec V (xdr_acetype4 L) u32_format"
  unfolding xdr_acetype4_def by (intro xdr_codecs)

lemma aceflag4_codec [xdr_codecs]: "xdr_lib_ok L V \<Longrightarrow> codec V (xdr_aceflag4 L) u32_format"
  unfolding xdr_aceflag4_def by (intro xdr_codecs)

lemma acemask4_codec [xdr_codecs]: "xdr_lib_ok L V \<Longrightarrow> codec V (xdr_acemask4 L) u32_format"
  unfolding xdr_acemask4_def by (intro xdr_codecs)

lemma nfsace4_codec [xdr_codecs]: "xdr_lib_ok L V \<Longrightarrow> codec V (xdr_nfsace4 L) nfsace4_format"
  unfolding xdr_nfsace4_def nfsace4_format_def by (rule codecI, (rule codec_rules xdr_codecs | assumption | (auto)[1])+)

lemma specdata4_codec [xdr_codecs]: "xdr_lib_ok L V \<Longrightarrow> codec V (xdr_specdata4 L) specdata4_format"
  unfolding xdr_specdata4_def specdata4_format_def by (rule codecI, (rule codec_rules xdr_codecs | assumption | (auto)[1])+)

lemma fattr4_codec [xdr_codecs]: "xdr_lib_ok L V \<Longrightarrow> codec V (xdr_fattr4 L) fattr4_format"
  unfolding xdr_fattr4_def fattr4_format_def by (rule codecI, (rule codec_rules xdr_codecs | assumption | (auto)[1])+)

lemma change_info4_codec [xdr_codecs]: "xdr_lib_ok L V \<Longrightarrow> codec V (xdr_change_info4 L) change_info4_format"
  unfolding xdr_change_info4_def change_info4_format_def by (rule codecI, (rule codec_rules xdr_codecs | assumption | (auto)[1])+)

lemma clientaddr4_codec [xdr_codecs]: "xdr_lib_ok L V \<Longrightarrow> codec V (xdr_clientaddr4 L) clientaddr4_format"
  unfolding xdr_clientaddr4_def clientaddr4_format_def by (rule codecI, (rule codec_rules xdr_codecs | assumption | (auto)[1])+)

lemma cb_client4_codec [xdr_codecs]: "xdr_lib_ok L V \<Longrightarrow> codec V (xdr_cb_client4 L) cb_client4_format"
  unfolding xdr_cb_client4_def cb_client4_format_def by (rule codecI, (rule codec_rules xdr_codecs | assumption | (auto)[1])+)

lemma stateid4_codec [xdr_codecs]: "xdr_lib_ok L V \<Longrightarrow> codec V (xdr_stateid4 L) stateid4_format"
  unfolding xdr_stateid4_def stateid4_format_def by (rule codecI, (rule codec_rules xdr_codecs | assumption | (auto)[1])+)

lemma nfs_client_id4_codec [xdr_codecs]: "xdr_lib_ok L V \<Longrightarrow> codec V (xdr_nfs_client_id4 L) nfs_client_id4_format"
  unfolding xdr_nfs_client_id4_def nfs_client_id4_format_def by (rule codecI, (rule codec_rules xdr_codecs | assumption | (auto)[1])+)

lemma open_owner4_codec [xdr_codecs]: "xdr_lib_ok L V \<Longrightarrow> codec V (xdr_open_owner4 L) open_owner4_format"
  unfolding xdr_open_owner4_def open_owner4_format_def by (rule codecI, (rule codec_rules xdr_codecs | assumption | (auto)[1])+)

lemma lock_owner4_codec [xdr_codecs]: "xdr_lib_ok L V \<Longrightarrow> codec V (xdr_lock_owner4 L) lock_owner4_format"
  unfolding xdr_lock_owner4_def lock_owner4_format_def by (rule codecI, (rule codec_rules xdr_codecs | assumption | (auto)[1])+)

lemma nfs_lock_type4_codec [xdr_codecs]: "xdr_lib_ok L V \<Longrightarrow> codec V (xdr_nfs_lock_type4 L) u32_format"
  unfolding xdr_nfs_lock_type4_def by (intro xdr_codecs)

end
