(* ===== verification/Nfs4Files.thy ===== *)
theory Nfs4Files
  imports Nfs4Types
begin

text \<open>
  Arguments and results of the NFSv4 operations ACCESS to NVERIFY, with the LOCK family.
\<close>

section \<open>Constants\<close>

definition NF4LNK :: u32 where
  "NF4LNK = 5"

definition NF4BLK :: u32 where
  "NF4BLK = 3"

definition NF4CHR :: u32 where
  "NF4CHR = 4"

definition NF4SOCK :: u32 where
  "NF4SOCK = 6"

definition NF4FIFO :: u32 where
  "NF4FIFO = 7"

definition NF4DIR :: u32 where
  "NF4DIR = 2"

definition NFS4ERR_DENIED :: u32 where
  "NFS4ERR_DENIED = 10010"

section \<open>Types, formats and filters\<close>

record ACCESS4args =
  ACCESS4args_access :: u32

definition ACCESS4args_format :: "ACCESS4args xformat" where
  "ACCESS4args_format =
     fld ACCESS4args_access u32_format"

definition xdr_ACCESS4args :: "'x xdrlib \<Rightarrow> ('x, ACCESS4args) xdrproc" where
  "xdr_ACCESS4args L = on ACCESS4args_access ACCESS4args_access_update (xdr_uint32_t L)"

record ACCESS4resok =
  ACCESS4resok_supported :: u32
  ACCESS4resok_access :: u32

definition ACCESS4resok_format :: "ACCESS4resok xformat" where
  "ACCESS4resok_format =
     both (fld ACCESS4resok_supported u32_format) (
     fld ACCESS4resok_access u32_format)"

definition xdr_ACCESS4resok :: "'x xdrlib \<Rightarrow> ('x, ACCESS4resok) xdrproc" where
  "xdr_ACCESS4resok L =
     seq (on ACCESS4resok_supported ACCESS4resok_supported_update (xdr_uint32_t L)) (
     on ACCESS4resok_access ACCESS4resok_access_update (xdr_uint32_t L))"

record ACCESS4res =
  ACCESS4res_status :: u32
  ACCESS4res_resok4 :: ACCESS4resok

definition ACCESS4res_format :: "ACCESS4res xformat" where
  "ACCESS4res_format =
     both (fld ACCESS4res_status u32_format) (
     arm (\<lambda>p. ACCESS4res_status p = NFS4_OK) (fld ACCESS4res_resok4 ACCESS4resok_format) (
     void))"

definition xdr_ACCESS4res :: "'x xdrlib \<Rightarrow> ('x, ACCESS4res) xdrproc" where
  "xdr_ACCESS4res L =
     seq (on ACCESS4res_status ACCESS4res_status_update (xdr_nfsstat4 L)) (
     switch (\<lambda>p. ACCESS4res_status p = NFS4_OK) (on ACCESS4res_resok4 ACCESS4res_resok4_update (xdr_ACCESS4resok L)) (
     pass))"

record CLOSE4args =
  CLOSE4args_seqid :: u32
  CLOSE4args_open_stateid :: stateid4

definition CLOSE4args_format :: "CLOSE4args xformat" where
  "CLOSE4args_format =
     both (fld CLOSE4args_seqid u32_format) (
     fld CLOSE4args_open_stateid stateid4_format)"

definition xdr_CLOSE4args :: "'x xdrlib \<Rightarrow> ('x, CLOSE4args) xdrproc" where
  "xdr_CLOSE4args L =
     seq (on CLOSE4args_seqid CLOSE4args_seqid_update (xdr_seqid4 L)) (
     on CLOSE4args_open_stateid CLOSE4args_open_stateid_update (xdr_stateid4 L))"

record CLOSE4res =
  CLOSE4res_status :: u32
  CLOSE4res_open_stateid :: stateid4

definition CLOSE4res_format :: "CLOSE4res xformat" where
  "CLOSE4res_format =
     both (fld CLOSE4res_status u32_format) (
     arm (\<lambda>p. CLOSE4res_status p = NFS4_OK) (fld CLOSE4res_open_stateid stateid4_format) (
     void))"

definition xdr_CLOSE4res :: "'x xdrlib \<Rightarrow> ('x, CLOSE4res) xdrproc" where
  "xdr_CLOSE4res L =
     seq (on CLOSE4res_status CLOSE4res_status_update (xdr_nfsstat4 L)) (
     switch (\<lambda>p. CLOSE4res_status p = NFS4_OK) (on CLOSE4res_open_stateid CLOSE4res_open_stateid_update (xdr_stateid4 L)) (
     pass))"

record COMMIT4args =
  COMMIT4args_offset :: u64
  COMMIT4args_count :: u32

definition COMMIT4args_format :: "COMMIT4args xformat" where
  "COMMIT4args_format =
     both (fld COMMIT4args_offset u64_format) (
     fld COMMIT4args_count u32_format)"

definition xdr_COMMIT4args :: "'x xdrlib \<Rightarrow> ('x, COMMIT4args) xdrproc" where
  "xdr_COMMIT4args L =
     seq (on COMMIT4args_offset COMMIT4args_offset_update (xdr_offset4 L)) (
     on COMMIT4args_count COMMIT4args_count_update (xdr_count4 L))"

record COMMIT4resok =
  COMMIT4resok_writeverf :: "u8 list"

definition COMMIT4resok_format :: "COMMIT4resok xformat" where
  "COMMIT4resok_format =
     fld COMMIT4resok_writeverf (opaque_format NFS4_VERIFIER_SIZE)"

definition xdr_COMMIT4resok :: "'x xdrlib \<Rightarrow> ('x, COMMIT4resok) xdrproc" where
  "xdr_COMMIT4resok L = on COMMIT4resok_writeverf COMMIT4resok_writeverf_update (xdr_verifier4 L)"

record COMMIT4res =
  COMMIT4res_status :: u32
  COMMIT4res_resok4 :: COMMIT4resok

definition COMMIT4res_format :: "COMMIT4res xformat" where
  "COMMIT4res_format =
     both (fld COMMIT4res_status u32_format) (
     arm (\<lambda>p. COMMIT4res_status p = NFS4_OK) (fld COMMIT4res_resok4 COMMIT4resok_format) (
     void))"

definition xdr_COMMIT4res :: "'x xdrlib \<Rightarrow> ('x, COMMIT4res) xdrproc" where
  "xdr_COMMIT4res L =
     seq (on COMMIT4res_status COMMIT4res_status_update (xdr_nfsstat4 L)) (
     switch (\<lambda>p. COMMIT4res_status p = NFS4_OK) (on COMMIT4res_resok4 COMMIT4res_resok4_update (xdr_COMMIT4resok L)) (
     pass))"

record createtype4 =
  createtype4_type :: u32
  createtype4_linkdata :: "u8 list"
  createtype4_devdata :: specdata4

definition createtype4_format :: "createtype4 xformat" where
  "createtype4_format =
     both (fld createtype4_type u32_format) (
     arm (\<lambda>p. createtype4_type p = NF4LNK) (fld createtype4_linkdata (bytes_format (- 1))) (
     arm (\<lambda>p. createtype4_type p = NF4BLK \<or> createtype4_type p = NF4CHR) (fld createtype4_devdata specdata4_format) (
     arm (\<lambda>p. createtype4_type p = NF4SOCK \<or> createtype4_type p = NF4FIFO \<or> createtype4_type p = NF4DIR) void (
     void))))"

definition xdr_createtype4 :: "'x xdrlib \<Rightarrow> ('x, createtype4) xdrproc" where
  "xdr_createtype4 L =
     seq (on createtype4_type createtype4_type_update (xdr_nfs_ftype4 L)) (
     switch (\<lambda>p. createtype4_type p = NF4LNK) (on createtype4_linkdata createtype4_linkdata_update (xdr_linktext4 L)) (
     switch (\<lambda>p. createtype4_type p = NF4BLK \<or> createtype4_type p = NF4CHR) (on createtype4_devdata createtype4_devdata_update (xdr_specdata4 L)) (
     switch (\<lambda>p. createtype4_type p = NF4SOCK \<or> createtype4_type p = NF4FIFO \<or> createtype4_type p = NF4DIR) pass (
     pass))))"

record CREATE4args =
  CREATE4args_objtype :: createtype4
  CREATE4args_objname :: "u8 list"
  CREATE4args_createattrs :: fattr4

definition CREATE4args_format :: "CREATE4args xformat" where
  "CREATE4args_format =
     both (fld CREATE4args_objtype createtype4_format) (
     both (fld CREATE4args_objname (bytes_format (- 1))) (
     fld CREATE4args_createattrs fattr4_format))"

definition xdr_CREATE4args :: "'x xdrlib \<Rightarrow> ('x, CREATE4args) xdrproc" where
  "xdr_CREATE4args L =
     seq (on CREATE4args_objtype CREATE4args_objtype_update (xdr_createtype4 L)) (
     seq (on CREATE4args_objname CREATE4args_objname_update (xdr_component4 L)) (
     on CREATE4args_createattrs CREATE4args_createattrs_update (xdr_fattr4 L)))"

record CREATE4resok =
  CREATE4resok_cinfo :: change_info4
  CREATE4resok_attrset :: "u32 list"

definition CREATE4resok_format :: "CREATE4resok xformat" where
  "CREATE4resok_format =
     both (fld CREATE4resok_cinfo change_info4_format) (
     fld CREATE4resok_attrset (array_format (- 1) u32_format))"

definition xdr_CREATE4resok :: "'x xdrlib \<Rightarrow> ('x, CREATE4resok) xdrproc" where
  "xdr_CREATE4resok L =
     seq (on CREATE4resok_cinfo CREATE4resok_cinfo_update (xdr_change_info4 L)) (
     on CREATE4resok_attrset CREATE4resok_attrset_update (xdr_bitmap4 L))"

record CREATE4res =
  CREATE4res_status :: u32
  CREATE4res_resok4 :: CREATE4resok

definition CREATE4res_format :: "CREATE4res xformat" where
  "CREATE4res_format =
     both (fld CREATE4res_status u32_format) (
     arm (\<lambda>p. CREATE4res_status p = NFS4_OK) (fld CREATE4res_resok4 CREATE4resok_format) (
     void))"

definition xdr_CREATE4res :: "'x xdrlib \<Rightarrow> ('x, CREATE4res) xdrproc" where
  "xdr_CREATE4res L =
     seq (on CREATE4res_status CREATE4res_status_update (xdr_nfsstat4 L)) (
     switch (\<lambda>p. CREATE4res_status p = NFS4_OK) (on CREATE4res_resok4 CREATE4res_resok4_update (xdr_CREATE4resok L)) (
     pass))"

record DELEGPURGE4args =
  DELEGPURGE4args_clientid :: u64

definition DELEGPURGE4args_format :: "DELEGPURGE4args xformat" where
  "DELEGPURGE4args_format =
     fld DELEGPURGE4args_clientid u64_format"

definition xdr_DELEGPURGE4args :: "'x xdrlib \<Rightarrow> ('x, DELEGPURGE4args) xdrproc" where
  "xdr_DELEGPURGE4args L = on DELEGPURGE4args_clientid DELEGPURGE4args_clientid_update (xdr_clientid4 L)"

record DELEGPURGE4res =
  DELEGPURGE4res_status :: u32

definition DELEGPURGE4res_format :: "DELEGPURGE4res xformat" where
  "DELEGPURGE4res_format =
     fld DELEGPURGE4res_status u32_format"

definition xdr_DELEGPURGE4res :: "'x xdrlib \<Rightarrow> ('x, DELEGPURGE4res) xdrproc" where
  "xdr_DELEGPURGE4res L = on DELEGPURGE4res_status DELEGPURGE4res_status_update (xdr_nfsstat4 L)"

record DELEGRETURN4args =
  DELEGRETURN4args_deleg_stateid :: stateid4

definition DELEGRETURN4args_format :: "DELEGRETURN4args xformat" where
  "DELEGRETURN4args_format =
     fld DELEGRETURN4args_deleg_stateid stateid4_format"

definition xdr_DELEGRETURN4args :: "'x xdrlib \<Rightarrow> ('x, DELEGRETURN4args) xdrproc" where
  "xdr_DELEGRETURN4args L = on DELEGRETURN4args_deleg_stateid DELEGRETURN4args_deleg_stateid_update (xdr_stateid4 L)"

record DELEGRETURN4res =
  DELEGRETURN4res_status :: u32

definition DELEGRETURN4res_format :: "DELEGRETURN4res xformat" where
  "DELEGRETURN4res_format =
     fld DELEGRETURN4res_status u32_format"

definition xdr_DELEGRETURN4res :: "'x xdrlib \<Rightarrow> ('x, DELEGRETURN4res) xdrproc" where
  "xdr_DELEGRETURN4res L = on DELEGRETURN4res_status DELEGRETURN4res_status_update (xdr_nfsstat4 L)"

record GETATTR4args =
  GETATTR4args_attr_request :: "u32 list"

definition GETATTR4args_format :: "GETATTR4args xformat" where
  "GETATTR4args_format =
     fld GETATTR4args_attr_request (array_format (- 1) u32_format)"

definition xdr_GETATTR4args :: "'x xdrlib \<Rightarrow> ('x, GETATTR4args) xdrproc" where
  "xdr_GETATTR4args L = on GETATTR4args_attr_request GETATTR4args_attr_request_update (xdr_bitmap4 L)"

record GETATTR4resok =
  GETATTR4resok_obj_attributes :: fattr4

definition GETATTR4resok_format :: "GETATTR4resok xformat" where
  "GETATTR4resok_format =
     fld GETATTR4resok_obj_attributes fattr4_format"

definition xdr_GETATTR4resok :: "'x xdrlib \<Rightarrow> ('x, GETATTR4resok) xdrproc" where
  "xdr_GETATTR4resok L = on GETATTR4resok_obj_attributes GETATTR4resok_obj_attributes_update (xdr_fattr4 L)"

record GETATTR4res =
  GETATTR4res_status :: u32
  GETATTR4res_resok4 :: GETATTR4resok

definition GETATTR4res_format :: "GETATTR4res xformat" where
  "GETATTR4res_format =
     both (fld GETATTR4res_status u32_format) (
     arm (\<lambda>p. GETATTR4res_status p = NFS4_OK) (fld GETATTR4res_resok4 GETATTR4resok_format) (
     void))"

definition xdr_GETATTR4res :: "'x xdrlib \<Rightarrow> ('x, GETATTR4res) xdrproc" where
  "xdr_GETATTR4res L =
     seq (on GETATTR4res_status GETATTR4res_status_update (xdr_nfsstat4 L)) (
     switch (\<lambda>p. GETATTR4res_status p = NFS4_OK) (on GETATTR4res_resok4 GETATTR4res_resok4_update (xdr_GETATTR4resok L)) (
     pass))"

record GETFH4resok =
  GETFH4resok_object :: "u8 list"

definition GETFH4resok_format :: "GETFH4resok xformat" where
  "GETFH4resok_format =
     fld GETFH4resok_object (bytes_format NFS4_FHSIZE)"

definition xdr_GETFH4resok :: "'x xdrlib \<Rightarrow> ('x, GETFH4resok) xdrproc" where
  "xdr_GETFH4resok L = on GETFH4resok_object GETFH4resok_object_update (xdr_nfs_fh4 L)"

record GETFH4res =
  GETFH4res_status :: u32
  GETFH4res_resok4 :: GETFH4resok

definition GETFH4res_format :: "GETFH4res xformat" where
  "GETFH4res_format =
     both (fld GETFH4res_status u32_format) (
     arm (\<lambda>p. GETFH4res_status p = NFS4_OK) (fld GETFH4res_resok4 GETFH4resok_format) (
     void))"

definition xdr_GETFH4res :: "'x xdrlib \<Rightarrow> ('x, GETFH4res) xdrproc" where
  "xdr_GETFH4res L =
     seq (on GETFH4res_status GETFH4res_status_update (xdr_nfsstat4 L)) (
     switch (\<lambda>p. GETFH4res_status p = NFS4_OK) (on GETFH4res_resok4 GETFH4res_resok4_update (xdr_GETFH4resok L)) (
     pass))"

record LINK4args =
  LINK4args_newname :: "u8 list"

definition LINK4args_format :: "LINK4args xformat" where
  "LINK4args_format =
     fld LINK4args_newname (bytes_format (- 1))"

definition xdr_LINK4args :: "'x xdrlib \<Rightarrow> ('x, LINK4args) xdrproc" where
  "xdr_LINK4args L = on LINK4args_newname LINK4args_newname_update (xdr_component4 L)"

record LINK4resok =
  LINK4resok_cinfo :: change_info4

definition LINK4resok_format :: "LINK4resok xformat" where
  "LINK4resok_format =
     fld LINK4resok_cinfo change_info4_format"

definition xdr_LINK4resok :: "'x xdrlib \<Rightarrow> ('x, LINK4resok) xdrproc" where
  "xdr_LINK4resok L = on LINK4resok_cinfo LINK4resok_cinfo_update (xdr_change_info4 L)"

record LINK4res =
  LINK4res_status :: u32
  LINK4res_resok4 :: LINK4resok

definition LINK4res_format :: "LINK4res xformat" where
  "LINK4res_format =
     both (fld LINK4res_status u32_format) (
     arm (\<lambda>p. LINK4res_status p = NFS4_OK) (fld LINK4res_resok4 LINK4resok_format) (
     void))"

definition xdr_LINK4res :: "'x xdrlib \<Rightarrow> ('x, LINK4res) xdrproc" where
  "xdr_LINK4res L =
     seq (on LINK4res_status LINK4res_status_update (xdr_nfsstat4 L)) (
     switch (\<lambda>p. LINK4res_status p = NFS4_OK) (on LINK4res_resok4 LINK4res_resok4_update (xdr_LINK4resok L)) (
     pass))"

record open_to_lock_owner4 =
  open_to_lock_owner4_open_seqid :: u32
  open_to_lock_owner4_open_stateid :: stateid4
  open_to_lock_owner4_lock_seqid :: u32
  open_to_lock_owner4_lock_owner :: lock_owner4

definition open_to_lock_owner4_format :: "open_to_lock_owner4 xformat" where
  "open_to_lock_owner4_format =
     both (fld open_to_lock_owner4_open_seqid u32_format) (
     both (fld open_to_lock_owner4_open_stateid stateid4_format) (
     both (fld open_to_lock_owner4_lock_seqid u32_format) (
     fld open_to_lock_owner4_lock_owner lock_owner4_format)))"

definition xdr_open_to_lock_owner4 :: "'x xdrlib \<Rightarrow> ('x, open_to_lock_owner4) xdrproc" where
  "xdr_open_to_lock_owner4 L =
     seq (on open_to_lock_owner4_open_seqid open_to_lock_owner4_open_seqid_update (xdr_seqid4 L)) (
     seq (on open_to_lock_owner4_open_stateid open_to_lock_owner4_open_stateid_update (xdr_stateid4 L)) (
     seq (on open_to_lock_owner4_lock_seqid open_to_lock_owner4_lock_seqid_update (xdr_seqid4 L)) (
     on open_to_lock_owner4_lock_owner open_to_lock_owner4_lock_owner_update (xdr_lock_owner4 L))))"

record exist_lock_owner4 =
  exist_lock_owner4_lock_stateid :: stateid4
  exist_lock_owner4_lock_seqid :: u32

definition exist_lock_owner4_format :: "exist_lock_owner4 xformat" where
  "exist_lock_owner4_format =
     both (fld exist_lock_owner4_lock_stateid stateid4_format) (
     fld exist_lock_owner4_lock_seqid u32_format)"

definition xdr_exist_lock_owner4 :: "'x xdrlib \<Rightarrow> ('x, exist_lock_owner4) xdrproc" where
  "xdr_exist_lock_owner4 L =
     seq (on exist_lock_owner4_lock_stateid exist_lock_owner4_lock_stateid_update (xdr_stateid4 L)) (
     on exist_lock_owner4_lock_seqid exist_lock_owner4_lock_seqid_update (xdr_seqid4 L))"

record locker4 =
  locker4_new_lock_owner :: u32
  locker4_open_owner :: open_to_lock_owner4
  locker4_lock_owner :: exist_lock_owner4

definition locker4_format :: "locker4 xformat" where
  "locker4_format =
     both (fld locker4_new_lock_owner bool_format) (
     arm (\<lambda>p. locker4_new_lock_owner p = 1) (fld locker4_open_owner open_to_lock_owner4_format) (
     arm (\<lambda>p. locker4_new_lock_owner p = 0) (fld locker4_lock_owner exist_lock_owner4_format) (
     never)))"

definition xdr_locker4 :: "'x xdrlib \<Rightarrow> ('x, locker4) xdrproc" where
  "xdr_locker4 L =
     seq (on locker4_new_lock_owner locker4_new_lock_owner_update (xdr_bool L)) (
     switch (\<lambda>p. locker4_new_lock_owner p = 1) (on locker4_open_owner locker4_open_owner_update (xdr_open_to_lock_owner4 L)) (
     switch (\<lambda>p. locker4_new_lock_owner p = 0) (on locker4_lock_owner locker4_lock_owner_update (xdr_exist_lock_owner4 L)) (
     refuse)))"

record LOCK4args =
  LOCK4args_locktype :: u32
  LOCK4args_reclaim :: u32
  LOCK4args_offset :: u64
  LOCK4args_length :: u64
  LOCK4args_locker :: locker4

definition LOCK4args_format :: "LOCK4args xformat" where
  "LOCK4args_format =
     both (fld LOCK4args_locktype u32_format) (
     both (fld LOCK4args_reclaim bool_format) (
     both (fld LOCK4args_offset u64_format) (
     both (fld LOCK4args_length u64_format) (
     fld LOCK4args_locker locker4_format))))"

definition xdr_LOCK4args :: "'x xdrlib \<Rightarrow> ('x, LOCK4args) xdrproc" where
  "xdr_LOCK4args L =
     seq (on LOCK4args_locktype LOCK4args_locktype_update (xdr_nfs_lock_type4 L)) (
     seq (on LOCK4args_reclaim LOCK4args_reclaim_update (xdr_bool L)) (
     seq (on LOCK4args_offset LOCK4args_offset_update (xdr_offset4 L)) (
     seq (on LOCK4args_length LOCK4args_length_update (xdr_length4 L)) (
     on LOCK4args_locker LOCK4args_locker_update (xdr_locker4 L)))))"

record LOCK4denied =
  LOCK4denied_offset :: u64
  LOCK4denied_length :: u64
  LOCK4denied_locktype :: u32
  LOCK4denied_owner :: lock_owner4

definition LOCK4denied_format :: "LOCK4denied xformat" where
  "LOCK4denied_format =
     both (fld LOCK4denied_offset u64_format) (
     both (fld LOCK4denied_length u64_format) (
     both (fld LOCK4denied_locktype u32_format) (
     fld LOCK4denied_owner lock_owner4_format)))"

definition xdr_LOCK4denied :: "'x xdrlib \<Rightarrow> ('x, LOCK4denied) xdrproc" where
  "xdr_LOCK4denied L =
     seq (on LOCK4denied_offset LOCK4denied_offset_update (xdr_offset4 L)) (
     seq (on LOCK4denied_length LOCK4denied_length_update (xdr_length4 L)) (
     seq (on LOCK4denied_locktype LOCK4denied_locktype_update (xdr_nfs_lock_type4 L)) (
     on LOCK4denied_owner LOCK4denied_owner_update (xdr_lock_owner4 L))))"

record LOCK4resok =
  LOCK4resok_lock_stateid :: stateid4

definition LOCK4resok_format :: "LOCK4resok xformat" where
  "LOCK4resok_format =
     fld LOCK4resok_lock_stateid stateid4_format"

definition xdr_LOCK4resok :: "'x xdrlib \<Rightarrow> ('x, LOCK4resok) xdrproc" where
  "xdr_LOCK4resok L = on LOCK4resok_lock_stateid LOCK4resok_lock_stateid_update (xdr_stateid4 L)"

record LOCK4res =
  LOCK4res_status :: u32
  LOCK4res_resok4 :: LOCK4resok
  LOCK4res_denied :: LOCK4denied

definition LOCK4res_format :: "LOCK4res xformat" where
  "LOCK4res_format =
     both (fld LOCK4res_status u32_format) (
     arm (\<lambda>p. LOCK4res_status p = NFS4_OK) (fld LOCK4res_resok4 LOCK4resok_format) (
     arm (\<lambda>p. LOCK4res_status p = NFS4ERR_DENIED) (fld LOCK4res_denied LOCK4denied_format) (
     void)))"

definition xdr_LOCK4res :: "'x xdrlib \<Rightarrow> ('x, LOCK4res) xdrproc" where
  "xdr_LOCK4res L =
     seq (on LOCK4res_status LOCK4res_status_update (xdr_nfsstat4 L)) (
     switch (\<lambda>p. LOCK4res_status p = NFS4_OK) (on LOCK4res_resok4 LOCK4res_resok4_update (xdr_LOCK4resok L)) (
     switch (\<lambda>p. LOCK4res_status p = NFS4ERR_DENIED) (on LOCK4res_denied LOCK4res_denied_update (xdr_LOCK4denied L)) (
     pass)))"

record LOCKT4args =
  LOCKT4args_locktype :: u32
  LOCKT4args_offset :: u64
  LOCKT4args_length :: u64
  LOCKT4args_owner :: lock_owner4

definition LOCKT4args_format :: "LOCKT4args xformat" where
  "LOCKT4args_format =
     both (fld LOCKT4args_locktype u32_format) (
     both (fld LOCKT4args_offset u64_format) (
     both (fld LOCKT4args_length u64_format) (
     fld LOCKT4args_owner lock_owner4_format)))"

definition xdr_LOCKT4args :: "'x xdrlib \<Rightarrow> ('x, LOCKT4args) xdrproc" where
  "xdr_LOCKT4args L =
     seq (on LOCKT4args_locktype LOCKT4args_locktype_update (xdr_nfs_lock_type4 L)) (
     seq (on LOCKT4args_offset LOCKT4args_offset_update (xdr_offset4 L)) (
     seq (on LOCKT4args_length LOCKT4args_length_update (xdr_length4 L)) (
     on LOCKT4args_owner LOCKT4args_owner_update (xdr_lock_owner4 L))))"

record LOCKT4res =
  LOCKT4res_status :: u32
  LOCKT4res_denied :: LOCK4denied

definition LOCKT4res_format :: "LOCKT4res xformat" where
  "LOCKT4res_format =
     both (fld LOCKT4res_status u32_format) (
     arm (\<lambda>p. LOCKT4res_status p = NFS4ERR_DENIED) (fld LOCKT4res_denied LOCK4denied_format) (
     arm (\<lambda>p. LOCKT4res_status p = NFS4_OK) void (
     void)))"

definition xdr_LOCKT4res :: "'x xdrlib \<Rightarrow> ('x, LOCKT4res) xdrproc" where
  "xdr_LOCKT4res L =
     seq (on LOCKT4res_status LOCKT4res_status_update (xdr_nfsstat4 L)) (
     switch (\<lambda>p. LOCKT4res_status p = NFS4ERR_DENIED) (on LOCKT4res_denied LOCKT4res_denied_update (xdr_LOCK4denied L)) (
     switch (\<lambda>p. LOCKT4res_status p = NFS4_OK) pass (
     pass)))"

record LOCKU4args =
  LOCKU4args_locktype :: u32
  LOCKU4args_seqid :: u32
  LOCKU4args_lock_stateid :: stateid4
  LOCKU4args_offset :: u64
  LOCKU4args_length :: u64

definition LOCKU4args_format :: "LOCKU4args xformat" where
  "LOCKU4args_format =
     both (fld LOCKU4args_locktype u32_format) (
     both (fld LOCKU4args_seqid u32_format) (
     both (fld LOCKU4args_lock_stateid stateid4_format) (
     both (fld LOCKU4args_offset u64_format) (
     fld LOCKU4args_length u64_format))))"

definition xdr_LOCKU4args :: "'x xdrlib \<Rightarrow> ('x, LOCKU4args) xdrproc" where
  "xdr_LOCKU4args L =
     seq (on LOCKU4args_locktype LOCKU4args_locktype_update (xdr_nfs_lock_type4 L)) (
     seq (on LOCKU4args_seqid LOCKU4args_seqid_update (xdr_seqid4 L)) (
     seq (on LOCKU4args_lock_stateid LOCKU4args_lock_stateid_update (xdr_stateid4 L)) (
     seq (on LOCKU4args_offset LOCKU4args_offset_update (xdr_offset4 L)) (
     on LOCKU4args_length LOCKU4args_length_update (xdr_length4 L)))))"

record LOCKU4res =
  LOCKU4res_status :: u32
  LOCKU4res_lock_stateid :: stateid4

definition LOCKU4res_format :: "LOCKU4res xformat" where
  "LOCKU4res_format =
     both (fld LOCKU4res_status u32_format) (
     arm (\<lambda>p. LOCKU4res_status p = NFS4_OK) (fld LOCKU4res_lock_stateid stateid4_format) (
     void))"

definition xdr_LOCKU4res :: "'x xdrlib \<Rightarrow> ('x, LOCKU4res) xdrproc" where
  "xdr_LOCKU4res L =
     seq (on LOCKU4res_status LOCKU4res_status_update (xdr_nfsstat4 L)) (
     switch (\<lambda>p. LOCKU4res_status p = NFS4_OK) (on LOCKU4res_lock_stateid LOCKU4res_lock_stateid_update (xdr_stateid4 L)) (
     pass))"

record LOOKUP4args =
  LOOKUP4args_objname :: "u8 list"

definition LOOKUP4args_format :: "LOOKUP4args xformat" where
  "LOOKUP4args_format =
     fld LOOKUP4args_objname (bytes_format (- 1))"

definition xdr_LOOKUP4args :: "'x xdrlib \<Rightarrow> ('x, LOOKUP4args) xdrproc" where
  "xdr_LOOKUP4args L = on LOOKUP4args_objname LOOKUP4args_objname_update (xdr_component4 L)"

record LOOKUP4res =
  LOOKUP4res_status :: u32

definition LOOKUP4res_format :: "LOOKUP4res xformat" where
  "LOOKUP4res_format =
     fld LOOKUP4res_status u32_format"

definition xdr_LOOKUP4res :: "'x xdrlib \<Rightarrow> ('x, LOOKUP4res) xdrproc" where
  "xdr_LOOKUP4res L = on LOOKUP4res_status LOOKUP4res_status_update (xdr_nfsstat4 L)"

record LOOKUPP4res =
  LOOKUPP4res_status :: u32

definition LOOKUPP4res_format :: "LOOKUPP4res xformat" where
  "LOOKUPP4res_format =
     fld LOOKUPP4res_status u32_format"

definition xdr_LOOKUPP4res :: "'x xdrlib \<Rightarrow> ('x, LOOKUPP4res) xdrproc" where
  "xdr_LOOKUPP4res L = on LOOKUPP4res_status LOOKUPP4res_status_update (xdr_nfsstat4 L)"

record NVERIFY4args =
  NVERIFY4args_obj_attributes :: fattr4

definition NVERIFY4args_format :: "NVERIFY4args xformat" where
  "NVERIFY4args_format =
     fld NVERIFY4args_obj_attributes fattr4_format"

definition xdr_NVERIFY4args :: "'x xdrlib \<Rightarrow> ('x, NVERIFY4args) xdrproc" where
  "xdr_NVERIFY4args L = on NVERIFY4args_obj_attributes NVERIFY4args_obj_attributes_update (xdr_fattr4 L)"

record NVERIFY4res =
  NVERIFY4res_status :: u32

definition NVERIFY4res_format :: "NVERIFY4res xformat" where
  "NVERIFY4res_format =
     fld NVERIFY4res_status u32_format"

definition xdr_NVERIFY4res :: "'x xdrlib \<Rightarrow> ('x, NVERIFY4res) xdrproc" where
  "xdr_NVERIFY4res L = on NVERIFY4res_status NVERIFY4res_status_update (xdr_nfsstat4 L)"

section \<open>The filters implement the formats\<close>

lemma ACCESS4args_codec [xdr_codecs]: "xdr_lib_ok L V \<Longrightarrow> codec V (xdr_ACCESS4args L) ACCESS4args_format"
  unfolding xdr_ACCESS4args_def ACCESS4args_format_def by (rule codecI, (rule codec_rules xdr_codecs | assumption | (auto)[1])+)

lemma ACCESS4resok_codec [xdr_codecs]: "xdr_lib_ok L V \<Longrightarrow> codec V (xdr_ACCESS4resok L) ACCESS4resok_format"
  unfolding xdr_ACCESS4resok_def ACCESS4resok_format_def by (rule codecI, (rule codec_rules xdr_codecs | assumption | (auto)[1])+)

lemma ACCESS4res_codec [xdr_codecs]: "xdr_lib_ok L V \<Longrightarrow> codec V (xdr_ACCESS4res L) ACCESS4res_format"
  unfolding xdr_ACCESS4res_def ACCESS4res_format_def by (rule codecI, (rule codec_rules xdr_codecs | assumption | (auto)[1])+)

lemma CLOSE4args_codec [xdr_codecs]: "xdr_lib_ok L V \<Longrightarrow> codec V (xdr_CLOSE4args L) CLOSE4args_format"
  unfolding xdr_CLOSE4args_def CLOSE4args_format_def by (rule codecI, (rule codec_rules xdr_codecs | assumption | (auto)[1])+)

lemma CLOSE4res_codec [xdr_codecs]: "xdr_lib_ok L V \<Longrightarrow> codec V (xdr_CLOSE4res L) CLOSE4res_format"
  unfolding xdr_CLOSE4res_def CLOSE4res_format_def by (rule codecI, (rule codec_rules xdr_codecs | assumption | (auto)[1])+)

lemma COMMIT4args_codec [xdr_codecs]: "xdr_lib_ok L V \<Longrightarrow> codec V (xdr_COMMIT4args L) COMMIT4args_format"
  unfolding xdr_COMMIT4args_def COMMIT4args_format_def by (rule codecI, (rule codec_rules xdr_codecs | assumption | (auto)[1])+)

lemma COMMIT4resok_codec [xdr_codecs]: "xdr_lib_ok L V \<Longrightarrow> codec V (xdr_COMMIT4resok L) COMMIT4resok_format"
  unfolding xdr_COMMIT4resok_def COMMIT4resok_format_def by (rule codecI, (rule codec_rules xdr_codecs | assumption | (auto)[1])+)

lemma COMMIT4res_codec [xdr_codecs]: "xdr_lib_ok L V \<Longrightarrow> codec V (xdr_COMMIT4res L) COMMIT4res_format"
  unfolding xdr_COMMIT4res_def COMMIT4res_format_def by (rule codecI, (rule codec_rules xdr_codecs | assumption | (auto)[1])+)

lemma createtype4_codec [xdr_codecs]: "xdr_lib_ok L V \<Longrightarrow> codec V (xdr_createtype4 L) createtype4_format"
  unfolding xdr_createtype4_def createtype4_format_def by (rule codecI, (rule codec_rules xdr_codecs | assumption | (auto)[1])+)

lemma CREATE4args_codec [xdr_codecs]: "xdr_lib_ok L V \<Longrightarrow> codec V (xdr_CREATE4args L) CREATE4args_format"
  unfolding xdr_CREATE4args_def CREATE4args_format_def by (rule codecI, (rule codec_rules xdr_codecs | assumption | (auto)[1])+)

lemma CREATE4resok_codec [xdr_codecs]: "xdr_lib_ok L V \<Longrightarrow> codec V (xdr_CREATE4resok L) CREATE4resok_format"
  unfolding xdr_CREATE4resok_def CREATE4resok_format_def by (rule codecI, (rule codec_rules xdr_codecs | assumption | (auto)[1])+)

lemma CREATE4res_codec [xdr_codecs]: "xdr_lib_ok L V \<Longrightarrow> codec V (xdr_CREATE4res L) CREATE4res_format"
  unfolding xdr_CREATE4res_def CREATE4res_format_def by (rule codecI, (rule codec_rules xdr_codecs | assumption | (auto)[1])+)

lemma DELEGPURGE4args_codec [xdr_codecs]: "xdr_lib_ok L V \<Longrightarrow> codec V (xdr_DELEGPURGE4args L) DELEGPURGE4args_format"
  unfolding xdr_DELEGPURGE4args_def DELEGPURGE4args_format_def by (rule codecI, (rule codec_rules xdr_codecs | assumption | (auto)[1])+)

lemma DELEGPURGE4res_codec [xdr_codecs]: "xdr_lib_ok L V \<Longrightarrow> codec V (xdr_DELEGPURGE4res L) DELEGPURGE4res_format"
  unfolding xdr_DELEGPURGE4res_def DELEGPURGE4res_format_def by (rule codecI, (rule codec_rules xdr_codecs | assumption | (auto)[1])+)

lemma DELEGRETURN4args_codec [xdr_codecs]: "xdr_lib_ok L V \<Longrightarrow> codec V (xdr_DELEGRETURN4args L) DELEGRETURN4args_format"
  unfolding xdr_DELEGRETURN4args_def DELEGRETURN4args_format_def by (rule codecI, (rule codec_rules xdr_codecs | assumption | (auto)[1])+)

lemma DELEGRETURN4res_codec [xdr_codecs]: "xdr_lib_ok L V \<Longrightarrow> codec V (xdr_DELEGRETURN4res L) DELEGRETURN4res_format"
  unfolding xdr_DELEGRETURN4res_def DELEGRETURN4res_format_def by (rule codecI, (rule codec_rules xdr_codecs | assumption | (auto)[1])+)

lemma GETATTR4args_codec [xdr_codecs]: "xdr_lib_ok L V \<Longrightarrow> codec V (xdr_GETATTR4args L) GETATTR4args_format"
  unfolding xdr_GETATTR4args_def GETATTR4args_format_def by (rule codecI, (rule codec_rules xdr_codecs | assumption | (auto)[1])+)

lemma GETATTR4resok_codec [xdr_codecs]: "xdr_lib_ok L V \<Longrightarrow> codec V (xdr_GETATTR4resok L) GETATTR4resok_format"
  unfolding xdr_GETATTR4resok_def GETATTR4resok_format_def by (rule codecI, (rule codec_rules xdr_codecs | assumption | (auto)[1])+)

lemma GETATTR4res_codec [xdr_codecs]: "xdr_lib_ok L V \<Longrightarrow> codec V (xdr_GETATTR4res L) GETATTR4res_format"
  unfolding xdr_GETATTR4res_def GETATTR4res_format_def by (rule codecI, (rule codec_rules xdr_codecs | assumption | (auto)[1])+)

lemma GETFH4resok_codec [xdr_codecs]: "xdr_lib_ok L V \<Longrightarrow> codec V (xdr_GETFH4resok L) GETFH4resok_format"
  unfolding xdr_GETFH4resok_def GETFH4resok_format_def by (rule codecI, (rule codec_rules xdr_codecs | assumption | (auto)[1])+)

lemma GETFH4res_codec [xdr_codecs]: "xdr_lib_ok L V \<Longrightarrow> codec V (xdr_GETFH4res L) GETFH4res_format"
  unfolding xdr_GETFH4res_def GETFH4res_format_def by (rule codecI, (rule codec_rules xdr_codecs | assumption | (auto)[1])+)

lemma LINK4args_codec [xdr_codecs]: "xdr_lib_ok L V \<Longrightarrow> codec V (xdr_LINK4args L) LINK4args_format"
  unfolding xdr_LINK4args_def LINK4args_format_def by (rule codecI, (rule codec_rules xdr_codecs | assumption | (auto)[1])+)

lemma LINK4resok_codec [xdr_codecs]: "xdr_lib_ok L V \<Longrightarrow> codec V (xdr_LINK4resok L) LINK4resok_format"
  unfolding xdr_LINK4resok_def LINK4resok_format_def by (rule codecI, (rule codec_rules xdr_codecs | assumption | (auto)[1])+)

lemma LINK4res_codec [xdr_codecs]: "xdr_lib_ok L V \<Longrightarrow> codec V (xdr_LINK4res L) LINK4res_format"
  unfolding xdr_LINK4res_def LINK4res_format_def by (rule codecI, (rule codec_rules xdr_codecs | assumption | (auto)[1])+)

lemma open_to_lock_owner4_codec [xdr_codecs]: "xdr_lib_ok L V \<Longrightarrow> codec V (xdr_open_to_lock_owner4 L) open_to_lock_owner4_format"
  unfolding xdr_open_to_lock_owner4_def open_to_lock_owner4_format_def by (rule codecI, (rule codec_rules xdr_codecs | assumption | (auto)[1])+)

lemma exist_lock_owner4_codec [xdr_codecs]: "xdr_lib_ok L V \<Longrightarrow> codec V (xdr_exist_lock_owner4 L) exist_lock_owner4_format"
  unfolding xdr_exist_lock_owner4_def exist_lock_owner4_format_def by (rule codecI, (rule codec_rules xdr_codecs | assumption | (auto)[1])+)

lemma locker4_codec [xdr_codecs]: "xdr_lib_ok L V \<Longrightarrow> codec V (xdr_locker4 L) locker4_format"
  unfolding xdr_locker4_def locker4_format_def by (rule codecI, (rule codec_rules xdr_codecs | assumption | (auto)[1])+)

lemma LOCK4args_codec [xdr_codecs]: "xdr_lib_ok L V \<Longrightarrow> codec V (xdr_LOCK4args L) LOCK4args_format"
  unfolding xdr_LOCK4args_def LOCK4args_format_def by (rule codecI, (rule codec_rules xdr_codecs | assumption | (auto)[1])+)

lemma LOCK4denied_codec [xdr_codecs]: "xdr_lib_ok L V \<Longrightarrow> codec V (xdr_LOCK4denied L) LOCK4denied_format"
  unfolding xdr_LOCK4denied_def LOCK4denied_format_def by (rule codecI, (rule codec_rules xdr_codecs | assumption | (auto)[1])+)

lemma LOCK4resok_codec [xdr_codecs]: "xdr_lib_ok L V \<Longrightarrow> codec V (xdr_LOCK4resok L) LOCK4resok_format"
  unfolding xdr_LOCK4resok_def LOCK4resok_format_def by (rule codecI, (rule codec_rules xdr_codecs | assumption | (auto)[1])+)

lemma LOCK4res_codec [xdr_codecs]: "xdr_lib_ok L V \<Longrightarrow> codec V (xdr_LOCK4res L) LOCK4res_format"
  unfolding xdr_LOCK4res_def LOCK4res_format_def by (rule codecI, (rule codec_rules xdr_codecs | assumption | (auto)[1])+)

lemma LOCKT4args_codec [xdr_codecs]: "xdr_lib_ok L V \<Longrightarrow> codec V (xdr_LOCKT4args L) LOCKT4args_format"
  unfolding xdr_LOCKT4args_def LOCKT4args_format_def by (rule codecI, (rule codec_rules xdr_codecs | assumption | (auto)[1])+)

lemma LOCKT4res_codec [xdr_codecs]: "xdr_lib_ok L V \<Longrightarrow> codec V (xdr_LOCKT4res L) LOCKT4res_format"
  unfolding xdr_LOCKT4res_def LOCKT4res_format_def by (rule codecI, (rule codec_rules xdr_codecs | assumption | (auto)[1])+)

lemma LOCKU4args_codec [xdr_codecs]: "xdr_lib_ok L V \<Longrightarrow> codec V (xdr_LOCKU4args L) LOCKU4args_format"
  unfolding xdr_LOCKU4args_def LOCKU4args_format_def by (rule codecI, (rule codec_rules xdr_codecs | assumption | (auto)[1])+)

lemma LOCKU4res_codec [xdr_codecs]: "xdr_lib_ok L V \<Longrightarrow> codec V (xdr_LOCKU4res L) LOCKU4res_format"
  unfolding xdr_LOCKU4res_def LOCKU4res_format_def by (rule codecI, (rule codec_rules xdr_codecs | assumption | (auto)[1])+)

lemma LOOKUP4args_codec [xdr_codecs]: "xdr_lib_ok L V \<Longrightarrow> codec V (xdr_LOOKUP4args L) LOOKUP4args_format"
  unfolding xdr_LOOKUP4args_def LOOKUP4args_format_def by (rule codecI, (rule codec_rules xdr_codecs | assumption | (auto)[1])+)

lemma LOOKUP4res_codec [xdr_codecs]: "xdr_lib_ok L V \<Longrightarrow> codec V (xdr_LOOKUP4res L) LOOKUP4res_format"
  unfolding xdr_LOOKUP4res_def LOOKUP4res_format_def by (rule codecI, (rule codec_rules xdr_codecs | assumption | (auto)[1])+)

lemma LOOKUPP4res_codec [xdr_codecs]: "xdr_lib_ok L V \<Longrightarrow> codec V (xdr_LOOKUPP4res L) LOOKUPP4res_format"
  unfolding xdr_LOOKUPP4res_def LOOKUPP4res_format_def by (rule codecI, (rule codec_rules xdr_codecs | assumption | (auto)[1])+)

lemma NVERIFY4args_codec [xdr_codecs]: "xdr_lib_ok L V \<Longrightarrow> codec V (xdr_NVERIFY4args L) NVERIFY4args_format"
  unfolding xdr_NVERIFY4args_def NVERIFY4args_format_def by (rule codecI, (rule codec_rules xdr_codecs | assumption | (auto)[1])+)

lemma NVERIFY4res_codec [xdr_codecs]: "xdr_lib_ok L V \<Longrightarrow> codec V (xdr_NVERIFY4res L) NVERIFY4res_format"
  unfolding xdr_NVERIFY4res_def NVERIFY4res_format_def by (rule codecI, (rule codec_rules xdr_codecs | assumption | (auto)[1])+)

end
