(* ===== verification/Nfs4Open.thy ===== *)
theory Nfs4Open
  imports Nfs4Types
begin

text \<open>
  Arguments and results of the OPEN operation, its delegations and its companions.
\<close>

section \<open>Constants\<close>

definition UNCHECKED4 :: u32 where
  "UNCHECKED4 = 0"

definition GUARDED4 :: u32 where
  "GUARDED4 = 1"

definition EXCLUSIVE4 :: u32 where
  "EXCLUSIVE4 = 2"

definition OPEN4_CREATE :: u32 where
  "OPEN4_CREATE = 1"

definition NFS_LIMIT_SIZE :: u32 where
  "NFS_LIMIT_SIZE = 1"

definition NFS_LIMIT_BLOCKS :: u32 where
  "NFS_LIMIT_BLOCKS = 2"

definition CLAIM_NULL :: u32 where
  "CLAIM_NULL = 0"

definition CLAIM_PREVIOUS :: u32 where
  "CLAIM_PREVIOUS = 1"

definition CLAIM_DELEGATE_CUR :: u32 where
  "CLAIM_DELEGATE_CUR = 2"

definition CLAIM_DELEGATE_PREV :: u32 where
  "CLAIM_DELEGATE_PREV = 3"

definition OPEN_DELEGATE_NONE :: u32 where
  "OPEN_DELEGATE_NONE = 0"

definition OPEN_DELEGATE_READ :: u32 where
  "OPEN_DELEGATE_READ = 1"

definition OPEN_DELEGATE_WRITE :: u32 where
  "OPEN_DELEGATE_WRITE = 2"

section \<open>Types, formats and filters\<close>

definition xdr_createmode4 :: "'x xdrlib \<Rightarrow> ('x, u32) xdrproc" where
  "xdr_createmode4 L = xdr_enum L"

record createhow4 =
  createhow4_mode :: u32
  createhow4_createattrs :: fattr4
  createhow4_createverf :: "u8 list"

definition createhow4_format :: "createhow4 xformat" where
  "createhow4_format =
     both (fld createhow4_mode u32_format) (
     arm (\<lambda>p. createhow4_mode p = UNCHECKED4 \<or> createhow4_mode p = GUARDED4) (fld createhow4_createattrs fattr4_format) (
     arm (\<lambda>p. createhow4_mode p = EXCLUSIVE4) (fld createhow4_createverf (opaque_format NFS4_VERIFIER_SIZE)) (
     never)))"

definition xdr_createhow4 :: "'x xdrlib \<Rightarrow> ('x, createhow4) xdrproc" where
  "xdr_createhow4 L =
     seq (on createhow4_mode createhow4_mode_update (xdr_createmode4 L)) (
     switch (\<lambda>p. createhow4_mode p = UNCHECKED4 \<or> createhow4_mode p = GUARDED4) (on createhow4_createattrs createhow4_createattrs_update (xdr_fattr4 L)) (
     switch (\<lambda>p. createhow4_mode p = EXCLUSIVE4) (on createhow4_createverf createhow4_createverf_update (xdr_verifier4 L)) (
     refuse)))"

definition xdr_opentype4 :: "'x xdrlib \<Rightarrow> ('x, u32) xdrproc" where
  "xdr_opentype4 L = xdr_enum L"

record openflag4 =
  openflag4_opentype :: u32
  openflag4_how :: createhow4

definition openflag4_format :: "openflag4 xformat" where
  "openflag4_format =
     both (fld openflag4_opentype u32_format) (
     arm (\<lambda>p. openflag4_opentype p = OPEN4_CREATE) (fld openflag4_how createhow4_format) (
     void))"

definition xdr_openflag4 :: "'x xdrlib \<Rightarrow> ('x, openflag4) xdrproc" where
  "xdr_openflag4 L =
     seq (on openflag4_opentype openflag4_opentype_update (xdr_opentype4 L)) (
     switch (\<lambda>p. openflag4_opentype p = OPEN4_CREATE) (on openflag4_how openflag4_how_update (xdr_createhow4 L)) (
     pass))"

definition xdr_limit_by4 :: "'x xdrlib \<Rightarrow> ('x, u32) xdrproc" where
  "xdr_limit_by4 L = xdr_enum L"

record nfs_modified_limit4 =
  nfs_modified_limit4_num_blocks :: u32
  nfs_modified_limit4_bytes_per_block :: u32

definition nfs_modified_limit4_format :: "nfs_modified_limit4 xformat" where
  "nfs_modified_limit4_format =
     both (fld nfs_modified_limit4_num_blocks u32_format) (
     fld nfs_modified_limit4_bytes_per_block u32_format)"

definition xdr_nfs_modified_limit4 :: "'x xdrlib \<Rightarrow> ('x, nfs_modified_limit4) xdrproc" where
  "xdr_nfs_modified_limit4 L =
     seq (on nfs_modified_limit4_num_blocks nfs_modified_limit4_num_blocks_update (xdr_uint32_t L)) (
     on nfs_modified_limit4_bytes_per_block nfs_modified_limit4_bytes_per_block_update (xdr_uint32_t L))"

record nfs_space_limit4 =
  nfs_space_limit4_limitby :: u32
  nfs_space_limit4_filesize :: u64
  nfs_space_limit4_mod_blocks :: nfs_modified_limit4

definition nfs_space_limit4_format :: "nfs_space_limit4 xformat" where
  "nfs_space_limit4_format =
     both (fld nfs_space_limit4_limitby u32_format) (
     arm (\<lambda>p. nfs_space_limit4_limitby p = NFS_LIMIT_SIZE) (fld nfs_space_limit4_filesize u64_format) (
     arm (\<lambda>p. nfs_space_limit4_limitby p = NFS_LIMIT_BLOCKS) (fld nfs_space_limit4_mod_blocks nfs_modified_limit4_format) (
     never)))"

definition xdr_nfs_space_limit4 :: "'x xdrlib \<Rightarrow> ('x, nfs_space_limit4) xdrproc" where
  "xdr_nfs_space_limit4 L =
     seq (on nfs_space_limit4_limitby nfs_space_limit4_limitby_update (xdr_limit_by4 L)) (
     switch (\<lambda>p. nfs_space_limit4_limitby p = NFS_LIMIT_SIZE) (on nfs_space_limit4_filesize nfs_space_limit4_filesize_update (xdr_uint64_t L)) (
     switch (\<lambda>p. nfs_space_limit4_limitby p = NFS_LIMIT_BLOCKS) (on nfs_space_limit4_mod_blocks nfs_space_limit4_mod_blocks_update (xdr_nfs_modified_limit4 L)) (
     refuse)))"

definition xdr_open_delegation_type4 :: "'x xdrlib \<Rightarrow> ('x, u32) xdrproc" where
  "xdr_open_delegation_type4 L = xdr_enum L"

definition xdr_open_claim_type4 :: "'x xdrlib \<Rightarrow> ('x, u32) xdrproc" where
  "xdr_open_claim_type4 L = xdr_enum L"

record open_claim_delegate_cur4 =
  open_claim_delegate_cur4_delegate_stateid :: stateid4
  open_claim_delegate_cur4_file :: "u8 list"

definition open_claim_delegate_cur4_format :: "open_claim_delegate_cur4 xformat" where
  "open_claim_delegate_cur4_format =
     both (fld open_claim_delegate_cur4_delegate_stateid stateid4_format) (
     fld open_claim_delegate_cur4_file (bytes_format (- 1)))"

definition xdr_open_claim_delegate_cur4 :: "'x xdrlib \<Rightarrow> ('x, open_claim_delegate_cur4) xdrproc" where
  "xdr_open_claim_delegate_cur4 L =
     seq (on open_claim_delegate_cur4_delegate_stateid open_claim_delegate_cur4_delegate_stateid_update (xdr_stateid4 L)) (
     on open_claim_delegate_cur4_file open_claim_delegate_cur4_file_update (xdr_component4 L))"

record open_claim4 =
  open_claim4_claim :: u32
  open_claim4_file :: "u8 list"
  open_claim4_delegate_type :: u32
  open_claim4_delegate_cur_info :: open_claim_delegate_cur4
  open_claim4_file_delegate_prev :: "u8 list"

definition open_claim4_format :: "open_claim4 xformat" where
  "open_claim4_format =
     both (fld open_claim4_claim u32_format) (
     arm (\<lambda>p. open_claim4_claim p = CLAIM_NULL) (fld open_claim4_file (bytes_format (- 1))) (
     arm (\<lambda>p. open_claim4_claim p = CLAIM_PREVIOUS) (fld open_claim4_delegate_type u32_format) (
     arm (\<lambda>p. open_claim4_claim p = CLAIM_DELEGATE_CUR) (fld open_claim4_delegate_cur_info open_claim_delegate_cur4_format) (
     arm (\<lambda>p. open_claim4_claim p = CLAIM_DELEGATE_PREV) (fld open_claim4_file_delegate_prev (bytes_format (- 1))) (
     never)))))"

definition xdr_open_claim4 :: "'x xdrlib \<Rightarrow> ('x, open_claim4) xdrproc" where
  "xdr_open_claim4 L =
     seq (on open_claim4_claim open_claim4_claim_update (xdr_open_claim_type4 L)) (
     switch (\<lambda>p. open_claim4_claim p = CLAIM_NULL) (on open_claim4_file open_claim4_file_update (xdr_component4 L)) (
     switch (\<lambda>p. open_claim4_claim p = CLAIM_PREVIOUS) (on open_claim4_delegate_type open_claim4_delegate_type_update (xdr_open_delegation_type4 L)) (
     switch (\<lambda>p. open_claim4_claim p = CLAIM_DELEGATE_CUR) (on open_claim4_delegate_cur_info open_claim4_delegate_cur_info_update (xdr_open_claim_delegate_cur4 L)) (
     switch (\<lambda>p. open_claim4_claim p = CLAIM_DELEGATE_PREV) (on open_claim4_file_delegate_prev open_claim4_file_delegate_prev_update (xdr_component4 L)) (
     refuse)))))"

record OPEN4args =
  OPEN4args_seqid :: u32
  OPEN4args_share_access :: u32
  OPEN4args_share_deny :: u32
  OPEN4args_owner :: open_owner4
  OPEN4args_openhow :: openflag4
  OPEN4args_claim :: open_claim4

definition OPEN4args_format :: "OPEN4args xformat" where
  "OPEN4args_format =
     both (fld OPEN4args_seqid u32_format) (
     both (fld OPEN4args_share_access u32_format) (
     both (fld OPEN4args_share_deny u32_format) (
     both (fld OPEN4args_owner open_owner4_format) (
     both (fld OPEN4args_openhow openflag4_format) (
     fld OPEN4args_claim open_claim4_format)))))"

definition xdr_OPEN4args :: "'x xdrlib \<Rightarrow> ('x, OPEN4args) xdrproc" where
  "xdr_OPEN4args L =
     seq (on OPEN4args_seqid OPEN4args_seqid_update (xdr_seqid4 L)) (
     seq (on OPEN4args_share_access OPEN4args_share_access_update (xdr_uint32_t L)) (
     seq (on OPEN4args_share_deny OPEN4args_share_deny_update (xdr_uint32_t L)) (
     seq (on OPEN4args_owner OPEN4args_owner_update (xdr_open_owner4 L)) (
     seq (on OPEN4args_openhow OPEN4args_openhow_update (xdr_openflag4 L)) (
     on OPEN4args_claim OPEN4args_claim_update (xdr_open_claim4 L))))))"

record open_read_delegation4 =
  open_read_delegation4_stateid :: stateid4
  open_read_delegation4_recall :: u32
  open_read_delegation4_permissions :: nfsace4

definition open_read_delegation4_format :: "open_read_delegation4 xformat" where
  "open_read_delegation4_format =
     both (fld open_read_delegation4_stateid stateid4_format) (
     both (fld open_read_delegation4_recall bool_format) (
     fld open_read_delegation4_permissions nfsace4_format))"

definition xdr_open_read_delegation4 :: "'x xdrlib \<Rightarrow> ('x, open_read_delegation4) xdrproc" where
  "xdr_open_read_delegation4 L =
     seq (on open_read_delegation4_stateid open_read_delegation4_stateid_update (xdr_stateid4 L)) (
     seq (on open_read_delegation4_recall open_read_delegation4_recall_update (xdr_bool L)) (
     on open_read_delegation4_permissions open_read_delegation4_permissions_update (xdr_nfsace4 L)))"

record open_write_delegation4 =
  open_write_delegation4_stateid :: stateid4
  open_write_delegation4_recall :: u32
  open_write_delegation4_space_limit :: nfs_space_limit4
  open_write_delegation4_permissions :: nfsace4

definition open_write_delegation4_format :: "open_write_delegation4 xformat" where
  "open_write_delegation4_format =
     both (fld open_write_delegation4_stateid stateid4_format) (
     both (fld open_write_delegation4_recall bool_format) (
     both (fld open_write_delegation4_space_limit nfs_space_limit4_format) (
     fld open_write_delegation4_permissions nfsace4_format)))"

definition xdr_open_write_delegation4 :: "'x xdrlib \<Rightarrow> ('x, open_write_delegation4) xdrproc" where
  "xdr_open_write_delegation4 L =
     seq (on open_write_delegation4_stateid open_write_delegation4_stateid_update (xdr_stateid4 L)) (
     seq (on open_write_delegation4_recall open_write_delegation4_recall_update (xdr_bool L)) (
     seq (on open_write_delegation4_space_limit open_write_delegation4_space_limit_update (xdr_nfs_space_limit4 L)) (
     on open_write_delegation4_permissions open_write_delegation4_permissions_update (xdr_nfsace4 L))))"

record open_delegation4 =
  open_delegation4_delegation_type :: u32
  open_delegation4_read :: open_read_delegation4
  open_delegation4_write :: open_write_delegation4

definition open_delegation4_format :: "open_delegation4 xformat" where
  "open_delegation4_format =
     both (fld open_delegation4_delegation_type u32_format) (
     arm (\<lambda>p. open_delegation4_delegation_type p = OPEN_DELEGATE_NONE) void (
     arm (\<lambda>p. open_delegation4_delegation_type p = OPEN_DELEGATE_READ) (fld open_delegation4_read open_read_delegation4_format) (
     arm (\<lambda>p. open_delegation4_delegation_type p = OPEN_DELEGATE_WRITE) (fld open_delegation4_write open_write_delegation4_format) (
     never))))"

definition xdr_open_delegation4 :: "'x xdrlib \<Rightarrow> ('x, open_delegation4) xdrproc" where
  "xdr_open_delegation4 L =
     seq (on open_delegation4_delegation_type open_delegation4_delegation_type_update (xdr_open_delegation_type4 L)) (
     switch (\<lambda>p. open_delegation4_delegation_type p = OPEN_DELEGATE_NONE) pass (
     switch (\<lambda>p. open_delegation4_delegation_type p = OPEN_DELEGATE_READ) (on open_delegation4_read open_delegation4_read_update (xdr_open_read_delegation4 L)) (
     switch (\<lambda>p. open_delegation4_delegation_type p = OPEN_DELEGATE_WRITE) (on open_delegation4_write open_delegation4_write_update (xdr_open_write_delegation4 L)) (
     refuse))))"

record OPEN4resok =
  OPEN4resok_stateid :: stateid4
  OPEN4resok_cinfo :: change_info4
  OPEN4resok_rflags :: u32
  OPEN4resok_attrset :: "u32 list"
  OPEN4resok_delegation :: open_delegation4

definition OPEN4resok_format :: "OPEN4resok xformat" where
  "OPEN4resok_format =
     both (fld OPEN4resok_stateid stateid4_format) (
     both (fld OPEN4resok_cinfo change_info4_format) (
     both (fld OPEN4resok_rflags u32_format) (
     both (fld OPEN4resok_attrset (array_format (- 1) u32_format)) (
     fld OPEN4resok_delegation open_delegation4_format))))"

definition xdr_OPEN4resok :: "'x xdrlib \<Rightarrow> ('x, OPEN4resok) xdrproc" where
  "xdr_OPEN4resok L =
     seq (on OPEN4resok_stateid OPEN4resok_stateid_update (xdr_stateid4 L)) (
     seq (on OPEN4resok_cinfo OPEN4resok_cinfo_update (xdr_change_info4 L)) (
     seq (on OPEN4resok_rflags OPEN4resok_rflags_update (xdr_uint32_t L)) (
     seq (on OPEN4resok_attrset OPEN4resok_attrset_update (xdr_bitmap4 L)) (
     on OPEN4resok_delegation OPEN4resok_delegation_update (xdr_open_delegation4 L)))))"

record OPEN4res =
  OPEN4res_status :: u32
  OPEN4res_resok4 :: OPEN4resok

definition OPEN4res_format :: "OPEN4res xformat" where
  "OPEN4res_format =
     both (fld OPEN4res_status u32_format) (
     arm (\<lambda>p. OPEN4res_status p = NFS4_OK) (fld OPEN4res_resok4 OPEN4resok_format) (
     void))"

definition xdr_OPEN4res :: "'x xdrlib \<Rightarrow> ('x, OPEN4res) xdrproc" where
  "xdr_OPEN4res L =
     seq (on OPEN4res_status OPEN4res_status_update (xdr_nfsstat4 L)) (
     switch (\<lambda>p. OPEN4res_status p = NFS4_OK) (on OPEN4res_resok4 OPEN4res_resok4_update (xdr_OPEN4resok L)) (
     pass))"

record OPENATTR4args =
  OPENATTR4args_createdir :: u32

definition OPENATTR4args_format :: "OPENATTR4args xformat" where
  "OPENATTR4args_format =
     fld OPENATTR4args_createdir bool_format"

definition xdr_OPENATTR4args :: "'x xdrlib \<Rightarrow> ('x, OPENATTR4args) xdrproc" where
  "xdr_OPENATTR4args L = on OPENATTR4args_createdir OPENATTR4args_createdir_update (xdr_bool L)"

record OPENATTR4res =
  OPENATTR4res_status :: u32

definition OPENATTR4res_format :: "OPENATTR4res xformat" where
  "OPENATTR4res_format =
     fld OPENATTR4res_status u32_format"

definition xdr_OPENATTR4res :: "'x xdrlib \<Rightarrow> ('x, OPENATTR4res) xdrproc" where
  "xdr_OPENATTR4res L = on OPENATTR4res_status OPENATTR4res_status_update (xdr_nfsstat4 L)"

record OPEN_CONFIRM4args =
  OPEN_CONFIRM4args_open_stateid :: stateid4
  OPEN_CONFIRM4args_seqid :: u32

definition OPEN_CONFIRM4args_format :: "OPEN_CONFIRM4args xformat" where
  "OPEN_CONFIRM4args_format =
     both (fld OPEN_CONFIRM4args_open_stateid stateid4_format) (
     fld OPEN_CONFIRM4args_seqid u32_format)"

definition xdr_OPEN_CONFIRM4args :: "'x xdrlib \<Rightarrow> ('x, OPEN_CONFIRM4args) xdrproc" where
  "xdr_OPEN_CONFIRM4args L =
     seq (on OPEN_CONFIRM4args_open_stateid OPEN_CONFIRM4args_open_stateid_update (xdr_stateid4 L)) (
     on OPEN_CONFIRM4args_seqid OPEN_CONFIRM4args_seqid_update (xdr_seqid4 L))"

record OPEN_CONFIRM4resok =
  OPEN_CONFIRM4resok_open_stateid :: stateid4

definition OPEN_CONFIRM4resok_format :: "OPEN_CONFIRM4resok xformat" where
  "OPEN_CONFIRM4resok_format =
     fld OPEN_CONFIRM4resok_open_stateid stateid4_format"

definition xdr_OPEN_CONFIRM4resok :: "'x xdrlib \<Rightarrow> ('x, OPEN_CONFIRM4resok) xdrproc" where
  "xdr_OPEN_CONFIRM4resok L = on OPEN_CONFIRM4resok_open_stateid OPEN_CONFIRM4resok_open_stateid_update (xdr_stateid4 L)"

record OPEN_CONFIRM4res =
  OPEN_CONFIRM4res_status :: u32
  OPEN_CONFIRM4res_resok4 :: OPEN_CONFIRM4resok

definition OPEN_CONFIRM4res_format :: "OPEN_CONFIRM4res xformat" where
  "OPEN_CONFIRM4res_format =
     both (fld OPEN_CONFIRM4res_status u32_format) (
     arm (\<lambda>p. OPEN_CONFIRM4res_status p = NFS4_OK) (fld OPEN_CONFIRM4res_resok4 OPEN_CONFIRM4resok_format) (
     void))"

definition xdr_OPEN_CONFIRM4res :: "'x xdrlib \<Rightarrow> ('x, OPEN_CONFIRM4res) xdrproc" where
  "xdr_OPEN_CONFIRM4res L =
     seq (on OPEN_CONFIRM4res_status OPEN_CONFIRM4res_status_update (xdr_nfsstat4 L)) (
     switch (\<lambda>p. OPEN_CONFIRM4res_status p = NFS4_OK) (on OPEN_CONFIRM4res_resok4 OPEN_CONFIRM4res_resok4_update (xdr_OPEN_CONFIRM4resok L)) (
     pass))"

record OPEN_DOWNGRADE4args =
  OPEN_DOWNGRADE4args_open_stateid :: stateid4
  OPEN_DOWNGRADE4args_seqid :: u32
  OPEN_DOWNGRADE4args_share_access :: u32
  OPEN_DOWNGRADE4args_share_deny :: u32

definition OPEN_DOWNGRADE4args_format :: "OPEN_DOWNGRADE4args xformat" where
  "OPEN_DOWNGRADE4args_format =
     both (fld OPEN_DOWNGRADE4args_open_stateid stateid4_format) (
     both (fld OPEN_DOWNGRADE4args_seqid u32_format) (
     both (fld OPEN_DOWNGRADE4args_share_access u32_format) (
     fld OPEN_DOWNGRADE4args_share_deny u32_format)))"

definition xdr_OPEN_DOWNGRADE4args :: "'x xdrlib \<Rightarrow> ('x, OPEN_DOWNGRADE4args) xdrproc" where
  "xdr_OPEN_DOWNGRADE4args L =
     seq (on OPEN_DOWNGRADE4args_open_stateid OPEN_DOWNGRADE4args_open_stateid_update (xdr_stateid4 L)) (
     seq (on OPEN_DOWNGRADE4args_seqid OPEN_DOWNGRADE4args_seqid_update (xdr_seqid4 L)) (
     seq (on OPEN_DOWNGRADE4args_share_access OPEN_DOWNGRADE4args_share_access_update (xdr_uint32_t L)) (
     on OPEN_DOWNGRADE4args_share_deny OPEN_DOWNGRADE4args_share_deny_update (xdr_uint32_t L))))"

record OPEN_DOWNGRADE4resok =
  OPEN_DOWNGRADE4resok_open_stateid :: stateid4

definition OPEN_DOWNGRADE4resok_format :: "OPEN_DOWNGRADE4resok xformat" where
  "OPEN_DOWNGRADE4resok_format =
     fld OPEN_DOWNGRADE4resok_open_stateid stateid4_format"

definition xdr_OPEN_DOWNGRADE4resok :: "'x xdrlib \<Rightarrow> ('x, OPEN_DOWNGRADE4resok) xdrproc" where
  "xdr_OPEN_DOWNGRADE4resok L = on OPEN_DOWNGRADE4resok_open_stateid OPEN_DOWNGRADE4resok_open_stateid_update (xdr_stateid4 L)"

record OPEN_DOWNGRADE4res =
  OPEN_DOWNGRADE4res_status :: u32
  OPEN_DOWNGRADE4res_resok4 :: OPEN_DOWNGRADE4resok

definition OPEN_DOWNGRADE4res_format :: "OPEN_DOWNGRADE4res xformat" where
  "OPEN_DOWNGRADE4res_format =
     both (fld OPEN_DOWNGRADE4res_status u32_format) (
     arm (\<lambda>p. OPEN_DOWNGRADE4res_status p = NFS4_OK) (fld OPEN_DOWNGRADE4res_resok4 OPEN_DOWNGRADE4resok_format) (
     void))"

definition xdr_OPEN_DOWNGRADE4res :: "'x xdrlib \<Rightarrow> ('x, OPEN_DOWNGRADE4res) xdrproc" where
  "xdr_OPEN_DOWNGRADE4res L =
     seq (on OPEN_DOWNGRADE4res_status OPEN_DOWNGRADE4res_status_update (xdr_nfsstat4 L)) (
     switch (\<lambda>p. OPEN_DOWNGRADE4res_status p = NFS4_OK) (on OPEN_DOWNGRADE4res_resok4 OPEN_DOWNGRADE4res_resok4_update (xdr_OPEN_DOWNGRADE4resok L)) (
     pass))"

section \<open>The filters implement the formats\<close>

lemma createmode4_codec [xdr_codecs]: "xdr_lib_ok L V \<Longrightarrow> codec V (xdr_createmode4 L) u32_format"
  unfolding xdr_createmode4_def by (intro xdr_codecs)

lemma createhow4_codec [xdr_codecs]: "xdr_lib_ok L V \<Longrightarrow> codec V (xdr_createhow4 L) createhow4_format"
  unfolding xdr_createhow4_def createhow4_format_def by (rule codecI, (rule codec_rules xdr_codecs | assumption | (auto)[1])+)

lemma opentype4_codec [xdr_codecs]: "xdr_lib_ok L V \<Longrightarrow> codec V (xdr_opentype4 L) u32_format"
  unfolding xdr_opentype4_def by (intro xdr_codecs)

lemma openflag4_codec [xdr_codecs]: "xdr_lib_ok L V \<Longrightarrow> codec V (xdr_openflag4 L) openflag4_format"
  unfolding xdr_openflag4_def openflag4_format_def by (rule codecI, (rule codec_rules xdr_codecs | assumption | (auto)[1])+)

lemma limit_by4_codec [xdr_codecs]: "xdr_lib_ok L V \<Longrightarrow> codec V (xdr_limit_by4 L) u32_format"
  unfolding xdr_limit_by4_def by (intro xdr_codecs)

lemma nfs_modified_limit4_codec [xdr_codecs]: "xdr_lib_ok L V \<Longrightarrow> codec V (xdr_nfs_modified_limit4 L) nfs_modified_limit4_format"
  unfolding xdr_nfs_modified_limit4_def nfs_modified_limit4_format_def by (rule codecI, (rule codec_rules xdr_codecs | assumption | (auto)[1])+)

lemma nfs_space_limit4_codec [xdr_codecs]: "xdr_lib_ok L V \<Longrightarrow> codec V (xdr_nfs_space_limit4 L) nfs_space_limit4_format"
  unfolding xdr_nfs_space_limit4_def nfs_space_limit4_format_def by (rule codecI, (rule codec_rules xdr_codecs | assumption | (auto)[1])+)

lemma open_delegation_type4_codec [xdr_codecs]: "xdr_lib_ok L V \<Longrightarrow> codec V (xdr_open_delegation_type4 L) u32_format"
  unfolding xdr_open_delegation_type4_def by (intro xdr_codecs)

lemma open_claim_type4_codec [xdr_codecs]: "xdr_lib_ok L V \<Longrightarrow> codec V (xdr_open_claim_type4 L) u32_format"
  unfolding xdr_open_claim_type4_def by (intro xdr_codecs)

lemma open_claim_delegate_cur4_codec [xdr_codecs]: "xdr_lib_ok L V \<Longrightarrow> codec V (xdr_open_claim_delegate_cur4 L) open_claim_delegate_cur4_format"
  unfolding xdr_open_claim_delegate_cur4_def open_claim_delegate_cur4_format_def by (rule codecI, (rule codec_rules xdr_codecs | assumption | (auto)[1])+)

lemma open_claim4_codec [xdr_codecs]: "xdr_lib_ok L V \<Longrightarrow> codec V (xdr_open_claim4 L) open_claim4_format"
  unfolding xdr_open_claim4_def open_claim4_format_def by (rule codecI, (rule codec_rules xdr_codecs | assumption | (auto)[1])+)

lemma OPEN4args_codec [xdr_codecs]: "xdr_lib_ok L V \<Longrightarrow> codec V (xdr_OPEN4args L) OPEN4args_format"
  unfolding xdr_OPEN4args_def OPEN4args_format_def by (rule codecI, (rule codec_rules xdr_codecs | assumption | (auto)[1])+)

lemma open_read_delegation4_codec [xdr_codecs]: "xdr_lib_ok L V \<Longrightarrow> codec V (xdr_open_read_delegation4 L) open_read_delegation4_format"
  unfolding xdr_open_read_delegation4_def open_read_delegation4_format_def by (rule codecI, (rule codec_rules xdr_codecs | assumption | (auto)[1])+)

lemma open_write_delegation4_codec [xdr_codecs]: "xdr_lib_ok L V \<Longrightarrow> codec V (xdr_open_write_delegation4 L) open_write_delegation4_format"
  unfolding xdr_open_write_delegation4_def open_write_delegation4_format_def by (rule codecI, (rule codec_rules xdr_codecs | assumption | (auto)[1])+)

lemma open_delegation4_codec [xdr_codecs]: "xdr_lib_ok L V \<Longrightarrow> codec V (xdr_open_delegation4 L) open_delegation4_format"
  unfolding xdr_open_delegation4_def open_delegation4_format_def by (rule codecI, (rule codec_rules xdr_codecs | assumption | (auto)[1])+)

lemma OPEN4resok_codec [xdr_codecs]: "xdr_lib_ok L V \<Longrightarrow> codec V (xdr_OPEN4resok L) OPEN4resok_format"
  unfolding xdr_OPEN4resok_def OPEN4resok_format_def by (rule codecI, (rule codec_rules xdr_codecs | assumption | (auto)[1])+)

lemma OPEN4res_codec [xdr_codecs]: "xdr_lib_ok L V \<Longrightarrow> codec V (xdr_OPEN4res L) OPEN4res_format"
  unfolding xdr_OPEN4res_def OPEN4res_format_def by (rule codecI, (rule codec_rules xdr_codecs | assumption | (auto)[1])+)

lemma OPENATTR4args_codec [xdr_codecs]: "xdr_lib_ok L V \<Longrightarrow> codec V (xdr_OPENATTR4args L) OPENATTR4args_format"
  unfolding xdr_OPENATTR4args_def OPENATTR4args_format_def by (rule codecI, (rule codec_rules xdr_codecs | assumption | (auto)[1])+)

lemma OPENATTR4res_codec [xdr_codecs]: "xdr_lib_ok L V \<Longrightarrow> codec V (xdr_OPENATTR4res L) OPENATTR4res_format"
  unfolding xdr_OPENATTR4res_def OPENATTR4res_format_def by (rule codecI, (rule codec_rules xdr_codecs | assumption | (auto)[1])+)

lemma OPEN_CONFIRM4args_codec [xdr_codecs]: "xdr_lib_ok L V \<Longrightarrow> codec V (xdr_OPEN_CONFIRM4args L) OPEN_CONFIRM4args_format"
  unfolding xdr_OPEN_CONFIRM4args_def OPEN_CONFIRM4args_format_def by (rule codecI, (rule codec_rules xdr_codecs | assumption | (auto)[1])+)

lemma OPEN_CONFIRM4resok_codec [xdr_codecs]: "xdr_lib_ok L V \<Longrightarrow> codec V (xdr_OPEN_CONFIRM4resok L) OPEN_CONFIRM4resok_format"
  unfolding xdr_OPEN_CONFIRM4resok_def OPEN_CONFIRM4resok_format_def by (rule codecI, (rule codec_rules xdr_codecs | assumption | (auto)[1])+)

lemma OPEN_CONFIRM4res_codec [xdr_codecs]: "xdr_lib_ok L V \<Longrightarrow> codec V (xdr_OPEN_CONFIRM4res L) OPEN_CONFIRM4res_format"
  unfolding xdr_OPEN_CONFIRM4res_def OPEN_CONFIRM4res_format_def by (rule codecI, (rule codec_rules xdr_codecs | assumption | (auto)[1])+)

lemma OPEN_DOWNGRADE4args_codec [xdr_codecs]: "xdr_lib_ok L V \<Longrightarrow> codec V (xdr_OPEN_DOWNGRADE4args L) OPEN_DOWNGRADE4args_format"
  unfolding xdr_OPEN_DOWNGRADE4args_def OPEN_DOWNGRADE4args_format_def by (rule codecI, (rule codec_rules xdr_codecs | assumption | (auto)[1])+)

lemma OPEN_DOWNGRADE4resok_codec [xdr_codecs]: "xdr_lib_ok L V \<Longrightarrow> codec V (xdr_OPEN_DOWNGRADE4resok L) OPEN_DOWNGRADE4resok_format"
  unfolding xdr_OPEN_DOWNGRADE4resok_def OPEN_DOWNGRADE4resok_format_def by (rule codecI, (rule codec_rules xdr_codecs | assumption | (auto)[1])+)

lemma OPEN_DOWNGRADE4res_codec [xdr_codecs]: "xdr_lib_ok L V \<Longrightarrow> codec V (xdr_OPEN_DOWNGRADE4res L) OPEN_DOWNGRADE4res_format"
  unfolding xdr_OPEN_DOWNGRADE4res_def OPEN_DOWNGRADE4res_format_def by (rule codecI, (rule codec_rules xdr_codecs | assumption | (auto)[1])+)

end
