(* ===== verification/Nfs4Ops.thy ===== *)
theory Nfs4Ops
  imports Nfs4Types
begin

text \<open>
  Arguments and results of the NFSv4 operations PUTFH to RELEASE_LOCKOWNER. Directory listings (a
  linked list read through \<open>xdr_pointer\<close>) and the SECINFO result are in \<open>Nfs4Results\<close>.
\<close>

section \<open>Constants\<close>

definition NFS4ERR_CLID_INUSE :: u32 where
  "NFS4ERR_CLID_INUSE = 10017"

section \<open>Types, formats and filters\<close>

record PUTFH4args =
  PUTFH4args_object :: "u8 list"

definition PUTFH4args_format :: "PUTFH4args xformat" where
  "PUTFH4args_format =
     fld PUTFH4args_object (bytes_format NFS4_FHSIZE)"

definition xdr_PUTFH4args :: "'x xdrlib \<Rightarrow> ('x, PUTFH4args) xdrproc" where
  "xdr_PUTFH4args L = on PUTFH4args_object PUTFH4args_object_update (xdr_nfs_fh4 L)"

record PUTFH4res =
  PUTFH4res_status :: u32

definition PUTFH4res_format :: "PUTFH4res xformat" where
  "PUTFH4res_format =
     fld PUTFH4res_status u32_format"

definition xdr_PUTFH4res :: "'x xdrlib \<Rightarrow> ('x, PUTFH4res) xdrproc" where
  "xdr_PUTFH4res L = on PUTFH4res_status PUTFH4res_status_update (xdr_nfsstat4 L)"

record PUTPUBFH4res =
  PUTPUBFH4res_status :: u32

definition PUTPUBFH4res_format :: "PUTPUBFH4res xformat" where
  "PUTPUBFH4res_format =
     fld PUTPUBFH4res_status u32_format"

definition xdr_PUTPUBFH4res :: "'x xdrlib \<Rightarrow> ('x, PUTPUBFH4res) xdrproc" where
  "xdr_PUTPUBFH4res L = on PUTPUBFH4res_status PUTPUBFH4res_status_update (xdr_nfsstat4 L)"

record PUTROOTFH4res =
  PUTROOTFH4res_status :: u32

definition PUTROOTFH4res_format :: "PUTROOTFH4res xformat" where
  "PUTROOTFH4res_format =
     fld PUTROOTFH4res_status u32_format"

definition xdr_PUTROOTFH4res :: "'x xdrlib \<Rightarrow> ('x, PUTROOTFH4res) xdrproc" where
  "xdr_PUTROOTFH4res L = on PUTROOTFH4res_status PUTROOTFH4res_status_update (xdr_nfsstat4 L)"

record READ4args =
  READ4args_stateid :: stateid4
  READ4args_offset :: u64
  READ4args_count :: u32

definition READ4args_format :: "READ4args xformat" where
  "READ4args_format =
     both (fld READ4args_stateid stateid4_format) (
     both (fld READ4args_offset u64_format) (
     fld READ4args_count u32_format))"

definition xdr_READ4args :: "'x xdrlib \<Rightarrow> ('x, READ4args) xdrproc" where
  "xdr_READ4args L =
     seq (on READ4args_stateid READ4args_stateid_update (xdr_stateid4 L)) (
     seq (on READ4args_offset READ4args_offset_update (xdr_offset4 L)) (
     on READ4args_count READ4args_count_update (xdr_count4 L)))"

record READ4resok =
  READ4resok_eof :: u32
  READ4resok_data :: "u8 list"

definition READ4resok_format :: "READ4resok xformat" where
  "READ4resok_format =
     both (fld READ4resok_eof bool_format) (
     fld READ4resok_data (bytes_format (- 1)))"

definition xdr_READ4resok :: "'x xdrlib \<Rightarrow> ('x, READ4resok) xdrproc" where
  "xdr_READ4resok L =
     seq (on READ4resok_eof READ4resok_eof_update (xdr_bool L)) (
     on READ4resok_data READ4resok_data_update (xdr_bytes L (- 1)))"

record READ4res =
  READ4res_status :: u32
  READ4res_resok4 :: READ4resok

definition READ4res_format :: "READ4res xformat" where
  "READ4res_format =
     both (fld READ4res_status u32_format) (
     arm (\<lambda>p. READ4res_status p = NFS4_OK) (fld READ4res_resok4 READ4resok_format) (
     void))"

definition xdr_READ4res :: "'x xdrlib \<Rightarrow> ('x, READ4res) xdrproc" where
  "xdr_READ4res L =
     seq (on READ4res_status READ4res_status_update (xdr_nfsstat4 L)) (
     switch (\<lambda>p. READ4res_status p = NFS4_OK) (on READ4res_resok4 READ4res_resok4_update (xdr_READ4resok L)) (
     pass))"

record READDIR4args =
  READDIR4args_cookie :: u64
  READDIR4args_cookieverf :: "u8 list"
  READDIR4args_dircount :: u32
  READDIR4args_maxcount :: u32
  READDIR4args_attr_request :: "u32 list"

definition READDIR4args_format :: "READDIR4args xformat" where
  "READDIR4args_format =
     both (fld READDIR4args_cookie u64_format) (
     both (fld READDIR4args_cookieverf (opaque_format NFS4_VERIFIER_SIZE)) (
     both (fld READDIR4args_dircount u32_format) (
     both (fld READDIR4args_maxcount u32_format) (
     fld READDIR4args_attr_request (array_format (- 1) u32_format)))))"

definition xdr_READDIR4args :: "'x xdrlib \<Rightarrow> ('x, READDIR4args) xdrproc" where
  "xdr_READDIR4args L =
     seq (on READDIR4args_cookie READDIR4args_cookie_update (xdr_nfs_cookie4 L)) (
     seq (on READDIR4args_cookieverf READDIR4args_cookieverf_update (xdr_verifier4 L)) (
     seq (on READDIR4args_dircount READDIR4args_dircount_update (xdr_count4 L)) (
     seq (on READDIR4args_maxcount READDIR4args_maxcount_update (xdr_count4 L)) (
     on READDIR4args_attr_request READDIR4args_attr_request_update (xdr_bitmap4 L)))))"

record READLINK4resok =
  READLINK4resok_link :: "u8 list"

definition READLINK4resok_format :: "READLINK4resok xformat" where
  "READLINK4resok_format =
     fld READLINK4resok_link (bytes_format (- 1))"

definition xdr_READLINK4resok :: "'x xdrlib \<Rightarrow> ('x, READLINK4resok) xdrproc" where
  "xdr_READLINK4resok L = on READLINK4resok_link READLINK4resok_link_update (xdr_linktext4 L)"

record READLINK4res =
  READLINK4res_status :: u32
  READLINK4res_resok4 :: READLINK4resok

definition READLINK4res_format :: "READLINK4res xformat" where
  "READLINK4res_format =
     both (fld READLINK4res_status u32_format) (
     arm (\<lambda>p. READLINK4res_status p = NFS4_OK) (fld READLINK4res_resok4 READLINK4resok_format) (
     void))"

definition xdr_READLINK4res :: "'x xdrlib \<Rightarrow> ('x, READLINK4res) xdrproc" where
  "xdr_READLINK4res L =
     seq (on READLINK4res_status READLINK4res_status_update (xdr_nfsstat4 L)) (
     switch (\<lambda>p. READLINK4res_status p = NFS4_OK) (on READLINK4res_resok4 READLINK4res_resok4_update (xdr_READLINK4resok L)) (
     pass))"

record REMOVE4args =
  REMOVE4args_target :: "u8 list"

definition REMOVE4args_format :: "REMOVE4args xformat" where
  "REMOVE4args_format =
     fld REMOVE4args_target (bytes_format (- 1))"

definition xdr_REMOVE4args :: "'x xdrlib \<Rightarrow> ('x, REMOVE4args) xdrproc" where
  "xdr_REMOVE4args L = on REMOVE4args_target REMOVE4args_target_update (xdr_component4 L)"

record REMOVE4resok =
  REMOVE4resok_cinfo :: change_info4

definition REMOVE4resok_format :: "REMOVE4resok xformat" where
  "REMOVE4resok_format =
     fld REMOVE4resok_cinfo change_info4_format"

definition xdr_REMOVE4resok :: "'x xdrlib \<Rightarrow> ('x, REMOVE4resok) xdrproc" where
  "xdr_REMOVE4resok L = on REMOVE4resok_cinfo REMOVE4resok_cinfo_update (xdr_change_info4 L)"

record REMOVE4res =
  REMOVE4res_status :: u32
  REMOVE4res_resok4 :: REMOVE4resok

definition REMOVE4res_format :: "REMOVE4res xformat" where
  "REMOVE4res_format =
     both (fld REMOVE4res_status u32_format) (
     arm (\<lambda>p. REMOVE4res_status p = NFS4_OK) (fld REMOVE4res_resok4 REMOVE4resok_format) (
     void))"

definition xdr_REMOVE4res :: "'x xdrlib \<Rightarrow> ('x, REMOVE4res) xdrproc" where
  "xdr_REMOVE4res L =
     seq (on REMOVE4res_status REMOVE4res_status_update (xdr_nfsstat4 L)) (
     switch (\<lambda>p. REMOVE4res_status p = NFS4_OK) (on REMOVE4res_resok4 REMOVE4res_resok4_update (xdr_REMOVE4resok L)) (
     pass))"

record RENAME4args =
  RENAME4args_oldname :: "u8 list"
  RENAME4args_newname :: "u8 list"

definition RENAME4args_format :: "RENAME4args xformat" where
  "RENAME4args_format =
     both (fld RENAME4args_oldname (bytes_format (- 1))) (
     fld RENAME4args_newname (bytes_format (- 1)))"

definition xdr_RENAME4args :: "'x xdrlib \<Rightarrow> ('x, RENAME4args) xdrproc" where
  "xdr_RENAME4args L =
     seq (on RENAME4args_oldname RENAME4args_oldname_update (xdr_component4 L)) (
     on RENAME4args_newname RENAME4args_newname_update (xdr_component4 L))"

record RENAME4resok =
  RENAME4resok_source_cinfo :: change_info4
  RENAME4resok_target_cinfo :: change_info4

definition RENAME4resok_format :: "RENAME4resok xformat" where
  "RENAME4resok_format =
     both (fld RENAME4resok_source_cinfo change_info4_format) (
     fld RENAME4resok_target_cinfo change_info4_format)"

definition xdr_RENAME4resok :: "'x xdrlib \<Rightarrow> ('x, RENAME4resok) xdrproc" where
  "xdr_RENAME4resok L =
     seq (on RENAME4resok_source_cinfo RENAME4resok_source_cinfo_update (xdr_change_info4 L)) (
     on RENAME4resok_target_cinfo RENAME4resok_target_cinfo_update (xdr_change_info4 L))"

record RENAME4res =
  RENAME4res_status :: u32
  RENAME4res_resok4 :: RENAME4resok

definition RENAME4res_format :: "RENAME4res xformat" where
  "RENAME4res_format =
     both (fld RENAME4res_status u32_format) (
     arm (\<lambda>p. RENAME4res_status p = NFS4_OK) (fld RENAME4res_resok4 RENAME4resok_format) (
     void))"

definition xdr_RENAME4res :: "'x xdrlib \<Rightarrow> ('x, RENAME4res) xdrproc" where
  "xdr_RENAME4res L =
     seq (on RENAME4res_status RENAME4res_status_update (xdr_nfsstat4 L)) (
     switch (\<lambda>p. RENAME4res_status p = NFS4_OK) (on RENAME4res_resok4 RENAME4res_resok4_update (xdr_RENAME4resok L)) (
     pass))"

record RENEW4args =
  RENEW4args_clientid :: u64

definition RENEW4args_format :: "RENEW4args xformat" where
  "RENEW4args_format =
     fld RENEW4args_clientid u64_format"

definition xdr_RENEW4args :: "'x xdrlib \<Rightarrow> ('x, RENEW4args) xdrproc" where
  "xdr_RENEW4args L = on RENEW4args_clientid RENEW4args_clientid_update (xdr_clientid4 L)"

record RENEW4res =
  RENEW4res_status :: u32

definition RENEW4res_format :: "RENEW4res xformat" where
  "RENEW4res_format =
     fld RENEW4res_status u32_format"

definition xdr_RENEW4res :: "'x xdrlib \<Rightarrow> ('x, RENEW4res) xdrproc" where
  "xdr_RENEW4res L = on RENEW4res_status RENEW4res_status_update (xdr_nfsstat4 L)"

record RESTOREFH4res =
  RESTOREFH4res_status :: u32

definition RESTOREFH4res_format :: "RESTOREFH4res xformat" where
  "RESTOREFH4res_format =
     fld RESTOREFH4res_status u32_format"

definition xdr_RESTOREFH4res :: "'x xdrlib \<Rightarrow> ('x, RESTOREFH4res) xdrproc" where
  "xdr_RESTOREFH4res L = on RESTOREFH4res_status RESTOREFH4res_status_update (xdr_nfsstat4 L)"

record SAVEFH4res =
  SAVEFH4res_status :: u32

definition SAVEFH4res_format :: "SAVEFH4res xformat" where
  "SAVEFH4res_format =
     fld SAVEFH4res_status u32_format"

definition xdr_SAVEFH4res :: "'x xdrlib \<Rightarrow> ('x, SAVEFH4res) xdrproc" where
  "xdr_SAVEFH4res L = on SAVEFH4res_status SAVEFH4res_status_update (xdr_nfsstat4 L)"

record SECINFO4args =
  SECINFO4args_name :: "u8 list"

definition SECINFO4args_format :: "SECINFO4args xformat" where
  "SECINFO4args_format =
     fld SECINFO4args_name (bytes_format (- 1))"

definition xdr_SECINFO4args :: "'x xdrlib \<Rightarrow> ('x, SECINFO4args) xdrproc" where
  "xdr_SECINFO4args L = on SECINFO4args_name SECINFO4args_name_update (xdr_component4 L)"

record SETATTR4args =
  SETATTR4args_stateid :: stateid4
  SETATTR4args_obj_attributes :: fattr4

definition SETATTR4args_format :: "SETATTR4args xformat" where
  "SETATTR4args_format =
     both (fld SETATTR4args_stateid stateid4_format) (
     fld SETATTR4args_obj_attributes fattr4_format)"

definition xdr_SETATTR4args :: "'x xdrlib \<Rightarrow> ('x, SETATTR4args) xdrproc" where
  "xdr_SETATTR4args L =
     seq (on SETATTR4args_stateid SETATTR4args_stateid_update (xdr_stateid4 L)) (
     on SETATTR4args_obj_attributes SETATTR4args_obj_attributes_update (xdr_fattr4 L))"

record SETATTR4res =
  SETATTR4res_status :: u32
  SETATTR4res_attrsset :: "u32 list"

definition SETATTR4res_format :: "SETATTR4res xformat" where
  "SETATTR4res_format =
     both (fld SETATTR4res_status u32_format) (
     fld SETATTR4res_attrsset (array_format (- 1) u32_format))"

definition xdr_SETATTR4res :: "'x xdrlib \<Rightarrow> ('x, SETATTR4res) xdrproc" where
  "xdr_SETATTR4res L =
     seq (on SETATTR4res_status SETATTR4res_status_update (xdr_nfsstat4 L)) (
     on SETATTR4res_attrsset SETATTR4res_attrsset_update (xdr_bitmap4 L))"

record SETCLIENTID4args =
  SETCLIENTID4args_client :: nfs_client_id4
  SETCLIENTID4args_callback :: cb_client4
  SETCLIENTID4args_callback_ident :: u32

definition SETCLIENTID4args_format :: "SETCLIENTID4args xformat" where
  "SETCLIENTID4args_format =
     both (fld SETCLIENTID4args_client nfs_client_id4_format) (
     both (fld SETCLIENTID4args_callback cb_client4_format) (
     fld SETCLIENTID4args_callback_ident u32_format))"

definition xdr_SETCLIENTID4args :: "'x xdrlib \<Rightarrow> ('x, SETCLIENTID4args) xdrproc" where
  "xdr_SETCLIENTID4args L =
     seq (on SETCLIENTID4args_client SETCLIENTID4args_client_update (xdr_nfs_client_id4 L)) (
     seq (on SETCLIENTID4args_callback SETCLIENTID4args_callback_update (xdr_cb_client4 L)) (
     on SETCLIENTID4args_callback_ident SETCLIENTID4args_callback_ident_update (xdr_uint32_t L)))"

record SETCLIENTID4resok =
  SETCLIENTID4resok_clientid :: u64
  SETCLIENTID4resok_setclientid_confirm :: "u8 list"

definition SETCLIENTID4resok_format :: "SETCLIENTID4resok xformat" where
  "SETCLIENTID4resok_format =
     both (fld SETCLIENTID4resok_clientid u64_format) (
     fld SETCLIENTID4resok_setclientid_confirm (opaque_format NFS4_VERIFIER_SIZE))"

definition xdr_SETCLIENTID4resok :: "'x xdrlib \<Rightarrow> ('x, SETCLIENTID4resok) xdrproc" where
  "xdr_SETCLIENTID4resok L =
     seq (on SETCLIENTID4resok_clientid SETCLIENTID4resok_clientid_update (xdr_clientid4 L)) (
     on SETCLIENTID4resok_setclientid_confirm SETCLIENTID4resok_setclientid_confirm_update (xdr_verifier4 L))"

record SETCLIENTID4res =
  SETCLIENTID4res_status :: u32
  SETCLIENTID4res_resok4 :: SETCLIENTID4resok
  SETCLIENTID4res_client_using :: clientaddr4

definition SETCLIENTID4res_format :: "SETCLIENTID4res xformat" where
  "SETCLIENTID4res_format =
     both (fld SETCLIENTID4res_status u32_format) (
     arm (\<lambda>p. SETCLIENTID4res_status p = NFS4_OK) (fld SETCLIENTID4res_resok4 SETCLIENTID4resok_format) (
     arm (\<lambda>p. SETCLIENTID4res_status p = NFS4ERR_CLID_INUSE) (fld SETCLIENTID4res_client_using clientaddr4_format) (
     void)))"

definition xdr_SETCLIENTID4res :: "'x xdrlib \<Rightarrow> ('x, SETCLIENTID4res) xdrproc" where
  "xdr_SETCLIENTID4res L =
     seq (on SETCLIENTID4res_status SETCLIENTID4res_status_update (xdr_nfsstat4 L)) (
     switch (\<lambda>p. SETCLIENTID4res_status p = NFS4_OK) (on SETCLIENTID4res_resok4 SETCLIENTID4res_resok4_update (xdr_SETCLIENTID4resok L)) (
     switch (\<lambda>p. SETCLIENTID4res_status p = NFS4ERR_CLID_INUSE) (on SETCLIENTID4res_client_using SETCLIENTID4res_client_using_update (xdr_clientaddr4 L)) (
     pass)))"

record SETCLIENTID_CONFIRM4args =
  SETCLIENTID_CONFIRM4args_clientid :: u64
  SETCLIENTID_CONFIRM4args_setclientid_confirm :: "u8 list"

definition SETCLIENTID_CONFIRM4args_format :: "SETCLIENTID_CONFIRM4args xformat" where
  "SETCLIENTID_CONFIRM4args_format =
     both (fld SETCLIENTID_CONFIRM4args_clientid u64_format) (
     fld SETCLIENTID_CONFIRM4args_setclientid_confirm (opaque_format NFS4_VERIFIER_SIZE))"

definition xdr_SETCLIENTID_CONFIRM4args :: "'x xdrlib \<Rightarrow> ('x, SETCLIENTID_CONFIRM4args) xdrproc" where
  "xdr_SETCLIENTID_CONFIRM4args L =
     seq (on SETCLIENTID_CONFIRM4args_clientid SETCLIENTID_CONFIRM4args_clientid_update (xdr_clientid4 L)) (
     on SETCLIENTID_CONFIRM4args_setclientid_confirm SETCLIENTID_CONFIRM4args_setclientid_confirm_update (xdr_verifier4 L))"

record SETCLIENTID_CONFIRM4res =
  SETCLIENTID_CONFIRM4res_status :: u32

definition SETCLIENTID_CONFIRM4res_format :: "SETCLIENTID_CONFIRM4res xformat" where
  "SETCLIENTID_CONFIRM4res_format =
     fld SETCLIENTID_CONFIRM4res_status u32_format"

definition xdr_SETCLIENTID_CONFIRM4res :: "'x xdrlib \<Rightarrow> ('x, SETCLIENTID_CONFIRM4res) xdrproc" where
  "xdr_SETCLIENTID_CONFIRM4res L = on SETCLIENTID_CONFIRM4res_status SETCLIENTID_CONFIRM4res_status_update (xdr_nfsstat4 L)"

record VERIFY4args =
  VERIFY4args_obj_attributes :: fattr4

definition VERIFY4args_format :: "VERIFY4args xformat" where
  "VERIFY4args_format =
     fld VERIFY4args_obj_attributes fattr4_format"

definition xdr_VERIFY4args :: "'x xdrlib \<Rightarrow> ('x, VERIFY4args) xdrproc" where
  "xdr_VERIFY4args L = on VERIFY4args_obj_attributes VERIFY4args_obj_attributes_update (xdr_fattr4 L)"

record VERIFY4res =
  VERIFY4res_status :: u32

definition VERIFY4res_format :: "VERIFY4res xformat" where
  "VERIFY4res_format =
     fld VERIFY4res_status u32_format"

definition xdr_VERIFY4res :: "'x xdrlib \<Rightarrow> ('x, VERIFY4res) xdrproc" where
  "xdr_VERIFY4res L = on VERIFY4res_status VERIFY4res_status_update (xdr_nfsstat4 L)"

definition xdr_stable_how4 :: "'x xdrlib \<Rightarrow> ('x, u32) xdrproc" where
  "xdr_stable_how4 L = xdr_enum L"

record WRITE4args =
  WRITE4args_stateid :: stateid4
  WRITE4args_offset :: u64
  WRITE4args_stable :: u32
  WRITE4args_data :: "u8 list"

definition WRITE4args_format :: "WRITE4args xformat" where
  "WRITE4args_format =
     both (fld WRITE4args_stateid stateid4_format) (
     both (fld WRITE4args_offset u64_format) (
     both (fld WRITE4args_stable u32_format) (
     fld WRITE4args_data (bytes_format (- 1)))))"

definition xdr_WRITE4args :: "'x xdrlib \<Rightarrow> ('x, WRITE4args) xdrproc" where
  "xdr_WRITE4args L =
     seq (on WRITE4args_stateid WRITE4args_stateid_update (xdr_stateid4 L)) (
     seq (on WRITE4args_offset WRITE4args_offset_update (xdr_offset4 L)) (
     seq (on WRITE4args_stable WRITE4args_stable_update (xdr_stable_how4 L)) (
     on WRITE4args_data WRITE4args_data_update (xdr_bytes L (- 1)))))"

record WRITE4resok =
  WRITE4resok_count :: u32
  WRITE4resok_committed :: u32
  WRITE4resok_writeverf :: "u8 list"

definition WRITE4resok_format :: "WRITE4resok xformat" where
  "WRITE4resok_format =
     both (fld WRITE4resok_count u32_format) (
     both (fld WRITE4resok_committed u32_format) (
     fld WRITE4resok_writeverf (opaque_format NFS4_VERIFIER_SIZE)))"

definition xdr_WRITE4resok :: "'x xdrlib \<Rightarrow> ('x, WRITE4resok) xdrproc" where
  "xdr_WRITE4resok L =
     seq (on WRITE4resok_count WRITE4resok_count_update (xdr_count4 L)) (
     seq (on WRITE4resok_committed WRITE4resok_committed_update (xdr_stable_how4 L)) (
     on WRITE4resok_writeverf WRITE4resok_writeverf_update (xdr_verifier4 L)))"

record WRITE4res =
  WRITE4res_status :: u32
  WRITE4res_resok4 :: WRITE4resok

definition WRITE4res_format :: "WRITE4res xformat" where
  "WRITE4res_format =
     both (fld WRITE4res_status u32_format) (
     arm (\<lambda>p. WRITE4res_status p = NFS4_OK) (fld WRITE4res_resok4 WRITE4resok_format) (
     void))"

definition xdr_WRITE4res :: "'x xdrlib \<Rightarrow> ('x, WRITE4res) xdrproc" where
  "xdr_WRITE4res L =
     seq (on WRITE4res_status WRITE4res_status_update (xdr_nfsstat4 L)) (
     switch (\<lambda>p. WRITE4res_status p = NFS4_OK) (on WRITE4res_resok4 WRITE4res_resok4_update (xdr_WRITE4resok L)) (
     pass))"

record RELEASE_LOCKOWNER4args =
  RELEASE_LOCKOWNER4args_lock_owner :: lock_owner4

definition RELEASE_LOCKOWNER4args_format :: "RELEASE_LOCKOWNER4args xformat" where
  "RELEASE_LOCKOWNER4args_format =
     fld RELEASE_LOCKOWNER4args_lock_owner lock_owner4_format"

definition xdr_RELEASE_LOCKOWNER4args :: "'x xdrlib \<Rightarrow> ('x, RELEASE_LOCKOWNER4args) xdrproc" where
  "xdr_RELEASE_LOCKOWNER4args L = on RELEASE_LOCKOWNER4args_lock_owner RELEASE_LOCKOWNER4args_lock_owner_update (xdr_lock_owner4 L)"

record RELEASE_LOCKOWNER4res =
  RELEASE_LOCKOWNER4res_status :: u32

definition RELEASE_LOCKOWNER4res_format :: "RELEASE_LOCKOWNER4res xformat" where
  "RELEASE_LOCKOWNER4res_format =
     fld RELEASE_LOCKOWNER4res_status u32_format"

definition xdr_RELEASE_LOCKOWNER4res :: "'x xdrlib \<Rightarrow> ('x, RELEASE_LOCKOWNER4res) xdrproc" where
  "xdr_RELEASE_LOCKOWNER4res L = on RELEASE_LOCKOWNER4res_status RELEASE_LOCKOWNER4res_status_update (xdr_nfsstat4 L)"

record ILLEGAL4res =
  ILLEGAL4res_status :: u32

definition ILLEGAL4res_format :: "ILLEGAL4res xformat" where
  "ILLEGAL4res_format =
     fld ILLEGAL4res_status u32_format"

definition xdr_ILLEGAL4res :: "'x xdrlib \<Rightarrow> ('x, ILLEGAL4res) xdrproc" where
  "xdr_ILLEGAL4res L = on ILLEGAL4res_status ILLEGAL4res_status_update (xdr_nfsstat4 L)"

definition xdr_nfs_opnum4 :: "'x xdrlib \<Rightarrow> ('x, u32) xdrproc" where
  "xdr_nfs_opnum4 L = xdr_enum L"

section \<open>The filters implement the formats\<close>

lemma PUTFH4args_codec [xdr_codecs]: "xdr_lib_ok L V \<Longrightarrow> codec V (xdr_PUTFH4args L) PUTFH4args_format"
  unfolding xdr_PUTFH4args_def PUTFH4args_format_def by (rule codecI, (rule codec_rules xdr_codecs | assumption | (auto)[1])+)

lemma PUTFH4res_codec [xdr_codecs]: "xdr_lib_ok L V \<Longrightarrow> codec V (xdr_PUTFH4res L) PUTFH4res_format"
  unfolding xdr_PUTFH4res_def PUTFH4res_format_def by (rule codecI, (rule codec_rules xdr_codecs | assumption | (auto)[1])+)

lemma PUTPUBFH4res_codec [xdr_codecs]: "xdr_lib_ok L V \<Longrightarrow> codec V (xdr_PUTPUBFH4res L) PUTPUBFH4res_format"
  unfolding xdr_PUTPUBFH4res_def PUTPUBFH4res_format_def by (rule codecI, (rule codec_rules xdr_codecs | assumption | (auto)[1])+)

lemma PUTROOTFH4res_codec [xdr_codecs]: "xdr_lib_ok L V \<Longrightarrow> codec V (xdr_PUTROOTFH4res L) PUTROOTFH4res_format"
  unfolding xdr_PUTROOTFH4res_def PUTROOTFH4res_format_def by (rule codecI, (rule codec_rules xdr_codecs | assumption | (auto)[1])+)

lemma READ4args_codec [xdr_codecs]: "xdr_lib_ok L V \<Longrightarrow> codec V (xdr_READ4args L) READ4args_format"
  unfolding xdr_READ4args_def READ4args_format_def by (rule codecI, (rule codec_rules xdr_codecs | assumption | (auto)[1])+)

lemma READ4resok_codec [xdr_codecs]: "xdr_lib_ok L V \<Longrightarrow> codec V (xdr_READ4resok L) READ4resok_format"
  unfolding xdr_READ4resok_def READ4resok_format_def by (rule codecI, (rule codec_rules xdr_codecs | assumption | (auto)[1])+)

lemma READ4res_codec [xdr_codecs]: "xdr_lib_ok L V \<Longrightarrow> codec V (xdr_READ4res L) READ4res_format"
  unfolding xdr_READ4res_def READ4res_format_def by (rule codecI, (rule codec_rules xdr_codecs | assumption | (auto)[1])+)

lemma READDIR4args_codec [xdr_codecs]: "xdr_lib_ok L V \<Longrightarrow> codec V (xdr_READDIR4args L) READDIR4args_format"
  unfolding xdr_READDIR4args_def READDIR4args_format_def by (rule codecI, (rule codec_rules xdr_codecs | assumption | (auto)[1])+)

lemma READLINK4resok_codec [xdr_codecs]: "xdr_lib_ok L V \<Longrightarrow> codec V (xdr_READLINK4resok L) READLINK4resok_format"
  unfolding xdr_READLINK4resok_def READLINK4resok_format_def by (rule codecI, (rule codec_rules xdr_codecs | assumption | (auto)[1])+)

lemma READLINK4res_codec [xdr_codecs]: "xdr_lib_ok L V \<Longrightarrow> codec V (xdr_READLINK4res L) READLINK4res_format"
  unfolding xdr_READLINK4res_def READLINK4res_format_def by (rule codecI, (rule codec_rules xdr_codecs | assumption | (auto)[1])+)

lemma REMOVE4args_codec [xdr_codecs]: "xdr_lib_ok L V \<Longrightarrow> codec V (xdr_REMOVE4args L) REMOVE4args_format"
  unfolding xdr_REMOVE4args_def REMOVE4args_format_def by (rule codecI, (rule codec_rules xdr_codecs | assumption | (auto)[1])+)

lemma REMOVE4resok_codec [xdr_codecs]: "xdr_lib_ok L V \<Longrightarrow> codec V (xdr_REMOVE4resok L) REMOVE4resok_format"
  unfolding xdr_REMOVE4resok_def REMOVE4resok_format_def by (rule codecI, (rule codec_rules xdr_codecs | assumption | (auto)[1])+)

lemma REMOVE4res_codec [xdr_codecs]: "xdr_lib_ok L V \<Longrightarrow> codec V (xdr_REMOVE4res L) REMOVE4res_format"
  unfolding xdr_REMOVE4res_def REMOVE4res_format_def by (rule codecI, (rule codec_rules xdr_codecs | assumption | (auto)[1])+)

lemma RENAME4args_codec [xdr_codecs]: "xdr_lib_ok L V \<Longrightarrow> codec V (xdr_RENAME4args L) RENAME4args_format"
  unfolding xdr_RENAME4args_def RENAME4args_format_def by (rule codecI, (rule codec_rules xdr_codecs | assumption | (auto)[1])+)

lemma RENAME4resok_codec [xdr_codecs]: "xdr_lib_ok L V \<Longrightarrow> codec V (xdr_RENAME4resok L) RENAME4resok_format"
  unfolding xdr_RENAME4resok_def RENAME4resok_format_def by (rule codecI, (rule codec_rules xdr_codecs | assumption | (auto)[1])+)

lemma RENAME4res_codec [xdr_codecs]: "xdr_lib_ok L V \<Longrightarrow> codec V (xdr_RENAME4res L) RENAME4res_format"
  unfolding xdr_RENAME4res_def RENAME4res_format_def by (rule codecI, (rule codec_rules xdr_codecs | assumption | (auto)[1])+)

lemma RENEW4args_codec [xdr_codecs]: "xdr_lib_ok L V \<Longrightarrow> codec V (xdr_RENEW4args L) RENEW4args_format"
  unfolding xdr_RENEW4args_def RENEW4args_format_def by (rule codecI, (rule codec_rules xdr_codecs | assumption | (auto)[1])+)

lemma RENEW4res_codec [xdr_codecs]: "xdr_lib_ok L V \<Longrightarrow> codec V (xdr_RENEW4res L) RENEW4res_format"
  unfolding xdr_RENEW4res_def RENEW4res_format_def by (rule codecI, (rule codec_rules xdr_codecs | assumption | (auto)[1])+)

lemma RESTOREFH4res_codec [xdr_codecs]: "xdr_lib_ok L V \<Longrightarrow> codec V (xdr_RESTOREFH4res L) RESTOREFH4res_format"
  unfolding xdr_RESTOREFH4res_def RESTOREFH4res_format_def by (rule codecI, (rule codec_rules xdr_codecs | assumption | (auto)[1])+)

lemma SAVEFH4res_codec [xdr_codecs]: "xdr_lib_ok L V \<Longrightarrow> codec V (xdr_SAVEFH4res L) SAVEFH4res_format"
  unfolding xdr_SAVEFH4res_def SAVEFH4res_format_def by (rule codecI, (rule codec_rules xdr_codecs | assumption | (auto)[1])+)

lemma SECINFO4args_codec [xdr_codecs]: "xdr_lib_ok L V \<Longrightarrow> codec V (xdr_SECINFO4args L) SECINFO4args_format"
  unfolding xdr_SECINFO4args_def SECINFO4args_format_def by (rule codecI, (rule codec_rules xdr_codecs | assumption | (auto)[1])+)

lemma SETATTR4args_codec [xdr_codecs]: "xdr_lib_ok L V \<Longrightarrow> codec V (xdr_SETATTR4args L) SETATTR4args_format"
  unfolding xdr_SETATTR4args_def SETATTR4args_format_def by (rule codecI, (rule codec_rules xdr_codecs | assumption | (auto)[1])+)

lemma SETATTR4res_codec [xdr_codecs]: "xdr_lib_ok L V \<Longrightarrow> codec V (xdr_SETATTR4res L) SETATTR4res_format"
  unfolding xdr_SETATTR4res_def SETATTR4res_format_def by (rule codecI, (rule codec_rules xdr_codecs | assumption | (auto)[1])+)

lemma SETCLIENTID4args_codec [xdr_codecs]: "xdr_lib_ok L V \<Longrightarrow> codec V (xdr_SETCLIENTID4args L) SETCLIENTID4args_format"
  unfolding xdr_SETCLIENTID4args_def SETCLIENTID4args_format_def by (rule codecI, (rule codec_rules xdr_codecs | assumption | (auto)[1])+)

lemma SETCLIENTID4resok_codec [xdr_codecs]: "xdr_lib_ok L V \<Longrightarrow> codec V (xdr_SETCLIENTID4resok L) SETCLIENTID4resok_format"
  unfolding xdr_SETCLIENTID4resok_def SETCLIENTID4resok_format_def by (rule codecI, (rule codec_rules xdr_codecs | assumption | (auto)[1])+)

lemma SETCLIENTID4res_codec [xdr_codecs]: "xdr_lib_ok L V \<Longrightarrow> codec V (xdr_SETCLIENTID4res L) SETCLIENTID4res_format"
  unfolding xdr_SETCLIENTID4res_def SETCLIENTID4res_format_def by (rule codecI, (rule codec_rules xdr_codecs | assumption | (auto)[1])+)

lemma SETCLIENTID_CONFIRM4args_codec [xdr_codecs]: "xdr_lib_ok L V \<Longrightarrow> codec V (xdr_SETCLIENTID_CONFIRM4args L) SETCLIENTID_CONFIRM4args_format"
  unfolding xdr_SETCLIENTID_CONFIRM4args_def SETCLIENTID_CONFIRM4args_format_def by (rule codecI, (rule codec_rules xdr_codecs | assumption | (auto)[1])+)

lemma SETCLIENTID_CONFIRM4res_codec [xdr_codecs]: "xdr_lib_ok L V \<Longrightarrow> codec V (xdr_SETCLIENTID_CONFIRM4res L) SETCLIENTID_CONFIRM4res_format"
  unfolding xdr_SETCLIENTID_CONFIRM4res_def SETCLIENTID_CONFIRM4res_format_def by (rule codecI, (rule codec_rules xdr_codecs | assumption | (auto)[1])+)

lemma VERIFY4args_codec [xdr_codecs]: "xdr_lib_ok L V \<Longrightarrow> codec V (xdr_VERIFY4args L) VERIFY4args_format"
  unfolding xdr_VERIFY4args_def VERIFY4args_format_def by (rule codecI, (rule codec_rules xdr_codecs | assumption | (auto)[1])+)

lemma VERIFY4res_codec [xdr_codecs]: "xdr_lib_ok L V \<Longrightarrow> codec V (xdr_VERIFY4res L) VERIFY4res_format"
  unfolding xdr_VERIFY4res_def VERIFY4res_format_def by (rule codecI, (rule codec_rules xdr_codecs | assumption | (auto)[1])+)

lemma stable_how4_codec [xdr_codecs]: "xdr_lib_ok L V \<Longrightarrow> codec V (xdr_stable_how4 L) u32_format"
  unfolding xdr_stable_how4_def by (intro xdr_codecs)

lemma WRITE4args_codec [xdr_codecs]: "xdr_lib_ok L V \<Longrightarrow> codec V (xdr_WRITE4args L) WRITE4args_format"
  unfolding xdr_WRITE4args_def WRITE4args_format_def by (rule codecI, (rule codec_rules xdr_codecs | assumption | (auto)[1])+)

lemma WRITE4resok_codec [xdr_codecs]: "xdr_lib_ok L V \<Longrightarrow> codec V (xdr_WRITE4resok L) WRITE4resok_format"
  unfolding xdr_WRITE4resok_def WRITE4resok_format_def by (rule codecI, (rule codec_rules xdr_codecs | assumption | (auto)[1])+)

lemma WRITE4res_codec [xdr_codecs]: "xdr_lib_ok L V \<Longrightarrow> codec V (xdr_WRITE4res L) WRITE4res_format"
  unfolding xdr_WRITE4res_def WRITE4res_format_def by (rule codecI, (rule codec_rules xdr_codecs | assumption | (auto)[1])+)

lemma RELEASE_LOCKOWNER4args_codec [xdr_codecs]: "xdr_lib_ok L V \<Longrightarrow> codec V (xdr_RELEASE_LOCKOWNER4args L) RELEASE_LOCKOWNER4args_format"
  unfolding xdr_RELEASE_LOCKOWNER4args_def RELEASE_LOCKOWNER4args_format_def by (rule codecI, (rule codec_rules xdr_codecs | assumption | (auto)[1])+)

lemma RELEASE_LOCKOWNER4res_codec [xdr_codecs]: "xdr_lib_ok L V \<Longrightarrow> codec V (xdr_RELEASE_LOCKOWNER4res L) RELEASE_LOCKOWNER4res_format"
  unfolding xdr_RELEASE_LOCKOWNER4res_def RELEASE_LOCKOWNER4res_format_def by (rule codecI, (rule codec_rules xdr_codecs | assumption | (auto)[1])+)

lemma ILLEGAL4res_codec [xdr_codecs]: "xdr_lib_ok L V \<Longrightarrow> codec V (xdr_ILLEGAL4res L) ILLEGAL4res_format"
  unfolding xdr_ILLEGAL4res_def ILLEGAL4res_format_def by (rule codecI, (rule codec_rules xdr_codecs | assumption | (auto)[1])+)

lemma nfs_opnum4_codec [xdr_codecs]: "xdr_lib_ok L V \<Longrightarrow> codec V (xdr_nfs_opnum4 L) u32_format"
  unfolding xdr_nfs_opnum4_def by (intro xdr_codecs)

end
