(* ===== verification/Nfs4Compound.thy ===== *)
theory Nfs4Compound
  imports Nfs4Files Nfs4Open Nfs4Ops
begin

text \<open>
  The COMPOUND request: the union of all operation arguments and the array of operations.
\<close>

section \<open>Constants\<close>

definition OP_ACCESS :: u32 where
  "OP_ACCESS = 3"

definition OP_CLOSE :: u32 where
  "OP_CLOSE = 4"

definition OP_COMMIT :: u32 where
  "OP_COMMIT = 5"

definition OP_CREATE :: u32 where
  "OP_CREATE = 6"

definition OP_DELEGPURGE :: u32 where
  "OP_DELEGPURGE = 7"

definition OP_DELEGRETURN :: u32 where
  "OP_DELEGRETURN = 8"

definition OP_GETATTR :: u32 where
  "OP_GETATTR = 9"

definition OP_GETFH :: u32 where
  "OP_GETFH = 10"

definition OP_LINK :: u32 where
  "OP_LINK = 11"

definition OP_LOCK :: u32 where
  "OP_LOCK = 12"

definition OP_LOCKT :: u32 where
  "OP_LOCKT = 13"

definition OP_LOCKU :: u32 where
  "OP_LOCKU = 14"

definition OP_LOOKUP :: u32 where
  "OP_LOOKUP = 15"

definition OP_LOOKUPP :: u32 where
  "OP_LOOKUPP = 16"

definition OP_NVERIFY :: u32 where
  "OP_NVERIFY = 17"

definition OP_OPEN :: u32 where
  "OP_OPEN = 18"

definition OP_OPENATTR :: u32 where
  "OP_OPENATTR = 19"

definition OP_OPEN_CONFIRM :: u32 where
  "OP_OPEN_CONFIRM = 20"

definition OP_OPEN_DOWNGRADE :: u32 where
  "OP_OPEN_DOWNGRADE = 21"

definition OP_PUTFH :: u32 where
  "OP_PUTFH = 22"

definition OP_PUTPUBFH :: u32 where
  "OP_PUTPUBFH = 23"

definition OP_PUTROOTFH :: u32 where
  "OP_PUTROOTFH = 24"

definition OP_READ :: u32 where
  "OP_READ = 25"

definition OP_READDIR :: u32 where
  "OP_READDIR = 26"

definition OP_READLINK :: u32 where
  "OP_READLINK = 27"

definition OP_REMOVE :: u32 where
  "OP_REMOVE = 28"

definition OP_RENAME :: u32 where
  "OP_RENAME = 29"

definition OP_RENEW :: u32 where
  "OP_RENEW = 30"

definition OP_RESTOREFH :: u32 where
  "OP_RESTOREFH = 31"

definition OP_SAVEFH :: u32 where
  "OP_SAVEFH = 32"

definition OP_SECINFO :: u32 where
  "OP_SECINFO = 33"

definition OP_SETATTR :: u32 where
  "OP_SETATTR = 34"

definition OP_SETCLIENTID :: u32 where
  "OP_SETCLIENTID = 35"

definition OP_SETCLIENTID_CONFIRM :: u32 where
  "OP_SETCLIENTID_CONFIRM = 36"

definition OP_VERIFY :: u32 where
  "OP_VERIFY = 37"

definition OP_WRITE :: u32 where
  "OP_WRITE = 38"

definition OP_RELEASE_LOCKOWNER :: u32 where
  "OP_RELEASE_LOCKOWNER = 39"

definition OP_ILLEGAL :: u32 where
  "OP_ILLEGAL = 10044"

section \<open>Types, formats and filters\<close>

record nfs_argop4 =
  nfs_argop4_argop :: u32
  nfs_argop4_opaccess :: ACCESS4args
  nfs_argop4_opclose :: CLOSE4args
  nfs_argop4_opcommit :: COMMIT4args
  nfs_argop4_opcreate :: CREATE4args
  nfs_argop4_opdelegpurge :: DELEGPURGE4args
  nfs_argop4_opdelegreturn :: DELEGRETURN4args
  nfs_argop4_opgetattr :: GETATTR4args
  nfs_argop4_oplink :: LINK4args
  nfs_argop4_oplock :: LOCK4args
  nfs_argop4_oplockt :: LOCKT4args
  nfs_argop4_oplocku :: LOCKU4args
  nfs_argop4_oplookup :: LOOKUP4args
  nfs_argop4_opnverify :: NVERIFY4args
  nfs_argop4_opopen :: OPEN4args
  nfs_argop4_opopenattr :: OPENATTR4args
  nfs_argop4_opopen_confirm :: OPEN_CONFIRM4args
  nfs_argop4_opopen_downgrade :: OPEN_DOWNGRADE4args
  nfs_argop4_opputfh :: PUTFH4args
  nfs_argop4_opread :: READ4args
  nfs_argop4_opreaddir :: READDIR4args
  nfs_argop4_opremove :: REMOVE4args
  nfs_argop4_oprename :: RENAME4args
  nfs_argop4_oprenew :: RENEW4args
  nfs_argop4_opsecinfo :: SECINFO4args
  nfs_argop4_opsetattr :: SETATTR4args
  nfs_argop4_opsetclientid :: SETCLIENTID4args
  nfs_argop4_opsetclientid_confirm :: SETCLIENTID_CONFIRM4args
  nfs_argop4_opverify :: VERIFY4args
  nfs_argop4_opwrite :: WRITE4args
  nfs_argop4_oprelease_lockowner :: RELEASE_LOCKOWNER4args

definition nfs_argop4_format :: "nfs_argop4 xformat" where
  "nfs_argop4_format =
     both (fld nfs_argop4_argop u32_format) (
     arm (\<lambda>p. nfs_argop4_argop p = OP_ACCESS) (fld nfs_argop4_opaccess ACCESS4args_format) (
     arm (\<lambda>p. nfs_argop4_argop p = OP_CLOSE) (fld nfs_argop4_opclose CLOSE4args_format) (
     arm (\<lambda>p. nfs_argop4_argop p = OP_COMMIT) (fld nfs_argop4_opcommit COMMIT4args_format) (
     arm (\<lambda>p. nfs_argop4_argop p = OP_CREATE) (fld nfs_argop4_opcreate CREATE4args_format) (
     arm (\<lambda>p. nfs_argop4_argop p = OP_DELEGPURGE) (fld nfs_argop4_opdelegpurge DELEGPURGE4args_format) (
     arm (\<lambda>p. nfs_argop4_argop p = OP_DELEGRETURN) (fld nfs_argop4_opdelegreturn DELEGRETURN4args_format) (
     arm (\<lambda>p. nfs_argop4_argop p = OP_GETATTR) (fld nfs_argop4_opgetattr GETATTR4args_format) (
     arm (\<lambda>p. nfs_argop4_argop p = OP_GETFH) void (
     arm (\<lambda>p. nfs_argop4_argop p = OP_LINK) (fld nfs_argop4_oplink LINK4args_format) (
     arm (\<lambda>p. nfs_argop4_argop p = OP_LOCK) (fld nfs_argop4_oplock LOCK4args_format) (
     arm (\<lambda>p. nfs_argop4_argop p = OP_LOCKT) (fld nfs_argop4_oplockt LOCKT4args_format) (
     arm (\<lambda>p. nfs_argop4_argop p = OP_LOCKU) (fld nfs_argop4_oplocku LOCKU4args_format) (
     arm (\<lambda>p. nfs_argop4_argop p = OP_LOOKUP) (fld nfs_argop4_oplookup LOOKUP4args_format) (
     arm (\<lambda>p. nfs_argop4_argop p = OP_LOOKUPP) void (
     arm (\<lambda>p. nfs_argop4_argop p = OP_NVERIFY) (fld nfs_argop4_opnverify NVERIFY4args_format) (
     arm (\<lambda>p. nfs_argop4_argop p = OP_OPEN) (fld nfs_argop4_opopen OPEN4args_format) (
     arm (\<lambda>p. nfs_argop4_argop p = OP_OPENATTR) (fld nfs_argop4_opopenattr OPENATTR4args_format) (
     arm (\<lambda>p. nfs_argop4_argop p = OP_OPEN_CONFIRM) (fld nfs_argop4_opopen_confirm OPEN_CONFIRM4args_format) (
     arm (\<lambda>p. nfs_argop4_argop p = OP_OPEN_DOWNGRADE) (fld nfs_argop4_opopen_downgrade OPEN_DOWNGRADE4args_format) (
     arm (\<lambda>p. nfs_argop4_argop p = OP_PUTFH) (fld nfs_argop4_opputfh PUTFH4args_format) (
     arm (\<lambda>p. nfs_argop4_argop p = OP_PUTPUBFH) void (
     arm (\<lambda>p. nfs_argop4_argop p = OP_PUTROOTFH) void (
     arm (\<lambda>p. nfs_argop4_argop p = OP_READ) (fld nfs_argop4_opread READ4args_format) (
     arm (\<lambda>p. nfs_argop4_argop p = OP_READDIR) (fld nfs_argop4_opreaddir READDIR4args_format) (
     arm (\<lambda>p. nfs_argop4_argop p = OP_READLINK) void (
     arm (\<lambda>p. nfs_argop4_argop p = OP_REMOVE) (fld nfs_argop4_opremove REMOVE4args_format) (
     arm (\<lambda>p. nfs_argop4_argop p = OP_RENAME) (fld nfs_argop4_oprename RENAME4args_format) (
     arm (\<lambda>p. nfs_argop4_argop p = OP_RENEW) (fld nfs_argop4_oprenew RENEW4args_format) (
     arm (\<lambda>p. nfs_argop4_argop p = OP_RESTOREFH) void (
     arm (\<lambda>p. nfs_argop4_argop p = OP_SAVEFH) void (
     arm (\<lambda>p. nfs_argop4_argop p = OP_SECINFO) (fld nfs_argop4_opsecinfo SECINFO4args_format) (
     arm (\<lambda>p. nfs_argop4_argop p = OP_SETATTR) (fld nfs_argop4_opsetattr SETATTR4args_format) (
     arm (\<lambda>p. nfs_argop4_argop p = OP_SETCLIENTID) (fld nfs_argop4_opsetclientid SETCLIENTID4args_format) (
     arm (\<lambda>p. nfs_argop4_argop p = OP_SETCLIENTID_CONFIRM) (fld nfs_argop4_opsetclientid_confirm SETCLIENTID_CONFIRM4args_format) (
     arm (\<lambda>p. nfs_argop4_argop p = OP_VERIFY) (fld nfs_argop4_opverify VERIFY4args_format) (
     arm (\<lambda>p. nfs_argop4_argop p = OP_WRITE) (fld nfs_argop4_opwrite WRITE4args_format) (
     arm (\<lambda>p. nfs_argop4_argop p = OP_RELEASE_LOCKOWNER) (fld nfs_argop4_oprelease_lockowner RELEASE_LOCKOWNER4args_format) (
     arm (\<lambda>p. nfs_argop4_argop p = OP_ILLEGAL) void (
     never)))))))))))))))))))))))))))))))))))))))"

definition xdr_nfs_argop4 :: "'x xdrlib \<Rightarrow> ('x, nfs_argop4) xdrproc" where
  "xdr_nfs_argop4 L =
     seq (on nfs_argop4_argop nfs_argop4_argop_update (xdr_nfs_opnum4 L)) (
     switch (\<lambda>p. nfs_argop4_argop p = OP_ACCESS) (on nfs_argop4_opaccess nfs_argop4_opaccess_update (xdr_ACCESS4args L)) (
     switch (\<lambda>p. nfs_argop4_argop p = OP_CLOSE) (on nfs_argop4_opclose nfs_argop4_opclose_update (xdr_CLOSE4args L)) (
     switch (\<lambda>p. nfs_argop4_argop p = OP_COMMIT) (on nfs_argop4_opcommit nfs_argop4_opcommit_update (xdr_COMMIT4args L)) (
     switch (\<lambda>p. nfs_argop4_argop p = OP_CREATE) (on nfs_argop4_opcreate nfs_argop4_opcreate_update (xdr_CREATE4args L)) (
     switch (\<lambda>p. nfs_argop4_argop p = OP_DELEGPURGE) (on nfs_argop4_opdelegpurge nfs_argop4_opdelegpurge_update (xdr_DELEGPURGE4args L)) (
     switch (\<lambda>p. nfs_argop4_argop p = OP_DELEGRETURN) (on nfs_argop4_opdelegreturn nfs_argop4_opdelegreturn_update (xdr_DELEGRETURN4args L)) (
     switch (\<lambda>p. nfs_argop4_argop p = OP_GETATTR) (on nfs_argop4_opgetattr nfs_argop4_opgetattr_update (xdr_GETATTR4args L)) (
     switch (\<lambda>p. nfs_argop4_argop p = OP_GETFH) pass (
     switch (\<lambda>p. nfs_argop4_argop p = OP_LINK) (on nfs_argop4_oplink nfs_argop4_oplink_update (xdr_LINK4args L)) (
     switch (\<lambda>p. nfs_argop4_argop p = OP_LOCK) (on nfs_argop4_oplock nfs_argop4_oplock_update (xdr_LOCK4args L)) (
     switch (\<lambda>p. nfs_argop4_argop p = OP_LOCKT) (on nfs_argop4_oplockt nfs_argop4_oplockt_update (xdr_LOCKT4args L)) (
     switch (\<lambda>p. nfs_argop4_argop p = OP_LOCKU) (on nfs_argop4_oplocku nfs_argop4_oplocku_update (xdr_LOCKU4args L)) (
     switch (\<lambda>p. nfs_argop4_argop p = OP_LOOKUP) (on nfs_argop4_oplookup nfs_argop4_oplookup_update (xdr_LOOKUP4args L)) (
     switch (\<lambda>p. nfs_argop4_argop p = OP_LOOKUPP) pass (
     switch (\<lambda>p. nfs_argop4_argop p = OP_NVERIFY) (on nfs_argop4_opnverify nfs_argop4_opnverify_update (xdr_NVERIFY4args L)) (
     switch (\<lambda>p. nfs_argop4_argop p = OP_OPEN) (on nfs_argop4_opopen nfs_argop4_opopen_update (xdr_OPEN4args L)) (
     switch (\<lambda>p. nfs_argop4_argop p = OP_OPENATTR) (on nfs_argop4_opopenattr nfs_argop4_opopenattr_update (xdr_OPENATTR4args L)) (
     switch (\<lambda>p. nfs_argop4_argop p = OP_OPEN_CONFIRM) (on nfs_argop4_opopen_confirm nfs_argop4_opopen_confirm_update (xdr_OPEN_CONFIRM4args L)) (
     switch (\<lambda>p. nfs_argop4_argop p = OP_OPEN_DOWNGRADE) (on nfs_argop4_opopen_downgrade nfs_argop4_opopen_downgrade_update (xdr_OPEN_DOWNGRADE4args L)) (
     switch (\<lambda>p. nfs_argop4_argop p = OP_PUTFH) (on nfs_argop4_opputfh nfs_argop4_opputfh_update (xdr_PUTFH4args L)) (
     switch (\<lambda>p. nfs_argop4_argop p = OP_PUTPUBFH) pass (
     switch (\<lambda>p. nfs_argop4_argop p = OP_PUTROOTFH) pass (
     switch (\<lambda>p. nfs_argop4_argop p = OP_READ) (on nfs_argop4_opread nfs_argop4_opread_update (xdr_READ4args L)) (
     switch (\<lambda>p. nfs_argop4_argop p = OP_READDIR) (on nfs_argop4_opreaddir nfs_argop4_opreaddir_update (xdr_READDIR4args L)) (
     switch (\<lambda>p. nfs_argop4_argop p = OP_READLINK) pass (
     switch (\<lambda>p. nfs_argop4_argop p = OP_REMOVE) (on nfs_argop4_opremove nfs_argop4_opremove_update (xdr_REMOVE4args L)) (
     switch (\<lambda>p. nfs_argop4_argop p = OP_RENAME) (on nfs_argop4_oprename nfs_argop4_oprename_update (xdr_RENAME4args L)) (
     switch (\<lambda>p. nfs_argop4_argop p = OP_RENEW) (on nfs_argop4_oprenew nfs_argop4_oprenew_update (xdr_RENEW4args L)) (
     switch (\<lambda>p. nfs_argop4_argop p = OP_RESTOREFH) pass (
     switch (\<lambda>p. nfs_argop4_argop p = OP_SAVEFH) pass (
     switch (\<lambda>p. nfs_argop4_argop p = OP_SECINFO) (on nfs_argop4_opsecinfo nfs_argop4_opsecinfo_update (xdr_SECINFO4args L)) (
     switch (\<lambda>p. nfs_argop4_argop p = OP_SETATTR) (on nfs_argop4_opsetattr nfs_argop4_opsetattr_update (xdr_SETATTR4args L)) (
     switch (\<lambda>p. nfs_argop4_argop p = OP_SETCLIENTID) (on nfs_argop4_opsetclientid nfs_argop4_opsetclientid_update (xdr_SETCLIENTID4args L)) (
     switch (\<lambda>p. nfs_argop4_argop p = OP_SETCLIENTID_CONFIRM) (on nfs_argop4_opsetclientid_confirm nfs_argop4_opsetclientid_confirm_update (xdr_SETCLIENTID_CONFIRM4args L)) (
     switch (\<lambda>p. nfs_argop4_argop p = OP_VERIFY) (on nfs_argop4_opverify nfs_argop4_opverify_update (xdr_VERIFY4args L)) (
     switch (\<lambda>p. nfs_argop4_argop p = OP_WRITE) (on nfs_argop4_opwrite nfs_argop4_opwrite_update (xdr_WRITE4args L)) (
     switch (\<lambda>p. nfs_argop4_argop p = OP_RELEASE_LOCKOWNER) (on nfs_argop4_oprelease_lockowner nfs_argop4_oprelease_lockowner_update (xdr_RELEASE_LOCKOWNER4args L)) (
     switch (\<lambda>p. nfs_argop4_argop p = OP_ILLEGAL) pass (
     refuse)))))))))))))))))))))))))))))))))))))))"

section \<open>The filters implement the formats\<close>

lemma nfs_argop4_codec [xdr_codecs]: "xdr_lib_ok L V \<Longrightarrow> codec V (xdr_nfs_argop4 L) nfs_argop4_format"
  unfolding xdr_nfs_argop4_def nfs_argop4_format_def by (rule codecI, (rule codec_rules xdr_codecs | assumption | (auto)[1])+)

section \<open>The request\<close>

record COMPOUND4args =
  COMPOUND4args_tag :: "u8 list"
  COMPOUND4args_minorversion :: u32
  COMPOUND4args_argarray :: "nfs_argop4 list"

definition COMPOUND4args_format :: "COMPOUND4args xformat" where
  "COMPOUND4args_format =
     both (fld COMPOUND4args_tag (bytes_format (- 1))) (
     both (fld COMPOUND4args_minorversion u32_format) (
     fld COMPOUND4args_argarray (array_format (- 1) nfs_argop4_format)))"

text \<open>The parameter \<open>arr\<close> is \<open>xdr_array\<close> at the element type
  \<open>nfs_argop4\<close>.\<close>

definition xdr_COMPOUND4args :: "'x xdrlib \<Rightarrow> (u32 \<Rightarrow> ('x, nfs_argop4) xdrproc \<Rightarrow> ('x, nfs_argop4 list) xdrproc) \<Rightarrow> ('x, COMPOUND4args) xdrproc" where
  "xdr_COMPOUND4args L arr =
     seq (on COMPOUND4args_tag COMPOUND4args_tag_update (xdr_utf8str_cs L)) (
     seq (on COMPOUND4args_minorversion COMPOUND4args_minorversion_update (xdr_uint32_t L)) (
     on COMPOUND4args_argarray COMPOUND4args_argarray_update (arr (- 1) (xdr_nfs_argop4 L))))"

lemma COMPOUND4args_codec:
  assumes "xdr_lib_ok L V" and "xdr_array_ok V z arr" and "fresh nfs_argop4_format z"
  shows "codec V (xdr_COMPOUND4args L arr) COMPOUND4args_format"
proof -
  have "codec V (arr (- 1) (xdr_nfs_argop4 L)) (array_format (- 1) nfs_argop4_format)"
    using assms nfs_argop4_codec[OF assms(1)] by (auto simp: xdr_array_ok_def)
  then show ?thesis using assms(1)
    unfolding xdr_COMPOUND4args_def COMPOUND4args_format_def
    by - (rule codecI, (rule codec_rules xdr_codecs | assumption | (auto)[1])+)
qed

end
