(* ===== verification/Nfs4Results.thy ===== *)
theory Nfs4Results
  imports Nfs4Types
begin

text \<open>
  The results of NFSv4 operations whose filters need more of the library than \<open>xdrlib\<close>: security
  information (an array) and directory listings (a linked list).
\<close>

section \<open>Security information\<close>

definition RPCSEC_GSS :: u32 where
  "RPCSEC_GSS = 6"

definition xdr_rpc_gss_svc_t :: "'x xdrlib \<Rightarrow> ('x, u32) xdrproc" where
  "xdr_rpc_gss_svc_t L = xdr_enum L"

record rpcsec_gss_info =
  rpcsec_gss_info_oid :: "u8 list"
  rpcsec_gss_info_qop :: u32
  rpcsec_gss_info_service :: u32

definition rpcsec_gss_info_format :: "rpcsec_gss_info xformat" where
  "rpcsec_gss_info_format =
     both (fld rpcsec_gss_info_oid (bytes_format (- 1))) (
     both (fld rpcsec_gss_info_qop u32_format) (
     fld rpcsec_gss_info_service u32_format))"

definition xdr_rpcsec_gss_info :: "'x xdrlib \<Rightarrow> ('x, rpcsec_gss_info) xdrproc" where
  "xdr_rpcsec_gss_info L =
     seq (on rpcsec_gss_info_oid rpcsec_gss_info_oid_update (xdr_sec_oid4 L)) (
     seq (on rpcsec_gss_info_qop rpcsec_gss_info_qop_update (xdr_qop4 L)) (
     on rpcsec_gss_info_service rpcsec_gss_info_service_update (xdr_rpc_gss_svc_t L)))"

record secinfo4 =
  secinfo4_flavor :: u32
  secinfo4_flavor_info :: rpcsec_gss_info

definition secinfo4_format :: "secinfo4 xformat" where
  "secinfo4_format =
     both (fld secinfo4_flavor u32_format) (
     arm (\<lambda>p. secinfo4_flavor p = RPCSEC_GSS) (fld secinfo4_flavor_info rpcsec_gss_info_format) (
     void))"

definition xdr_secinfo4 :: "'x xdrlib \<Rightarrow> ('x, secinfo4) xdrproc" where
  "xdr_secinfo4 L =
     seq (on secinfo4_flavor secinfo4_flavor_update (xdr_uint32_t L)) (
     switch (\<lambda>p. secinfo4_flavor p = RPCSEC_GSS) (on secinfo4_flavor_info secinfo4_flavor_info_update (xdr_rpcsec_gss_info L)) (
     pass))"

definition secinfo4_zero :: secinfo4 where
  "secinfo4_zero = \<lparr>secinfo4_flavor = 0, secinfo4_flavor_info =
     \<lparr>rpcsec_gss_info_oid = [], rpcsec_gss_info_qop = 0, rpcsec_gss_info_service = 0\<rparr>\<rparr>"

lemma secinfo4_zero_fresh [simp]: "fresh secinfo4_format secinfo4_zero"
  by (simp add: secinfo4_format_def rpcsec_gss_info_format_def secinfo4_zero_def)

lemma rpc_gss_svc_t_codec [xdr_codecs]: "xdr_lib_ok L V \<Longrightarrow> codec V (xdr_rpc_gss_svc_t L) u32_format"
  unfolding xdr_rpc_gss_svc_t_def by (rule xdr_codecs, assumption+)

lemma rpcsec_gss_info_codec [xdr_codecs]: "xdr_lib_ok L V \<Longrightarrow> codec V (xdr_rpcsec_gss_info L) rpcsec_gss_info_format"
  unfolding xdr_rpcsec_gss_info_def rpcsec_gss_info_format_def by (rule codecI, (rule codec_rules xdr_codecs | assumption | (auto)[1])+)

lemma secinfo4_codec [xdr_codecs]: "xdr_lib_ok L V \<Longrightarrow> codec V (xdr_secinfo4 L) secinfo4_format"
  unfolding xdr_secinfo4_def secinfo4_format_def by (rule codecI, (rule codec_rules xdr_codecs | assumption | (auto)[1])+)

section \<open>Directory entries\<close>

text \<open>
  The entries of a directory listing are a linked list, read and written by \<open>xdr_entry4\<close>
  through \<open>xdr_pointer\<close>, once per entry. (A cyclic list, on which the C function would not
  return, is no value of the type.)
\<close>

datatype entry4 = Entry4 (entry4_cookie: u64) (entry4_name: "u8 list") (entry4_attrs: fattr4) (entry4_nextentry: "entry4 option")

definition entry4_cookie_update :: "(u64 \<Rightarrow> u64) \<Rightarrow> entry4 \<Rightarrow> entry4" where
  "entry4_cookie_update f e = Entry4 (f (entry4_cookie e)) (entry4_name e) (entry4_attrs e) (entry4_nextentry e)"

definition entry4_name_update :: "(u8 list \<Rightarrow> u8 list) \<Rightarrow> entry4 \<Rightarrow> entry4" where
  "entry4_name_update f e = Entry4 (entry4_cookie e) (f (entry4_name e)) (entry4_attrs e) (entry4_nextentry e)"

definition entry4_attrs_update :: "(fattr4 \<Rightarrow> fattr4) \<Rightarrow> entry4 \<Rightarrow> entry4" where
  "entry4_attrs_update f e = Entry4 (entry4_cookie e) (entry4_name e) (f (entry4_attrs e)) (entry4_nextentry e)"

definition entry4_nextentry_update :: "(entry4 option \<Rightarrow> entry4 option) \<Rightarrow> entry4 \<Rightarrow> entry4" where
  "entry4_nextentry_update f e = Entry4 (entry4_cookie e) (entry4_name e) (entry4_attrs e) (f (entry4_nextentry e))"

lemmas entry4_updates [simp] = entry4_cookie_update_def entry4_name_update_def entry4_attrs_update_def entry4_nextentry_update_def

definition entry4_zero :: entry4 where
  "entry4_zero = Entry4 0 [] \<lparr>fattr4_attrmask = [], fattr4_attr_vals = []\<rparr> None"

text \<open>
  What the reply needs of the library beyond \<open>xdrlib\<close>: \<open>xdr_array\<close> at
  \<open>secinfo4\<close>, \<open>xdr_pointer\<close> at \<open>entry4\<close>, and \<open>deeper\<close>, which stands
  for whatever the recursion of \<open>xdr_entry4\<close> does below the depth that is unrolled.
\<close>

record 'x reply_lib =
  xdr_array_secinfo4 :: "u32 \<Rightarrow> ('x, secinfo4) xdrproc \<Rightarrow> ('x, secinfo4 list) xdrproc"
  xdr_pointer_entry4 :: "('x, entry4) xdrproc \<Rightarrow> ('x, entry4 option) xdrproc"
  deeper :: "('x, entry4) xdrproc"

definition reply_lib_ok :: "'x reply_lib \<Rightarrow> 'x xview \<Rightarrow> bool" where
  "reply_lib_ok R V \<longleftrightarrow> xdr_array_ok V secinfo4_zero (xdr_array_secinfo4 R) \<and> xdr_pointer_ok V entry4_zero (xdr_pointer_entry4 R)"

text \<open>
  The recursion, unrolled \<open>n\<close> times. Nothing is assumed of \<open>deeper\<close>: a theorem that
  holds for every \<open>deeper\<close> holds of the C function, whose recursion continues there with
  itself. A listing of at most \<open>n\<close> entries never gets that deep.
\<close>

primrec entry4_format :: "nat \<Rightarrow> entry4 xformat" where
  "entry4_format 0 = never"
| "entry4_format (Suc n) =
     both (fld entry4_cookie u64_format) (
     both (fld entry4_name (bytes_format (- 1))) (
     both (fld entry4_attrs fattr4_format) (
     fld entry4_nextentry (pointer_format (entry4_format n)))))"

primrec xdr_entry4 :: "'x xdrlib \<Rightarrow> 'x reply_lib \<Rightarrow> nat \<Rightarrow> ('x, entry4) xdrproc" where
  "xdr_entry4 L R 0 = deeper R"
| "xdr_entry4 L R (Suc n) =
     seq (on entry4_cookie entry4_cookie_update (xdr_nfs_cookie4 L)) (
     seq (on entry4_name entry4_name_update (xdr_component4 L)) (
     seq (on entry4_attrs entry4_attrs_update (xdr_fattr4 L)) (
     on entry4_nextentry entry4_nextentry_update (xdr_pointer_entry4 R (xdr_entry4 L R n)))))"

lemma entry4_zero_fresh [simp]: "fresh (entry4_format n) entry4_zero"
  by (cases n) (simp_all add: entry4_zero_def fattr4_format_def)

lemma entry4_codec [xdr_codecs]:
  assumes "xdr_lib_ok L V" and "reply_lib_ok R V"
  shows "codec V (xdr_entry4 L R n) (entry4_format n)"
proof (induction n)
  case 0
  show ?case by (simp add: codec_never)
next
  case (Suc n)
  have "codec V (xdr_pointer_entry4 R (xdr_entry4 L R n)) (pointer_format (entry4_format n))"
    using Suc assms(2) by (auto simp: reply_lib_ok_def intro: xdr_pointer_codec)
  then show ?case using assms(1)
    by simp (rule codecI, (rule codec_rules xdr_codecs | assumption | (auto)[1])+)
qed

lemma pointer_entry4_codec [xdr_codecs]:
  "xdr_lib_ok L V \<Longrightarrow> reply_lib_ok R V \<Longrightarrow> codec V (xdr_pointer_entry4 R (xdr_entry4 L R n)) (pointer_format (entry4_format n))"
  by (rule xdr_pointer_codec[where z = entry4_zero]) (simp_all add: entry4_codec, simp add: reply_lib_ok_def)

lemma array_secinfo4_codec [xdr_codecs]:
  "xdr_lib_ok L V \<Longrightarrow> reply_lib_ok R V \<Longrightarrow> codec V (xdr_array_secinfo4 R m (xdr_secinfo4 L)) (array_format m secinfo4_format)"
  by (auto simp: reply_lib_ok_def intro: xdr_array_codec secinfo4_codec)

section \<open>Listings and results\<close>

record dirlist4 =
  dirlist4_entries :: "entry4 option"
  dirlist4_eof :: u32

definition dirlist4_format :: "nat \<Rightarrow> dirlist4 xformat" where
  "dirlist4_format n =
     both (fld dirlist4_entries (pointer_format (entry4_format n))) (
     fld dirlist4_eof bool_format)"

definition xdr_dirlist4 :: "'x xdrlib \<Rightarrow> 'x reply_lib \<Rightarrow> nat \<Rightarrow> ('x, dirlist4) xdrproc" where
  "xdr_dirlist4 L R n =
     seq (on dirlist4_entries dirlist4_entries_update (xdr_pointer_entry4 R (xdr_entry4 L R n))) (
     on dirlist4_eof dirlist4_eof_update (xdr_bool L))"

record READDIR4resok =
  READDIR4resok_cookieverf :: "u8 list"
  READDIR4resok_reply :: dirlist4

definition READDIR4resok_format :: "nat \<Rightarrow> READDIR4resok xformat" where
  "READDIR4resok_format n =
     both (fld READDIR4resok_cookieverf (opaque_format NFS4_VERIFIER_SIZE)) (
     fld READDIR4resok_reply (dirlist4_format n))"

definition xdr_READDIR4resok :: "'x xdrlib \<Rightarrow> 'x reply_lib \<Rightarrow> nat \<Rightarrow> ('x, READDIR4resok) xdrproc" where
  "xdr_READDIR4resok L R n =
     seq (on READDIR4resok_cookieverf READDIR4resok_cookieverf_update (xdr_verifier4 L)) (
     on READDIR4resok_reply READDIR4resok_reply_update (xdr_dirlist4 L R n))"

record READDIR4res =
  READDIR4res_status :: u32
  READDIR4res_resok4 :: READDIR4resok

definition READDIR4res_format :: "nat \<Rightarrow> READDIR4res xformat" where
  "READDIR4res_format n =
     both (fld READDIR4res_status u32_format) (
     arm (\<lambda>p. READDIR4res_status p = NFS4_OK) (fld READDIR4res_resok4 (READDIR4resok_format n)) (
     void))"

definition xdr_READDIR4res :: "'x xdrlib \<Rightarrow> 'x reply_lib \<Rightarrow> nat \<Rightarrow> ('x, READDIR4res) xdrproc" where
  "xdr_READDIR4res L R n =
     seq (on READDIR4res_status READDIR4res_status_update (xdr_nfsstat4 L)) (
     switch (\<lambda>p. READDIR4res_status p = NFS4_OK) (on READDIR4res_resok4 READDIR4res_resok4_update (xdr_READDIR4resok L R n)) (
     pass))"

definition xdr_SECINFO4resok :: "'x xdrlib \<Rightarrow> 'x reply_lib \<Rightarrow> ('x, secinfo4 list) xdrproc" where
  "xdr_SECINFO4resok L R = xdr_array_secinfo4 R (- 1) (xdr_secinfo4 L)"

record SECINFO4res =
  SECINFO4res_status :: u32
  SECINFO4res_resok4 :: "secinfo4 list"

definition SECINFO4res_format :: "SECINFO4res xformat" where
  "SECINFO4res_format =
     both (fld SECINFO4res_status u32_format) (
     arm (\<lambda>p. SECINFO4res_status p = NFS4_OK) (fld SECINFO4res_resok4 (array_format (- 1) secinfo4_format)) (
     void))"

definition xdr_SECINFO4res :: "'x xdrlib \<Rightarrow> 'x reply_lib \<Rightarrow> ('x, SECINFO4res) xdrproc" where
  "xdr_SECINFO4res L R =
     seq (on SECINFO4res_status SECINFO4res_status_update (xdr_nfsstat4 L)) (
     switch (\<lambda>p. SECINFO4res_status p = NFS4_OK) (on SECINFO4res_resok4 SECINFO4res_resok4_update (xdr_SECINFO4resok L R)) (
     pass))"

lemma dirlist4_codec [xdr_codecs]: "xdr_lib_ok L V \<Longrightarrow> reply_lib_ok R V \<Longrightarrow> codec V (xdr_dirlist4 L R n) (dirlist4_format n)"
  unfolding xdr_dirlist4_def dirlist4_format_def by (rule codecI, (rule codec_rules xdr_codecs | assumption | (auto)[1])+)

lemma READDIR4resok_codec [xdr_codecs]: "xdr_lib_ok L V \<Longrightarrow> reply_lib_ok R V \<Longrightarrow> codec V (xdr_READDIR4resok L R n) (READDIR4resok_format n)"
  unfolding xdr_READDIR4resok_def READDIR4resok_format_def by (rule codecI, (rule codec_rules xdr_codecs | assumption | (auto)[1])+)

lemma READDIR4res_codec [xdr_codecs]: "xdr_lib_ok L V \<Longrightarrow> reply_lib_ok R V \<Longrightarrow> codec V (xdr_READDIR4res L R n) (READDIR4res_format n)"
  unfolding xdr_READDIR4res_def READDIR4res_format_def by (rule codecI, (rule codec_rules xdr_codecs | assumption | (auto)[1])+)

lemma SECINFO4resok_codec [xdr_codecs]: "xdr_lib_ok L V \<Longrightarrow> reply_lib_ok R V \<Longrightarrow> codec V (xdr_SECINFO4resok L R) (array_format (- 1) secinfo4_format)"
  unfolding xdr_SECINFO4resok_def by (rule xdr_codecs, assumption+)

lemma SECINFO4res_codec [xdr_codecs]: "xdr_lib_ok L V \<Longrightarrow> reply_lib_ok R V \<Longrightarrow> codec V (xdr_SECINFO4res L R) SECINFO4res_format"
  unfolding xdr_SECINFO4res_def SECINFO4res_format_def by (rule codecI, (rule codec_rules xdr_codecs | assumption | (auto)[1])+)

end
