(* ===== verification/Nfs4Reply.thy ===== *)
theory Nfs4Reply
  imports Nfs4Compound Nfs4Results
begin

text \<open>
  The COMPOUND reply: the union of all operation results and the array of results. As for the request,
  \<open>arr\<close> is \<open>xdr_array\<close> at the element type.
\<close>

record nfs_resop4 =
  nfs_resop4_resop :: u32
  nfs_resop4_opaccess :: ACCESS4res
  nfs_resop4_opclose :: CLOSE4res
  nfs_resop4_opcommit :: COMMIT4res
  nfs_resop4_opcreate :: CREATE4res
  nfs_resop4_opdelegpurge :: DELEGPURGE4res
  nfs_resop4_opdelegreturn :: DELEGRETURN4res
  nfs_resop4_opgetattr :: GETATTR4res
  nfs_resop4_opgetfh :: GETFH4res
  nfs_resop4_oplink :: LINK4res
  nfs_resop4_oplock :: LOCK4res
  nfs_resop4_oplockt :: LOCKT4res
  nfs_resop4_oplocku :: LOCKU4res
  nfs_resop4_oplookup :: LOOKUP4res
  nfs_resop4_oplookupp :: LOOKUPP4res
  nfs_resop4_opnverify :: NVERIFY4res
  nfs_resop4_opopen :: OPEN4res
  nfs_resop4_opopenattr :: OPENATTR4res
  nfs_resop4_opopen_confirm :: OPEN_CONFIRM4res
  nfs_resop4_opopen_downgrade :: OPEN_DOWNGRADE4res
  nfs_resop4_opputfh :: PUTFH4res
  nfs_resop4_opputpubfh :: PUTPUBFH4res
  nfs_resop4_opputrootfh :: PUTROOTFH4res
  nfs_resop4_opread :: READ4res
  nfs_resop4_opreaddir :: READDIR4res
  nfs_resop4_opreadlink :: READLINK4res
  nfs_resop4_opremove :: REMOVE4res
  nfs_resop4_oprename :: RENAME4res
  nfs_resop4_oprenew :: RENEW4res
  nfs_resop4_oprestorefh :: RESTOREFH4res
  nfs_resop4_opsavefh :: SAVEFH4res
  nfs_resop4_opsecinfo :: SECINFO4res
  nfs_resop4_opsetattr :: SETATTR4res
  nfs_resop4_opsetclientid :: SETCLIENTID4res
  nfs_resop4_opsetclientid_confirm :: SETCLIENTID_CONFIRM4res
  nfs_resop4_opverify :: VERIFY4res
  nfs_resop4_opwrite :: WRITE4res
  nfs_resop4_oprelease_lockowner :: RELEASE_LOCKOWNER4res
  nfs_resop4_opillegal :: ILLEGAL4res

definition nfs_resop4_format :: "nat \<Rightarrow> nfs_resop4 xformat" where
  "nfs_resop4_format n =
     both (fld nfs_resop4_resop u32_format) (
     arm (\<lambda>p. nfs_resop4_resop p = OP_ACCESS) (fld nfs_resop4_opaccess ACCESS4res_format) (
     arm (\<lambda>p. nfs_resop4_resop p = OP_CLOSE) (fld nfs_resop4_opclose CLOSE4res_format) (
     arm (\<lambda>p. nfs_resop4_resop p = OP_COMMIT) (fld nfs_resop4_opcommit COMMIT4res_format) (
     arm (\<lambda>p. nfs_resop4_resop p = OP_CREATE) (fld nfs_resop4_opcreate CREATE4res_format) (
     arm (\<lambda>p. nfs_resop4_resop p = OP_DELEGPURGE) (fld nfs_resop4_opdelegpurge DELEGPURGE4res_format) (
     arm (\<lambda>p. nfs_resop4_resop p = OP_DELEGRETURN) (fld nfs_resop4_opdelegreturn DELEGRETURN4res_format) (
     arm (\<lambda>p. nfs_resop4_resop p = OP_GETATTR) (fld nfs_resop4_opgetattr GETATTR4res_format) (
     arm (\<lambda>p. nfs_resop4_resop p = OP_GETFH) (fld nfs_resop4_opgetfh GETFH4res_format) (
     arm (\<lambda>p. nfs_resop4_resop p = OP_LINK) (fld nfs_resop4_oplink LINK4res_format) (
     arm (\<lambda>p. nfs_resop4_resop p = OP_LOCK) (fld nfs_resop4_oplock LOCK4res_format) (
     arm (\<lambda>p. nfs_resop4_resop p = OP_LOCKT) (fld nfs_resop4_oplockt LOCKT4res_format) (
     arm (\<lambda>p. nfs_resop4_resop p = OP_LOCKU) (fld nfs_resop4_oplocku LOCKU4res_format) (
     arm (\<lambda>p. nfs_resop4_resop p = OP_LOOKUP) (fld nfs_resop4_oplookup LOOKUP4res_format) (
     arm (\<lambda>p. nfs_resop4_resop p = OP_LOOKUPP) (fld nfs_resop4_oplookupp LOOKUPP4res_format) (
     arm (\<lambda>p. nfs_resop4_resop p = OP_NVERIFY) (fld nfs_resop4_opnverify NVERIFY4res_format) (
     arm (\<lambda>p. nfs_resop4_resop p = OP_OPEN) (fld nfs_resop4_opopen OPEN4res_format) (
     arm (\<lambda>p. nfs_resop4_resop p = OP_OPENATTR) (fld nfs_resop4_opopenattr OPENATTR4res_format) (
     arm (\<lambda>p. nfs_resop4_resop p = OP_OPEN_CONFIRM) (fld nfs_resop4_opopen_confirm OPEN_CONFIRM4res_format) (
     arm (\<lambda>p. nfs_resop4_resop p = OP_OPEN_DOWNGRADE) (fld nfs_resop4_opopen_downgrade OPEN_DOWNGRADE4res_format) (
     arm (\<lambda>p. nfs_resop4_resop p = OP_PUTFH) (fld nfs_resop4_opputfh PUTFH4res_format) (
     arm (\<lambda>p. nfs_resop4_resop p = OP_PUTPUBFH) (fld nfs_resop4_opputpubfh PUTPUBFH4res_format) (
     arm (\<lambda>p. nfs_resop4_resop p = OP_PUTROOTFH) (fld nfs_resop4_opputrootfh PUTROOTFH4res_format) (
     arm (\<lambda>p. nfs_resop4_resop p = OP_READ) (fld nfs_resop4_opread READ4res_format) (
     arm (\<lambda>p. nfs_resop4_resop p = OP_READDIR) (fld nfs_resop4_opreaddir (READDIR4res_format n)) (
     arm (\<lambda>p. nfs_resop4_resop p = OP_READLINK) (fld nfs_resop4_opreadlink READLINK4res_format) (
     arm (\<lambda>p. nfs_resop4_resop p = OP_REMOVE) (fld nfs_resop4_opremove REMOVE4res_format) (
     arm (\<lambda>p. nfs_resop4_resop p = OP_RENAME) (fld nfs_resop4_oprename RENAME4res_format) (
     arm (\<lambda>p. nfs_resop4_resop p = OP_RENEW) (fld nfs_resop4_oprenew RENEW4res_format) (
     arm (\<lambda>p. nfs_resop4_resop p = OP_RESTOREFH) (fld nfs_resop4_oprestorefh RESTOREFH4res_format) (
     arm (\<lambda>p. nfs_resop4_resop p = OP_SAVEFH) (fld nfs_resop4_opsavefh SAVEFH4res_format) (
     arm (\<lambda>p. nfs_resop4_resop p = OP_SECINFO) (fld nfs_resop4_opsecinfo SECINFO4res_format) (
     arm (\<lambda>p. nfs_resop4_resop p = OP_SETATTR) (fld nfs_resop4_opsetattr SETATTR4res_format) (
     arm (\<lambda>p. nfs_resop4_resop p = OP_SETCLIENTID) (fld nfs_resop4_opsetclientid SETCLIENTID4res_format) (
     arm (\<lambda>p. nfs_resop4_resop p = OP_SETCLIENTID_CONFIRM) (fld nfs_resop4_opsetclientid_confirm SETCLIENTID_CONFIRM4res_format) (
     arm (\<lambda>p. nfs_resop4_resop p = OP_VERIFY) (fld nfs_resop4_opverify VERIFY4res_format) (
     arm (\<lambda>p. nfs_resop4_resop p = OP_WRITE) (fld nfs_resop4_opwrite WRITE4res_format) (
     arm (\<lambda>p. nfs_resop4_resop p = OP_RELEASE_LOCKOWNER) (fld nfs_resop4_oprelease_lockowner RELEASE_LOCKOWNER4res_format) (
     arm (\<lambda>p. nfs_resop4_resop p = OP_ILLEGAL) (fld nfs_resop4_opillegal ILLEGAL4res_format) (
     never)))))))))))))))))))))))))))))))))))))))"

definition xdr_nfs_resop4 :: "'x xdrlib \<Rightarrow> 'x reply_lib \<Rightarrow> nat \<Rightarrow> ('x, nfs_resop4) xdrproc" where
  "xdr_nfs_resop4 L R n =
     seq (on nfs_resop4_resop nfs_resop4_resop_update (xdr_nfs_opnum4 L)) (
     switch (\<lambda>p. nfs_resop4_resop p = OP_ACCESS) (on nfs_resop4_opaccess nfs_resop4_opaccess_update (xdr_ACCESS4res L)) (
     switch (\<lambda>p. nfs_resop4_resop p = OP_CLOSE) (on nfs_resop4_opclose nfs_resop4_opclose_update (xdr_CLOSE4res L)) (
     switch (\<lambda>p. nfs_resop4_resop p = OP_COMMIT) (on nfs_resop4_opcommit nfs_resop4_opcommit_update (xdr_COMMIT4res L)) (
     switch (\<lambda>p. nfs_resop4_resop p = OP_CREATE) (on nfs_resop4_opcreate nfs_resop4_opcreate_update (xdr_CREATE4res L)) (
     switch (\<lambda>p. nfs_resop4_resop p = OP_DELEGPURGE) (on nfs_resop4_opdelegpurge nfs_resop4_opdelegpurge_update (xdr_DELEGPURGE4res L)) (
     switch (\<lambda>p. nfs_resop4_resop p = OP_DELEGRETURN) (on nfs_resop4_opdelegreturn nfs_resop4_opdelegreturn_update (xdr_DELEGRETURN4res L)) (
     switch (\<lambda>p. nfs_resop4_resop p = OP_GETATTR) (on nfs_resop4_opgetattr nfs_resop4_opgetattr_update (xdr_GETATTR4res L)) (
     switch (\<lambda>p. nfs_resop4_resop p = OP_GETFH) (on nfs_resop4_opgetfh nfs_resop4_opgetfh_update (xdr_GETFH4res L)) (
     switch (\<lambda>p. nfs_resop4_resop p = OP_LINK) (on nfs_resop4_oplink nfs_resop4_oplink_update (xdr_LINK4res L)) (
     switch (\<lambda>p. nfs_resop4_resop p = OP_LOCK) (on nfs_resop4_oplock nfs_resop4_oplock_update (xdr_LOCK4res L)) (
     switch (\<lambda>p. nfs_resop4_resop p = OP_LOCKT) (on nfs_resop4_oplockt nfs_resop4_oplockt_update (xdr_LOCKT4res L)) (
     switch (\<lambda>p. nfs_resop4_resop p = OP_LOCKU) (on nfs_resop4_oplocku nfs_resop4_oplocku_update (xdr_LOCKU4res L)) (
     switch (\<lambda>p. nfs_resop4_resop p = OP_LOOKUP) (on nfs_resop4_oplookup nfs_resop4_oplookup_update (xdr_LOOKUP4res L)) (
     switch (\<lambda>p. nfs_resop4_resop p = OP_LOOKUPP) (on nfs_resop4_oplookupp nfs_resop4_oplookupp_update (xdr_LOOKUPP4res L)) (
     switch (\<lambda>p. nfs_resop4_resop p = OP_NVERIFY) (on nfs_resop4_opnverify nfs_resop4_opnverify_update (xdr_NVERIFY4res L)) (
     switch (\<lambda>p. nfs_resop4_resop p = OP_OPEN) (on nfs_resop4_opopen nfs_resop4_opopen_update (xdr_OPEN4res L)) (
     switch (\<lambda>p. nfs_resop4_resop p = OP_OPENATTR) (on nfs_resop4_opopenattr nfs_resop4_opopenattr_update (xdr_OPENATTR4res L)) (
     switch (\<lambda>p. nfs_resop4_resop p = OP_OPEN_CONFIRM) (on nfs_resop4_opopen_confirm nfs_resop4_opopen_confirm_update (xdr_OPEN_CONFIRM4res L)) (
     switch (\<lambda>p. nfs_resop4_resop p = OP_OPEN_DOWNGRADE) (on nfs_resop4_opopen_downgrade nfs_resop4_opopen_downgrade_update (xdr_OPEN_DOWNGRADE4res L)) (
     switch (\<lambda>p. nfs_resop4_resop p = OP_PUTFH) (on nfs_resop4_opputfh nfs_resop4_opputfh_update (xdr_PUTFH4res L)) (
     switch (\<lambda>p. nfs_resop4_resop p = OP_PUTPUBFH) (on nfs_resop4_opputpubfh nfs_resop4_opputpubfh_update (xdr_PUTPUBFH4res L)) (
     switch (\<lambda>p. nfs_resop4_resop p = OP_PUTROOTFH) (on nfs_resop4_opputrootfh nfs_resop4_opputrootfh_update (xdr_PUTROOTFH4res L)) (
     switch (\<lambda>p. nfs_resop4_resop p = OP_READ) (on nfs_resop4_opread nfs_resop4_opread_update (xdr_READ4res L)) (
     switch (\<lambda>p. nfs_resop4_resop p = OP_READDIR) (on nfs_resop4_opreaddir nfs_resop4_opreaddir_update (xdr_READDIR4res L R n)) (
     switch (\<lambda>p. nfs_resop4_resop p = OP_READLINK) (on nfs_resop4_opreadlink nfs_resop4_opreadlink_update (xdr_READLINK4res L)) (
     switch (\<lambda>p. nfs_resop4_resop p = OP_REMOVE) (on nfs_resop4_opremove nfs_resop4_opremove_update (xdr_REMOVE4res L)) (
     switch (\<lambda>p. nfs_resop4_resop p = OP_RENAME) (on nfs_resop4_oprename nfs_resop4_oprename_update (xdr_RENAME4res L)) (
     switch (\<lambda>p. nfs_resop4_resop p = OP_RENEW) (on nfs_resop4_oprenew nfs_resop4_oprenew_update (xdr_RENEW4res L)) (
     switch (\<lambda>p. nfs_resop4_resop p = OP_RESTOREFH) (on nfs_resop4_oprestorefh nfs_resop4_oprestorefh_update (xdr_RESTOREFH4res L)) (
     switch (\<lambda>p. nfs_resop4_resop p = OP_SAVEFH) (on nfs_resop4_opsavefh nfs_resop4_opsavefh_update (xdr_SAVEFH4res L)) (
     switch (\<lambda>p. nfs_resop4_resop p = OP_SECINFO) (on nfs_resop4_opsecinfo nfs_resop4_opsecinfo_update (xdr_SECINFO4res L R)) (
     switch (\<lambda>p. nfs_resop4_resop p = OP_SETATTR) (on nfs_resop4_opsetattr nfs_resop4_opsetattr_update (xdr_SETATTR4res L)) (
     switch (\<lambda>p. nfs_resop4_resop p = OP_SETCLIENTID) (on nfs_resop4_opsetclientid nfs_resop4_opsetclientid_update (xdr_SETCLIENTID4res L)) (
     switch (\<lambda>p. nfs_resop4_resop p = OP_SETCLIENTID_CONFIRM) (on nfs_resop4_opsetclientid_confirm nfs_resop4_opsetclientid_confirm_update (xdr_SETCLIENTID_CONFIRM4res L)) (
     switch (\<lambda>p. nfs_resop4_resop p = OP_VERIFY) (on nfs_resop4_opverify nfs_resop4_opverify_update (xdr_VERIFY4res L)) (
     switch (\<lambda>p. nfs_resop4_resop p = OP_WRITE) (on nfs_resop4_opwrite nfs_resop4_opwrite_update (xdr_WRITE4res L)) (
     switch (\<lambda>p. nfs_resop4_resop p = OP_RELEASE_LOCKOWNER) (on nfs_resop4_oprelease_lockowner nfs_resop4_oprelease_lockowner_update (xdr_RELEASE_LOCKOWNER4res L)) (
     switch (\<lambda>p. nfs_resop4_resop p = OP_ILLEGAL) (on nfs_resop4_opillegal nfs_resop4_opillegal_update (xdr_ILLEGAL4res L)) (
     refuse)))))))))))))))))))))))))))))))))))))))"

lemma nfs_resop4_codec [xdr_codecs]: "xdr_lib_ok L V \<Longrightarrow> reply_lib_ok R V \<Longrightarrow> codec V (xdr_nfs_resop4 L R n) (nfs_resop4_format n)"
  unfolding xdr_nfs_resop4_def nfs_resop4_format_def by (rule codecI, (rule codec_rules xdr_codecs | assumption | (auto)[1])+)

record COMPOUND4res =
  COMPOUND4res_status :: u32
  COMPOUND4res_tag :: "u8 list"
  COMPOUND4res_resarray :: "nfs_resop4 list"

definition COMPOUND4res_format :: "nat \<Rightarrow> COMPOUND4res xformat" where
  "COMPOUND4res_format n =
     both (fld COMPOUND4res_status u32_format) (
     both (fld COMPOUND4res_tag (bytes_format (- 1))) (
     fld COMPOUND4res_resarray (array_format (- 1) (nfs_resop4_format n))))"

definition xdr_COMPOUND4res :: "'x xdrlib \<Rightarrow> 'x reply_lib \<Rightarrow> nat \<Rightarrow> (u32 \<Rightarrow> ('x, nfs_resop4) xdrproc \<Rightarrow> ('x, nfs_resop4 list) xdrproc) \<Rightarrow> ('x, COMPOUND4res) xdrproc" where
  "xdr_COMPOUND4res L R n arr =
     seq (on COMPOUND4res_status COMPOUND4res_status_update (xdr_nfsstat4 L)) (
     seq (on COMPOUND4res_tag COMPOUND4res_tag_update (xdr_utf8str_cs L)) (
     on COMPOUND4res_resarray COMPOUND4res_resarray_update (arr (- 1) (xdr_nfs_resop4 L R n))))"

lemma COMPOUND4res_codec: "xdr_lib_ok L V \<Longrightarrow> reply_lib_ok R V \<Longrightarrow> xdr_array_ok V z arr \<Longrightarrow> fresh (nfs_resop4_format n) z \<Longrightarrow> codec V (xdr_COMPOUND4res L R n arr) (COMPOUND4res_format n)"
  unfolding xdr_COMPOUND4res_def COMPOUND4res_format_def by (rule codecI, (rule codec_rules xdr_codecs xdr_array_codec[where arr = arr and z = z] | assumption | (auto)[1])+)

end
