(* ===== verification/Nfs4Callback.thy ===== *)
theory Nfs4Callback
  imports Nfs4Types
begin

text \<open>
  The callback program of NFSv4, by which a server recalls delegations from a client: operations,
  results, and the CB_COMPOUND request and reply.
\<close>

section \<open>Constants\<close>

definition OP_CB_GETATTR :: u32 where
  "OP_CB_GETATTR = 3"

definition OP_CB_RECALL :: u32 where
  "OP_CB_RECALL = 4"

definition OP_CB_ILLEGAL :: u32 where
  "OP_CB_ILLEGAL = 10044"

section \<open>Operations\<close>

record CB_GETATTR4args =
  CB_GETATTR4args_fh :: "u8 list"
  CB_GETATTR4args_attr_request :: "u32 list"

definition CB_GETATTR4args_format :: "CB_GETATTR4args xformat" where
  "CB_GETATTR4args_format =
     both (fld CB_GETATTR4args_fh (bytes_format NFS4_FHSIZE)) (
     fld CB_GETATTR4args_attr_request (array_format (- 1) u32_format))"

definition xdr_CB_GETATTR4args :: "'x xdrlib \<Rightarrow> ('x, CB_GETATTR4args) xdrproc" where
  "xdr_CB_GETATTR4args L =
     seq (on CB_GETATTR4args_fh CB_GETATTR4args_fh_update (xdr_nfs_fh4 L)) (
     on CB_GETATTR4args_attr_request CB_GETATTR4args_attr_request_update (xdr_bitmap4 L))"

record CB_GETATTR4resok =
  CB_GETATTR4resok_obj_attributes :: fattr4

definition CB_GETATTR4resok_format :: "CB_GETATTR4resok xformat" where
  "CB_GETATTR4resok_format =
     fld CB_GETATTR4resok_obj_attributes fattr4_format"

definition xdr_CB_GETATTR4resok :: "'x xdrlib \<Rightarrow> ('x, CB_GETATTR4resok) xdrproc" where
  "xdr_CB_GETATTR4resok L = on CB_GETATTR4resok_obj_attributes CB_GETATTR4resok_obj_attributes_update (xdr_fattr4 L)"

record CB_GETATTR4res =
  CB_GETATTR4res_status :: u32
  CB_GETATTR4res_resok4 :: CB_GETATTR4resok

definition CB_GETATTR4res_format :: "CB_GETATTR4res xformat" where
  "CB_GETATTR4res_format =
     both (fld CB_GETATTR4res_status u32_format) (
     arm (\<lambda>p. CB_GETATTR4res_status p = NFS4_OK) (fld CB_GETATTR4res_resok4 CB_GETATTR4resok_format) (
     void))"

definition xdr_CB_GETATTR4res :: "'x xdrlib \<Rightarrow> ('x, CB_GETATTR4res) xdrproc" where
  "xdr_CB_GETATTR4res L =
     seq (on CB_GETATTR4res_status CB_GETATTR4res_status_update (xdr_nfsstat4 L)) (
     switch (\<lambda>p. CB_GETATTR4res_status p = NFS4_OK) (on CB_GETATTR4res_resok4 CB_GETATTR4res_resok4_update (xdr_CB_GETATTR4resok L)) (
     pass))"

record CB_RECALL4args =
  CB_RECALL4args_stateid :: stateid4
  CB_RECALL4args_truncate :: u32
  CB_RECALL4args_fh :: "u8 list"

definition CB_RECALL4args_format :: "CB_RECALL4args xformat" where
  "CB_RECALL4args_format =
     both (fld CB_RECALL4args_stateid stateid4_format) (
     both (fld CB_RECALL4args_truncate bool_format) (
     fld CB_RECALL4args_fh (bytes_format NFS4_FHSIZE)))"

definition xdr_CB_RECALL4args :: "'x xdrlib \<Rightarrow> ('x, CB_RECALL4args) xdrproc" where
  "xdr_CB_RECALL4args L =
     seq (on CB_RECALL4args_stateid CB_RECALL4args_stateid_update (xdr_stateid4 L)) (
     seq (on CB_RECALL4args_truncate CB_RECALL4args_truncate_update (xdr_bool L)) (
     on CB_RECALL4args_fh CB_RECALL4args_fh_update (xdr_nfs_fh4 L)))"

record CB_RECALL4res =
  CB_RECALL4res_status :: u32

definition CB_RECALL4res_format :: "CB_RECALL4res xformat" where
  "CB_RECALL4res_format =
     fld CB_RECALL4res_status u32_format"

definition xdr_CB_RECALL4res :: "'x xdrlib \<Rightarrow> ('x, CB_RECALL4res) xdrproc" where
  "xdr_CB_RECALL4res L = on CB_RECALL4res_status CB_RECALL4res_status_update (xdr_nfsstat4 L)"

record CB_ILLEGAL4res =
  CB_ILLEGAL4res_status :: u32

definition CB_ILLEGAL4res_format :: "CB_ILLEGAL4res xformat" where
  "CB_ILLEGAL4res_format =
     fld CB_ILLEGAL4res_status u32_format"

definition xdr_CB_ILLEGAL4res :: "'x xdrlib \<Rightarrow> ('x, CB_ILLEGAL4res) xdrproc" where
  "xdr_CB_ILLEGAL4res L = on CB_ILLEGAL4res_status CB_ILLEGAL4res_status_update (xdr_nfsstat4 L)"

definition xdr_nfs_cb_opnum4 :: "'x xdrlib \<Rightarrow> ('x, u32) xdrproc" where
  "xdr_nfs_cb_opnum4 L = xdr_enum L"

record nfs_cb_argop4 =
  nfs_cb_argop4_argop :: u32
  nfs_cb_argop4_opcbgetattr :: CB_GETATTR4args
  nfs_cb_argop4_opcbrecall :: CB_RECALL4args

definition nfs_cb_argop4_format :: "nfs_cb_argop4 xformat" where
  "nfs_cb_argop4_format =
     both (fld nfs_cb_argop4_argop u32_format) (
     arm (\<lambda>p. nfs_cb_argop4_argop p = OP_CB_GETATTR) (fld nfs_cb_argop4_opcbgetattr CB_GETATTR4args_format) (
     arm (\<lambda>p. nfs_cb_argop4_argop p = OP_CB_RECALL) (fld nfs_cb_argop4_opcbrecall CB_RECALL4args_format) (
     arm (\<lambda>p. nfs_cb_argop4_argop p = OP_CB_ILLEGAL) void (
     never))))"

definition xdr_nfs_cb_argop4 :: "'x xdrlib \<Rightarrow> ('x, nfs_cb_argop4) xdrproc" where
  "xdr_nfs_cb_argop4 L =
     seq (on nfs_cb_argop4_argop nfs_cb_argop4_argop_update (xdr_u_int L)) (
     switch (\<lambda>p. nfs_cb_argop4_argop p = OP_CB_GETATTR) (on nfs_cb_argop4_opcbgetattr nfs_cb_argop4_opcbgetattr_update (xdr_CB_GETATTR4args L)) (
     switch (\<lambda>p. nfs_cb_argop4_argop p = OP_CB_RECALL) (on nfs_cb_argop4_opcbrecall nfs_cb_argop4_opcbrecall_update (xdr_CB_RECALL4args L)) (
     switch (\<lambda>p. nfs_cb_argop4_argop p = OP_CB_ILLEGAL) pass (
     refuse))))"

record nfs_cb_resop4 =
  nfs_cb_resop4_resop :: u32
  nfs_cb_resop4_opcbgetattr :: CB_GETATTR4res
  nfs_cb_resop4_opcbrecall :: CB_RECALL4res
  nfs_cb_resop4_opcbillegal :: CB_ILLEGAL4res

definition nfs_cb_resop4_format :: "nfs_cb_resop4 xformat" where
  "nfs_cb_resop4_format =
     both (fld nfs_cb_resop4_resop u32_format) (
     arm (\<lambda>p. nfs_cb_resop4_resop p = OP_CB_GETATTR) (fld nfs_cb_resop4_opcbgetattr CB_GETATTR4res_format) (
     arm (\<lambda>p. nfs_cb_resop4_resop p = OP_CB_RECALL) (fld nfs_cb_resop4_opcbrecall CB_RECALL4res_format) (
     arm (\<lambda>p. nfs_cb_resop4_resop p = OP_CB_ILLEGAL) (fld nfs_cb_resop4_opcbillegal CB_ILLEGAL4res_format) (
     never))))"

definition xdr_nfs_cb_resop4 :: "'x xdrlib \<Rightarrow> ('x, nfs_cb_resop4) xdrproc" where
  "xdr_nfs_cb_resop4 L =
     seq (on nfs_cb_resop4_resop nfs_cb_resop4_resop_update (xdr_u_int L)) (
     switch (\<lambda>p. nfs_cb_resop4_resop p = OP_CB_GETATTR) (on nfs_cb_resop4_opcbgetattr nfs_cb_resop4_opcbgetattr_update (xdr_CB_GETATTR4res L)) (
     switch (\<lambda>p. nfs_cb_resop4_resop p = OP_CB_RECALL) (on nfs_cb_resop4_opcbrecall nfs_cb_resop4_opcbrecall_update (xdr_CB_RECALL4res L)) (
     switch (\<lambda>p. nfs_cb_resop4_resop p = OP_CB_ILLEGAL) (on nfs_cb_resop4_opcbillegal nfs_cb_resop4_opcbillegal_update (xdr_CB_ILLEGAL4res L)) (
     refuse))))"

lemma CB_GETATTR4args_codec [xdr_codecs]: "xdr_lib_ok L V \<Longrightarrow> codec V (xdr_CB_GETATTR4args L) CB_GETATTR4args_format"
  unfolding xdr_CB_GETATTR4args_def CB_GETATTR4args_format_def by (rule codecI, (rule codec_rules xdr_codecs | assumption | (auto)[1])+)

lemma CB_GETATTR4resok_codec [xdr_codecs]: "xdr_lib_ok L V \<Longrightarrow> codec V (xdr_CB_GETATTR4resok L) CB_GETATTR4resok_format"
  unfolding xdr_CB_GETATTR4resok_def CB_GETATTR4resok_format_def by (rule codecI, (rule codec_rules xdr_codecs | assumption | (auto)[1])+)

lemma CB_GETATTR4res_codec [xdr_codecs]: "xdr_lib_ok L V \<Longrightarrow> codec V (xdr_CB_GETATTR4res L) CB_GETATTR4res_format"
  unfolding xdr_CB_GETATTR4res_def CB_GETATTR4res_format_def by (rule codecI, (rule codec_rules xdr_codecs | assumption | (auto)[1])+)

lemma CB_RECALL4args_codec [xdr_codecs]: "xdr_lib_ok L V \<Longrightarrow> codec V (xdr_CB_RECALL4args L) CB_RECALL4args_format"
  unfolding xdr_CB_RECALL4args_def CB_RECALL4args_format_def by (rule codecI, (rule codec_rules xdr_codecs | assumption | (auto)[1])+)

lemma CB_RECALL4res_codec [xdr_codecs]: "xdr_lib_ok L V \<Longrightarrow> codec V (xdr_CB_RECALL4res L) CB_RECALL4res_format"
  unfolding xdr_CB_RECALL4res_def CB_RECALL4res_format_def by (rule codecI, (rule codec_rules xdr_codecs | assumption | (auto)[1])+)

lemma CB_ILLEGAL4res_codec [xdr_codecs]: "xdr_lib_ok L V \<Longrightarrow> codec V (xdr_CB_ILLEGAL4res L) CB_ILLEGAL4res_format"
  unfolding xdr_CB_ILLEGAL4res_def CB_ILLEGAL4res_format_def by (rule codecI, (rule codec_rules xdr_codecs | assumption | (auto)[1])+)

lemma nfs_cb_opnum4_codec [xdr_codecs]: "xdr_lib_ok L V \<Longrightarrow> codec V (xdr_nfs_cb_opnum4 L) u32_format"
  unfolding xdr_nfs_cb_opnum4_def by (rule xdr_codecs, assumption+)

lemma nfs_cb_argop4_codec [xdr_codecs]: "xdr_lib_ok L V \<Longrightarrow> codec V (xdr_nfs_cb_argop4 L) nfs_cb_argop4_format"
  unfolding xdr_nfs_cb_argop4_def nfs_cb_argop4_format_def by (rule codecI, (rule codec_rules xdr_codecs | assumption | (auto)[1])+)

lemma nfs_cb_resop4_codec [xdr_codecs]: "xdr_lib_ok L V \<Longrightarrow> codec V (xdr_nfs_cb_resop4 L) nfs_cb_resop4_format"
  unfolding xdr_nfs_cb_resop4_def nfs_cb_resop4_format_def by (rule codecI, (rule codec_rules xdr_codecs | assumption | (auto)[1])+)

section \<open>Request and reply\<close>

record CB_COMPOUND4args =
  CB_COMPOUND4args_tag :: "u8 list"
  CB_COMPOUND4args_minorversion :: u32
  CB_COMPOUND4args_callback_ident :: u32
  CB_COMPOUND4args_argarray :: "nfs_cb_argop4 list"

definition CB_COMPOUND4args_format :: "CB_COMPOUND4args xformat" where
  "CB_COMPOUND4args_format =
     both (fld CB_COMPOUND4args_tag (bytes_format (- 1))) (
     both (fld CB_COMPOUND4args_minorversion u32_format) (
     both (fld CB_COMPOUND4args_callback_ident u32_format) (
     fld CB_COMPOUND4args_argarray (array_format (- 1) nfs_cb_argop4_format))))"

definition xdr_CB_COMPOUND4args :: "'x xdrlib \<Rightarrow> (u32 \<Rightarrow> ('x, nfs_cb_argop4) xdrproc \<Rightarrow> ('x, nfs_cb_argop4 list) xdrproc) \<Rightarrow> ('x, CB_COMPOUND4args) xdrproc" where
  "xdr_CB_COMPOUND4args L arr =
     seq (on CB_COMPOUND4args_tag CB_COMPOUND4args_tag_update (xdr_utf8str_cs L)) (
     seq (on CB_COMPOUND4args_minorversion CB_COMPOUND4args_minorversion_update (xdr_uint32_t L)) (
     seq (on CB_COMPOUND4args_callback_ident CB_COMPOUND4args_callback_ident_update (xdr_uint32_t L)) (
     on CB_COMPOUND4args_argarray CB_COMPOUND4args_argarray_update (arr (- 1) (xdr_nfs_cb_argop4 L)))))"

record CB_COMPOUND4res =
  CB_COMPOUND4res_status :: u32
  CB_COMPOUND4res_tag :: "u8 list"
  CB_COMPOUND4res_resarray :: "nfs_cb_resop4 list"

definition CB_COMPOUND4res_format :: "CB_COMPOUND4res xformat" where
  "CB_COMPOUND4res_format =
     both (fld CB_COMPOUND4res_status u32_format) (
     both (fld CB_COMPOUND4res_tag (bytes_format (- 1))) (
     fld CB_COMPOUND4res_resarray (array_format (- 1) nfs_cb_resop4_format)))"

definition xdr_CB_COMPOUND4res :: "'x xdrlib \<Rightarrow> (u32 \<Rightarrow> ('x, nfs_cb_resop4) xdrproc \<Rightarrow> ('x, nfs_cb_resop4 list) xdrproc) \<Rightarrow> ('x, CB_COMPOUND4res) xdrproc" where
  "xdr_CB_COMPOUND4res L arr =
     seq (on CB_COMPOUND4res_status CB_COMPOUND4res_status_update (xdr_nfsstat4 L)) (
     seq (on CB_COMPOUND4res_tag CB_COMPOUND4res_tag_update (xdr_utf8str_cs L)) (
     on CB_COMPOUND4res_resarray CB_COMPOUND4res_resarray_update (arr (- 1) (xdr_nfs_cb_resop4 L))))"

lemma CB_COMPOUND4args_codec: "xdr_lib_ok L V \<Longrightarrow> xdr_array_ok V z arr \<Longrightarrow> fresh nfs_cb_argop4_format z \<Longrightarrow> codec V (xdr_CB_COMPOUND4args L arr) CB_COMPOUND4args_format"
  unfolding xdr_CB_COMPOUND4args_def CB_COMPOUND4args_format_def by (rule codecI, (rule codec_rules xdr_codecs xdr_array_codec[where arr = arr and z = z] | assumption | (auto)[1])+)

lemma CB_COMPOUND4res_codec: "xdr_lib_ok L V \<Longrightarrow> xdr_array_ok V z arr \<Longrightarrow> fresh nfs_cb_resop4_format z \<Longrightarrow> codec V (xdr_CB_COMPOUND4res L arr) CB_COMPOUND4res_format"
  unfolding xdr_CB_COMPOUND4res_def CB_COMPOUND4res_format_def by (rule codecI, (rule codec_rules xdr_codecs xdr_array_codec[where arr = arr and z = z] | assumption | (auto)[1])+)

end
