(* ===== verification/Nfs4Zero.thy ===== *)
theory Nfs4Zero
  imports Nfs4Reply Nfs4Callback
begin

text \<open>
  The objects of the NFSv4 messages as cleared memory holds them: what client and server prepare with
  \<open>memset\<close>, and \<open>xdr_array\<close> allocates, before a message is decoded. They are
  ready to be decoded into.
\<close>

definition ACCESS4args_zero :: ACCESS4args where
  "ACCESS4args_zero = \<lparr>ACCESS4args_access = 0\<rparr>"

definition stateid4_zero :: stateid4 where
  "stateid4_zero = \<lparr>stateid4_seqid = 0,
     stateid4_other = replicate 12 0\<rparr>"

definition CLOSE4args_zero :: CLOSE4args where
  "CLOSE4args_zero = \<lparr>CLOSE4args_seqid = 0,
     CLOSE4args_open_stateid = stateid4_zero\<rparr>"

definition COMMIT4args_zero :: COMMIT4args where
  "COMMIT4args_zero = \<lparr>COMMIT4args_offset = 0,
     COMMIT4args_count = 0\<rparr>"

definition specdata4_zero :: specdata4 where
  "specdata4_zero = \<lparr>specdata4_specdata1 = 0,
     specdata4_specdata2 = 0\<rparr>"

definition createtype4_zero :: createtype4 where
  "createtype4_zero = \<lparr>createtype4_type = 0,
     createtype4_linkdata = [],
     createtype4_devdata = specdata4_zero\<rparr>"

definition fattr4_zero :: fattr4 where
  "fattr4_zero = \<lparr>fattr4_attrmask = [],
     fattr4_attr_vals = []\<rparr>"

definition CREATE4args_zero :: CREATE4args where
  "CREATE4args_zero = \<lparr>CREATE4args_objtype = createtype4_zero,
     CREATE4args_objname = [],
     CREATE4args_createattrs = fattr4_zero\<rparr>"

definition DELEGPURGE4args_zero :: DELEGPURGE4args where
  "DELEGPURGE4args_zero = \<lparr>DELEGPURGE4args_clientid = 0\<rparr>"

definition DELEGRETURN4args_zero :: DELEGRETURN4args where
  "DELEGRETURN4args_zero = \<lparr>DELEGRETURN4args_deleg_stateid = stateid4_zero\<rparr>"

definition GETATTR4args_zero :: GETATTR4args where
  "GETATTR4args_zero = \<lparr>GETATTR4args_attr_request = []\<rparr>"

definition LINK4args_zero :: LINK4args where
  "LINK4args_zero = \<lparr>LINK4args_newname = []\<rparr>"

definition lock_owner4_zero :: lock_owner4 where
  "lock_owner4_zero = \<lparr>lock_owner4_clientid = 0,
     lock_owner4_owner = []\<rparr>"

definition open_to_lock_owner4_zero :: open_to_lock_owner4 where
  "open_to_lock_owner4_zero = \<lparr>open_to_lock_owner4_open_seqid = 0,
     open_to_lock_owner4_open_stateid = stateid4_zero,
     open_to_lock_owner4_lock_seqid = 0,
     open_to_lock_owner4_lock_owner = lock_owner4_zero\<rparr>"

definition exist_lock_owner4_zero :: exist_lock_owner4 where
  "exist_lock_owner4_zero = \<lparr>exist_lock_owner4_lock_stateid = stateid4_zero,
     exist_lock_owner4_lock_seqid = 0\<rparr>"

definition locker4_zero :: locker4 where
  "locker4_zero = \<lparr>locker4_new_lock_owner = 0,
     locker4_open_owner = open_to_lock_owner4_zero,
     locker4_lock_owner = exist_lock_owner4_zero\<rparr>"

definition LOCK4args_zero :: LOCK4args where
  "LOCK4args_zero = \<lparr>LOCK4args_locktype = 0,
     LOCK4args_reclaim = 0,
     LOCK4args_offset = 0,
     LOCK4args_length = 0,
     LOCK4args_locker = locker4_zero\<rparr>"

definition LOCKT4args_zero :: LOCKT4args where
  "LOCKT4args_zero = \<lparr>LOCKT4args_locktype = 0,
     LOCKT4args_offset = 0,
     LOCKT4args_length = 0,
     LOCKT4args_owner = lock_owner4_zero\<rparr>"

definition LOCKU4args_zero :: LOCKU4args where
  "LOCKU4args_zero = \<lparr>LOCKU4args_locktype = 0,
     LOCKU4args_seqid = 0,
     LOCKU4args_lock_stateid = stateid4_zero,
     LOCKU4args_offset = 0,
     LOCKU4args_length = 0\<rparr>"

definition LOOKUP4args_zero :: LOOKUP4args where
  "LOOKUP4args_zero = \<lparr>LOOKUP4args_objname = []\<rparr>"

definition NVERIFY4args_zero :: NVERIFY4args where
  "NVERIFY4args_zero = \<lparr>NVERIFY4args_obj_attributes = fattr4_zero\<rparr>"

definition open_owner4_zero :: open_owner4 where
  "open_owner4_zero = \<lparr>open_owner4_clientid = 0,
     open_owner4_owner = []\<rparr>"

definition createhow4_zero :: createhow4 where
  "createhow4_zero = \<lparr>createhow4_mode = 0,
     createhow4_createattrs = fattr4_zero,
     createhow4_createverf = replicate 8 0\<rparr>"

definition openflag4_zero :: openflag4 where
  "openflag4_zero = \<lparr>openflag4_opentype = 0,
     openflag4_how = createhow4_zero\<rparr>"

definition open_claim_delegate_cur4_zero :: open_claim_delegate_cur4 where
  "open_claim_delegate_cur4_zero = \<lparr>open_claim_delegate_cur4_delegate_stateid = stateid4_zero,
     open_claim_delegate_cur4_file = []\<rparr>"

definition open_claim4_zero :: open_claim4 where
  "open_claim4_zero = \<lparr>open_claim4_claim = 0,
     open_claim4_file = [],
     open_claim4_delegate_type = 0,
     open_claim4_delegate_cur_info = open_claim_delegate_cur4_zero,
     open_claim4_file_delegate_prev = []\<rparr>"

definition OPEN4args_zero :: OPEN4args where
  "OPEN4args_zero = \<lparr>OPEN4args_seqid = 0,
     OPEN4args_share_access = 0,
     OPEN4args_share_deny = 0,
     OPEN4args_owner = open_owner4_zero,
     OPEN4args_openhow = openflag4_zero,
     OPEN4args_claim = open_claim4_zero\<rparr>"

definition OPENATTR4args_zero :: OPENATTR4args where
  "OPENATTR4args_zero = \<lparr>OPENATTR4args_createdir = 0\<rparr>"

definition OPEN_CONFIRM4args_zero :: OPEN_CONFIRM4args where
  "OPEN_CONFIRM4args_zero = \<lparr>OPEN_CONFIRM4args_open_stateid = stateid4_zero,
     OPEN_CONFIRM4args_seqid = 0\<rparr>"

definition OPEN_DOWNGRADE4args_zero :: OPEN_DOWNGRADE4args where
  "OPEN_DOWNGRADE4args_zero = \<lparr>OPEN_DOWNGRADE4args_open_stateid = stateid4_zero,
     OPEN_DOWNGRADE4args_seqid = 0,
     OPEN_DOWNGRADE4args_share_access = 0,
     OPEN_DOWNGRADE4args_share_deny = 0\<rparr>"

definition PUTFH4args_zero :: PUTFH4args where
  "PUTFH4args_zero = \<lparr>PUTFH4args_object = []\<rparr>"

definition READ4args_zero :: READ4args where
  "READ4args_zero = \<lparr>READ4args_stateid = stateid4_zero,
     READ4args_offset = 0,
     READ4args_count = 0\<rparr>"

definition READDIR4args_zero :: READDIR4args where
  "READDIR4args_zero = \<lparr>READDIR4args_cookie = 0,
     READDIR4args_cookieverf = replicate 8 0,
     READDIR4args_dircount = 0,
     READDIR4args_maxcount = 0,
     READDIR4args_attr_request = []\<rparr>"

definition REMOVE4args_zero :: REMOVE4args where
  "REMOVE4args_zero = \<lparr>REMOVE4args_target = []\<rparr>"

definition RENAME4args_zero :: RENAME4args where
  "RENAME4args_zero = \<lparr>RENAME4args_oldname = [],
     RENAME4args_newname = []\<rparr>"

definition RENEW4args_zero :: RENEW4args where
  "RENEW4args_zero = \<lparr>RENEW4args_clientid = 0\<rparr>"

definition SECINFO4args_zero :: SECINFO4args where
  "SECINFO4args_zero = \<lparr>SECINFO4args_name = []\<rparr>"

definition SETATTR4args_zero :: SETATTR4args where
  "SETATTR4args_zero = \<lparr>SETATTR4args_stateid = stateid4_zero,
     SETATTR4args_obj_attributes = fattr4_zero\<rparr>"

definition nfs_client_id4_zero :: nfs_client_id4 where
  "nfs_client_id4_zero = \<lparr>nfs_client_id4_verifier = replicate 8 0,
     nfs_client_id4_id = []\<rparr>"

definition clientaddr4_zero :: clientaddr4 where
  "clientaddr4_zero = \<lparr>clientaddr4_r_netid = [],
     clientaddr4_r_addr = []\<rparr>"

definition cb_client4_zero :: cb_client4 where
  "cb_client4_zero = \<lparr>cb_client4_cb_program = 0,
     cb_client4_cb_location = clientaddr4_zero\<rparr>"

definition SETCLIENTID4args_zero :: SETCLIENTID4args where
  "SETCLIENTID4args_zero = \<lparr>SETCLIENTID4args_client = nfs_client_id4_zero,
     SETCLIENTID4args_callback = cb_client4_zero,
     SETCLIENTID4args_callback_ident = 0\<rparr>"

definition SETCLIENTID_CONFIRM4args_zero :: SETCLIENTID_CONFIRM4args where
  "SETCLIENTID_CONFIRM4args_zero = \<lparr>SETCLIENTID_CONFIRM4args_clientid = 0,
     SETCLIENTID_CONFIRM4args_setclientid_confirm = replicate 8 0\<rparr>"

definition VERIFY4args_zero :: VERIFY4args where
  "VERIFY4args_zero = \<lparr>VERIFY4args_obj_attributes = fattr4_zero\<rparr>"

definition WRITE4args_zero :: WRITE4args where
  "WRITE4args_zero = \<lparr>WRITE4args_stateid = stateid4_zero,
     WRITE4args_offset = 0,
     WRITE4args_stable = 0,
     WRITE4args_data = []\<rparr>"

definition RELEASE_LOCKOWNER4args_zero :: RELEASE_LOCKOWNER4args where
  "RELEASE_LOCKOWNER4args_zero = \<lparr>RELEASE_LOCKOWNER4args_lock_owner = lock_owner4_zero\<rparr>"

definition nfs_argop4_zero :: nfs_argop4 where
  "nfs_argop4_zero = \<lparr>nfs_argop4_argop = 0,
     nfs_argop4_opaccess = ACCESS4args_zero,
     nfs_argop4_opclose = CLOSE4args_zero,
     nfs_argop4_opcommit = COMMIT4args_zero,
     nfs_argop4_opcreate = CREATE4args_zero,
     nfs_argop4_opdelegpurge = DELEGPURGE4args_zero,
     nfs_argop4_opdelegreturn = DELEGRETURN4args_zero,
     nfs_argop4_opgetattr = GETATTR4args_zero,
     nfs_argop4_oplink = LINK4args_zero,
     nfs_argop4_oplock = LOCK4args_zero,
     nfs_argop4_oplockt = LOCKT4args_zero,
     nfs_argop4_oplocku = LOCKU4args_zero,
     nfs_argop4_oplookup = LOOKUP4args_zero,
     nfs_argop4_opnverify = NVERIFY4args_zero,
     nfs_argop4_opopen = OPEN4args_zero,
     nfs_argop4_opopenattr = OPENATTR4args_zero,
     nfs_argop4_opopen_confirm = OPEN_CONFIRM4args_zero,
     nfs_argop4_opopen_downgrade = OPEN_DOWNGRADE4args_zero,
     nfs_argop4_opputfh = PUTFH4args_zero,
     nfs_argop4_opread = READ4args_zero,
     nfs_argop4_opreaddir = READDIR4args_zero,
     nfs_argop4_opremove = REMOVE4args_zero,
     nfs_argop4_oprename = RENAME4args_zero,
     nfs_argop4_oprenew = RENEW4args_zero,
     nfs_argop4_opsecinfo = SECINFO4args_zero,
     nfs_argop4_opsetattr = SETATTR4args_zero,
     nfs_argop4_opsetclientid = SETCLIENTID4args_zero,
     nfs_argop4_opsetclientid_confirm = SETCLIENTID_CONFIRM4args_zero,
     nfs_argop4_opverify = VERIFY4args_zero,
     nfs_argop4_opwrite = WRITE4args_zero,
     nfs_argop4_oprelease_lockowner = RELEASE_LOCKOWNER4args_zero\<rparr>"

definition COMPOUND4args_zero :: COMPOUND4args where
  "COMPOUND4args_zero = \<lparr>COMPOUND4args_tag = [],
     COMPOUND4args_minorversion = 0,
     COMPOUND4args_argarray = []\<rparr>"

definition ACCESS4resok_zero :: ACCESS4resok where
  "ACCESS4resok_zero = \<lparr>ACCESS4resok_supported = 0,
     ACCESS4resok_access = 0\<rparr>"

definition ACCESS4res_zero :: ACCESS4res where
  "ACCESS4res_zero = \<lparr>ACCESS4res_status = 0,
     ACCESS4res_resok4 = ACCESS4resok_zero\<rparr>"

definition CLOSE4res_zero :: CLOSE4res where
  "CLOSE4res_zero = \<lparr>CLOSE4res_status = 0,
     CLOSE4res_open_stateid = stateid4_zero\<rparr>"

definition COMMIT4resok_zero :: COMMIT4resok where
  "COMMIT4resok_zero = \<lparr>COMMIT4resok_writeverf = replicate 8 0\<rparr>"

definition COMMIT4res_zero :: COMMIT4res where
  "COMMIT4res_zero = \<lparr>COMMIT4res_status = 0,
     COMMIT4res_resok4 = COMMIT4resok_zero\<rparr>"

definition change_info4_zero :: change_info4 where
  "change_info4_zero = \<lparr>change_info4_atomic = 0,
     change_info4_before = 0,
     change_info4_after = 0\<rparr>"

definition CREATE4resok_zero :: CREATE4resok where
  "CREATE4resok_zero = \<lparr>CREATE4resok_cinfo = change_info4_zero,
     CREATE4resok_attrset = []\<rparr>"

definition CREATE4res_zero :: CREATE4res where
  "CREATE4res_zero = \<lparr>CREATE4res_status = 0,
     CREATE4res_resok4 = CREATE4resok_zero\<rparr>"

definition DELEGPURGE4res_zero :: DELEGPURGE4res where
  "DELEGPURGE4res_zero = \<lparr>DELEGPURGE4res_status = 0\<rparr>"

definition DELEGRETURN4res_zero :: DELEGRETURN4res where
  "DELEGRETURN4res_zero = \<lparr>DELEGRETURN4res_status = 0\<rparr>"

definition GETATTR4resok_zero :: GETATTR4resok where
  "GETATTR4resok_zero = \<lparr>GETATTR4resok_obj_attributes = fattr4_zero\<rparr>"

definition GETATTR4res_zero :: GETATTR4res where
  "GETATTR4res_zero = \<lparr>GETATTR4res_status = 0,
     GETATTR4res_resok4 = GETATTR4resok_zero\<rparr>"

definition GETFH4resok_zero :: GETFH4resok where
  "GETFH4resok_zero = \<lparr>GETFH4resok_object = []\<rparr>"

definition GETFH4res_zero :: GETFH4res where
  "GETFH4res_zero = \<lparr>GETFH4res_status = 0,
     GETFH4res_resok4 = GETFH4resok_zero\<rparr>"

definition LINK4resok_zero :: LINK4resok where
  "LINK4resok_zero = \<lparr>LINK4resok_cinfo = change_info4_zero\<rparr>"

definition LINK4res_zero :: LINK4res where
  "LINK4res_zero = \<lparr>LINK4res_status = 0,
     LINK4res_resok4 = LINK4resok_zero\<rparr>"

definition LOCK4resok_zero :: LOCK4resok where
  "LOCK4resok_zero = \<lparr>LOCK4resok_lock_stateid = stateid4_zero\<rparr>"

definition LOCK4denied_zero :: LOCK4denied where
  "LOCK4denied_zero = \<lparr>LOCK4denied_offset = 0,
     LOCK4denied_length = 0,
     LOCK4denied_locktype = 0,
     LOCK4denied_owner = lock_owner4_zero\<rparr>"

definition LOCK4res_zero :: LOCK4res where
  "LOCK4res_zero = \<lparr>LOCK4res_status = 0,
     LOCK4res_resok4 = LOCK4resok_zero,
     LOCK4res_denied = LOCK4denied_zero\<rparr>"

definition LOCKT4res_zero :: LOCKT4res where
  "LOCKT4res_zero = \<lparr>LOCKT4res_status = 0,
     LOCKT4res_denied = LOCK4denied_zero\<rparr>"

definition LOCKU4res_zero :: LOCKU4res where
  "LOCKU4res_zero = \<lparr>LOCKU4res_status = 0,
     LOCKU4res_lock_stateid = stateid4_zero\<rparr>"

definition LOOKUP4res_zero :: LOOKUP4res where
  "LOOKUP4res_zero = \<lparr>LOOKUP4res_status = 0\<rparr>"

definition LOOKUPP4res_zero :: LOOKUPP4res where
  "LOOKUPP4res_zero = \<lparr>LOOKUPP4res_status = 0\<rparr>"

definition NVERIFY4res_zero :: NVERIFY4res where
  "NVERIFY4res_zero = \<lparr>NVERIFY4res_status = 0\<rparr>"

definition nfsace4_zero :: nfsace4 where
  "nfsace4_zero = \<lparr>nfsace4_type = 0,
     nfsace4_flag = 0,
     nfsace4_access_mask = 0,
     nfsace4_who = []\<rparr>"

definition open_read_delegation4_zero :: open_read_delegation4 where
  "open_read_delegation4_zero = \<lparr>open_read_delegation4_stateid = stateid4_zero,
     open_read_delegation4_recall = 0,
     open_read_delegation4_permissions = nfsace4_zero\<rparr>"

definition nfs_modified_limit4_zero :: nfs_modified_limit4 where
  "nfs_modified_limit4_zero = \<lparr>nfs_modified_limit4_num_blocks = 0,
     nfs_modified_limit4_bytes_per_block = 0\<rparr>"

definition nfs_space_limit4_zero :: nfs_space_limit4 where
  "nfs_space_limit4_zero = \<lparr>nfs_space_limit4_limitby = 0,
     nfs_space_limit4_filesize = 0,
     nfs_space_limit4_mod_blocks = nfs_modified_limit4_zero\<rparr>"

definition open_write_delegation4_zero :: open_write_delegation4 where
  "open_write_delegation4_zero = \<lparr>open_write_delegation4_stateid = stateid4_zero,
     open_write_delegation4_recall = 0,
     open_write_delegation4_space_limit = nfs_space_limit4_zero,
     open_write_delegation4_permissions = nfsace4_zero\<rparr>"

definition open_delegation4_zero :: open_delegation4 where
  "open_delegation4_zero = \<lparr>open_delegation4_delegation_type = 0,
     open_delegation4_read = open_read_delegation4_zero,
     open_delegation4_write = open_write_delegation4_zero\<rparr>"

definition OPEN4resok_zero :: OPEN4resok where
  "OPEN4resok_zero = \<lparr>OPEN4resok_stateid = stateid4_zero,
     OPEN4resok_cinfo = change_info4_zero,
     OPEN4resok_rflags = 0,
     OPEN4resok_attrset = [],
     OPEN4resok_delegation = open_delegation4_zero\<rparr>"

definition OPEN4res_zero :: OPEN4res where
  "OPEN4res_zero = \<lparr>OPEN4res_status = 0,
     OPEN4res_resok4 = OPEN4resok_zero\<rparr>"

definition OPENATTR4res_zero :: OPENATTR4res where
  "OPENATTR4res_zero = \<lparr>OPENATTR4res_status = 0\<rparr>"

definition OPEN_CONFIRM4resok_zero :: OPEN_CONFIRM4resok where
  "OPEN_CONFIRM4resok_zero = \<lparr>OPEN_CONFIRM4resok_open_stateid = stateid4_zero\<rparr>"

definition OPEN_CONFIRM4res_zero :: OPEN_CONFIRM4res where
  "OPEN_CONFIRM4res_zero = \<lparr>OPEN_CONFIRM4res_status = 0,
     OPEN_CONFIRM4res_resok4 = OPEN_CONFIRM4resok_zero\<rparr>"

definition OPEN_DOWNGRADE4resok_zero :: OPEN_DOWNGRADE4resok where
  "OPEN_DOWNGRADE4resok_zero = \<lparr>OPEN_DOWNGRADE4resok_open_stateid = stateid4_zero\<rparr>"

definition OPEN_DOWNGRADE4res_zero :: OPEN_DOWNGRADE4res where
  "OPEN_DOWNGRADE4res_zero = \<lparr>OPEN_DOWNGRADE4res_status = 0,
     OPEN_DOWNGRADE4res_resok4 = OPEN_DOWNGRADE4resok_zero\<rparr>"

definition PUTFH4res_zero :: PUTFH4res where
  "PUTFH4res_zero = \<lparr>PUTFH4res_status = 0\<rparr>"

definition PUTPUBFH4res_zero :: PUTPUBFH4res where
  "PUTPUBFH4res_zero = \<lparr>PUTPUBFH4res_status = 0\<rparr>"

definition PUTROOTFH4res_zero :: PUTROOTFH4res where
  "PUTROOTFH4res_zero = \<lparr>PUTROOTFH4res_status = 0\<rparr>"

definition READ4resok_zero :: READ4resok where
  "READ4resok_zero = \<lparr>READ4resok_eof = 0,
     READ4resok_data = []\<rparr>"

definition READ4res_zero :: READ4res where
  "READ4res_zero = \<lparr>READ4res_status = 0,
     READ4res_resok4 = READ4resok_zero\<rparr>"

definition dirlist4_zero :: dirlist4 where
  "dirlist4_zero = \<lparr>dirlist4_entries = None,
     dirlist4_eof = 0\<rparr>"

definition READDIR4resok_zero :: READDIR4resok where
  "READDIR4resok_zero = \<lparr>READDIR4resok_cookieverf = replicate 8 0,
     READDIR4resok_reply = dirlist4_zero\<rparr>"

definition READDIR4res_zero :: READDIR4res where
  "READDIR4res_zero = \<lparr>READDIR4res_status = 0,
     READDIR4res_resok4 = READDIR4resok_zero\<rparr>"

definition READLINK4resok_zero :: READLINK4resok where
  "READLINK4resok_zero = \<lparr>READLINK4resok_link = []\<rparr>"

definition READLINK4res_zero :: READLINK4res where
  "READLINK4res_zero = \<lparr>READLINK4res_status = 0,
     READLINK4res_resok4 = READLINK4resok_zero\<rparr>"

definition REMOVE4resok_zero :: REMOVE4resok where
  "REMOVE4resok_zero = \<lparr>REMOVE4resok_cinfo = change_info4_zero\<rparr>"

definition REMOVE4res_zero :: REMOVE4res where
  "REMOVE4res_zero = \<lparr>REMOVE4res_status = 0,
     REMOVE4res_resok4 = REMOVE4resok_zero\<rparr>"

definition RENAME4resok_zero :: RENAME4resok where
  "RENAME4resok_zero = \<lparr>RENAME4resok_source_cinfo = change_info4_zero,
     RENAME4resok_target_cinfo = change_info4_zero\<rparr>"

definition RENAME4res_zero :: RENAME4res where
  "RENAME4res_zero = \<lparr>RENAME4res_status = 0,
     RENAME4res_resok4 = RENAME4resok_zero\<rparr>"

definition RENEW4res_zero :: RENEW4res where
  "RENEW4res_zero = \<lparr>RENEW4res_status = 0\<rparr>"

definition RESTOREFH4res_zero :: RESTOREFH4res where
  "RESTOREFH4res_zero = \<lparr>RESTOREFH4res_status = 0\<rparr>"

definition SAVEFH4res_zero :: SAVEFH4res where
  "SAVEFH4res_zero = \<lparr>SAVEFH4res_status = 0\<rparr>"

definition SECINFO4res_zero :: SECINFO4res where
  "SECINFO4res_zero = \<lparr>SECINFO4res_status = 0,
     SECINFO4res_resok4 = []\<rparr>"

definition SETATTR4res_zero :: SETATTR4res where
  "SETATTR4res_zero = \<lparr>SETATTR4res_status = 0,
     SETATTR4res_attrsset = []\<rparr>"

definition SETCLIENTID4resok_zero :: SETCLIENTID4resok where
  "SETCLIENTID4resok_zero = \<lparr>SETCLIENTID4resok_clientid = 0,
     SETCLIENTID4resok_setclientid_confirm = replicate 8 0\<rparr>"

definition SETCLIENTID4res_zero :: SETCLIENTID4res where
  "SETCLIENTID4res_zero = \<lparr>SETCLIENTID4res_status = 0,
     SETCLIENTID4res_resok4 = SETCLIENTID4resok_zero,
     SETCLIENTID4res_client_using = clientaddr4_zero\<rparr>"

definition SETCLIENTID_CONFIRM4res_zero :: SETCLIENTID_CONFIRM4res where
  "SETCLIENTID_CONFIRM4res_zero = \<lparr>SETCLIENTID_CONFIRM4res_status = 0\<rparr>"

definition VERIFY4res_zero :: VERIFY4res where
  "VERIFY4res_zero = \<lparr>VERIFY4res_status = 0\<rparr>"

definition WRITE4resok_zero :: WRITE4resok where
  "WRITE4resok_zero = \<lparr>WRITE4resok_count = 0,
     WRITE4resok_committed = 0,
     WRITE4resok_writeverf = replicate 8 0\<rparr>"

definition WRITE4res_zero :: WRITE4res where
  "WRITE4res_zero = \<lparr>WRITE4res_status = 0,
     WRITE4res_resok4 = WRITE4resok_zero\<rparr>"

definition RELEASE_LOCKOWNER4res_zero :: RELEASE_LOCKOWNER4res where
  "RELEASE_LOCKOWNER4res_zero = \<lparr>RELEASE_LOCKOWNER4res_status = 0\<rparr>"

definition ILLEGAL4res_zero :: ILLEGAL4res where
  "ILLEGAL4res_zero = \<lparr>ILLEGAL4res_status = 0\<rparr>"

definition nfs_resop4_zero :: nfs_resop4 where
  "nfs_resop4_zero = \<lparr>nfs_resop4_resop = 0,
     nfs_resop4_opaccess = ACCESS4res_zero,
     nfs_resop4_opclose = CLOSE4res_zero,
     nfs_resop4_opcommit = COMMIT4res_zero,
     nfs_resop4_opcreate = CREATE4res_zero,
     nfs_resop4_opdelegpurge = DELEGPURGE4res_zero,
     nfs_resop4_opdelegreturn = DELEGRETURN4res_zero,
     nfs_resop4_opgetattr = GETATTR4res_zero,
     nfs_resop4_opgetfh = GETFH4res_zero,
     nfs_resop4_oplink = LINK4res_zero,
     nfs_resop4_oplock = LOCK4res_zero,
     nfs_resop4_oplockt = LOCKT4res_zero,
     nfs_resop4_oplocku = LOCKU4res_zero,
     nfs_resop4_oplookup = LOOKUP4res_zero,
     nfs_resop4_oplookupp = LOOKUPP4res_zero,
     nfs_resop4_opnverify = NVERIFY4res_zero,
     nfs_resop4_opopen = OPEN4res_zero,
     nfs_resop4_opopenattr = OPENATTR4res_zero,
     nfs_resop4_opopen_confirm = OPEN_CONFIRM4res_zero,
     nfs_resop4_opopen_downgrade = OPEN_DOWNGRADE4res_zero,
     nfs_resop4_opputfh = PUTFH4res_zero,
     nfs_resop4_opputpubfh = PUTPUBFH4res_zero,
     nfs_resop4_opputrootfh = PUTROOTFH4res_zero,
     nfs_resop4_opread = READ4res_zero,
     nfs_resop4_opreaddir = READDIR4res_zero,
     nfs_resop4_opreadlink = READLINK4res_zero,
     nfs_resop4_opremove = REMOVE4res_zero,
     nfs_resop4_oprename = RENAME4res_zero,
     nfs_resop4_oprenew = RENEW4res_zero,
     nfs_resop4_oprestorefh = RESTOREFH4res_zero,
     nfs_resop4_opsavefh = SAVEFH4res_zero,
     nfs_resop4_opsecinfo = SECINFO4res_zero,
     nfs_resop4_opsetattr = SETATTR4res_zero,
     nfs_resop4_opsetclientid = SETCLIENTID4res_zero,
     nfs_resop4_opsetclientid_confirm = SETCLIENTID_CONFIRM4res_zero,
     nfs_resop4_opverify = VERIFY4res_zero,
     nfs_resop4_opwrite = WRITE4res_zero,
     nfs_resop4_oprelease_lockowner = RELEASE_LOCKOWNER4res_zero,
     nfs_resop4_opillegal = ILLEGAL4res_zero\<rparr>"

definition COMPOUND4res_zero :: COMPOUND4res where
  "COMPOUND4res_zero = \<lparr>COMPOUND4res_status = 0,
     COMPOUND4res_tag = [],
     COMPOUND4res_resarray = []\<rparr>"

definition CB_GETATTR4args_zero :: CB_GETATTR4args where
  "CB_GETATTR4args_zero = \<lparr>CB_GETATTR4args_fh = [],
     CB_GETATTR4args_attr_request = []\<rparr>"

definition CB_RECALL4args_zero :: CB_RECALL4args where
  "CB_RECALL4args_zero = \<lparr>CB_RECALL4args_stateid = stateid4_zero,
     CB_RECALL4args_truncate = 0,
     CB_RECALL4args_fh = []\<rparr>"

definition nfs_cb_argop4_zero :: nfs_cb_argop4 where
  "nfs_cb_argop4_zero = \<lparr>nfs_cb_argop4_argop = 0,
     nfs_cb_argop4_opcbgetattr = CB_GETATTR4args_zero,
     nfs_cb_argop4_opcbrecall = CB_RECALL4args_zero\<rparr>"

definition CB_COMPOUND4args_zero :: CB_COMPOUND4args where
  "CB_COMPOUND4args_zero = \<lparr>CB_COMPOUND4args_tag = [],
     CB_COMPOUND4args_minorversion = 0,
     CB_COMPOUND4args_callback_ident = 0,
     CB_COMPOUND4args_argarray = []\<rparr>"

definition CB_GETATTR4resok_zero :: CB_GETATTR4resok where
  "CB_GETATTR4resok_zero = \<lparr>CB_GETATTR4resok_obj_attributes = fattr4_zero\<rparr>"

definition CB_GETATTR4res_zero :: CB_GETATTR4res where
  "CB_GETATTR4res_zero = \<lparr>CB_GETATTR4res_status = 0,
     CB_GETATTR4res_resok4 = CB_GETATTR4resok_zero\<rparr>"

definition CB_RECALL4res_zero :: CB_RECALL4res where
  "CB_RECALL4res_zero = \<lparr>CB_RECALL4res_status = 0\<rparr>"

definition CB_ILLEGAL4res_zero :: CB_ILLEGAL4res where
  "CB_ILLEGAL4res_zero = \<lparr>CB_ILLEGAL4res_status = 0\<rparr>"

definition nfs_cb_resop4_zero :: nfs_cb_resop4 where
  "nfs_cb_resop4_zero = \<lparr>nfs_cb_resop4_resop = 0,
     nfs_cb_resop4_opcbgetattr = CB_GETATTR4res_zero,
     nfs_cb_resop4_opcbrecall = CB_RECALL4res_zero,
     nfs_cb_resop4_opcbillegal = CB_ILLEGAL4res_zero\<rparr>"

definition CB_COMPOUND4res_zero :: CB_COMPOUND4res where
  "CB_COMPOUND4res_zero = \<lparr>CB_COMPOUND4res_status = 0,
     CB_COMPOUND4res_tag = [],
     CB_COMPOUND4res_resarray = []\<rparr>"

lemma ACCESS4args_zero_fresh [simp]: "fresh ACCESS4args_format ACCESS4args_zero"
  by (simp add: ACCESS4args_format_def ACCESS4args_zero_def base_formats NFS4_VERIFIER_SIZE_def NFS4_OTHER_SIZE_def)

lemma stateid4_zero_fresh [simp]: "fresh stateid4_format stateid4_zero"
  by (simp add: stateid4_format_def stateid4_zero_def base_formats NFS4_VERIFIER_SIZE_def NFS4_OTHER_SIZE_def)

lemma CLOSE4args_zero_fresh [simp]: "fresh CLOSE4args_format CLOSE4args_zero"
  by (simp add: CLOSE4args_format_def CLOSE4args_zero_def base_formats NFS4_VERIFIER_SIZE_def NFS4_OTHER_SIZE_def)

lemma COMMIT4args_zero_fresh [simp]: "fresh COMMIT4args_format COMMIT4args_zero"
  by (simp add: COMMIT4args_format_def COMMIT4args_zero_def base_formats NFS4_VERIFIER_SIZE_def NFS4_OTHER_SIZE_def)

lemma specdata4_zero_fresh [simp]: "fresh specdata4_format specdata4_zero"
  by (simp add: specdata4_format_def specdata4_zero_def base_formats NFS4_VERIFIER_SIZE_def NFS4_OTHER_SIZE_def)

lemma createtype4_zero_fresh [simp]: "fresh createtype4_format createtype4_zero"
  by (simp add: createtype4_format_def createtype4_zero_def base_formats NFS4_VERIFIER_SIZE_def NFS4_OTHER_SIZE_def)

lemma fattr4_zero_fresh [simp]: "fresh fattr4_format fattr4_zero"
  by (simp add: fattr4_format_def fattr4_zero_def base_formats NFS4_VERIFIER_SIZE_def NFS4_OTHER_SIZE_def)

lemma CREATE4args_zero_fresh [simp]: "fresh CREATE4args_format CREATE4args_zero"
  by (simp add: CREATE4args_format_def CREATE4args_zero_def base_formats NFS4_VERIFIER_SIZE_def NFS4_OTHER_SIZE_def)

lemma DELEGPURGE4args_zero_fresh [simp]: "fresh DELEGPURGE4args_format DELEGPURGE4args_zero"
  by (simp add: DELEGPURGE4args_format_def DELEGPURGE4args_zero_def base_formats NFS4_VERIFIER_SIZE_def NFS4_OTHER_SIZE_def)

lemma DELEGRETURN4args_zero_fresh [simp]: "fresh DELEGRETURN4args_format DELEGRETURN4args_zero"
  by (simp add: DELEGRETURN4args_format_def DELEGRETURN4args_zero_def base_formats NFS4_VERIFIER_SIZE_def NFS4_OTHER_SIZE_def)

lemma GETATTR4args_zero_fresh [simp]: "fresh GETATTR4args_format GETATTR4args_zero"
  by (simp add: GETATTR4args_format_def GETATTR4args_zero_def base_formats NFS4_VERIFIER_SIZE_def NFS4_OTHER_SIZE_def)

lemma LINK4args_zero_fresh [simp]: "fresh LINK4args_format LINK4args_zero"
  by (simp add: LINK4args_format_def LINK4args_zero_def base_formats NFS4_VERIFIER_SIZE_def NFS4_OTHER_SIZE_def)

lemma lock_owner4_zero_fresh [simp]: "fresh lock_owner4_format lock_owner4_zero"
  by (simp add: lock_owner4_format_def lock_owner4_zero_def base_formats NFS4_VERIFIER_SIZE_def NFS4_OTHER_SIZE_def)

lemma open_to_lock_owner4_zero_fresh [simp]: "fresh open_to_lock_owner4_format open_to_lock_owner4_zero"
  by (simp add: open_to_lock_owner4_format_def open_to_lock_owner4_zero_def base_formats NFS4_VERIFIER_SIZE_def NFS4_OTHER_SIZE_def)

lemma exist_lock_owner4_zero_fresh [simp]: "fresh exist_lock_owner4_format exist_lock_owner4_zero"
  by (simp add: exist_lock_owner4_format_def exist_lock_owner4_zero_def base_formats NFS4_VERIFIER_SIZE_def NFS4_OTHER_SIZE_def)

lemma locker4_zero_fresh [simp]: "fresh locker4_format locker4_zero"
  by (simp add: locker4_format_def locker4_zero_def base_formats NFS4_VERIFIER_SIZE_def NFS4_OTHER_SIZE_def)

lemma LOCK4args_zero_fresh [simp]: "fresh LOCK4args_format LOCK4args_zero"
  by (simp add: LOCK4args_format_def LOCK4args_zero_def base_formats NFS4_VERIFIER_SIZE_def NFS4_OTHER_SIZE_def)

lemma LOCKT4args_zero_fresh [simp]: "fresh LOCKT4args_format LOCKT4args_zero"
  by (simp add: LOCKT4args_format_def LOCKT4args_zero_def base_formats NFS4_VERIFIER_SIZE_def NFS4_OTHER_SIZE_def)

lemma LOCKU4args_zero_fresh [simp]: "fresh LOCKU4args_format LOCKU4args_zero"
  by (simp add: LOCKU4args_format_def LOCKU4args_zero_def base_formats NFS4_VERIFIER_SIZE_def NFS4_OTHER_SIZE_def)

lemma LOOKUP4args_zero_fresh [simp]: "fresh LOOKUP4args_format LOOKUP4args_zero"
  by (simp add: LOOKUP4args_format_def LOOKUP4args_zero_def base_formats NFS4_VERIFIER_SIZE_def NFS4_OTHER_SIZE_def)

lemma NVERIFY4args_zero_fresh [simp]: "fresh NVERIFY4args_format NVERIFY4args_zero"
  by (simp add: NVERIFY4args_format_def NVERIFY4args_zero_def base_formats NFS4_VERIFIER_SIZE_def NFS4_OTHER_SIZE_def)

lemma open_owner4_zero_fresh [simp]: "fresh open_owner4_format open_owner4_zero"
  by (simp add: open_owner4_format_def open_owner4_zero_def base_formats NFS4_VERIFIER_SIZE_def NFS4_OTHER_SIZE_def)

lemma createhow4_zero_fresh [simp]: "fresh createhow4_format createhow4_zero"
  by (simp add: createhow4_format_def createhow4_zero_def base_formats NFS4_VERIFIER_SIZE_def NFS4_OTHER_SIZE_def)

lemma openflag4_zero_fresh [simp]: "fresh openflag4_format openflag4_zero"
  by (simp add: openflag4_format_def openflag4_zero_def base_formats NFS4_VERIFIER_SIZE_def NFS4_OTHER_SIZE_def)

lemma open_claim_delegate_cur4_zero_fresh [simp]: "fresh open_claim_delegate_cur4_format open_claim_delegate_cur4_zero"
  by (simp add: open_claim_delegate_cur4_format_def open_claim_delegate_cur4_zero_def base_formats NFS4_VERIFIER_SIZE_def NFS4_OTHER_SIZE_def)

lemma open_claim4_zero_fresh [simp]: "fresh open_claim4_format open_claim4_zero"
  by (simp add: open_claim4_format_def open_claim4_zero_def base_formats NFS4_VERIFIER_SIZE_def NFS4_OTHER_SIZE_def)

lemma OPEN4args_zero_fresh [simp]: "fresh OPEN4args_format OPEN4args_zero"
  by (simp add: OPEN4args_format_def OPEN4args_zero_def base_formats NFS4_VERIFIER_SIZE_def NFS4_OTHER_SIZE_def)

lemma OPENATTR4args_zero_fresh [simp]: "fresh OPENATTR4args_format OPENATTR4args_zero"
  by (simp add: OPENATTR4args_format_def OPENATTR4args_zero_def base_formats NFS4_VERIFIER_SIZE_def NFS4_OTHER_SIZE_def)

lemma OPEN_CONFIRM4args_zero_fresh [simp]: "fresh OPEN_CONFIRM4args_format OPEN_CONFIRM4args_zero"
  by (simp add: OPEN_CONFIRM4args_format_def OPEN_CONFIRM4args_zero_def base_formats NFS4_VERIFIER_SIZE_def NFS4_OTHER_SIZE_def)

lemma OPEN_DOWNGRADE4args_zero_fresh [simp]: "fresh OPEN_DOWNGRADE4args_format OPEN_DOWNGRADE4args_zero"
  by (simp add: OPEN_DOWNGRADE4args_format_def OPEN_DOWNGRADE4args_zero_def base_formats NFS4_VERIFIER_SIZE_def NFS4_OTHER_SIZE_def)

lemma PUTFH4args_zero_fresh [simp]: "fresh PUTFH4args_format PUTFH4args_zero"
  by (simp add: PUTFH4args_format_def PUTFH4args_zero_def base_formats NFS4_VERIFIER_SIZE_def NFS4_OTHER_SIZE_def)

lemma READ4args_zero_fresh [simp]: "fresh READ4args_format READ4args_zero"
  by (simp add: READ4args_format_def READ4args_zero_def base_formats NFS4_VERIFIER_SIZE_def NFS4_OTHER_SIZE_def)

lemma READDIR4args_zero_fresh [simp]: "fresh READDIR4args_format READDIR4args_zero"
  by (simp add: READDIR4args_format_def READDIR4args_zero_def base_formats NFS4_VERIFIER_SIZE_def NFS4_OTHER_SIZE_def)

lemma REMOVE4args_zero_fresh [simp]: "fresh REMOVE4args_format REMOVE4args_zero"
  by (simp add: REMOVE4args_format_def REMOVE4args_zero_def base_formats NFS4_VERIFIER_SIZE_def NFS4_OTHER_SIZE_def)

lemma RENAME4args_zero_fresh [simp]: "fresh RENAME4args_format RENAME4args_zero"
  by (simp add: RENAME4args_format_def RENAME4args_zero_def base_formats NFS4_VERIFIER_SIZE_def NFS4_OTHER_SIZE_def)

lemma RENEW4args_zero_fresh [simp]: "fresh RENEW4args_format RENEW4args_zero"
  by (simp add: RENEW4args_format_def RENEW4args_zero_def base_formats NFS4_VERIFIER_SIZE_def NFS4_OTHER_SIZE_def)

lemma SECINFO4args_zero_fresh [simp]: "fresh SECINFO4args_format SECINFO4args_zero"
  by (simp add: SECINFO4args_format_def SECINFO4args_zero_def base_formats NFS4_VERIFIER_SIZE_def NFS4_OTHER_SIZE_def)

lemma SETATTR4args_zero_fresh [simp]: "fresh SETATTR4args_format SETATTR4args_zero"
  by (simp add: SETATTR4args_format_def SETATTR4args_zero_def base_formats NFS4_VERIFIER_SIZE_def NFS4_OTHER_SIZE_def)

lemma nfs_client_id4_zero_fresh [simp]: "fresh nfs_client_id4_format nfs_client_id4_zero"
  by (simp add: nfs_client_id4_format_def nfs_client_id4_zero_def base_formats NFS4_VERIFIER_SIZE_def NFS4_OTHER_SIZE_def)

lemma clientaddr4_zero_fresh [simp]: "fresh clientaddr4_format clientaddr4_zero"
  by (simp add: clientaddr4_format_def clientaddr4_zero_def base_formats NFS4_VERIFIER_SIZE_def NFS4_OTHER_SIZE_def)

lemma cb_client4_zero_fresh [simp]: "fresh cb_client4_format cb_client4_zero"
  by (simp add: cb_client4_format_def cb_client4_zero_def base_formats NFS4_VERIFIER_SIZE_def NFS4_OTHER_SIZE_def)

lemma SETCLIENTID4args_zero_fresh [simp]: "fresh SETCLIENTID4args_format SETCLIENTID4args_zero"
  by (simp add: SETCLIENTID4args_format_def SETCLIENTID4args_zero_def base_formats NFS4_VERIFIER_SIZE_def NFS4_OTHER_SIZE_def)

lemma SETCLIENTID_CONFIRM4args_zero_fresh [simp]: "fresh SETCLIENTID_CONFIRM4args_format SETCLIENTID_CONFIRM4args_zero"
  by (simp add: SETCLIENTID_CONFIRM4args_format_def SETCLIENTID_CONFIRM4args_zero_def base_formats NFS4_VERIFIER_SIZE_def NFS4_OTHER_SIZE_def)

lemma VERIFY4args_zero_fresh [simp]: "fresh VERIFY4args_format VERIFY4args_zero"
  by (simp add: VERIFY4args_format_def VERIFY4args_zero_def base_formats NFS4_VERIFIER_SIZE_def NFS4_OTHER_SIZE_def)

lemma WRITE4args_zero_fresh [simp]: "fresh WRITE4args_format WRITE4args_zero"
  by (simp add: WRITE4args_format_def WRITE4args_zero_def base_formats NFS4_VERIFIER_SIZE_def NFS4_OTHER_SIZE_def)

lemma RELEASE_LOCKOWNER4args_zero_fresh [simp]: "fresh RELEASE_LOCKOWNER4args_format RELEASE_LOCKOWNER4args_zero"
  by (simp add: RELEASE_LOCKOWNER4args_format_def RELEASE_LOCKOWNER4args_zero_def base_formats NFS4_VERIFIER_SIZE_def NFS4_OTHER_SIZE_def)

lemma nfs_argop4_zero_fresh [simp]: "fresh nfs_argop4_format nfs_argop4_zero"
  by (simp add: nfs_argop4_format_def nfs_argop4_zero_def base_formats NFS4_VERIFIER_SIZE_def NFS4_OTHER_SIZE_def)

lemma COMPOUND4args_zero_fresh [simp]: "fresh COMPOUND4args_format COMPOUND4args_zero"
  by (simp add: COMPOUND4args_format_def COMPOUND4args_zero_def base_formats NFS4_VERIFIER_SIZE_def NFS4_OTHER_SIZE_def)

lemma ACCESS4resok_zero_fresh [simp]: "fresh ACCESS4resok_format ACCESS4resok_zero"
  by (simp add: ACCESS4resok_format_def ACCESS4resok_zero_def base_formats NFS4_VERIFIER_SIZE_def NFS4_OTHER_SIZE_def)

lemma ACCESS4res_zero_fresh [simp]: "fresh ACCESS4res_format ACCESS4res_zero"
  by (simp add: ACCESS4res_format_def ACCESS4res_zero_def base_formats NFS4_VERIFIER_SIZE_def NFS4_OTHER_SIZE_def)

lemma CLOSE4res_zero_fresh [simp]: "fresh CLOSE4res_format CLOSE4res_zero"
  by (simp add: CLOSE4res_format_def CLOSE4res_zero_def base_formats NFS4_VERIFIER_SIZE_def NFS4_OTHER_SIZE_def)

lemma COMMIT4resok_zero_fresh [simp]: "fresh COMMIT4resok_format COMMIT4resok_zero"
  by (simp add: COMMIT4resok_format_def COMMIT4resok_zero_def base_formats NFS4_VERIFIER_SIZE_def NFS4_OTHER_SIZE_def)

lemma COMMIT4res_zero_fresh [simp]: "fresh COMMIT4res_format COMMIT4res_zero"
  by (simp add: COMMIT4res_format_def COMMIT4res_zero_def base_formats NFS4_VERIFIER_SIZE_def NFS4_OTHER_SIZE_def)

lemma change_info4_zero_fresh [simp]: "fresh change_info4_format change_info4_zero"
  by (simp add: change_info4_format_def change_info4_zero_def base_formats NFS4_VERIFIER_SIZE_def NFS4_OTHER_SIZE_def)

lemma CREATE4resok_zero_fresh [simp]: "fresh CREATE4resok_format CREATE4resok_zero"
  by (simp add: CREATE4resok_format_def CREATE4resok_zero_def base_formats NFS4_VERIFIER_SIZE_def NFS4_OTHER_SIZE_def)

lemma CREATE4res_zero_fresh [simp]: "fresh CREATE4res_format CREATE4res_zero"
  by (simp add: CREATE4res_format_def CREATE4res_zero_def base_formats NFS4_VERIFIER_SIZE_def NFS4_OTHER_SIZE_def)

lemma DELEGPURGE4res_zero_fresh [simp]: "fresh DELEGPURGE4res_format DELEGPURGE4res_zero"
  by (simp add: DELEGPURGE4res_format_def DELEGPURGE4res_zero_def base_formats NFS4_VERIFIER_SIZE_def NFS4_OTHER_SIZE_def)

lemma DELEGRETURN4res_zero_fresh [simp]: "fresh DELEGRETURN4res_format DELEGRETURN4res_zero"
  by (simp add: DELEGRETURN4res_format_def DELEGRETURN4res_zero_def base_formats NFS4_VERIFIER_SIZE_def NFS4_OTHER_SIZE_def)

lemma GETATTR4resok_zero_fresh [simp]: "fresh GETATTR4resok_format GETATTR4resok_zero"
  by (simp add: GETATTR4resok_format_def GETATTR4resok_zero_def base_formats NFS4_VERIFIER_SIZE_def NFS4_OTHER_SIZE_def)

lemma GETATTR4res_zero_fresh [simp]: "fresh GETATTR4res_format GETATTR4res_zero"
  by (simp add: GETATTR4res_format_def GETATTR4res_zero_def base_formats NFS4_VERIFIER_SIZE_def NFS4_OTHER_SIZE_def)

lemma GETFH4resok_zero_fresh [simp]: "fresh GETFH4resok_format GETFH4resok_zero"
  by (simp add: GETFH4resok_format_def GETFH4resok_zero_def base_formats NFS4_VERIFIER_SIZE_def NFS4_OTHER_SIZE_def)

lemma GETFH4res_zero_fresh [simp]: "fresh GETFH4res_format GETFH4res_zero"
  by (simp add: GETFH4res_format_def GETFH4res_zero_def base_formats NFS4_VERIFIER_SIZE_def NFS4_OTHER_SIZE_def)

lemma LINK4resok_zero_fresh [simp]: "fresh LINK4resok_format LINK4resok_zero"
  by (simp add: LINK4resok_format_def LINK4resok_zero_def base_formats NFS4_VERIFIER_SIZE_def NFS4_OTHER_SIZE_def)

lemma LINK4res_zero_fresh [simp]: "fresh LINK4res_format LINK4res_zero"
  by (simp add: LINK4res_format_def LINK4res_zero_def base_formats NFS4_VERIFIER_SIZE_def NFS4_OTHER_SIZE_def)

lemma LOCK4resok_zero_fresh [simp]: "fresh LOCK4resok_format LOCK4resok_zero"
  by (simp add: LOCK4resok_format_def LOCK4resok_zero_def base_formats NFS4_VERIFIER_SIZE_def NFS4_OTHER_SIZE_def)

lemma LOCK4denied_zero_fresh [simp]: "fresh LOCK4denied_format LOCK4denied_zero"
  by (simp add: LOCK4denied_format_def LOCK4denied_zero_def base_formats NFS4_VERIFIER_SIZE_def NFS4_OTHER_SIZE_def)

lemma LOCK4res_zero_fresh [simp]: "fresh LOCK4res_format LOCK4res_zero"
  by (simp add: LOCK4res_format_def LOCK4res_zero_def base_formats NFS4_VERIFIER_SIZE_def NFS4_OTHER_SIZE_def)

lemma LOCKT4res_zero_fresh [simp]: "fresh LOCKT4res_format LOCKT4res_zero"
  by (simp add: LOCKT4res_format_def LOCKT4res_zero_def base_formats NFS4_VERIFIER_SIZE_def NFS4_OTHER_SIZE_def)

lemma LOCKU4res_zero_fresh [simp]: "fresh LOCKU4res_format LOCKU4res_zero"
  by (simp add: LOCKU4res_format_def LOCKU4res_zero_def base_formats NFS4_VERIFIER_SIZE_def NFS4_OTHER_SIZE_def)

lemma LOOKUP4res_zero_fresh [simp]: "fresh LOOKUP4res_format LOOKUP4res_zero"
  by (simp add: LOOKUP4res_format_def LOOKUP4res_zero_def base_formats NFS4_VERIFIER_SIZE_def NFS4_OTHER_SIZE_def)

lemma LOOKUPP4res_zero_fresh [simp]: "fresh LOOKUPP4res_format LOOKUPP4res_zero"
  by (simp add: LOOKUPP4res_format_def LOOKUPP4res_zero_def base_formats NFS4_VERIFIER_SIZE_def NFS4_OTHER_SIZE_def)

lemma NVERIFY4res_zero_fresh [simp]: "fresh NVERIFY4res_format NVERIFY4res_zero"
  by (simp add: NVERIFY4res_format_def NVERIFY4res_zero_def base_formats NFS4_VERIFIER_SIZE_def NFS4_OTHER_SIZE_def)

lemma nfsace4_zero_fresh [simp]: "fresh nfsace4_format nfsace4_zero"
  by (simp add: nfsace4_format_def nfsace4_zero_def base_formats NFS4_VERIFIER_SIZE_def NFS4_OTHER_SIZE_def)

lemma open_read_delegation4_zero_fresh [simp]: "fresh open_read_delegation4_format open_read_delegation4_zero"
  by (simp add: open_read_delegation4_format_def open_read_delegation4_zero_def base_formats NFS4_VERIFIER_SIZE_def NFS4_OTHER_SIZE_def)

lemma nfs_modified_limit4_zero_fresh [simp]: "fresh nfs_modified_limit4_format nfs_modified_limit4_zero"
  by (simp add: nfs_modified_limit4_format_def nfs_modified_limit4_zero_def base_formats NFS4_VERIFIER_SIZE_def NFS4_OTHER_SIZE_def)

lemma nfs_space_limit4_zero_fresh [simp]: "fresh nfs_space_limit4_format nfs_space_limit4_zero"
  by (simp add: nfs_space_limit4_format_def nfs_space_limit4_zero_def base_formats NFS4_VERIFIER_SIZE_def NFS4_OTHER_SIZE_def)

lemma open_write_delegation4_zero_fresh [simp]: "fresh open_write_delegation4_format open_write_delegation4_zero"
  by (simp add: open_write_delegation4_format_def open_write_delegation4_zero_def base_formats NFS4_VERIFIER_SIZE_def NFS4_OTHER_SIZE_def)

lemma open_delegation4_zero_fresh [simp]: "fresh open_delegation4_format open_delegation4_zero"
  by (simp add: open_delegation4_format_def open_delegation4_zero_def base_formats NFS4_VERIFIER_SIZE_def NFS4_OTHER_SIZE_def)

lemma OPEN4resok_zero_fresh [simp]: "fresh OPEN4resok_format OPEN4resok_zero"
  by (simp add: OPEN4resok_format_def OPEN4resok_zero_def base_formats NFS4_VERIFIER_SIZE_def NFS4_OTHER_SIZE_def)

lemma OPEN4res_zero_fresh [simp]: "fresh OPEN4res_format OPEN4res_zero"
  by (simp add: OPEN4res_format_def OPEN4res_zero_def base_formats NFS4_VERIFIER_SIZE_def NFS4_OTHER_SIZE_def)

lemma OPENATTR4res_zero_fresh [simp]: "fresh OPENATTR4res_format OPENATTR4res_zero"
  by (simp add: OPENATTR4res_format_def OPENATTR4res_zero_def base_formats NFS4_VERIFIER_SIZE_def NFS4_OTHER_SIZE_def)

lemma OPEN_CONFIRM4resok_zero_fresh [simp]: "fresh OPEN_CONFIRM4resok_format OPEN_CONFIRM4resok_zero"
  by (simp add: OPEN_CONFIRM4resok_format_def OPEN_CONFIRM4resok_zero_def base_formats NFS4_VERIFIER_SIZE_def NFS4_OTHER_SIZE_def)

lemma OPEN_CONFIRM4res_zero_fresh [simp]: "fresh OPEN_CONFIRM4res_format OPEN_CONFIRM4res_zero"
  by (simp add: OPEN_CONFIRM4res_format_def OPEN_CONFIRM4res_zero_def base_formats NFS4_VERIFIER_SIZE_def NFS4_OTHER_SIZE_def)

lemma OPEN_DOWNGRADE4resok_zero_fresh [simp]: "fresh OPEN_DOWNGRADE4resok_format OPEN_DOWNGRADE4resok_zero"
  by (simp add: OPEN_DOWNGRADE4resok_format_def OPEN_DOWNGRADE4resok_zero_def base_formats NFS4_VERIFIER_SIZE_def NFS4_OTHER_SIZE_def)

lemma OPEN_DOWNGRADE4res_zero_fresh [simp]: "fresh OPEN_DOWNGRADE4res_format OPEN_DOWNGRADE4res_zero"
  by (simp add: OPEN_DOWNGRADE4res_format_def OPEN_DOWNGRADE4res_zero_def base_formats NFS4_VERIFIER_SIZE_def NFS4_OTHER_SIZE_def)

lemma PUTFH4res_zero_fresh [simp]: "fresh PUTFH4res_format PUTFH4res_zero"
  by (simp add: PUTFH4res_format_def PUTFH4res_zero_def base_formats NFS4_VERIFIER_SIZE_def NFS4_OTHER_SIZE_def)

lemma PUTPUBFH4res_zero_fresh [simp]: "fresh PUTPUBFH4res_format PUTPUBFH4res_zero"
  by (simp add: PUTPUBFH4res_format_def PUTPUBFH4res_zero_def base_formats NFS4_VERIFIER_SIZE_def NFS4_OTHER_SIZE_def)

lemma PUTROOTFH4res_zero_fresh [simp]: "fresh PUTROOTFH4res_format PUTROOTFH4res_zero"
  by (simp add: PUTROOTFH4res_format_def PUTROOTFH4res_zero_def base_formats NFS4_VERIFIER_SIZE_def NFS4_OTHER_SIZE_def)

lemma READ4resok_zero_fresh [simp]: "fresh READ4resok_format READ4resok_zero"
  by (simp add: READ4resok_format_def READ4resok_zero_def base_formats NFS4_VERIFIER_SIZE_def NFS4_OTHER_SIZE_def)

lemma READ4res_zero_fresh [simp]: "fresh READ4res_format READ4res_zero"
  by (simp add: READ4res_format_def READ4res_zero_def base_formats NFS4_VERIFIER_SIZE_def NFS4_OTHER_SIZE_def)

lemma dirlist4_zero_fresh [simp]: "fresh (dirlist4_format n) dirlist4_zero"
  by (simp add: dirlist4_format_def dirlist4_zero_def base_formats NFS4_VERIFIER_SIZE_def NFS4_OTHER_SIZE_def)

lemma READDIR4resok_zero_fresh [simp]: "fresh (READDIR4resok_format n) READDIR4resok_zero"
  by (simp add: READDIR4resok_format_def READDIR4resok_zero_def base_formats NFS4_VERIFIER_SIZE_def NFS4_OTHER_SIZE_def)

lemma READDIR4res_zero_fresh [simp]: "fresh (READDIR4res_format n) READDIR4res_zero"
  by (simp add: READDIR4res_format_def READDIR4res_zero_def base_formats NFS4_VERIFIER_SIZE_def NFS4_OTHER_SIZE_def)

lemma READLINK4resok_zero_fresh [simp]: "fresh READLINK4resok_format READLINK4resok_zero"
  by (simp add: READLINK4resok_format_def READLINK4resok_zero_def base_formats NFS4_VERIFIER_SIZE_def NFS4_OTHER_SIZE_def)

lemma READLINK4res_zero_fresh [simp]: "fresh READLINK4res_format READLINK4res_zero"
  by (simp add: READLINK4res_format_def READLINK4res_zero_def base_formats NFS4_VERIFIER_SIZE_def NFS4_OTHER_SIZE_def)

lemma REMOVE4resok_zero_fresh [simp]: "fresh REMOVE4resok_format REMOVE4resok_zero"
  by (simp add: REMOVE4resok_format_def REMOVE4resok_zero_def base_formats NFS4_VERIFIER_SIZE_def NFS4_OTHER_SIZE_def)

lemma REMOVE4res_zero_fresh [simp]: "fresh REMOVE4res_format REMOVE4res_zero"
  by (simp add: REMOVE4res_format_def REMOVE4res_zero_def base_formats NFS4_VERIFIER_SIZE_def NFS4_OTHER_SIZE_def)

lemma RENAME4resok_zero_fresh [simp]: "fresh RENAME4resok_format RENAME4resok_zero"
  by (simp add: RENAME4resok_format_def RENAME4resok_zero_def base_formats NFS4_VERIFIER_SIZE_def NFS4_OTHER_SIZE_def)

lemma RENAME4res_zero_fresh [simp]: "fresh RENAME4res_format RENAME4res_zero"
  by (simp add: RENAME4res_format_def RENAME4res_zero_def base_formats NFS4_VERIFIER_SIZE_def NFS4_OTHER_SIZE_def)

lemma RENEW4res_zero_fresh [simp]: "fresh RENEW4res_format RENEW4res_zero"
  by (simp add: RENEW4res_format_def RENEW4res_zero_def base_formats NFS4_VERIFIER_SIZE_def NFS4_OTHER_SIZE_def)

lemma RESTOREFH4res_zero_fresh [simp]: "fresh RESTOREFH4res_format RESTOREFH4res_zero"
  by (simp add: RESTOREFH4res_format_def RESTOREFH4res_zero_def base_formats NFS4_VERIFIER_SIZE_def NFS4_OTHER_SIZE_def)

lemma SAVEFH4res_zero_fresh [simp]: "fresh SAVEFH4res_format SAVEFH4res_zero"
  by (simp add: SAVEFH4res_format_def SAVEFH4res_zero_def base_formats NFS4_VERIFIER_SIZE_def NFS4_OTHER_SIZE_def)

lemma SECINFO4res_zero_fresh [simp]: "fresh SECINFO4res_format SECINFO4res_zero"
  by (simp add: SECINFO4res_format_def SECINFO4res_zero_def base_formats NFS4_VERIFIER_SIZE_def NFS4_OTHER_SIZE_def)

lemma SETATTR4res_zero_fresh [simp]: "fresh SETATTR4res_format SETATTR4res_zero"
  by (simp add: SETATTR4res_format_def SETATTR4res_zero_def base_formats NFS4_VERIFIER_SIZE_def NFS4_OTHER_SIZE_def)

lemma SETCLIENTID4resok_zero_fresh [simp]: "fresh SETCLIENTID4resok_format SETCLIENTID4resok_zero"
  by (simp add: SETCLIENTID4resok_format_def SETCLIENTID4resok_zero_def base_formats NFS4_VERIFIER_SIZE_def NFS4_OTHER_SIZE_def)

lemma SETCLIENTID4res_zero_fresh [simp]: "fresh SETCLIENTID4res_format SETCLIENTID4res_zero"
  by (simp add: SETCLIENTID4res_format_def SETCLIENTID4res_zero_def base_formats NFS4_VERIFIER_SIZE_def NFS4_OTHER_SIZE_def)

lemma SETCLIENTID_CONFIRM4res_zero_fresh [simp]: "fresh SETCLIENTID_CONFIRM4res_format SETCLIENTID_CONFIRM4res_zero"
  by (simp add: SETCLIENTID_CONFIRM4res_format_def SETCLIENTID_CONFIRM4res_zero_def base_formats NFS4_VERIFIER_SIZE_def NFS4_OTHER_SIZE_def)

lemma VERIFY4res_zero_fresh [simp]: "fresh VERIFY4res_format VERIFY4res_zero"
  by (simp add: VERIFY4res_format_def VERIFY4res_zero_def base_formats NFS4_VERIFIER_SIZE_def NFS4_OTHER_SIZE_def)

lemma WRITE4resok_zero_fresh [simp]: "fresh WRITE4resok_format WRITE4resok_zero"
  by (simp add: WRITE4resok_format_def WRITE4resok_zero_def base_formats NFS4_VERIFIER_SIZE_def NFS4_OTHER_SIZE_def)

lemma WRITE4res_zero_fresh [simp]: "fresh WRITE4res_format WRITE4res_zero"
  by (simp add: WRITE4res_format_def WRITE4res_zero_def base_formats NFS4_VERIFIER_SIZE_def NFS4_OTHER_SIZE_def)

lemma RELEASE_LOCKOWNER4res_zero_fresh [simp]: "fresh RELEASE_LOCKOWNER4res_format RELEASE_LOCKOWNER4res_zero"
  by (simp add: RELEASE_LOCKOWNER4res_format_def RELEASE_LOCKOWNER4res_zero_def base_formats NFS4_VERIFIER_SIZE_def NFS4_OTHER_SIZE_def)

lemma ILLEGAL4res_zero_fresh [simp]: "fresh ILLEGAL4res_format ILLEGAL4res_zero"
  by (simp add: ILLEGAL4res_format_def ILLEGAL4res_zero_def base_formats NFS4_VERIFIER_SIZE_def NFS4_OTHER_SIZE_def)

lemma nfs_resop4_zero_fresh [simp]: "fresh (nfs_resop4_format n) nfs_resop4_zero"
  by (simp add: nfs_resop4_format_def nfs_resop4_zero_def base_formats NFS4_VERIFIER_SIZE_def NFS4_OTHER_SIZE_def)

lemma COMPOUND4res_zero_fresh [simp]: "fresh (COMPOUND4res_format n) COMPOUND4res_zero"
  by (simp add: COMPOUND4res_format_def COMPOUND4res_zero_def base_formats NFS4_VERIFIER_SIZE_def NFS4_OTHER_SIZE_def)

lemma CB_GETATTR4args_zero_fresh [simp]: "fresh CB_GETATTR4args_format CB_GETATTR4args_zero"
  by (simp add: CB_GETATTR4args_format_def CB_GETATTR4args_zero_def base_formats NFS4_VERIFIER_SIZE_def NFS4_OTHER_SIZE_def)

lemma CB_RECALL4args_zero_fresh [simp]: "fresh CB_RECALL4args_format CB_RECALL4args_zero"
  by (simp add: CB_RECALL4args_format_def CB_RECALL4args_zero_def base_formats NFS4_VERIFIER_SIZE_def NFS4_OTHER_SIZE_def)

lemma nfs_cb_argop4_zero_fresh [simp]: "fresh nfs_cb_argop4_format nfs_cb_argop4_zero"
  by (simp add: nfs_cb_argop4_format_def nfs_cb_argop4_zero_def base_formats NFS4_VERIFIER_SIZE_def NFS4_OTHER_SIZE_def)

lemma CB_COMPOUND4args_zero_fresh [simp]: "fresh CB_COMPOUND4args_format CB_COMPOUND4args_zero"
  by (simp add: CB_COMPOUND4args_format_def CB_COMPOUND4args_zero_def base_formats NFS4_VERIFIER_SIZE_def NFS4_OTHER_SIZE_def)

lemma CB_GETATTR4resok_zero_fresh [simp]: "fresh CB_GETATTR4resok_format CB_GETATTR4resok_zero"
  by (simp add: CB_GETATTR4resok_format_def CB_GETATTR4resok_zero_def base_formats NFS4_VERIFIER_SIZE_def NFS4_OTHER_SIZE_def)

lemma CB_GETATTR4res_zero_fresh [simp]: "fresh CB_GETATTR4res_format CB_GETATTR4res_zero"
  by (simp add: CB_GETATTR4res_format_def CB_GETATTR4res_zero_def base_formats NFS4_VERIFIER_SIZE_def NFS4_OTHER_SIZE_def)

lemma CB_RECALL4res_zero_fresh [simp]: "fresh CB_RECALL4res_format CB_RECALL4res_zero"
  by (simp add: CB_RECALL4res_format_def CB_RECALL4res_zero_def base_formats NFS4_VERIFIER_SIZE_def NFS4_OTHER_SIZE_def)

lemma CB_ILLEGAL4res_zero_fresh [simp]: "fresh CB_ILLEGAL4res_format CB_ILLEGAL4res_zero"
  by (simp add: CB_ILLEGAL4res_format_def CB_ILLEGAL4res_zero_def base_formats NFS4_VERIFIER_SIZE_def NFS4_OTHER_SIZE_def)

lemma nfs_cb_resop4_zero_fresh [simp]: "fresh nfs_cb_resop4_format nfs_cb_resop4_zero"
  by (simp add: nfs_cb_resop4_format_def nfs_cb_resop4_zero_def base_formats NFS4_VERIFIER_SIZE_def NFS4_OTHER_SIZE_def)

lemma CB_COMPOUND4res_zero_fresh [simp]: "fresh CB_COMPOUND4res_format CB_COMPOUND4res_zero"
  by (simp add: CB_COMPOUND4res_format_def CB_COMPOUND4res_zero_def base_formats NFS4_VERIFIER_SIZE_def NFS4_OTHER_SIZE_def)

end
