(* ===== verification/XdrMem.thy ===== *)
theory XdrMem
  imports Xdr
begin

text \<open>
  A concrete XDR library over byte lists, in the manner of a memory stream: an instance of the
  parameter of the codec, against which the laws of \<open>Xdr\<close> are discharged. It shows that
  the laws can hold together and lets the codec run on concrete messages.
\<close>

section \<open>The stream and its primitives\<close>

record xmem =
  x_enc :: bool
  x_out :: "u8 list"
  x_room :: nat
  x_in :: "u8 list"

definition xmem_view :: "xmem xview" where
  "xmem_view = \<lparr>encoding = x_enc, decoding = (\<lambda>x. \<not> x_enc x), written = x_out, room = x_room, unread = x_in\<rparr>"

definition put :: "u8 list \<Rightarrow> xmem \<Rightarrow> bool \<times> xmem" where
  "put bs x = (if length bs \<le> x_room x then (True, x\<lparr>x_out := x_out x @ bs, x_room := x_room x - length bs\<rparr>) else (False, x))"

definition get :: "nat \<Rightarrow> xmem \<Rightarrow> bool \<times> xmem \<times> u8 list" where
  "get n x = (if n \<le> length (x_in x) then (True, x\<lparr>x_in := drop n (x_in x)\<rparr>, take n (x_in x)) else (False, x, []))"

definition unbe :: "u8 list \<Rightarrow> 'a::len word" where
  "unbe bs = foldl (\<lambda>a b. push_bit 8 a OR ucast b) 0 bs"

definition mem_prim :: "nat \<Rightarrow> ('a \<Rightarrow> u8 list) \<Rightarrow> (u8 list \<Rightarrow> 'a) \<Rightarrow> (xmem, 'a) xdrproc" where
  "mem_prim n e d = (\<lambda>x v. if x_enc x then (let (ok, x') = put (e v) x in (ok, x', v))
     else (let (ok, x', bs) = get n x in (ok, x', if ok then d bs else v)))"

definition mem_u32 :: "(xmem, u32) xdrproc" where
  "mem_u32 = mem_prim 4 be32 unbe"

definition mem_bool :: "(xmem, u32) xdrproc" where
  "mem_bool = mem_prim 4 (\<lambda>v. be32 (if v = 0 then 0 else 1)) (\<lambda>bs. if (unbe bs :: u32) = 0 then 0 else 1)"

definition mem_u64 :: "(xmem, u64) xdrproc" where
  "mem_u64 = mem_prim 8 be64 unbe"

definition mem_opaque :: "u32 \<Rightarrow> (xmem, u8 list) xdrproc" where
  "mem_opaque n = mem_prim (unat n + (4 - unat n mod 4) mod 4) padded (take (unat n))"

definition mem_bytes :: "u32 \<Rightarrow> (xmem, u8 list) xdrproc" where
  "mem_bytes m = (\<lambda>x v. if x_enc x then
       (if length v \<le> unat m then (let (ok, x', _) = mem_u32 x (of_nat (length v)) in if ok then mem_prim 0 padded id x' v else (False, x', v))
        else (False, x, v))
     else (let (ok, x', n) = mem_u32 x 0 in if ok \<and> n \<le> m then mem_opaque n x' v else (False, x', v)))"

fun mem_each :: "(xmem, 'a) xdrproc \<Rightarrow> (xmem, 'a list) xdrproc" where
  "mem_each f x [] = (True, x, [])"
| "mem_each f x (p # ps) = (let (ok, x', p') = f x p in
     if ok then (let (ok', x'', ps') = mem_each f x' ps in (ok', x'', p' # ps')) else (False, x', p' # ps))"

definition mem_array :: "'a \<Rightarrow> u32 \<Rightarrow> (xmem, 'a) xdrproc \<Rightarrow> (xmem, 'a list) xdrproc" where
  "mem_array z m f = (\<lambda>x v. if x_enc x then
       (if length v \<le> unat m then (let (ok, x', _) = mem_u32 x (of_nat (length v)) in if ok then mem_each f x' v else (False, x', v))
        else (False, x, v))
     else (let (ok, x', n) = mem_u32 x 0 in if ok \<and> n \<le> m then mem_each f x' (replicate (unat n) z) else (False, x', v)))"

definition mem_pointer :: "'a \<Rightarrow> (xmem, 'a) xdrproc \<Rightarrow> (xmem, 'a option) xdrproc" where
  "mem_pointer z f = (\<lambda>x q.
     (let (ok, x', more) = mem_bool x (if q = None then 0 else 1) in
      if \<not> ok then (False, x', q)
      else if more = 0 then (True, x', None)
      else (let (ok', x'', v) = f x' (case q of None \<Rightarrow> z | Some p \<Rightarrow> p) in (ok', x'', Some v))))"

definition xmem_lib :: "xmem xdrlib" where
  "xmem_lib = \<lparr>xdr_enum = mem_u32, xdr_bool = mem_bool, xdr_u_int = mem_u32, xdr_uint32_t = mem_u32, xdr_uint64_t = mem_u64,
     xdr_int64_t = mem_u64, xdr_opaque = mem_opaque, xdr_bytes = mem_bytes, xdr_string = mem_bytes, xdr_array_u32 = mem_array 0\<rparr>"

text \<open>An empty stream with room for \<open>n\<close> bytes, and a stream over received bytes.\<close>

definition out_stream :: "nat \<Rightarrow> xmem" where
  "out_stream n = \<lparr>x_enc = True, x_out = [], x_room = n, x_in = []\<rparr>"

definition in_stream :: "u8 list \<Rightarrow> xmem" where
  "in_stream bs = \<lparr>x_enc = False, x_out = [], x_room = 0, x_in = bs\<rparr>"

lemma stream_simps [simp]: "x_enc (out_stream n)" "x_out (out_stream n) = []" "x_room (out_stream n) = n" "\<not> x_enc (in_stream bs)"
  "x_in (in_stream bs) = bs"
  by (simp_all add: out_stream_def in_stream_def)

section \<open>The laws hold\<close>

lemma view_simps [simp]: "encoding xmem_view = x_enc" "decoding xmem_view x = (\<not> x_enc x)" "written xmem_view = x_out"
  "room xmem_view = x_room" "unread xmem_view = x_in"
  by (simp_all add: xmem_view_def)

lemma length_be32 [simp]: "length (be32 v) = 4"
  by (simp add: be32_def)

lemma length_be64 [simp]: "length (be64 v) = 8"
  by (simp add: be64_def)

text \<open>Appending the lowest byte of a word to the bytes above it gives the word back.\<close>

lemma unbe_step: "8 \<le> LENGTH('a) \<Longrightarrow> push_bit 8 (drop_bit 8 w) OR ucast (ucast w :: u8) = (w :: 'a::len word)"
  by (rule bit_word_eqI) (auto simp: bit_simps)

lemma unbe_top: "LENGTH('a) = n + 8 \<Longrightarrow> ucast (ucast (drop_bit n w) :: u8) = drop_bit n (w :: 'a::len word)"
  by (rule bit_word_eqI) (auto simp: bit_simps dest: bit_imp_le_length)

lemma unbe_be32 [simp]: "unbe (be32 v) = v"
  using unbe_step[of v] unbe_step[of "drop_bit 8 v"] unbe_step[of "drop_bit 16 v"] unbe_top[of 24 v]
  by (simp add: unbe_def be32_def)

lemma byte_of_half: "k \<le> 24 \<Longrightarrow> (ucast (drop_bit k (ucast w :: u32)) :: u8) = ucast (drop_bit k (w :: u64))"
  by (rule bit_word_eqI) (auto simp: bit_simps)

lemma unbe_be64 [simp]: "unbe (be64 v) = v"
  using unbe_step[of v] unbe_step[of "drop_bit 8 v"] unbe_step[of "drop_bit 16 v"] unbe_step[of "drop_bit 24 v"]
    unbe_step[of "drop_bit 32 v"] unbe_step[of "drop_bit 40 v"] unbe_step[of "drop_bit 48 v"] unbe_top[of 56 v]
    byte_of_half[of 0 v] byte_of_half[of 0 "drop_bit 32 v"]
  by (simp add: unbe_def be64_def be32_def byte_of_half)

lemma mem_prim_codec:
  assumes "\<And>v. valid F v \<Longrightarrow> e v = wire F v \<and> length (wire F v) = n \<and> d (wire F v) = v" and "\<And>v. valid F v \<Longrightarrow> same F v v"
  shows "codec xmem_view (mem_prim n e d) F"
  using assms by (auto simp: codec_def encodes_def decodes_def mem_prim_def put_def get_def)

lemma padded_take: "length v = n \<Longrightarrow> take n (padded v) = v" and length_padded: "length (padded v) = length v + (4 - length v mod 4) mod 4"
  by (simp_all add: padded_def)

lemma mem_opaque_codec: "codec xmem_view (mem_opaque n) (opaque_format n)"
  unfolding mem_opaque_def
  by (rule mem_prim_codec) (auto simp: opaque_format_def length_padded padded_take)

lemma mem_u32_codec: "codec xmem_view mem_u32 u32_format"
  unfolding mem_u32_def by (rule mem_prim_codec) (auto simp: u32_format_def)

lemma mem_bool_codec: "codec xmem_view mem_bool bool_format"
  unfolding mem_bool_def by (rule mem_prim_codec) (auto simp: bool_format_def)

lemma mem_u64_codec: "codec xmem_view mem_u64 u64_format"
  unfolding mem_u64_def by (rule mem_prim_codec) (auto simp: u64_format_def)

text \<open>A count before the data: written in one direction, read in the other.\<close>

lemma mem_u32_put: "x_enc x \<Longrightarrow> 4 \<le> x_room x \<Longrightarrow> mem_u32 x v = (True, x\<lparr>x_out := x_out x @ be32 v, x_room := x_room x - 4\<rparr>, v)"
  by (simp add: mem_u32_def mem_prim_def put_def)

lemma mem_u32_get: "\<not> x_enc x \<Longrightarrow> x_in x = be32 v @ r \<Longrightarrow> mem_u32 x w = (True, x\<lparr>x_in := r\<rparr>, v)"
  by (simp add: mem_u32_def mem_prim_def get_def)

lemma count_fits: "n \<le> unat (m :: u32) \<Longrightarrow> unat (of_nat n :: u32) = n \<and> (of_nat n :: u32) \<le> m"
  by (metis le_unat_uoi order_refl word_le_nat_alt)

lemma mem_bytes_codec: "codec xmem_view (mem_bytes m) (bytes_format m)"
proof -
  have "encodes xmem_view (mem_bytes m) (bytes_format m)"
    by (simp add: encodes_def bytes_format_def mem_bytes_def mem_u32_put mem_prim_def put_def) linarith
  moreover have "decodes xmem_view (\<lambda>_ _. True) (mem_bytes m) (bytes_format m) (\<lambda>_ _. True)"
    unfolding decodes_def
  proof (intro allI impI)
    fix y w v r assume a: "decoding xmem_view y" "valid (bytes_format m) v" "fresh (bytes_format m) w" "unread xmem_view y = wire (bytes_format m) v @ r"
    let ?n = "of_nat (length v) :: u32"
    have v: "unat ?n = length v" "?n \<le> m" using a(2) count_fits[of "length v" m] by (simp_all add: bytes_format_def)
    have "mem_opaque ?n (y\<lparr>x_in := padded v @ r\<rparr>) w = (True, y\<lparr>x_in := r\<rparr>, v)"
      using a(1) v by (simp add: mem_opaque_def mem_prim_def get_def length_padded padded_take)
    then show "\<exists>y' u. mem_bytes m y w = (True, y', u) \<and> decoding xmem_view y' \<and> unread xmem_view y' = r \<and> same (bytes_format m) u v \<and> True"
      using a v by (simp add: mem_bytes_def bytes_format_def mem_u32_get)
  qed
  ultimately show ?thesis by (simp add: codec_def)
qed

lemma mem_string_codec: "codec xmem_view (mem_bytes m) (string_format m)"
  using mem_bytes_codec[of m] by (auto simp: codec_def encodes_def decodes_def string_format_def bytes_format_def)

lemma mem_each_encodes:
  assumes "encodes xmem_view f F"
  shows "\<lbrakk>x_enc x; list_all (valid F) vs; length (concat (map (wire F) vs)) \<le> x_room x\<rbrakk> \<Longrightarrow>
    \<exists>x'. mem_each f x vs = (True, x', vs) \<and> x_enc x' \<and> x_out x' = x_out x @ concat (map (wire F) vs) \<and>
      x_room x' = x_room x - length (concat (map (wire F) vs))"
proof (induction vs arbitrary: x)
  case (Cons v vs)
  then obtain x' where x': "f x v = (True, x', v)" "x_enc x'" "x_out x' = x_out x @ wire F v" "x_room x' = x_room x - length (wire F v)"
    using encodesD[OF assms, of x v] by auto
  have "length (concat (map (wire F) vs)) \<le> x_room x'" using x'(4) Cons.prems(3) by simp
  then show ?case using Cons.IH[of x'] Cons.prems x' by auto
qed simp

lemma mem_each_decodes:
  assumes "decodes xmem_view (\<lambda>_ _. True) f F (\<lambda>_ _. True)" and "fresh F z"
  shows "\<lbrakk>\<not> x_enc y; list_all (valid F) vs; x_in y = concat (map (wire F) vs) @ r\<rbrakk> \<Longrightarrow>
    \<exists>y' us. mem_each f y (replicate (length vs) z) = (True, y', us) \<and> \<not> x_enc y' \<and> x_in y' = r \<and> list_all2 (same F) us vs"
proof (induction vs arbitrary: y)
  case (Cons v vs)
  then obtain y' u where y': "f y z = (True, y', u)" "\<not> x_enc y'" "x_in y' = concat (map (wire F) vs) @ r" "same F u v"
    using decodesD[OF assms(1), of y v z "concat (map (wire F) vs) @ r"] assms(2) by auto
  then show ?case using Cons.IH[of y'] Cons.prems by auto
qed simp

lemma mem_array_codec:
  assumes "codec xmem_view f F" and "fresh F z"
  shows "codec xmem_view (mem_array z m f) (array_format m F)"
proof -
  have f: "encodes xmem_view f F" "decodes xmem_view (\<lambda>_ _. True) f F (\<lambda>_ _. True)" using assms(1) by (simp_all add: codec_def)
  have "encodes xmem_view (mem_array z m f) (array_format m F)"
    unfolding encodes_def
  proof (intro allI impI)
    fix x v assume a: "encoding xmem_view x" "valid (array_format m F) v" "length (wire (array_format m F) v) \<le> room xmem_view x"
    let ?x = "x\<lparr>x_out := x_out x @ be32 (of_nat (length v)), x_room := x_room x - 4\<rparr>"
    obtain x' where "mem_each f ?x v = (True, x', v)" "x_enc x'" "x_out x' = x_out ?x @ concat (map (wire F) v)"
      "x_room x' = x_room ?x - length (concat (map (wire F) v))"
      using mem_each_encodes[OF f(1), of ?x v] a by (auto simp: array_format_def le_diff_conv2)
    then show "\<exists>x'. mem_array z m f x v = (True, x', v) \<and> encoding xmem_view x' \<and>
        written xmem_view x' = written xmem_view x @ wire (array_format m F) v \<and>
        room xmem_view x' = room xmem_view x - length (wire (array_format m F) v)"
      using a by (simp add: mem_array_def array_format_def mem_u32_put)
  qed
  moreover have "decodes xmem_view (\<lambda>_ _. True) (mem_array z m f) (array_format m F) (\<lambda>_ _. True)"
    unfolding decodes_def
  proof (intro allI impI)
    fix y w v r assume a: "decoding xmem_view y" "valid (array_format m F) v" "unread xmem_view y = wire (array_format m F) v @ r"
    let ?n = "of_nat (length v) :: u32" and ?y = "y\<lparr>x_in := concat (map (wire F) v) @ r\<rparr>"
    have v: "unat ?n = length v" "?n \<le> m" using a(2) count_fits[of "length v" m] by (simp_all add: array_format_def)
    obtain y' us where "mem_each f ?y (replicate (length v) z) = (True, y', us)" "\<not> x_enc y'" "x_in y' = r" "list_all2 (same F) us v"
      using mem_each_decodes[OF f(2) assms(2), of ?y v r] a by (auto simp: array_format_def)
    then show "\<exists>y' u. mem_array z m f y w = (True, y', u) \<and> decoding xmem_view y' \<and> unread xmem_view y' = r \<and> same (array_format m F) u v \<and> True"
      using a v by (simp add: mem_array_def array_format_def mem_u32_get)
  qed
  ultimately show ?thesis by (simp add: codec_def)
qed

lemma xmem_array_ok: "xdr_array_ok xmem_view z (mem_array z)"
  by (simp add: xdr_array_ok_def mem_array_codec)

lemma mem_pointer_codec:
  assumes "codec xmem_view f F" and "fresh F z"
  shows "codec xmem_view (mem_pointer z f) (pointer_format F)"
proof -
  have f: "encodes xmem_view f F" "decodes xmem_view (\<lambda>_ _. True) f F (\<lambda>_ _. True)" using assms(1) by (simp_all add: codec_def)
  have put: "mem_bool x v = (True, x\<lparr>x_out := x_out x @ be32 v, x_room := x_room x - 4\<rparr>, v)" if "x_enc x" "4 \<le> x_room x" "v = 0 \<or> v = 1" for x v
    using that by (auto simp: mem_bool_def mem_prim_def put_def)
  have get: "mem_bool y w = (True, y\<lparr>x_in := r\<rparr>, v)" if "\<not> x_enc y" "x_in y = be32 v @ r" "v = 0 \<or> v = 1" for y v w r
    using that by (auto simp: mem_bool_def mem_prim_def get_def)
  have "encodes xmem_view (mem_pointer z f) (pointer_format F)"
    unfolding encodes_def
  proof (intro allI impI)
    fix x q assume a: "encoding xmem_view x" "valid (pointer_format F) q" "length (wire (pointer_format F) q) \<le> room xmem_view x"
    let ?x = "\<lambda>v. x\<lparr>x_out := x_out x @ be32 v, x_room := x_room x - 4\<rparr>"
    show "\<exists>x'. mem_pointer z f x q = (True, x', q) \<and> encoding xmem_view x' \<and> written xmem_view x' = written xmem_view x @ wire (pointer_format F) q \<and>
        room xmem_view x' = room xmem_view x - length (wire (pointer_format F) q)"
    proof (cases q)
      case None
      then show ?thesis using a by (simp add: mem_pointer_def pointer_format_def put)
    next
      case (Some v)
      then obtain x' where "f (?x 1) v = (True, x', v)" "x_enc x'" "x_out x' = x_out (?x 1) @ wire F v" "x_room x' = x_room (?x 1) - length (wire F v)"
        using a encodesD[OF f(1), of "?x 1" v] by (auto simp: pointer_format_def le_diff_conv2)
      then show ?thesis using a Some by (simp add: mem_pointer_def pointer_format_def put)
    qed
  qed
  moreover have "decodes xmem_view (\<lambda>_ _. True) (mem_pointer z f) (pointer_format F) (\<lambda>_ _. True)"
    unfolding decodes_def
  proof (intro allI impI)
    fix y w q r assume a: "decoding xmem_view y" "valid (pointer_format F) q" "fresh (pointer_format F) w" "unread xmem_view y = wire (pointer_format F) q @ r"
    show "\<exists>y' u. mem_pointer z f y w = (True, y', u) \<and> decoding xmem_view y' \<and> unread xmem_view y' = r \<and> same (pointer_format F) u q \<and> True"
    proof (cases q)
      case None
      then show ?thesis using a by (simp add: mem_pointer_def pointer_format_def get[of y 0 r])
    next
      case (Some v)
      then obtain y' u where "f (y\<lparr>x_in := wire F v @ r\<rparr>) z = (True, y', u)" "\<not> x_enc y'" "x_in y' = r" "same F u v"
        using a assms(2) decodesD[OF f(2), of "y\<lparr>x_in := wire F v @ r\<rparr>" v z r] by (auto simp: pointer_format_def)
      then show ?thesis using a Some by (simp add: mem_pointer_def pointer_format_def get[of y 1 "wire F v @ r"])
    qed
  qed
  ultimately show ?thesis by (simp add: codec_def)
qed

lemma xmem_pointer_ok: "xdr_pointer_ok xmem_view z (mem_pointer z)"
  by (simp add: xdr_pointer_ok_def mem_pointer_codec)

lemma xmem_lib_ok: "xdr_lib_ok xmem_lib xmem_view"
  by (simp add: xdr_lib_ok_def xmem_lib_def mem_u32_codec mem_bool_codec mem_u64_codec mem_opaque_codec mem_bytes_codec mem_string_codec xmem_array_ok)

lemma mem_prim_get: "\<not> x_enc x \<Longrightarrow> mem_prim n e d x w = (True, x', u) \<Longrightarrow> u = d (take n (x_in x))"
  by (auto simp: mem_prim_def get_def split: if_splits)

lemma xmem_bytes_bounded: "xdr_bytes_bounded xmem_lib"
proof -
  have "length u \<le> unat m" if b: "mem_bytes m x w = (True, x', u)" for m x w x' u
  proof (cases "x_enc x")
    case True
    moreover have "x_enc x1" if m: "mem_u32 x v = (ok, x1, c)" for v ok x1 c
      using m True by (auto simp: mem_u32_def mem_prim_def put_def split: if_splits prod.splits)
    ultimately show ?thesis using b by (auto simp: mem_bytes_def mem_prim_def split: if_splits prod.splits)
  next
    case False
    obtain x1 n where n: "mem_u32 x 0 = (True, x1, n)" "n \<le> m" "mem_opaque n x1 w = (True, x', u)"
      using b False by (auto simp: mem_bytes_def split: if_splits prod.splits)
    moreover have "\<not> x_enc x1" using n(1) False by (auto simp: mem_u32_def mem_prim_def get_def split: if_splits prod.splits)
    ultimately have "u = take (unat n) (take (unat n + (4 - unat n mod 4) mod 4) (x_in x1))" by (auto simp: mem_opaque_def dest: mem_prim_get)
    then show ?thesis using n(2) by (simp add: word_le_nat_alt)
  qed
  then show ?thesis by (auto simp: xdr_bytes_bounded_def xmem_lib_def)
qed

end
