(* ===== verification/NfsMem.thy ===== *)
theory NfsMem
  imports Nfs4Zero XdrMem
begin

text \<open>
  The concrete XDR library of \<open>XdrMem\<close> at the element types of the NFSv4 messages.
\<close>

definition xmem_replies :: "xmem reply_lib" where
  "xmem_replies = \<lparr>xdr_array_secinfo4 = mem_array secinfo4_zero, xdr_pointer_entry4 = mem_pointer entry4_zero, deeper = refuse\<rparr>"

lemma xmem_replies_ok: "reply_lib_ok xmem_replies xmem_view"
  by (simp add: reply_lib_ok_def xmem_replies_def xmem_array_ok xmem_pointer_ok)

end
