(* ===== verification/NfsProps.thy ===== *)
theory NfsProps
  imports NfsMem
begin

text \<open>
  Properties of the NFSv4 codec: the round trip of a COMPOUND request through any XDR library that
  behaves as documented, the bytes of a LOCK request, and what a successfully decoded request
  guarantees whatever bytes were received.
\<close>

section \<open>What success of a filter means\<close>

lemma seq_True: "seq f g x p = (True, x', q) \<longleftrightarrow> (\<exists>y r. f x p = (True, y, r) \<and> g y r = (True, x', q))"
  by (auto simp: seq_def split: prod.splits)

lemma on_True: "on g upd f x p = (True, x', q) \<longleftrightarrow> (\<exists>v. f x (g p) = (True, x', v) \<and> q = upd (\<lambda>_. v) p)"
  by (auto simp: on_def split: prod.splits)

lemma switch_True: "switch c f g x p = r \<longleftrightarrow> (if c p then f x p = r else g x p = r)"
  by (simp add: switch_def)

lemma pass_True: "pass x p = (True, x', q) \<longleftrightarrow> x' = x \<and> q = p"
  by (auto simp: pass_def)

lemma refuse_True: "(refuse x p = (True, x', q)) = False"
  by (simp add: refuse_def)

lemmas success = seq_True on_True switch_True pass_True refuse_True

lemmas opcodes = OP_ACCESS_def OP_CLOSE_def OP_COMMIT_def OP_CREATE_def OP_DELEGPURGE_def OP_DELEGRETURN_def OP_GETATTR_def OP_GETFH_def
  OP_LINK_def OP_LOCK_def OP_LOCKT_def OP_LOCKU_def OP_LOOKUP_def OP_LOOKUPP_def OP_NVERIFY_def OP_OPEN_def OP_OPENATTR_def
  OP_OPEN_CONFIRM_def OP_OPEN_DOWNGRADE_def OP_PUTFH_def OP_PUTPUBFH_def OP_PUTROOTFH_def OP_READ_def OP_READDIR_def OP_READLINK_def
  OP_REMOVE_def OP_RENAME_def OP_RENEW_def OP_RESTOREFH_def OP_SAVEFH_def OP_SECINFO_def OP_SETATTR_def OP_SETCLIENTID_def
  OP_SETCLIENTID_CONFIRM_def OP_VERIFY_def OP_WRITE_def OP_RELEASE_LOCKOWNER_def OP_ILLEGAL_def

lemma argop_known:
  assumes "xdr_nfs_argop4 L x p = (True, x', q)"
  shows "3 \<le> nfs_argop4_argop q \<and> nfs_argop4_argop q \<le> 39 \<or> nfs_argop4_argop q = OP_ILLEGAL"
  using assms unfolding xdr_nfs_argop4_def success opcodes
  by (elim exE conjE) (simp split: if_splits, (elim exE conjE, simp)+)

text \<open>The member that a decoded operation carries was decoded by the filter of that operation.\<close>

lemma argop_arm:
  assumes "xdr_nfs_argop4 L x p = (True, x', q)"
  shows "nfs_argop4_argop q = OP_PUTFH \<Longrightarrow> \<exists>y a. xdr_PUTFH4args L y a = (True, x', nfs_argop4_opputfh q)"
    and "nfs_argop4_argop q = OP_OPEN \<Longrightarrow> \<exists>y a. xdr_OPEN4args L y a = (True, x', nfs_argop4_opopen q)"
    and "nfs_argop4_argop q = OP_LOCK \<Longrightarrow> \<exists>y a. xdr_LOCK4args L y a = (True, x', nfs_argop4_oplock q)"
    and "nfs_argop4_argop q = OP_LOCKT \<Longrightarrow> \<exists>y a. xdr_LOCKT4args L y a = (True, x', nfs_argop4_oplockt q)"
    and "nfs_argop4_argop q = OP_SETCLIENTID \<Longrightarrow> \<exists>y a. xdr_SETCLIENTID4args L y a = (True, x', nfs_argop4_opsetclientid q)"
  using assms unfolding xdr_nfs_argop4_def success opcodes
  by (auto split: if_splits, blast+)

lemma argop_release:
  assumes "xdr_nfs_argop4 L x p = (True, x', q)" and "nfs_argop4_argop q = OP_RELEASE_LOCKOWNER"
  shows "\<exists>y a. xdr_RELEASE_LOCKOWNER4args L y a = (True, x', nfs_argop4_oprelease_lockowner q)"
  using assms unfolding xdr_nfs_argop4_def success opcodes
  by (elim exE conjE) (simp split: if_splits, (elim exE conjE, simp)+, blast)

lemma open_known:
  assumes "xdr_OPEN4args L x p = (True, x', q)"
  shows "open_claim4_claim (OPEN4args_claim q) \<in> {CLAIM_NULL, CLAIM_PREVIOUS, CLAIM_DELEGATE_CUR, CLAIM_DELEGATE_PREV}"
    and "openflag4_opentype (OPEN4args_openhow q) = OPEN4_CREATE \<Longrightarrow>
      createhow4_mode (openflag4_how (OPEN4args_openhow q)) \<in> {UNCHECKED4, GUARDED4, EXCLUSIVE4}"
  using assms unfolding xdr_OPEN4args_def xdr_openflag4_def xdr_createhow4_def xdr_open_claim4_def success
  by (auto split: if_splits)

lemma lock_known:
  assumes "xdr_LOCK4args L x p = (True, x', q)"
  shows "locker4_new_lock_owner (LOCK4args_locker q) \<in> {0, 1}"
  using assms unfolding xdr_LOCK4args_def xdr_locker4_def success by (auto split: if_splits)

lemma owner_bounds:
  assumes "xdr_bytes_bounded L"
  shows "xdr_open_owner4 L x p = (True, x', o4) \<Longrightarrow> length (open_owner4_owner o4) \<le> 1024"
    and "xdr_lock_owner4 L x r = (True, x', l4) \<Longrightarrow> length (lock_owner4_owner l4) \<le> 1024"
    and "xdr_nfs_client_id4 L x c = (True, x', c4) \<Longrightarrow> length (nfs_client_id4_id c4) \<le> 1024"
  using assms unfolding xdr_open_owner4_def xdr_lock_owner4_def xdr_nfs_client_id4_def success xdr_bytes_bounded_def NFS4_OPAQUE_LIMIT_def
  by fastforce+

section \<open>Round trip\<close>

text \<open>C14: the round trip of a request. With an XDR library that behaves as documented, a valid COMPOUND
  request that fits into the stream is encoded as the protocol describes it, and decoding these
  bytes into a cleared object, from any stream that starts with them, succeeds, consumes exactly
  them and gives the same tag, minor version and operations.\<close>

theorem compound_round_trip:
  assumes "xdr_lib_ok L V" and "xdr_array_ok V z arr" and "fresh nfs_argop4_format z"
    and "encoding V x" and "valid COMPOUND4args_format v" and "length (wire COMPOUND4args_format v) \<le> room V x"
  shows "\<exists>x'. xdr_COMPOUND4args L arr x v = (True, x', v) \<and> written V x' = written V x @ wire COMPOUND4args_format v \<and>
    (\<forall>y w r. decoding V y \<and> fresh COMPOUND4args_format w \<and> unread V y = wire COMPOUND4args_format v @ r \<longrightarrow>
      (\<exists>y' u. xdr_COMPOUND4args L arr y w = (True, y', u) \<and> unread V y' = r \<and> COMPOUND4args_tag u = COMPOUND4args_tag v \<and>
        COMPOUND4args_minorversion u = COMPOUND4args_minorversion v \<and>
        list_all2 (same nfs_argop4_format) (COMPOUND4args_argarray u) (COMPOUND4args_argarray v)))"
  using codec_round_trip[OF COMPOUND4args_codec[OF assms(1-3)] assms(4-6)]
  by (simp add: COMPOUND4args_format_def)

text \<open>A request: the root file handle, then the entry \<open>etc\<close>.\<close>

definition lookup_request :: COMPOUND4args where
  "lookup_request = \<lparr>COMPOUND4args_tag = [], COMPOUND4args_minorversion = 0,
     COMPOUND4args_argarray = [nfs_argop4_zero\<lparr>nfs_argop4_argop := OP_PUTROOTFH\<rparr>,
       nfs_argop4_zero\<lparr>nfs_argop4_argop := OP_LOOKUP, nfs_argop4_oplookup := \<lparr>LOOKUP4args_objname = [0x65, 0x74, 0x63]\<rparr>\<rparr>]\<rparr>"

lemma lookup_request_ok: "valid COMPOUND4args_format lookup_request"
  "wire COMPOUND4args_format lookup_request = [0,0,0,0, 0,0,0,0, 0,0,0,2, 0,0,0,24, 0,0,0,15, 0,0,0,3, 0x65,0x74,0x63,0]"
  by (simp_all add: COMPOUND4args_format_def lookup_request_def nfs_argop4_format_def LOOKUP4args_format_def base_formats opcodes be32_def
      padded_def unsigned_minus_1_eq_mask mask_eq_exp_minus_1)

theorem compound_round_trip_witness:
  "\<exists>x'. xdr_COMPOUND4args xmem_lib (mem_array nfs_argop4_zero) (out_stream 28) lookup_request = (True, x', lookup_request) \<and>
    x_out x' = [0,0,0,0, 0,0,0,0, 0,0,0,2, 0,0,0,24, 0,0,0,15, 0,0,0,3, 0x65,0x74,0x63,0]"
  using compound_round_trip[OF xmem_lib_ok xmem_array_ok nfs_argop4_zero_fresh, of "out_stream 28" lookup_request]
  by (simp add: lookup_request_ok) blast

section \<open>The bytes of a LOCK request\<close>

definition stateid_bytes :: "stateid4 \<Rightarrow> u8 list" where
  "stateid_bytes s = be32 (stateid4_seqid s) @ stateid4_other s"

definition lock_bytes :: "LOCK4args \<Rightarrow> u8 list" where
  "lock_bytes a = be32 (LOCK4args_locktype a) @ be32 (LOCK4args_reclaim a) @ be64 (LOCK4args_offset a) @ be64 (LOCK4args_length a) @
    be32 (locker4_new_lock_owner (LOCK4args_locker a)) @
    (if locker4_new_lock_owner (LOCK4args_locker a) = 1 then
       (let n = locker4_open_owner (LOCK4args_locker a); w = open_to_lock_owner4_lock_owner n in
        be32 (open_to_lock_owner4_open_seqid n) @ stateid_bytes (open_to_lock_owner4_open_stateid n) @
        be32 (open_to_lock_owner4_lock_seqid n) @ be64 (lock_owner4_clientid w) @
        be32 (of_nat (length (lock_owner4_owner w))) @ padded (lock_owner4_owner w))
     else
       (let e = locker4_lock_owner (LOCK4args_locker a) in
        stateid_bytes (exist_lock_owner4_lock_stateid e) @ be32 (exist_lock_owner4_lock_seqid e)))"

lemma wire_LOCK4args:
  assumes "valid LOCK4args_format a"
  shows "wire LOCK4args_format a = lock_bytes a"
proof -
  have "padded bs = bs" if "length bs = 12" for bs using that by (simp add: padded_def)
  then show ?thesis using assms
    by (auto simp: LOCK4args_format_def locker4_format_def open_to_lock_owner4_format_def exist_lock_owner4_format_def stateid4_format_def
        lock_owner4_format_def base_formats lock_bytes_def stateid_bytes_def Let_def NFS4_OTHER_SIZE_def)
qed

text \<open>The bytes of a LOCK request. A request whose flags are truth values, whose state identifier has
  its 12 bytes and whose owner has at most 1024 is written as its members in the order of the
  protocol: for a new lock owner the open owner's sequence number and state identifier and the
  client's identity, for an existing one the lock state identifier and sequence number.\<close>

theorem lock_request_bytes:
  assumes "xdr_lib_ok L V" and "encoding V x" and "length (lock_bytes a) \<le> room V x" and "LOCK4args_reclaim a \<in> {0, 1}"
    and "locker4_new_lock_owner (LOCK4args_locker a) = 1 \<and>
         length (stateid4_other (open_to_lock_owner4_open_stateid (locker4_open_owner (LOCK4args_locker a)))) = 12 \<and>
         length (lock_owner4_owner (open_to_lock_owner4_lock_owner (locker4_open_owner (LOCK4args_locker a)))) \<le> 1024 \<or>
       locker4_new_lock_owner (LOCK4args_locker a) = 0 \<and>
         length (stateid4_other (exist_lock_owner4_lock_stateid (locker4_lock_owner (LOCK4args_locker a)))) = 12"
  shows "\<exists>x'. xdr_LOCK4args L x a = (True, x', a) \<and> written V x' = written V x @ lock_bytes a"
proof -
  have v: "valid LOCK4args_format a"
    using assms(4,5) by (auto simp: LOCK4args_format_def locker4_format_def open_to_lock_owner4_format_def exist_lock_owner4_format_def
        stateid4_format_def lock_owner4_format_def base_formats NFS4_OTHER_SIZE_def NFS4_OPAQUE_LIMIT_def)
  then show ?thesis
    using codec_round_trip[OF LOCK4args_codec[OF assms(1)] assms(2) v] assms(3) by (auto simp: wire_LOCK4args)
qed

definition relock :: LOCK4args where
  "relock = LOCK4args_zero\<lparr>LOCK4args_locktype := 2, LOCK4args_length := 0x100, LOCK4args_locker := locker4_zero\<lparr>
     locker4_lock_owner := \<lparr>exist_lock_owner4_lock_stateid = \<lparr>stateid4_seqid = 7, stateid4_other = replicate 12 0xAB\<rparr>,
       exist_lock_owner4_lock_seqid = 3\<rparr>\<rparr>\<rparr>"

lemma relock_bytes: "lock_bytes relock =
    [0,0,0,2, 0,0,0,0, 0,0,0,0,0,0,0,0, 0,0,0,0,0,0,1,0, 0,0,0,0, 0,0,0,7] @ replicate 12 0xAB @ [0,0,0,3]"
  by (simp add: relock_def LOCK4args_zero_def locker4_zero_def lock_bytes_def stateid_bytes_def be32_def be64_def)

theorem lock_request_bytes_witness:
  "\<exists>x'. xdr_LOCK4args xmem_lib (out_stream 48) relock = (True, x', relock) \<and>
    x_out x' = [0,0,0,2, 0,0,0,0, 0,0,0,0,0,0,0,0, 0,0,0,0,0,0,1,0, 0,0,0,0, 0,0,0,7] @ replicate 12 0xAB @ [0,0,0,3]"
  using lock_request_bytes[OF xmem_lib_ok, of "out_stream 48" relock] by (simp add: relock_bytes) (simp add: relock_def LOCK4args_zero_def locker4_zero_def)

section \<open>What a decoded request guarantees\<close>

text \<open>C21: unknown discriminants are refused. Whatever the primitives deliver, an operation that was
  accepted has one of the operation numbers 3 to 39 or \<open>OP_ILLEGAL\<close>; an accepted OPEN has
  a known claim type and, when it creates, a known mode; an accepted LOCK says whether its owner is
  new.\<close>

theorem accepted_operation_known:
  assumes "xdr_nfs_argop4 L x p = (True, x', q)"
  shows "(3 \<le> nfs_argop4_argop q \<and> nfs_argop4_argop q \<le> 39 \<or> nfs_argop4_argop q = 10044) \<and>
    (nfs_argop4_argop q = OP_OPEN \<longrightarrow>
      open_claim4_claim (OPEN4args_claim (nfs_argop4_opopen q)) \<in> {CLAIM_NULL, CLAIM_PREVIOUS, CLAIM_DELEGATE_CUR, CLAIM_DELEGATE_PREV} \<and>
      (openflag4_opentype (OPEN4args_openhow (nfs_argop4_opopen q)) = OPEN4_CREATE \<longrightarrow>
        createhow4_mode (openflag4_how (OPEN4args_openhow (nfs_argop4_opopen q))) \<in> {UNCHECKED4, GUARDED4, EXCLUSIVE4})) \<and>
    (nfs_argop4_argop q = OP_LOCK \<longrightarrow> locker4_new_lock_owner (LOCK4args_locker (nfs_argop4_oplock q)) \<in> {0, 1})"
  using argop_known[OF assms] argop_arm(2,3)[OF assms] open_known lock_known by (metis OP_ILLEGAL_def)

theorem accepted_operation_known_witness:
  "\<exists>x' q. xdr_nfs_argop4 xmem_lib (in_stream [0,0,0,24]) nfs_argop4_zero = (True, x', q) \<and>
    (3 \<le> nfs_argop4_argop q \<and> nfs_argop4_argop q \<le> 39 \<or> nfs_argop4_argop q = 10044)"
proof -
  have "\<exists>x' q. xdr_nfs_argop4 xmem_lib (in_stream [0,0,0,24]) nfs_argop4_zero = (True, x', q)"
    by (simp add: xdr_nfs_argop4_def seq_def on_def switch_def pass_def xdr_nfs_opnum4_def xmem_lib_def mem_u32_def mem_prim_def get_def
        unbe_def opcodes)
  then show ?thesis using accepted_operation_known by metis
qed

text \<open>C22: sizes of accepted data. With an \<open>xdr_bytes\<close> that refuses counts above the given limit, an
  accepted operation carries no file handle of more than 128 bytes (PUTFH), no open owner (OPEN), lock owner
  (LOCK for a new one, LOCKT, RELEASE_LOCKOWNER) or client name (SETCLIENTID) of more than 1024.\<close>

theorem accepted_sizes_bounded:
  assumes "xdr_bytes_bounded L" and "xdr_nfs_argop4 L x p = (True, x', q)"
  shows "(nfs_argop4_argop q = OP_PUTFH \<longrightarrow> length (PUTFH4args_object (nfs_argop4_opputfh q)) \<le> 128) \<and>
    (nfs_argop4_argop q = OP_OPEN \<longrightarrow> length (open_owner4_owner (OPEN4args_owner (nfs_argop4_opopen q))) \<le> 1024) \<and>
    (nfs_argop4_argop q = OP_LOCKT \<longrightarrow> length (lock_owner4_owner (LOCKT4args_owner (nfs_argop4_oplockt q))) \<le> 1024) \<and>
    (nfs_argop4_argop q = OP_LOCK \<and> locker4_new_lock_owner (LOCK4args_locker (nfs_argop4_oplock q)) = 1 \<longrightarrow>
      length (lock_owner4_owner (open_to_lock_owner4_lock_owner (locker4_open_owner (LOCK4args_locker (nfs_argop4_oplock q))))) \<le> 1024) \<and>
    (nfs_argop4_argop q = OP_RELEASE_LOCKOWNER \<longrightarrow>
      length (lock_owner4_owner (RELEASE_LOCKOWNER4args_lock_owner (nfs_argop4_oprelease_lockowner q))) \<le> 1024) \<and>
    (nfs_argop4_argop q = OP_SETCLIENTID \<longrightarrow> length (nfs_client_id4_id (SETCLIENTID4args_client (nfs_argop4_opsetclientid q))) \<le> 1024)"
proof -
  have fh: "length (PUTFH4args_object a') \<le> 128" if "xdr_PUTFH4args L y a = (True, y', a')" for y a y' a'
    using that assms(1) unfolding xdr_PUTFH4args_def xdr_nfs_fh4_def success xdr_bytes_bounded_def NFS4_FHSIZE_def by fastforce
  have op: "length (open_owner4_owner (OPEN4args_owner a')) \<le> 1024" if "xdr_OPEN4args L y a = (True, y', a')" for y a y' a'
    using that owner_bounds(1)[OF assms(1)] unfolding xdr_OPEN4args_def success by fastforce
  have lt: "length (lock_owner4_owner (LOCKT4args_owner a')) \<le> 1024" if "xdr_LOCKT4args L y a = (True, y', a')" for y a y' a'
    using that owner_bounds(2)[OF assms(1)] unfolding xdr_LOCKT4args_def success by fastforce
  have cl: "length (nfs_client_id4_id (SETCLIENTID4args_client a')) \<le> 1024" if "xdr_SETCLIENTID4args L y a = (True, y', a')" for y a y' a'
    using that owner_bounds(3)[OF assms(1)] unfolding xdr_SETCLIENTID4args_def success by fastforce
  have lk: "length (lock_owner4_owner (open_to_lock_owner4_lock_owner (locker4_open_owner (LOCK4args_locker a')))) \<le> 1024"
    if "xdr_LOCK4args L y a = (True, y', a')" "locker4_new_lock_owner (LOCK4args_locker a') = 1" for y a y' a'
    using that owner_bounds(2)[OF assms(1)]
    unfolding xdr_LOCK4args_def xdr_locker4_def xdr_open_to_lock_owner4_def success by (fastforce split: if_splits)
  have rl: "length (lock_owner4_owner (RELEASE_LOCKOWNER4args_lock_owner a')) \<le> 1024"
    if "xdr_RELEASE_LOCKOWNER4args L y a = (True, y', a')" for y a y' a'
    using that owner_bounds(2)[OF assms(1)] unfolding xdr_RELEASE_LOCKOWNER4args_def success by fastforce
  show ?thesis using argop_arm[OF assms(2)] argop_release[OF assms(2)] fh op lt cl lk rl by meson
qed

theorem accepted_sizes_bounded_witness:
  "\<exists>x' q. xdr_nfs_argop4 xmem_lib (in_stream [0,0,0,22, 0,0,0,3, 1,2,3,0]) nfs_argop4_zero = (True, x', q) \<and>
    nfs_argop4_argop q = OP_PUTFH \<and> length (PUTFH4args_object (nfs_argop4_opputfh q)) \<le> 128"
proof -
  have "\<exists>x' q. xdr_nfs_argop4 xmem_lib (in_stream [0,0,0,22, 0,0,0,3, 1,2,3,0]) nfs_argop4_zero = (True, x', q) \<and> nfs_argop4_argop q = OP_PUTFH"
    by (simp add: xdr_nfs_argop4_def seq_def on_def switch_def pass_def xdr_nfs_opnum4_def xdr_PUTFH4args_def xdr_nfs_fh4_def xmem_lib_def
        mem_bytes_def mem_opaque_def mem_u32_def mem_prim_def get_def unbe_def opcodes NFS4_FHSIZE_def)
  then show ?thesis using accepted_sizes_bounded[OF xmem_bytes_bounded] by metis
qed

end
