(* ===== verification/ReplyProps.thy ===== *)
theory ReplyProps
  imports NfsMem
begin

text \<open>
  Properties of replies as byte strings: directory listings, whose entries the filter follows
  as a linked list, and COMPOUND replies with the results of all their operations.
\<close>

section \<open>Directory listings\<close>

text \<open>A list of cookie, name and attributes, linked together.\<close>

fun chain :: "(u64 \<times> u8 list \<times> fattr4) list \<Rightarrow> entry4 option" where
  "chain [] = None"
| "chain ((c, nm, at) # es) = Some (Entry4 c nm at (chain es))"

fun entry_ok :: "u64 \<times> u8 list \<times> fattr4 \<Rightarrow> bool" where
  "entry_ok (c, nm, at) \<longleftrightarrow> valid (bytes_format (- 1)) nm \<and> valid fattr4_format at"

fun entry_bytes :: "u64 \<times> u8 list \<times> fattr4 \<Rightarrow> u8 list" where
  "entry_bytes (c, nm, at) = be32 1 @ be64 c @ be32 (of_nat (length nm)) @ padded nm @ wire fattr4_format at"

lemma wire_base: "wire u64_format = be64" "wire bool_format = be32" "wire (bytes_format m) nm = be32 (of_nat (length nm)) @ padded nm"
  by (simp_all add: base_formats)

lemma pointer_simps [simp]: "valid (pointer_format F) None" "valid (pointer_format F) (Some v) = valid F v"
  "wire (pointer_format F) None = be32 0" "wire (pointer_format F) (Some v) = be32 1 @ wire F v"
  by (simp_all add: pointer_format_def)

lemma valid_base [simp]: "valid u32_format v" "valid u64_format d" "valid bool_format v \<longleftrightarrow> v = 0 \<or> v = 1"
  by (simp_all add: base_formats)

lemma valid_chain: "length es \<le> n \<Longrightarrow> list_all entry_ok es \<Longrightarrow> valid (pointer_format (entry4_format n)) (chain es)"
proof (induction es arbitrary: n rule: chain.induct)
  case (2 c nm at es)
  then obtain k where "n = Suc k" by (cases n) auto
  then show ?case using 2 by simp
qed simp

lemma wire_chain: "length es \<le> n \<Longrightarrow> wire (pointer_format (entry4_format n)) (chain es) = concat (map entry_bytes es) @ be32 0"
proof (induction es arbitrary: n rule: chain.induct)
  case (2 c nm at es)
  then obtain k where "n = Suc k" by (cases n) auto
  then show ?case using 2 by (simp add: wire_base)
qed simp

lemma same_fattr4: "same fattr4_format u v \<Longrightarrow> u = v"
  by (cases u; cases v) (simp add: fattr4_format_def list.rel_eq)

lemma same_chain: "length es \<le> n \<Longrightarrow> rel_option (same (entry4_format n)) q (chain es) \<Longrightarrow> q = chain es"
proof (induction es arbitrary: n q rule: chain.induct)
  case (2 c nm at es)
  then obtain k where k: "n = Suc k" by (cases n) auto
  obtain e where e: "q = Some e" using 2(3) by (cases q) auto
  have "entry4_nextentry e = chain es" using 2 k e by simp
  then show ?case using 2(3) k e by (cases e) (auto dest: same_fattr4)
qed simp

text \<open>C19: a directory listing of any length. On the wire each entry is announced by a one and the end by
  a zero; the filter follows the links in both directions and builds the same listing again, entry
  by entry in the same order, whatever the recursion would do below the depth of the listing.\<close>

theorem listing_round_trip:
  assumes "xdr_lib_ok L V" and "reply_lib_ok R V" and "encoding V x" and "length es \<le> n" and "list_all entry_ok es" and "eof \<in> {0, 1}"
    and "d = \<lparr>dirlist4_entries = chain es, dirlist4_eof = eof\<rparr>" and "bytes = concat (map entry_bytes es) @ be32 0 @ be32 eof"
    and "length bytes \<le> room V x"
  shows "\<exists>x'. xdr_dirlist4 L R n x d = (True, x', d) \<and> written V x' = written V x @ bytes \<and>
    (\<forall>y w r. decoding V y \<and> dirlist4_entries w = None \<and> unread V y = bytes @ r \<longrightarrow>
      (\<exists>y'. xdr_dirlist4 L R n y w = (True, y', d) \<and> unread V y' = r))"
proof -
  have w: "wire (dirlist4_format n) d = bytes" using assms(4,7,8) by (simp add: dirlist4_format_def wire_chain wire_base)
  have v: "valid (dirlist4_format n) d" using assms(4-7) by (simp add: dirlist4_format_def valid_chain)
  have eq: "u = d" if "same (dirlist4_format n) u d" for u
    using that assms(4,7) by (cases u) (auto simp: dirlist4_format_def dest: same_chain)
  have fr: "fresh (dirlist4_format n) w \<longleftrightarrow> dirlist4_entries w = None" for w by (simp add: dirlist4_format_def)
  show ?thesis
    using codec_round_trip[OF dirlist4_codec[OF assms(1,2), of n] assms(3) v] assms(9) by (simp add: w fr) (metis eq)
qed

definition two_files :: "(u64 \<times> u8 list \<times> fattr4) list" where
  "two_files = [(3, [0x61], \<lparr>fattr4_attrmask = [], fattr4_attr_vals = []\<rparr>), (4, [0x62], \<lparr>fattr4_attrmask = [], fattr4_attr_vals = []\<rparr>)]"

definition two_file_bytes :: "u8 list" where
  "two_file_bytes = [0,0,0,1, 0,0,0,0,0,0,0,3, 0,0,0,1, 0x61,0,0,0, 0,0,0,0, 0,0,0,0,
     0,0,0,1, 0,0,0,0,0,0,0,4, 0,0,0,1, 0x62,0,0,0, 0,0,0,0, 0,0,0,0, 0,0,0,0, 0,0,0,1]"

lemma pad3: "replicate 3 x = [x, x, x]"
  by (simp add: numeral_3_eq_3)

lemma two_files: "list_all entry_ok two_files" "length two_files = 2" "two_file_bytes = concat (map entry_bytes two_files) @ be32 0 @ be32 1"
  by (simp_all add: two_files_def two_file_bytes_def fattr4_format_def base_formats be32_def be64_def padded_def unsigned_minus_1_eq_mask
      mask_eq_exp_minus_1 pad3)

theorem listing_round_trip_witness:
  "\<exists>x'. xdr_dirlist4 xmem_lib xmem_replies 2 (out_stream 64) \<lparr>dirlist4_entries = chain two_files, dirlist4_eof = 1\<rparr> =
      (True, x', \<lparr>dirlist4_entries = chain two_files, dirlist4_eof = 1\<rparr>) \<and> x_out x' = two_file_bytes"
  using listing_round_trip[OF xmem_lib_ok xmem_replies_ok _ _ two_files(1) _ refl two_files(3), of "out_stream 64" 2]
  by (simp add: two_files(2)) (auto simp: two_file_bytes_def)

section \<open>Replies\<close>

text \<open>C20: the round trip of a reply. With an XDR library that behaves as documented, a valid COMPOUND
  reply, with any listings of at most \<open>n\<close> entries in it, is encoded as the protocol describes it:
  status, tag, and the results, each with its operation number, its status and what this status goes with. Decoding
  these bytes into a cleared object, from any stream that starts with them, succeeds, consumes exactly
  them and gives the same status, tag and results.\<close>

theorem reply_round_trip:
  assumes "xdr_lib_ok L V" and "reply_lib_ok R V" and "xdr_array_ok V z arr" and "fresh (nfs_resop4_format n) z"
    and "encoding V x" and "valid (COMPOUND4res_format n) v" and "length (wire (COMPOUND4res_format n) v) \<le> room V x"
  shows "\<exists>x'. xdr_COMPOUND4res L R n arr x v = (True, x', v) \<and> written V x' = written V x @ wire (COMPOUND4res_format n) v \<and>
    (\<forall>y w r. decoding V y \<and> fresh (COMPOUND4res_format n) w \<and> unread V y = wire (COMPOUND4res_format n) v @ r \<longrightarrow>
      (\<exists>y' u. xdr_COMPOUND4res L R n arr y w = (True, y', u) \<and> unread V y' = r \<and>
        COMPOUND4res_status u = COMPOUND4res_status v \<and> COMPOUND4res_tag u = COMPOUND4res_tag v \<and>
        list_all2 (same (nfs_resop4_format n)) (COMPOUND4res_resarray u) (COMPOUND4res_resarray v)))"
  using codec_round_trip[OF COMPOUND4res_codec[OF assms(1-4)] assms(5-7)]
  by (simp add: COMPOUND4res_format_def)

text \<open>A reply: the root was found, then its file handle.\<close>

definition getfh_reply :: COMPOUND4res where
  "getfh_reply = \<lparr>COMPOUND4res_status = 0, COMPOUND4res_tag = [0x74],
     COMPOUND4res_resarray = [nfs_resop4_zero\<lparr>nfs_resop4_resop := OP_PUTROOTFH\<rparr>,
       nfs_resop4_zero\<lparr>nfs_resop4_resop := OP_GETFH,
         nfs_resop4_opgetfh := \<lparr>GETFH4res_status = 0, GETFH4res_resok4 = \<lparr>GETFH4resok_object = [1, 2, 3]\<rparr>\<rparr>\<rparr>]\<rparr>"

definition getfh_bytes :: "u8 list" where
  "getfh_bytes = [0,0,0,0, 0,0,0,1, 0x74,0,0,0, 0,0,0,2, 0,0,0,24, 0,0,0,0, 0,0,0,10, 0,0,0,0, 0,0,0,3, 1,2,3,0]"

lemmas result_ops = OP_ACCESS_def OP_CLOSE_def OP_COMMIT_def OP_CREATE_def OP_DELEGPURGE_def OP_DELEGRETURN_def OP_GETATTR_def
  OP_GETFH_def OP_LINK_def OP_LOCK_def OP_LOCKT_def OP_LOCKU_def OP_LOOKUP_def OP_LOOKUPP_def OP_NVERIFY_def OP_OPEN_def
  OP_OPENATTR_def OP_OPEN_CONFIRM_def OP_OPEN_DOWNGRADE_def OP_PUTFH_def OP_PUTPUBFH_def OP_PUTROOTFH_def

lemma getfh_reply_ok: "valid (COMPOUND4res_format n) getfh_reply" "wire (COMPOUND4res_format n) getfh_reply = getfh_bytes"
  by (simp_all add: COMPOUND4res_format_def getfh_reply_def getfh_bytes_def nfs_resop4_format_def nfs_resop4_zero_def
      PUTROOTFH4res_format_def PUTROOTFH4res_zero_def GETFH4res_format_def GETFH4resok_format_def base_formats result_ops be32_def
      padded_def unsigned_minus_1_eq_mask mask_eq_exp_minus_1 NFS4_OK_def NFS4_FHSIZE_def pad3)

theorem reply_round_trip_witness:
  "\<exists>x'. xdr_COMPOUND4res xmem_lib xmem_replies 0 (mem_array nfs_resop4_zero) (out_stream 40) getfh_reply = (True, x', getfh_reply) \<and>
    x_out x' = getfh_bytes"
  using reply_round_trip[OF xmem_lib_ok xmem_replies_ok xmem_array_ok nfs_resop4_zero_fresh, of "out_stream 40" 0 getfh_reply]
  by (simp add: getfh_reply_ok) (auto simp: getfh_bytes_def)

end
