(* ===== verification/NfsRpc.thy ===== *)
theory NfsRpc
  imports Nfs4Zero
begin

text \<open>
  The RPC ends of the NFSv4 codec: the server's dispatchers and start-up
  (\<open>src/target/nfs4/prot_svc.c\<close>) and the client's stubs (\<open>prot_clnt.c\<close>). The
  transport functions of the RPC library and the service procedures
  (\<open>nfsproc4_compound_4_svc\<close> and the others, which \<open>prot.h\<close> only declares) are
  parameters over a state of the caller's choice.
\<close>

section \<open>The server\<close>

datatype 's outcome = Returned 's | Exited u32 's

record ('s, 'x, 'a, 'r) svc_transport =
  svc_getargs :: "('x, 'a) xdrproc \<Rightarrow> 'a \<Rightarrow> 's \<Rightarrow> bool \<times> 'a \<times> 's"
  svc_sendreply :: "('x, 'r) xdrproc \<Rightarrow> 'r \<Rightarrow> 's \<Rightarrow> bool \<times> 's"
  svc_freeargs :: "('x, 'a) xdrproc \<Rightarrow> 'a \<Rightarrow> 's \<Rightarrow> bool \<times> 's"

record 's svc_errors =
  svcerr_noproc :: "'s \<Rightarrow> 's"
  svcerr_decode :: "'s \<Rightarrow> 's"
  svcerr_systemerr :: "'s \<Rightarrow> 's"
  svc_print :: "string \<Rightarrow> 's \<Rightarrow> 's"

text \<open>A service procedure may change the argument it is given and returns a pointer to its result,
  or \<open>NULL\<close>.\<close>

type_synonym ('s, 'a, 'r) service = "'a \<Rightarrow> 's \<Rightarrow> 'r option \<times> 'a \<times> 's"

text \<open>Both dispatchers end in the same statements, from the \<open>memset\<close> of the argument
  on.\<close>

definition serve :: "'s svc_errors \<Rightarrow> ('s, 'x, 'a, 'r) svc_transport \<Rightarrow> ('x, 'a) xdrproc \<Rightarrow> ('x, 'r) xdrproc \<Rightarrow> ('s, 'a, 'r) service
    \<Rightarrow> 'a \<Rightarrow> 's \<Rightarrow> 's outcome" where
  "serve E T xdr_argument xdr_result local zero s =
     (let (ok, argument, s) = svc_getargs T xdr_argument zero s in
      if \<not> ok then Returned (svcerr_decode E s)
      else
        let (result, argument, s) = local argument s;
            s = (case result of
                   None \<Rightarrow> s
                 | Some r \<Rightarrow> (let (sent, s) = svc_sendreply T xdr_result r s in if sent then s else svcerr_systemerr E s));
            (freed, s) = svc_freeargs T xdr_argument argument s
        in if freed then Returned s else Exited 1 (svc_print E ''unable to free arguments'' s))"

definition NFSPROC4_NULL :: u32 where
  "NFSPROC4_NULL = 0"

definition NFSPROC4_COMPOUND :: u32 where
  "NFSPROC4_COMPOUND = 1"

definition CB_NULL :: u32 where
  "CB_NULL = 0"

definition CB_COMPOUND :: u32 where
  "CB_COMPOUND = 1"

text \<open>
  \<open>xdr_void\<close> transfers nothing (\<open>pass\<close> at the type \<open>unit\<close>). \<open>aargs\<close> and
  \<open>ares\<close> are \<open>xdr_array\<close> at the operation and result unions.
\<close>

definition nfs4_program_4 :: "'s svc_errors \<Rightarrow> ('s, 'x, unit, unit) svc_transport \<Rightarrow> ('s, 'x, COMPOUND4args, COMPOUND4res) svc_transport
    \<Rightarrow> 'x xdrlib \<Rightarrow> 'x reply_lib \<Rightarrow> nat \<Rightarrow> (u32 \<Rightarrow> ('x, nfs_argop4) xdrproc \<Rightarrow> ('x, nfs_argop4 list) xdrproc)
    \<Rightarrow> (u32 \<Rightarrow> ('x, nfs_resop4) xdrproc \<Rightarrow> ('x, nfs_resop4 list) xdrproc)
    \<Rightarrow> ('s, unit, unit) service \<Rightarrow> ('s, COMPOUND4args, COMPOUND4res) service \<Rightarrow> u32 \<Rightarrow> 's \<Rightarrow> 's outcome" where
  "nfs4_program_4 E TN TC L R n aargs ares nfsproc4_null_4_svc nfsproc4_compound_4_svc rq_proc s =
     (if rq_proc = NFSPROC4_NULL then serve E TN pass pass nfsproc4_null_4_svc () s
      else if rq_proc = NFSPROC4_COMPOUND then
        serve E TC (xdr_COMPOUND4args L aargs) (xdr_COMPOUND4res L R n ares) nfsproc4_compound_4_svc COMPOUND4args_zero s
      else Returned (svcerr_noproc E s))"

definition nfs4_callback_1 :: "'s svc_errors \<Rightarrow> ('s, 'x, unit, unit) svc_transport \<Rightarrow> ('s, 'x, CB_COMPOUND4args, CB_COMPOUND4res) svc_transport
    \<Rightarrow> 'x xdrlib \<Rightarrow> (u32 \<Rightarrow> ('x, nfs_cb_argop4) xdrproc \<Rightarrow> ('x, nfs_cb_argop4 list) xdrproc)
    \<Rightarrow> (u32 \<Rightarrow> ('x, nfs_cb_resop4) xdrproc \<Rightarrow> ('x, nfs_cb_resop4 list) xdrproc)
    \<Rightarrow> ('s, unit, unit) service \<Rightarrow> ('s, CB_COMPOUND4args, CB_COMPOUND4res) service \<Rightarrow> u32 \<Rightarrow> 's \<Rightarrow> 's outcome" where
  "nfs4_callback_1 E TN TC L aargs ares cb_null_1_svc cb_compound_1_svc rq_proc s =
     (if rq_proc = CB_NULL then serve E TN pass pass cb_null_1_svc () s
      else if rq_proc = CB_COMPOUND then
        serve E TC (xdr_CB_COMPOUND4args L aargs) (xdr_CB_COMPOUND4res L ares) cb_compound_1_svc CB_COMPOUND4args_zero s
      else Returned (svcerr_noproc E s))"

subsection \<open>Start-up\<close>

definition NFS4_PROGRAM :: u32 where
  "NFS4_PROGRAM = 100003"

definition NFS_V4 :: u32 where
  "NFS_V4 = 4"

definition NFS4_CALLBACK :: u32 where
  "NFS4_CALLBACK = 0x40000000"

definition NFS_CB :: u32 where
  "NFS_CB = 1"

datatype dispatcher = Program_4 | Callback_1

datatype protocol = IPPROTO_UDP | IPPROTO_TCP

text \<open>\<open>svc_run\<close> only returns when the library gives up; \<open>None\<close> is a server that
  keeps serving.\<close>

record ('s, 't) main_ops =
  pmap_unset :: "u32 \<Rightarrow> u32 \<Rightarrow> 's \<Rightarrow> 's"
  svcudp_create :: "'s \<Rightarrow> 't option \<times> 's"
  svctcp_create :: "'s \<Rightarrow> 't option \<times> 's"
  svc_register :: "'t \<Rightarrow> u32 \<Rightarrow> u32 \<Rightarrow> dispatcher \<Rightarrow> protocol \<Rightarrow> 's \<Rightarrow> bool \<times> 's"
  svc_run :: "'s \<Rightarrow> 's option"
  print_stderr :: "string \<Rightarrow> 's \<Rightarrow> 's"

definition register_or_exit :: "('s, 't) main_ops \<Rightarrow> 't \<Rightarrow> u32 \<Rightarrow> u32 \<Rightarrow> dispatcher \<Rightarrow> protocol \<Rightarrow> string \<Rightarrow> 's
    \<Rightarrow> ('s \<Rightarrow> 's outcome option) \<Rightarrow> 's outcome option" where
  "register_or_exit Q t prog vers d proto msg s k =
     (let (ok, s) = svc_register Q t prog vers d proto s in if ok then k s else Some (Exited 1 (print_stderr Q msg s)))"

definition create_or_exit :: "('s, 't) main_ops \<Rightarrow> 't option \<times> 's \<Rightarrow> string \<Rightarrow> ('t \<Rightarrow> 's \<Rightarrow> 's outcome option) \<Rightarrow> 's outcome option" where
  "create_or_exit Q c msg k =
     (case c of (None, s) \<Rightarrow> Some (Exited 1 (print_stderr Q msg s)) | (Some t, s) \<Rightarrow> k t s)"

definition svc_main :: "('s, 't) main_ops \<Rightarrow> 's \<Rightarrow> 's outcome option" where
  "svc_main Q s =
     (let s = pmap_unset Q NFS4_CALLBACK NFS_CB (pmap_unset Q NFS4_PROGRAM NFS_V4 s) in
      create_or_exit Q (svcudp_create Q s) ''cannot create udp service.'' (\<lambda>t s.
      register_or_exit Q t NFS4_PROGRAM NFS_V4 Program_4 IPPROTO_UDP ''unable to register (NFS4_PROGRAM, NFS_V4, udp).'' s (\<lambda>s.
      register_or_exit Q t NFS4_CALLBACK NFS_CB Callback_1 IPPROTO_UDP ''unable to register (NFS4_CALLBACK, NFS_CB, udp).'' s (\<lambda>s.
      create_or_exit Q (svctcp_create Q s) ''cannot create tcp service.'' (\<lambda>t s.
      register_or_exit Q t NFS4_PROGRAM NFS_V4 Program_4 IPPROTO_TCP ''unable to register (NFS4_PROGRAM, NFS_V4, tcp).'' s (\<lambda>s.
      register_or_exit Q t NFS4_CALLBACK NFS_CB Callback_1 IPPROTO_TCP ''unable to register (NFS4_CALLBACK, NFS_CB, tcp).'' s (\<lambda>s.
      case svc_run Q s of None \<Rightarrow> None | Some s \<Rightarrow> Some (Exited 1 (print_stderr Q ''svc_run returned'' s)))))))))"

section \<open>The client\<close>

text \<open>
  \<open>clnt_call\<close> sends the argument, waits at most the given time and decodes the reply over the
  result object; its first component says whether it returned \<open>RPC_SUCCESS\<close>. The result of
  each stub is a static variable of its own, cleared by the call; the stub returns its address or
  \<open>NULL\<close>. Here a stub takes that variable and returns whether the address was returned.
\<close>

type_synonym ('c, 'x, 'a, 'r) clnt_call =
  "u32 \<Rightarrow> ('x, 'a) xdrproc \<Rightarrow> 'a \<Rightarrow> ('x, 'r) xdrproc \<Rightarrow> 'r \<Rightarrow> int \<times> int \<Rightarrow> 'c \<Rightarrow> bool \<times> 'r \<times> 'c"

definition TIMEOUT :: "int \<times> int" where
  "TIMEOUT = (25, 0)"

definition nfsproc4_null_4 :: "('c, 'x, unit, unit) clnt_call \<Rightarrow> unit \<Rightarrow> 'c \<Rightarrow> bool \<times> unit \<times> 'c" where
  "nfsproc4_null_4 clnt_call argp c = clnt_call NFSPROC4_NULL pass argp pass () TIMEOUT c"

definition nfsproc4_compound_4 :: "('c, 'x, COMPOUND4args, COMPOUND4res) clnt_call \<Rightarrow> 'x xdrlib \<Rightarrow> 'x reply_lib \<Rightarrow> nat
    \<Rightarrow> (u32 \<Rightarrow> ('x, nfs_argop4) xdrproc \<Rightarrow> ('x, nfs_argop4 list) xdrproc)
    \<Rightarrow> (u32 \<Rightarrow> ('x, nfs_resop4) xdrproc \<Rightarrow> ('x, nfs_resop4 list) xdrproc)
    \<Rightarrow> COMPOUND4args \<Rightarrow> COMPOUND4res \<Rightarrow> 'c \<Rightarrow> bool \<times> COMPOUND4res \<times> 'c" where
  "nfsproc4_compound_4 clnt_call L R n aargs ares argp clnt_res c =
     (let clnt_res = COMPOUND4res_zero in
      clnt_call NFSPROC4_COMPOUND (xdr_COMPOUND4args L aargs) argp (xdr_COMPOUND4res L R n ares) clnt_res TIMEOUT c)"

definition cb_null_1 :: "('c, 'x, unit, unit) clnt_call \<Rightarrow> unit \<Rightarrow> 'c \<Rightarrow> bool \<times> unit \<times> 'c" where
  "cb_null_1 clnt_call argp c = clnt_call CB_NULL pass argp pass () TIMEOUT c"

definition cb_compound_1 :: "('c, 'x, CB_COMPOUND4args, CB_COMPOUND4res) clnt_call \<Rightarrow> 'x xdrlib
    \<Rightarrow> (u32 \<Rightarrow> ('x, nfs_cb_argop4) xdrproc \<Rightarrow> ('x, nfs_cb_argop4 list) xdrproc)
    \<Rightarrow> (u32 \<Rightarrow> ('x, nfs_cb_resop4) xdrproc \<Rightarrow> ('x, nfs_cb_resop4 list) xdrproc)
    \<Rightarrow> CB_COMPOUND4args \<Rightarrow> CB_COMPOUND4res \<Rightarrow> 'c \<Rightarrow> bool \<times> CB_COMPOUND4res \<times> 'c" where
  "cb_compound_1 clnt_call L aargs ares argp clnt_res c =
     (let clnt_res = CB_COMPOUND4res_zero in
      clnt_call CB_COMPOUND (xdr_CB_COMPOUND4args L aargs) argp (xdr_CB_COMPOUND4res L ares) clnt_res TIMEOUT c)"

end
