(* ===== verification/RpcProps.thy ===== *)
theory RpcProps
  imports NfsRpc NfsMem
begin

text \<open>
  Properties of the RPC ends: the order of the transport calls of a dispatcher, and a remote call from
  the client's stub through the server's dispatcher and back.
\<close>

section \<open>The order of the dispatcher's calls\<close>

text \<open>Every transport, error and service function is observed by the event it appends to a log.\<close>

datatype rpc_event = NoProc | BadArgs | GotArgs bool | Handled | Replied bool | SysErr | Freed bool

definition logged :: "rpc_event \<Rightarrow> ('s \<Rightarrow> 's) \<Rightarrow> 's \<times> rpc_event list \<Rightarrow> 's \<times> rpc_event list" where
  "logged e f = (\<lambda>(s, l). (f s, l @ [e]))"

definition logged_errors :: "'s svc_errors \<Rightarrow> ('s \<times> rpc_event list) svc_errors" where
  "logged_errors E = \<lparr>svcerr_noproc = logged NoProc (svcerr_noproc E), svcerr_decode = logged BadArgs (svcerr_decode E),
     svcerr_systemerr = logged SysErr (svcerr_systemerr E), svc_print = (\<lambda>msg (s, l). (svc_print E msg s, l))\<rparr>"

definition logged_transport :: "('s, 'x, 'a, 'r) svc_transport \<Rightarrow> ('s \<times> rpc_event list, 'x, 'a, 'r) svc_transport" where
  "logged_transport T = \<lparr>svc_getargs = (\<lambda>f w (s, l). let (ok, u, s') = svc_getargs T f w s in (ok, u, (s', l @ [GotArgs ok]))),
     svc_sendreply = (\<lambda>f r (s, l). let (ok, s') = svc_sendreply T f r s in (ok, (s', l @ [Replied ok]))),
     svc_freeargs = (\<lambda>f a (s, l). let (ok, s') = svc_freeargs T f a s in (ok, (s', l @ [Freed ok])))\<rparr>"

definition logged_service :: "('s, 'a, 'r) service \<Rightarrow> ('s \<times> rpc_event list, 'a, 'r) service" where
  "logged_service h = (\<lambda>a (s, l). let (r, a', s') = h a s in (r, a', (s', l @ [Handled])))"

fun events :: "('s \<times> rpc_event list) outcome \<Rightarrow> rpc_event list" where
  "events (Returned s) = snd s"
| "events (Exited c s) = snd s"

text \<open>A call that was decoded: handled once, answered at most once, its argument freed once, at the
  end.\<close>

definition handled_orders :: "bool \<Rightarrow> rpc_event list set" where
  "handled_orders freed = {[GotArgs True, Handled] @ m @ [Freed freed] | m. m \<in> {[], [Replied True], [Replied False, SysErr]}}"

fun is_exit :: "'s outcome \<Rightarrow> bool" where
  "is_exit (Returned s) = False"
| "is_exit (Exited c s) = True"

lemmas logged_defs = logged_errors_def logged_transport_def logged_service_def logged_def

lemma serve_order:
  "events (serve (logged_errors E) (logged_transport T) xa xr (logged_service h) zero (s, [])) \<in>
    (if fst (svc_getargs T xa zero s)
     then handled_orders (\<not> is_exit (serve (logged_errors E) (logged_transport T) xa xr (logged_service h) zero (s, [])))
     else {[GotArgs False, BadArgs]})"
proof -
  obtain ok u s0 where g: "svc_getargs T xa zero s = (ok, u, s0)" by (metis prod_cases3)
  obtain res u' s1 where h: "h u s0 = (res, u', s1)" by (metis prod_cases3)
  obtain sent s2 where r: "(case res of None \<Rightarrow> (True, s1) | Some v \<Rightarrow> svc_sendreply T xr v s1) = (sent, s2)" by fastforce
  obtain freed s3 where f: "svc_freeargs T xa u' (if sent then s2 else svcerr_systemerr E s2) = (freed, s3)" by fastforce
  show ?thesis
    using g h r f
    by (auto simp: serve_def logged_defs handled_orders_def split: option.splits if_splits)
qed

lemma serve_decoded: "fst (svc_getargs T xa zero s) \<Longrightarrow>
    events (serve (logged_errors E) (logged_transport T) xa xr (logged_service h) zero (s, [])) \<in>
      handled_orders (\<not> is_exit (serve (logged_errors E) (logged_transport T) xa xr (logged_service h) zero (s, [])))"
  using serve_order[of E T xa xr h zero s] by simp

lemma serve_undecoded: "\<not> fst (svc_getargs T xa zero s) \<Longrightarrow>
    events (serve (logged_errors E) (logged_transport T) xa xr (logged_service h) zero (s, [])) = [GotArgs False, BadArgs]"
  using serve_order[of E T xa xr h zero s] by simp

lemma logged_noproc: "svcerr_noproc (logged_errors E) (s, l) = (svcerr_noproc E s, l @ [NoProc])"
  by (simp add: logged_errors_def logged_def)

text \<open>C18: the order of a dispatcher's calls, for the NFS program and the callback program and whatever
  the transport and the services do. An unknown procedure number is only reported. A request that
  cannot be decoded is reported and neither reaches the service nor is its argument freed (memory
  that the decoder had already allocated for it stays allocated). A decoded request is handled
  exactly once, answered at most once, with a system error reported exactly when the answer could
  not be sent, and its argument is freed exactly once, last; the process exits exactly when that
  fails.\<close>

theorem dispatcher_order:
  "(let r = nfs4_program_4 (logged_errors E) (logged_transport TN) (logged_transport TC) L R n aargs ares
              (logged_service null_svc) (logged_service compound_svc) rq_proc (s, []) in
     events r \<in> (if rq_proc \<notin> {0, 1} then {[NoProc]}
                 else if (if rq_proc = 0 then fst (svc_getargs TN pass () s)
                          else fst (svc_getargs TC (xdr_COMPOUND4args L aargs) COMPOUND4args_zero s))
                 then handled_orders (\<not> is_exit r) else {[GotArgs False, BadArgs]})) \<and>
   (let r = nfs4_callback_1 (logged_errors E) (logged_transport TN) (logged_transport TB) L bargs bres
              (logged_service null_svc) (logged_service callback_svc) rq_proc (s, []) in
     events r \<in> (if rq_proc \<notin> {0, 1} then {[NoProc]}
                 else if (if rq_proc = 0 then fst (svc_getargs TN pass () s)
                          else fst (svc_getargs TB (xdr_CB_COMPOUND4args L bargs) CB_COMPOUND4args_zero s))
                 then handled_orders (\<not> is_exit r) else {[GotArgs False, BadArgs]}))"
  by (simp add: serve_decoded serve_undecoded nfs4_program_4_def nfs4_callback_1_def Let_def NFSPROC4_NULL_def NFSPROC4_COMPOUND_def CB_NULL_def CB_COMPOUND_def
      logged_noproc)

section \<open>A remote call\<close>

lemma codec_encode:
  assumes "codec V f F" "encoding V x" "written V x = []" "valid F v" "length (wire F v) \<le> room V x"
  shows "fst (f x v) \<and> written V (fst (snd (f x v))) = wire F v"
proof -
  have "encodes V f F" using assms(1) by (simp add: codec_def)
  then obtain x' where "f x v = (True, x', v)" "written V x' = written V x @ wire F v"
    using encodesD[OF _ assms(2,4,5)] by metis
  then show ?thesis using assms(3) by simp
qed

lemma codec_decode:
  assumes "codec V f F" "decoding V y" "valid F v" "fresh F w" "unread V y = wire F v"
  shows "fst (f y w) \<and> same F (snd (snd (f y w))) v"
proof -
  have "decodes V (\<lambda>_ _. True) f F (\<lambda>_ _. True)" using assms(1) by (simp add: codec_def)
  then obtain y' u where "f y w = (True, y', u)" "same F u v"
    using decodesD[of V "\<lambda>_ _. True" f F "\<lambda>_ _. True" y v w "[]"] assms(2-5) by (metis append_Nil2)
  then show ?thesis by simp
qed

text \<open>
  What a transport promises. At the server, \<open>svc_getargs\<close> applies the filter to a decoding
  stream over the request, \<open>svc_sendreply\<close> applies it to an empty encoding stream with room
  for at least \<open>m\<close> bytes and sends what was written, \<open>svc_freeargs\<close> leaves the reply
  alone. Between the ends, \<open>clnt_call\<close> runs the server on the encoded request and, when the
  server has replied, decodes the reply.
\<close>

definition transport_ok :: "'x xview \<Rightarrow> nat \<Rightarrow> ('s \<Rightarrow> u8 list) \<Rightarrow> ('s \<Rightarrow> u8 list option) \<Rightarrow> ('s, 'x, 'a, 'r) svc_transport \<Rightarrow> bool" where
  "transport_ok V m request reply T \<longleftrightarrow>
    (\<forall>f w s. \<exists>y s'. decoding V y \<and> unread V y = request s \<and> svc_getargs T f w s = (fst (f y w), snd (snd (f y w)), s')) \<and>
    (\<forall>f r s. \<exists>x s'. encoding V x \<and> written V x = [] \<and> m \<le> room V x \<and> svc_sendreply T f r s = (fst (f x r), s') \<and>
      (fst (f x r) \<longrightarrow> reply s' = Some (written V (fst (snd (f x r)))))) \<and>
    (\<forall>f a s. \<exists>s'. svc_freeargs T f a s = (True, s') \<and> reply s' = reply s)"

definition call_ok :: "'x xview \<Rightarrow> nat \<Rightarrow> ('s \<Rightarrow> u8 list) \<Rightarrow> ('s \<Rightarrow> u8 list option) \<Rightarrow> (u32 \<Rightarrow> 's \<Rightarrow> 's outcome) \<Rightarrow> ('c, 'x, 'a, 'r) clnt_call \<Rightarrow> bool" where
  "call_ok V m request reply server call \<longleftrightarrow>
    (\<forall>proc fa a fr r t c. \<exists>x. encoding V x \<and> written V x = [] \<and> m \<le> room V x \<and>
      (fst (fa x a) \<longrightarrow> (\<exists>s. request s = written V (fst (snd (fa x a))) \<and>
        (\<forall>s' bs. server proc s = Returned s' \<longrightarrow> reply s' = Some bs \<longrightarrow>
          (\<exists>y c'. decoding V y \<and> unread V y = bs \<and> call proc fa a fr r t c = (fst (fr y r), snd (snd (fr y r)), c'))))))"

lemma serve_answers:
  assumes T: "transport_ok V m request reply T" and xa: "codec V xa A" and xr: "codec V xr B"
    and a: "valid A a" "fresh A zero" "request s = wire A a"
    and h: "\<And>u s. same A u a \<Longrightarrow> \<exists>u' s'. h u s = (Some (answer u), u', s')"
    and b: "\<And>u. same A u a \<Longrightarrow> valid B (answer u) \<and> length (wire B (answer u)) \<le> m"
  shows "\<exists>u s'. same A u a \<and> serve E T xa xr h zero s = Returned s' \<and> reply s' = Some (wire B (answer u))"
proof -
  obtain y s0 where "decoding V y" "unread V y = request s" "svc_getargs T xa zero s = (fst (xa y zero), snd (snd (xa y zero)), s0)"
    using T unfolding transport_ok_def by metis
  then obtain u where u: "svc_getargs T xa zero s = (True, u, s0)" "same A u a" using codec_decode[OF xa _ a(1,2)] a(3) by auto
  obtain u' s1 where h1: "h u s0 = (Some (answer u), u', s1)" using h[OF u(2)] by blast
  obtain x s2 where x: "encoding V x" "written V x = []" "m \<le> room V x" "svc_sendreply T xr (answer u) s1 = (fst (xr x (answer u)), s2)"
    "fst (xr x (answer u)) \<longrightarrow> reply s2 = Some (written V (fst (snd (xr x (answer u)))))"
    using T unfolding transport_ok_def by metis
  have s2: "svc_sendreply T xr (answer u) s1 = (True, s2)" "reply s2 = Some (wire B (answer u))"
    using codec_encode[OF xr x(1,2)] b[OF u(2)] x(3-5) by auto
  obtain s3 where "svc_freeargs T xa u' s2 = (True, s3)" "reply s3 = reply s2" using T unfolding transport_ok_def by metis
  then show ?thesis using u h1 s2 by (auto simp: serve_def)
qed

lemma call_delivers:
  assumes C: "call_ok V m request reply server call" and xa: "codec V xa A" and xr: "codec V xr B"
    and a: "valid A a" "length (wire A a) \<le> m" and "fresh B r"
    and serve: "\<And>s. request s = wire A a \<Longrightarrow>
      \<exists>u s'. same A u a \<and> server proc s = Returned s' \<and> reply s' = Some (wire B (answer u)) \<and> valid B (answer u)"
  shows "\<exists>u q c'. same A u a \<and> call proc xa a xr r t c = (True, q, c') \<and> same B q (answer u)"
proof -
  obtain x where x: "encoding V x" "written V x = []" "m \<le> room V x"
    "fst (xa x a) \<longrightarrow> (\<exists>s. request s = written V (fst (snd (xa x a))) \<and>
        (\<forall>s' bs. server proc s = Returned s' \<longrightarrow> reply s' = Some bs \<longrightarrow>
          (\<exists>y c'. decoding V y \<and> unread V y = bs \<and> call proc xa a xr r t c = (fst (xr y r), snd (snd (xr y r)), c'))))"
    using C unfolding call_ok_def by metis
  then obtain s where s: "request s = wire A a" and ret: "\<And>s' bs. server proc s = Returned s' \<Longrightarrow> reply s' = Some bs \<Longrightarrow>
      \<exists>y c'. decoding V y \<and> unread V y = bs \<and> call proc xa a xr r t c = (fst (xr y r), snd (snd (xr y r)), c')"
    using codec_encode[OF xa x(1,2) a(1)] a(2) by auto
  obtain u s' where u: "same A u a" "server proc s = Returned s'" "reply s' = Some (wire B (answer u))" "valid B (answer u)"
    using serve[OF s] by blast
  then obtain y c' where y: "decoding V y" "unread V y = wire B (answer u)" "call proc xa a xr r t c = (fst (xr y r), snd (snd (xr y r)), c')"
    using ret by blast
  then show ?thesis using codec_decode[OF xr y(1) u(4) assms(6) y(2)] u(1) by auto
qed

text \<open>C6: a remote call. Over a transport that behaves as documented, and with a service that answers
  every request equivalent to the one sent by a valid reply that fits, the client's stub returns its
  result and this result is the reply that the service gave to a request equivalent to the one that
  was sent: no operation, member or list element is lost, added or reordered on the way.\<close>

theorem remote_call_delivers:
  assumes "xdr_lib_ok L V" and "reply_lib_ok R V" and "xdr_array_ok V za aargs" and "fresh nfs_argop4_format za"
    and "xdr_array_ok V zr ares" and "fresh (nfs_resop4_format n) zr" and "transport_ok V m request reply TC"
    and "call_ok V m request reply (nfs4_program_4 E TN TC L R n aargs ares null_svc compound_svc) call"
    and "valid COMPOUND4args_format a" and "length (wire COMPOUND4args_format a) \<le> m"
    and svc: "\<forall>u s. same COMPOUND4args_format u a \<longrightarrow> (\<exists>u' s'. compound_svc u s = (Some (answer u), u', s')) \<and>
      valid (COMPOUND4res_format n) (answer u) \<and> length (wire (COMPOUND4res_format n) (answer u)) \<le> m"
  shows "\<exists>u q c'. same COMPOUND4args_format u a \<and> nfsproc4_compound_4 call L R n aargs ares a old c = (True, q, c') \<and>
    same (COMPOUND4res_format n) q (answer u)"
proof -
  note xa = COMPOUND4args_codec[OF assms(1,3,4)] and xr = COMPOUND4res_codec[OF assms(1,2,5,6)]
  have "\<exists>u s'. same COMPOUND4args_format u a \<and>
      nfs4_program_4 E TN TC L R n aargs ares null_svc compound_svc NFSPROC4_COMPOUND s = Returned s' \<and>
      reply s' = Some (wire (COMPOUND4res_format n) (answer u)) \<and> valid (COMPOUND4res_format n) (answer u)"
    if "request s = wire COMPOUND4args_format a" for s
    using serve_answers[OF assms(7) xa xr assms(9) COMPOUND4args_zero_fresh that, of compound_svc answer E] svc
    by (auto simp: nfs4_program_4_def NFSPROC4_NULL_def NFSPROC4_COMPOUND_def)
  then show ?thesis
    using call_delivers[OF assms(8) xa xr assms(9,10) COMPOUND4res_zero_fresh, of NFSPROC4_COMPOUND answer TIMEOUT c]
    by (simp add: nfsproc4_compound_4_def)
qed

text \<open>A transport that carries the bytes from one end to the other, and a service that answers with the
  tag of the request.\<close>

record loop =
  l_request :: "u8 list"
  l_reply :: "u8 list option"

definition loop_transport :: "(loop, xmem, 'a, 'r) svc_transport" where
  "loop_transport = \<lparr>svc_getargs = (\<lambda>f w s. let (ok, y, u) = f (in_stream (l_request s)) w in (ok, u, s)),
     svc_sendreply = (\<lambda>f r s. let (ok, x, _) = f (out_stream 4096) r in (ok, if ok then s\<lparr>l_reply := Some (x_out x)\<rparr> else s)),
     svc_freeargs = (\<lambda>f a s. (True, s))\<rparr>"

definition loop_call :: "(u32 \<Rightarrow> loop \<Rightarrow> loop outcome) \<Rightarrow> (unit, xmem, 'a, 'r) clnt_call" where
  "loop_call server proc fa a fr r t c =
     (let (ok, x, _) = fa (out_stream 4096) a in
      if \<not> ok then (False, r, c)
      else case server proc \<lparr>l_request = x_out x, l_reply = None\<rparr> of
        Exited e s \<Rightarrow> (False, r, c)
      | Returned s \<Rightarrow> (case l_reply s of None \<Rightarrow> (False, r, c) | Some bs \<Rightarrow> (let (ok, y, u) = fr (in_stream bs) r in (ok, u, c))))"

definition loop_errors :: "loop svc_errors" where
  "loop_errors = \<lparr>svcerr_noproc = id, svcerr_decode = id, svcerr_systemerr = id, svc_print = (\<lambda>_. id)\<rparr>"

definition tag_service :: "(loop, COMPOUND4args, COMPOUND4res) service" where
  "tag_service u s = (Some (COMPOUND4res_zero\<lparr>COMPOUND4res_tag := COMPOUND4args_tag u\<rparr>), u, s)"

lemma loop_transport_ok: "transport_ok xmem_view 4096 l_request l_reply loop_transport"
  unfolding transport_ok_def
proof (intro conjI allI)
  fix f w s
  show "\<exists>y s'. decoding xmem_view y \<and> unread xmem_view y = l_request s \<and> svc_getargs loop_transport f w s = (fst (f y w), snd (snd (f y w)), s')"
    by (rule exI[of _ "in_stream (l_request s)"]) (simp add: loop_transport_def split: prod.split)
next
  fix f r s
  show "\<exists>x s'. encoding xmem_view x \<and> written xmem_view x = [] \<and> 4096 \<le> room xmem_view x \<and>
      svc_sendreply loop_transport f r s = (fst (f x r), s') \<and> (fst (f x r) \<longrightarrow> l_reply s' = Some (written xmem_view (fst (snd (f x r)))))"
    by (rule exI[of _ "out_stream 4096"]) (simp add: loop_transport_def split: prod.split)
qed (simp add: loop_transport_def)

lemma loop_call_reply:
  "fst (fa (out_stream 4096) a) \<Longrightarrow> server proc \<lparr>l_request = x_out (fst (snd (fa (out_stream 4096) a))), l_reply = None\<rparr> = Returned s' \<Longrightarrow>
    l_reply s' = Some bs \<Longrightarrow> loop_call server proc fa a fr r t c = (fst (fr (in_stream bs) r), snd (snd (fr (in_stream bs) r)), c)"
  by (auto simp: loop_call_def split: prod.split)

lemma loop_call_ok: "call_ok xmem_view 4096 l_request l_reply server (loop_call server :: (unit, xmem, 'a, 'r) clnt_call)"
  unfolding call_ok_def
proof (intro allI exI[of _ "out_stream 4096"] conjI impI)
  fix proc and fa :: "(xmem, 'a) xdrproc" and a and fr :: "(xmem, 'r) xdrproc" and r t c
  assume ok: "fst (fa (out_stream 4096) a)"
  let ?s = "\<lparr>l_request = x_out (fst (snd (fa (out_stream 4096) a))), l_reply = None\<rparr>"
  have "\<exists>y c'. decoding xmem_view y \<and> unread xmem_view y = bs \<and> loop_call server proc fa a fr r t c = (fst (fr y r), snd (snd (fr y r)), c')"
    if "server proc ?s = Returned s'" "l_reply s' = Some bs" for s' bs
    using loop_call_reply[where fa = fa and a = a and server = server, OF ok that]
    by (intro exI[of _ "in_stream bs"] exI[of _ c]) simp
  then show "\<exists>s. l_request s = written xmem_view (fst (snd (fa (out_stream 4096) a))) \<and>
      (\<forall>s' bs. server proc s = Returned s' \<longrightarrow> l_reply s' = Some bs \<longrightarrow>
        (\<exists>y c'. decoding xmem_view y \<and> unread xmem_view y = bs \<and> loop_call server proc fa a fr r t c = (fst (fr y r), snd (snd (fr y r)), c')))"
    by (intro exI[of _ ?s]) simp
qed simp_all

definition ping :: COMPOUND4args where
  "ping = \<lparr>COMPOUND4args_tag = [0x68, 0x69], COMPOUND4args_minorversion = 0,
     COMPOUND4args_argarray = [nfs_argop4_zero\<lparr>nfs_argop4_argop := OP_PUTROOTFH\<rparr>]\<rparr>"

lemma ping_ok: "valid COMPOUND4args_format ping" "length (wire COMPOUND4args_format ping) \<le> 4096"
  by (simp_all add: COMPOUND4args_format_def ping_def nfs_argop4_format_def base_formats OP_PUTROOTFH_def padded_def
      OP_ACCESS_def OP_CLOSE_def OP_COMMIT_def OP_CREATE_def OP_DELEGPURGE_def OP_DELEGRETURN_def OP_GETATTR_def OP_GETFH_def
      OP_LINK_def OP_LOCK_def OP_LOCKT_def OP_LOCKU_def OP_LOOKUP_def OP_LOOKUPP_def OP_NVERIFY_def OP_OPEN_def OP_OPENATTR_def
      OP_OPEN_CONFIRM_def OP_OPEN_DOWNGRADE_def OP_PUTFH_def OP_PUTPUBFH_def unsigned_minus_1_eq_mask mask_eq_exp_minus_1)

lemma tag_service_ok:
  assumes "same COMPOUND4args_format u ping"
  shows "valid (COMPOUND4res_format n) (COMPOUND4res_zero\<lparr>COMPOUND4res_tag := COMPOUND4args_tag u\<rparr>) \<and>
    length (wire (COMPOUND4res_format n) (COMPOUND4res_zero\<lparr>COMPOUND4res_tag := COMPOUND4args_tag u\<rparr>)) \<le> 4096"
  using assms
  by (simp add: COMPOUND4args_format_def COMPOUND4res_format_def COMPOUND4res_zero_def ping_def base_formats padded_def
      unsigned_minus_1_eq_mask mask_eq_exp_minus_1)

theorem remote_call_delivers_witness:
  "\<exists>q c'. nfsproc4_compound_4 (loop_call (nfs4_program_4 loop_errors loop_transport loop_transport xmem_lib xmem_replies 0 (mem_array nfs_argop4_zero)
       (mem_array nfs_resop4_zero) (\<lambda>u s. (Some u, u, s)) tag_service)) xmem_lib xmem_replies 0 (mem_array nfs_argop4_zero) (mem_array nfs_resop4_zero)
       ping COMPOUND4res_zero () = (True, q, c') \<and> COMPOUND4res_tag q = [0x68, 0x69]"
proof -
  have "\<forall>u s. same COMPOUND4args_format u ping \<longrightarrow>
      (\<exists>u' s'. tag_service u s = (Some (COMPOUND4res_zero\<lparr>COMPOUND4res_tag := COMPOUND4args_tag u\<rparr>), u', s')) \<and>
      valid (COMPOUND4res_format 0) (COMPOUND4res_zero\<lparr>COMPOUND4res_tag := COMPOUND4args_tag u\<rparr>) \<and>
      length (wire (COMPOUND4res_format 0) (COMPOUND4res_zero\<lparr>COMPOUND4res_tag := COMPOUND4args_tag u\<rparr>)) \<le> 4096"
    using tag_service_ok by (simp add: tag_service_def)
  from remote_call_delivers[OF xmem_lib_ok xmem_replies_ok xmem_array_ok nfs_argop4_zero_fresh xmem_array_ok nfs_resop4_zero_fresh
      loop_transport_ok loop_call_ok ping_ok this]
  show ?thesis by (fastforce simp: COMPOUND4args_format_def COMPOUND4res_format_def ping_def)
qed

end
