(* ===== verification/Nfs4Attrs.thy ===== *)
theory Nfs4Attrs
  imports Nfs4Types
begin

text \<open>
  The file attributes of NFSv4: one filter per attribute type of \<open>prot_xdr.c\<close>, most of them the
  filter of a basic type, and the lists of file system locations. \<open>xdr_array\<close> at element types
  other than \<open>uint32_t\<close> is an argument (\<open>arr\<close>, \<open>loc\<close>, \<open>acl\<close>).
\<close>

section \<open>Locations\<close>

definition xdr_pathname4 :: "'x xdrlib \<Rightarrow> (u32 \<Rightarrow> ('x, u8 list) xdrproc \<Rightarrow> ('x, u8 list list) xdrproc) \<Rightarrow> ('x, u8 list list) xdrproc" where
  "xdr_pathname4 L arr = arr (- 1) (xdr_component4 L)"

record fs_location4 =
  fs_location4_server :: "u8 list list"
  fs_location4_rootpath :: "u8 list list"

definition fs_location4_format :: "fs_location4 xformat" where
  "fs_location4_format =
     both (fld fs_location4_server (array_format (- 1) (bytes_format (- 1)))) (
     fld fs_location4_rootpath (array_format (- 1) (bytes_format (- 1))))"

definition xdr_fs_location4 :: "'x xdrlib \<Rightarrow> (u32 \<Rightarrow> ('x, u8 list) xdrproc \<Rightarrow> ('x, u8 list list) xdrproc) \<Rightarrow> ('x, fs_location4) xdrproc" where
  "xdr_fs_location4 L arr =
     seq (on fs_location4_server fs_location4_server_update (arr (- 1) (xdr_utf8str_cis L))) (
     on fs_location4_rootpath fs_location4_rootpath_update (xdr_pathname4 L arr))"

record fs_locations4 =
  fs_locations4_fs_root :: "u8 list list"
  fs_locations4_locations :: "fs_location4 list"

definition fs_locations4_format :: "fs_locations4 xformat" where
  "fs_locations4_format =
     both (fld fs_locations4_fs_root (array_format (- 1) (bytes_format (- 1)))) (
     fld fs_locations4_locations (array_format (- 1) fs_location4_format))"

definition xdr_fs_locations4 :: "'x xdrlib \<Rightarrow> (u32 \<Rightarrow> ('x, u8 list) xdrproc \<Rightarrow> ('x, u8 list list) xdrproc) \<Rightarrow> (u32 \<Rightarrow> ('x, fs_location4) xdrproc \<Rightarrow> ('x, fs_location4 list) xdrproc) \<Rightarrow> ('x, fs_locations4) xdrproc" where
  "xdr_fs_locations4 L arr loc =
     seq (on fs_locations4_fs_root fs_locations4_fs_root_update (xdr_pathname4 L arr)) (
     on fs_locations4_locations fs_locations4_locations_update (loc (- 1) (xdr_fs_location4 L arr)))"

definition fs_location4_zero :: fs_location4 where
  "fs_location4_zero = \<lparr>fs_location4_server = [], fs_location4_rootpath = []\<rparr>"

definition nfsace4_zero :: nfsace4 where
  "nfsace4_zero = \<lparr>nfsace4_type = 0, nfsace4_flag = 0, nfsace4_access_mask = 0, nfsace4_who = []\<rparr>"

section \<open>Attributes\<close>

definition xdr_fattr4_supported_attrs :: "'x xdrlib \<Rightarrow> ('x, u32 list) xdrproc" where
  "xdr_fattr4_supported_attrs L = xdr_bitmap4 L"

definition xdr_fattr4_type :: "'x xdrlib \<Rightarrow> ('x, u32) xdrproc" where
  "xdr_fattr4_type L = xdr_nfs_ftype4 L"

definition xdr_fattr4_fh_expire_type :: "'x xdrlib \<Rightarrow> ('x, u32) xdrproc" where
  "xdr_fattr4_fh_expire_type L = xdr_uint32_t L"

definition xdr_fattr4_change :: "'x xdrlib \<Rightarrow> ('x, u64) xdrproc" where
  "xdr_fattr4_change L = xdr_changeid4 L"

definition xdr_fattr4_size :: "'x xdrlib \<Rightarrow> ('x, u64) xdrproc" where
  "xdr_fattr4_size L = xdr_uint64_t L"

definition xdr_fattr4_link_support :: "'x xdrlib \<Rightarrow> ('x, u32) xdrproc" where
  "xdr_fattr4_link_support L = xdr_bool L"

definition xdr_fattr4_symlink_support :: "'x xdrlib \<Rightarrow> ('x, u32) xdrproc" where
  "xdr_fattr4_symlink_support L = xdr_bool L"

definition xdr_fattr4_named_attr :: "'x xdrlib \<Rightarrow> ('x, u32) xdrproc" where
  "xdr_fattr4_named_attr L = xdr_bool L"

definition xdr_fattr4_fsid :: "'x xdrlib \<Rightarrow> ('x, fsid4) xdrproc" where
  "xdr_fattr4_fsid L = xdr_fsid4 L"

definition xdr_fattr4_unique_handles :: "'x xdrlib \<Rightarrow> ('x, u32) xdrproc" where
  "xdr_fattr4_unique_handles L = xdr_bool L"

definition xdr_fattr4_lease_time :: "'x xdrlib \<Rightarrow> ('x, u32) xdrproc" where
  "xdr_fattr4_lease_time L = xdr_nfs_lease4 L"

definition xdr_fattr4_rdattr_error :: "'x xdrlib \<Rightarrow> ('x, u32) xdrproc" where
  "xdr_fattr4_rdattr_error L = xdr_nfsstat4 L"

definition xdr_fattr4_acl :: "'x xdrlib \<Rightarrow> (u32 \<Rightarrow> ('x, nfsace4) xdrproc \<Rightarrow> ('x, nfsace4 list) xdrproc) \<Rightarrow> ('x, nfsace4 list) xdrproc" where
  "xdr_fattr4_acl L acl = acl (- 1) (xdr_nfsace4 L)"

definition xdr_fattr4_aclsupport :: "'x xdrlib \<Rightarrow> ('x, u32) xdrproc" where
  "xdr_fattr4_aclsupport L = xdr_uint32_t L"

definition xdr_fattr4_archive :: "'x xdrlib \<Rightarrow> ('x, u32) xdrproc" where
  "xdr_fattr4_archive L = xdr_bool L"

definition xdr_fattr4_cansettime :: "'x xdrlib \<Rightarrow> ('x, u32) xdrproc" where
  "xdr_fattr4_cansettime L = xdr_bool L"

definition xdr_fattr4_case_insensitive :: "'x xdrlib \<Rightarrow> ('x, u32) xdrproc" where
  "xdr_fattr4_case_insensitive L = xdr_bool L"

definition xdr_fattr4_case_preserving :: "'x xdrlib \<Rightarrow> ('x, u32) xdrproc" where
  "xdr_fattr4_case_preserving L = xdr_bool L"

definition xdr_fattr4_chown_restricted :: "'x xdrlib \<Rightarrow> ('x, u32) xdrproc" where
  "xdr_fattr4_chown_restricted L = xdr_bool L"

definition xdr_fattr4_fileid :: "'x xdrlib \<Rightarrow> ('x, u64) xdrproc" where
  "xdr_fattr4_fileid L = xdr_uint64_t L"

definition xdr_fattr4_files_avail :: "'x xdrlib \<Rightarrow> ('x, u64) xdrproc" where
  "xdr_fattr4_files_avail L = xdr_uint64_t L"

definition xdr_fattr4_filehandle :: "'x xdrlib \<Rightarrow> ('x, u8 list) xdrproc" where
  "xdr_fattr4_filehandle L = xdr_nfs_fh4 L"

definition xdr_fattr4_files_free :: "'x xdrlib \<Rightarrow> ('x, u64) xdrproc" where
  "xdr_fattr4_files_free L = xdr_uint64_t L"

definition xdr_fattr4_files_total :: "'x xdrlib \<Rightarrow> ('x, u64) xdrproc" where
  "xdr_fattr4_files_total L = xdr_uint64_t L"

definition xdr_fattr4_fs_locations :: "'x xdrlib \<Rightarrow> (u32 \<Rightarrow> ('x, u8 list) xdrproc \<Rightarrow> ('x, u8 list list) xdrproc) \<Rightarrow> (u32 \<Rightarrow> ('x, fs_location4) xdrproc \<Rightarrow> ('x, fs_location4 list) xdrproc) \<Rightarrow> ('x, fs_locations4) xdrproc" where
  "xdr_fattr4_fs_locations L arr loc = xdr_fs_locations4 L arr loc"

definition xdr_fattr4_hidden :: "'x xdrlib \<Rightarrow> ('x, u32) xdrproc" where
  "xdr_fattr4_hidden L = xdr_bool L"

definition xdr_fattr4_homogeneous :: "'x xdrlib \<Rightarrow> ('x, u32) xdrproc" where
  "xdr_fattr4_homogeneous L = xdr_bool L"

definition xdr_fattr4_maxfilesize :: "'x xdrlib \<Rightarrow> ('x, u64) xdrproc" where
  "xdr_fattr4_maxfilesize L = xdr_uint64_t L"

definition xdr_fattr4_maxlink :: "'x xdrlib \<Rightarrow> ('x, u32) xdrproc" where
  "xdr_fattr4_maxlink L = xdr_uint32_t L"

definition xdr_fattr4_maxname :: "'x xdrlib \<Rightarrow> ('x, u32) xdrproc" where
  "xdr_fattr4_maxname L = xdr_uint32_t L"

definition xdr_fattr4_maxread :: "'x xdrlib \<Rightarrow> ('x, u64) xdrproc" where
  "xdr_fattr4_maxread L = xdr_uint64_t L"

definition xdr_fattr4_maxwrite :: "'x xdrlib \<Rightarrow> ('x, u64) xdrproc" where
  "xdr_fattr4_maxwrite L = xdr_uint64_t L"

definition xdr_fattr4_mimetype :: "'x xdrlib \<Rightarrow> ('x, u8 list) xdrproc" where
  "xdr_fattr4_mimetype L = xdr_ascii_REQUIRED4 L"

definition xdr_fattr4_mode :: "'x xdrlib \<Rightarrow> ('x, u32) xdrproc" where
  "xdr_fattr4_mode L = xdr_mode4 L"

definition xdr_fattr4_mounted_on_fileid :: "'x xdrlib \<Rightarrow> ('x, u64) xdrproc" where
  "xdr_fattr4_mounted_on_fileid L = xdr_uint64_t L"

definition xdr_fattr4_no_trunc :: "'x xdrlib \<Rightarrow> ('x, u32) xdrproc" where
  "xdr_fattr4_no_trunc L = xdr_bool L"

definition xdr_fattr4_numlinks :: "'x xdrlib \<Rightarrow> ('x, u32) xdrproc" where
  "xdr_fattr4_numlinks L = xdr_uint32_t L"

definition xdr_fattr4_owner :: "'x xdrlib \<Rightarrow> ('x, u8 list) xdrproc" where
  "xdr_fattr4_owner L = xdr_utf8str_mixed L"

definition xdr_fattr4_owner_group :: "'x xdrlib \<Rightarrow> ('x, u8 list) xdrproc" where
  "xdr_fattr4_owner_group L = xdr_utf8str_mixed L"

definition xdr_fattr4_quota_avail_hard :: "'x xdrlib \<Rightarrow> ('x, u64) xdrproc" where
  "xdr_fattr4_quota_avail_hard L = xdr_uint64_t L"

definition xdr_fattr4_quota_avail_soft :: "'x xdrlib \<Rightarrow> ('x, u64) xdrproc" where
  "xdr_fattr4_quota_avail_soft L = xdr_uint64_t L"

definition xdr_fattr4_quota_used :: "'x xdrlib \<Rightarrow> ('x, u64) xdrproc" where
  "xdr_fattr4_quota_used L = xdr_uint64_t L"

definition xdr_fattr4_rawdev :: "'x xdrlib \<Rightarrow> ('x, specdata4) xdrproc" where
  "xdr_fattr4_rawdev L = xdr_specdata4 L"

definition xdr_fattr4_space_avail :: "'x xdrlib \<Rightarrow> ('x, u64) xdrproc" where
  "xdr_fattr4_space_avail L = xdr_uint64_t L"

definition xdr_fattr4_space_free :: "'x xdrlib \<Rightarrow> ('x, u64) xdrproc" where
  "xdr_fattr4_space_free L = xdr_uint64_t L"

definition xdr_fattr4_space_total :: "'x xdrlib \<Rightarrow> ('x, u64) xdrproc" where
  "xdr_fattr4_space_total L = xdr_uint64_t L"

definition xdr_fattr4_space_used :: "'x xdrlib \<Rightarrow> ('x, u64) xdrproc" where
  "xdr_fattr4_space_used L = xdr_uint64_t L"

definition xdr_fattr4_system :: "'x xdrlib \<Rightarrow> ('x, u32) xdrproc" where
  "xdr_fattr4_system L = xdr_bool L"

definition xdr_fattr4_time_access :: "'x xdrlib \<Rightarrow> ('x, nfstime4) xdrproc" where
  "xdr_fattr4_time_access L = xdr_nfstime4 L"

definition xdr_fattr4_time_access_set :: "'x xdrlib \<Rightarrow> ('x, settime4) xdrproc" where
  "xdr_fattr4_time_access_set L = xdr_settime4 L"

definition xdr_fattr4_time_backup :: "'x xdrlib \<Rightarrow> ('x, nfstime4) xdrproc" where
  "xdr_fattr4_time_backup L = xdr_nfstime4 L"

definition xdr_fattr4_time_create :: "'x xdrlib \<Rightarrow> ('x, nfstime4) xdrproc" where
  "xdr_fattr4_time_create L = xdr_nfstime4 L"

definition xdr_fattr4_time_delta :: "'x xdrlib \<Rightarrow> ('x, nfstime4) xdrproc" where
  "xdr_fattr4_time_delta L = xdr_nfstime4 L"

definition xdr_fattr4_time_metadata :: "'x xdrlib \<Rightarrow> ('x, nfstime4) xdrproc" where
  "xdr_fattr4_time_metadata L = xdr_nfstime4 L"

definition xdr_fattr4_time_modify :: "'x xdrlib \<Rightarrow> ('x, nfstime4) xdrproc" where
  "xdr_fattr4_time_modify L = xdr_nfstime4 L"

definition xdr_fattr4_time_modify_set :: "'x xdrlib \<Rightarrow> ('x, settime4) xdrproc" where
  "xdr_fattr4_time_modify_set L = xdr_settime4 L"

section \<open>The filters implement the formats\<close>

lemma zero_fresh [simp]: "fresh fs_location4_format fs_location4_zero" "fresh nfsace4_format nfsace4_zero"
  by (simp_all add: fs_location4_format_def fs_location4_zero_def nfsace4_format_def nfsace4_zero_def)

lemma pathname4_codec [xdr_codecs]: "xdr_lib_ok L V \<Longrightarrow> xdr_array_ok V [] arr \<Longrightarrow> codec V (xdr_pathname4 L arr) (array_format (- 1) (bytes_format (- 1)))"
  unfolding xdr_pathname4_def by (rule xdr_array_codec, assumption, rule xdr_codecs, (assumption | simp)+)

lemma fs_location4_codec [xdr_codecs]: "xdr_lib_ok L V \<Longrightarrow> xdr_array_ok V [] arr \<Longrightarrow> codec V (xdr_fs_location4 L arr) fs_location4_format"
  unfolding xdr_fs_location4_def fs_location4_format_def by (rule codecI, (rule codec_rules xdr_codecs xdr_array_codec[where arr = arr and z = "[]"] | assumption | (auto)[1])+)

lemma fs_locations4_codec [xdr_codecs]: "xdr_lib_ok L V \<Longrightarrow> xdr_array_ok V [] arr \<Longrightarrow> xdr_array_ok V fs_location4_zero loc \<Longrightarrow> codec V (xdr_fs_locations4 L arr loc) fs_locations4_format"
  unfolding xdr_fs_locations4_def fs_locations4_format_def by (rule codecI, (rule codec_rules xdr_codecs xdr_array_codec[where arr = loc and z = fs_location4_zero] | assumption | (auto)[1])+)

lemma fattr4_supported_attrs_codec [xdr_codecs]: "xdr_lib_ok L V \<Longrightarrow> codec V (xdr_fattr4_supported_attrs L) (array_format (- 1) u32_format)"
  unfolding xdr_fattr4_supported_attrs_def by (rule xdr_codecs, assumption+)

lemma fattr4_type_codec [xdr_codecs]: "xdr_lib_ok L V \<Longrightarrow> codec V (xdr_fattr4_type L) u32_format"
  unfolding xdr_fattr4_type_def by (rule xdr_codecs, assumption+)

lemma fattr4_fh_expire_type_codec [xdr_codecs]: "xdr_lib_ok L V \<Longrightarrow> codec V (xdr_fattr4_fh_expire_type L) u32_format"
  unfolding xdr_fattr4_fh_expire_type_def by (rule xdr_codecs, assumption+)

lemma fattr4_change_codec [xdr_codecs]: "xdr_lib_ok L V \<Longrightarrow> codec V (xdr_fattr4_change L) u64_format"
  unfolding xdr_fattr4_change_def by (rule xdr_codecs, assumption+)

lemma fattr4_size_codec [xdr_codecs]: "xdr_lib_ok L V \<Longrightarrow> codec V (xdr_fattr4_size L) u64_format"
  unfolding xdr_fattr4_size_def by (rule xdr_codecs, assumption+)

lemma fattr4_link_support_codec [xdr_codecs]: "xdr_lib_ok L V \<Longrightarrow> codec V (xdr_fattr4_link_support L) bool_format"
  unfolding xdr_fattr4_link_support_def by (rule xdr_codecs, assumption+)

lemma fattr4_symlink_support_codec [xdr_codecs]: "xdr_lib_ok L V \<Longrightarrow> codec V (xdr_fattr4_symlink_support L) bool_format"
  unfolding xdr_fattr4_symlink_support_def by (rule xdr_codecs, assumption+)

lemma fattr4_named_attr_codec [xdr_codecs]: "xdr_lib_ok L V \<Longrightarrow> codec V (xdr_fattr4_named_attr L) bool_format"
  unfolding xdr_fattr4_named_attr_def by (rule xdr_codecs, assumption+)

lemma fattr4_fsid_codec [xdr_codecs]: "xdr_lib_ok L V \<Longrightarrow> codec V (xdr_fattr4_fsid L) fsid4_format"
  unfolding xdr_fattr4_fsid_def by (rule xdr_codecs, assumption+)

lemma fattr4_unique_handles_codec [xdr_codecs]: "xdr_lib_ok L V \<Longrightarrow> codec V (xdr_fattr4_unique_handles L) bool_format"
  unfolding xdr_fattr4_unique_handles_def by (rule xdr_codecs, assumption+)

lemma fattr4_lease_time_codec [xdr_codecs]: "xdr_lib_ok L V \<Longrightarrow> codec V (xdr_fattr4_lease_time L) u32_format"
  unfolding xdr_fattr4_lease_time_def by (rule xdr_codecs, assumption+)

lemma fattr4_rdattr_error_codec [xdr_codecs]: "xdr_lib_ok L V \<Longrightarrow> codec V (xdr_fattr4_rdattr_error L) u32_format"
  unfolding xdr_fattr4_rdattr_error_def by (rule xdr_codecs, assumption+)

lemma fattr4_acl_codec [xdr_codecs]: "xdr_lib_ok L V \<Longrightarrow> xdr_array_ok V nfsace4_zero acl \<Longrightarrow> codec V (xdr_fattr4_acl L acl) (array_format (- 1) nfsace4_format)"
  unfolding xdr_fattr4_acl_def by (rule xdr_array_codec, assumption, rule xdr_codecs, (assumption | simp)+)

lemma fattr4_aclsupport_codec [xdr_codecs]: "xdr_lib_ok L V \<Longrightarrow> codec V (xdr_fattr4_aclsupport L) u32_format"
  unfolding xdr_fattr4_aclsupport_def by (rule xdr_codecs, assumption+)

lemma fattr4_archive_codec [xdr_codecs]: "xdr_lib_ok L V \<Longrightarrow> codec V (xdr_fattr4_archive L) bool_format"
  unfolding xdr_fattr4_archive_def by (rule xdr_codecs, assumption+)

lemma fattr4_cansettime_codec [xdr_codecs]: "xdr_lib_ok L V \<Longrightarrow> codec V (xdr_fattr4_cansettime L) bool_format"
  unfolding xdr_fattr4_cansettime_def by (rule xdr_codecs, assumption+)

lemma fattr4_case_insensitive_codec [xdr_codecs]: "xdr_lib_ok L V \<Longrightarrow> codec V (xdr_fattr4_case_insensitive L) bool_format"
  unfolding xdr_fattr4_case_insensitive_def by (rule xdr_codecs, assumption+)

lemma fattr4_case_preserving_codec [xdr_codecs]: "xdr_lib_ok L V \<Longrightarrow> codec V (xdr_fattr4_case_preserving L) bool_format"
  unfolding xdr_fattr4_case_preserving_def by (rule xdr_codecs, assumption+)

lemma fattr4_chown_restricted_codec [xdr_codecs]: "xdr_lib_ok L V \<Longrightarrow> codec V (xdr_fattr4_chown_restricted L) bool_format"
  unfolding xdr_fattr4_chown_restricted_def by (rule xdr_codecs, assumption+)

lemma fattr4_fileid_codec [xdr_codecs]: "xdr_lib_ok L V \<Longrightarrow> codec V (xdr_fattr4_fileid L) u64_format"
  unfolding xdr_fattr4_fileid_def by (rule xdr_codecs, assumption+)

lemma fattr4_files_avail_codec [xdr_codecs]: "xdr_lib_ok L V \<Longrightarrow> codec V (xdr_fattr4_files_avail L) u64_format"
  unfolding xdr_fattr4_files_avail_def by (rule xdr_codecs, assumption+)

lemma fattr4_filehandle_codec [xdr_codecs]: "xdr_lib_ok L V \<Longrightarrow> codec V (xdr_fattr4_filehandle L) (bytes_format NFS4_FHSIZE)"
  unfolding xdr_fattr4_filehandle_def by (rule xdr_codecs, assumption+)

lemma fattr4_files_free_codec [xdr_codecs]: "xdr_lib_ok L V \<Longrightarrow> codec V (xdr_fattr4_files_free L) u64_format"
  unfolding xdr_fattr4_files_free_def by (rule xdr_codecs, assumption+)

lemma fattr4_files_total_codec [xdr_codecs]: "xdr_lib_ok L V \<Longrightarrow> codec V (xdr_fattr4_files_total L) u64_format"
  unfolding xdr_fattr4_files_total_def by (rule xdr_codecs, assumption+)

lemma fattr4_fs_locations_codec [xdr_codecs]: "xdr_lib_ok L V \<Longrightarrow> xdr_array_ok V [] arr \<Longrightarrow> xdr_array_ok V fs_location4_zero loc \<Longrightarrow> codec V (xdr_fattr4_fs_locations L arr loc) fs_locations4_format"
  unfolding xdr_fattr4_fs_locations_def by (rule xdr_codecs, assumption+)

lemma fattr4_hidden_codec [xdr_codecs]: "xdr_lib_ok L V \<Longrightarrow> codec V (xdr_fattr4_hidden L) bool_format"
  unfolding xdr_fattr4_hidden_def by (rule xdr_codecs, assumption+)

lemma fattr4_homogeneous_codec [xdr_codecs]: "xdr_lib_ok L V \<Longrightarrow> codec V (xdr_fattr4_homogeneous L) bool_format"
  unfolding xdr_fattr4_homogeneous_def by (rule xdr_codecs, assumption+)

lemma fattr4_maxfilesize_codec [xdr_codecs]: "xdr_lib_ok L V \<Longrightarrow> codec V (xdr_fattr4_maxfilesize L) u64_format"
  unfolding xdr_fattr4_maxfilesize_def by (rule xdr_codecs, assumption+)

lemma fattr4_maxlink_codec [xdr_codecs]: "xdr_lib_ok L V \<Longrightarrow> codec V (xdr_fattr4_maxlink L) u32_format"
  unfolding xdr_fattr4_maxlink_def by (rule xdr_codecs, assumption+)

lemma fattr4_maxname_codec [xdr_codecs]: "xdr_lib_ok L V \<Longrightarrow> codec V (xdr_fattr4_maxname L) u32_format"
  unfolding xdr_fattr4_maxname_def by (rule xdr_codecs, assumption+)

lemma fattr4_maxread_codec [xdr_codecs]: "xdr_lib_ok L V \<Longrightarrow> codec V (xdr_fattr4_maxread L) u64_format"
  unfolding xdr_fattr4_maxread_def by (rule xdr_codecs, assumption+)

lemma fattr4_maxwrite_codec [xdr_codecs]: "xdr_lib_ok L V \<Longrightarrow> codec V (xdr_fattr4_maxwrite L) u64_format"
  unfolding xdr_fattr4_maxwrite_def by (rule xdr_codecs, assumption+)

lemma fattr4_mimetype_codec [xdr_codecs]: "xdr_lib_ok L V \<Longrightarrow> codec V (xdr_fattr4_mimetype L) (bytes_format (- 1))"
  unfolding xdr_fattr4_mimetype_def by (rule xdr_codecs, assumption+)

lemma fattr4_mode_codec [xdr_codecs]: "xdr_lib_ok L V \<Longrightarrow> codec V (xdr_fattr4_mode L) u32_format"
  unfolding xdr_fattr4_mode_def by (rule xdr_codecs, assumption+)

lemma fattr4_mounted_on_fileid_codec [xdr_codecs]: "xdr_lib_ok L V \<Longrightarrow> codec V (xdr_fattr4_mounted_on_fileid L) u64_format"
  unfolding xdr_fattr4_mounted_on_fileid_def by (rule xdr_codecs, assumption+)

lemma fattr4_no_trunc_codec [xdr_codecs]: "xdr_lib_ok L V \<Longrightarrow> codec V (xdr_fattr4_no_trunc L) bool_format"
  unfolding xdr_fattr4_no_trunc_def by (rule xdr_codecs, assumption+)

lemma fattr4_numlinks_codec [xdr_codecs]: "xdr_lib_ok L V \<Longrightarrow> codec V (xdr_fattr4_numlinks L) u32_format"
  unfolding xdr_fattr4_numlinks_def by (rule xdr_codecs, assumption+)

lemma fattr4_owner_codec [xdr_codecs]: "xdr_lib_ok L V \<Longrightarrow> codec V (xdr_fattr4_owner L) (bytes_format (- 1))"
  unfolding xdr_fattr4_owner_def by (rule xdr_codecs, assumption+)

lemma fattr4_owner_group_codec [xdr_codecs]: "xdr_lib_ok L V \<Longrightarrow> codec V (xdr_fattr4_owner_group L) (bytes_format (- 1))"
  unfolding xdr_fattr4_owner_group_def by (rule xdr_codecs, assumption+)

lemma fattr4_quota_avail_hard_codec [xdr_codecs]: "xdr_lib_ok L V \<Longrightarrow> codec V (xdr_fattr4_quota_avail_hard L) u64_format"
  unfolding xdr_fattr4_quota_avail_hard_def by (rule xdr_codecs, assumption+)

lemma fattr4_quota_avail_soft_codec [xdr_codecs]: "xdr_lib_ok L V \<Longrightarrow> codec V (xdr_fattr4_quota_avail_soft L) u64_format"
  unfolding xdr_fattr4_quota_avail_soft_def by (rule xdr_codecs, assumption+)

lemma fattr4_quota_used_codec [xdr_codecs]: "xdr_lib_ok L V \<Longrightarrow> codec V (xdr_fattr4_quota_used L) u64_format"
  unfolding xdr_fattr4_quota_used_def by (rule xdr_codecs, assumption+)

lemma fattr4_rawdev_codec [xdr_codecs]: "xdr_lib_ok L V \<Longrightarrow> codec V (xdr_fattr4_rawdev L) specdata4_format"
  unfolding xdr_fattr4_rawdev_def by (rule xdr_codecs, assumption+)

lemma fattr4_space_avail_codec [xdr_codecs]: "xdr_lib_ok L V \<Longrightarrow> codec V (xdr_fattr4_space_avail L) u64_format"
  unfolding xdr_fattr4_space_avail_def by (rule xdr_codecs, assumption+)

lemma fattr4_space_free_codec [xdr_codecs]: "xdr_lib_ok L V \<Longrightarrow> codec V (xdr_fattr4_space_free L) u64_format"
  unfolding xdr_fattr4_space_free_def by (rule xdr_codecs, assumption+)

lemma fattr4_space_total_codec [xdr_codecs]: "xdr_lib_ok L V \<Longrightarrow> codec V (xdr_fattr4_space_total L) u64_format"
  unfolding xdr_fattr4_space_total_def by (rule xdr_codecs, assumption+)

lemma fattr4_space_used_codec [xdr_codecs]: "xdr_lib_ok L V \<Longrightarrow> codec V (xdr_fattr4_space_used L) u64_format"
  unfolding xdr_fattr4_space_used_def by (rule xdr_codecs, assumption+)

lemma fattr4_system_codec [xdr_codecs]: "xdr_lib_ok L V \<Longrightarrow> codec V (xdr_fattr4_system L) bool_format"
  unfolding xdr_fattr4_system_def by (rule xdr_codecs, assumption+)

lemma fattr4_time_access_codec [xdr_codecs]: "xdr_lib_ok L V \<Longrightarrow> codec V (xdr_fattr4_time_access L) nfstime4_format"
  unfolding xdr_fattr4_time_access_def by (rule xdr_codecs, assumption+)

lemma fattr4_time_access_set_codec [xdr_codecs]: "xdr_lib_ok L V \<Longrightarrow> codec V (xdr_fattr4_time_access_set L) settime4_format"
  unfolding xdr_fattr4_time_access_set_def by (rule xdr_codecs, assumption+)

lemma fattr4_time_backup_codec [xdr_codecs]: "xdr_lib_ok L V \<Longrightarrow> codec V (xdr_fattr4_time_backup L) nfstime4_format"
  unfolding xdr_fattr4_time_backup_def by (rule xdr_codecs, assumption+)

lemma fattr4_time_create_codec [xdr_codecs]: "xdr_lib_ok L V \<Longrightarrow> codec V (xdr_fattr4_time_create L) nfstime4_format"
  unfolding xdr_fattr4_time_create_def by (rule xdr_codecs, assumption+)

lemma fattr4_time_delta_codec [xdr_codecs]: "xdr_lib_ok L V \<Longrightarrow> codec V (xdr_fattr4_time_delta L) nfstime4_format"
  unfolding xdr_fattr4_time_delta_def by (rule xdr_codecs, assumption+)

lemma fattr4_time_metadata_codec [xdr_codecs]: "xdr_lib_ok L V \<Longrightarrow> codec V (xdr_fattr4_time_metadata L) nfstime4_format"
  unfolding xdr_fattr4_time_metadata_def by (rule xdr_codecs, assumption+)

lemma fattr4_time_modify_codec [xdr_codecs]: "xdr_lib_ok L V \<Longrightarrow> codec V (xdr_fattr4_time_modify L) nfstime4_format"
  unfolding xdr_fattr4_time_modify_def by (rule xdr_codecs, assumption+)

lemma fattr4_time_modify_set_codec [xdr_codecs]: "xdr_lib_ok L V \<Longrightarrow> codec V (xdr_fattr4_time_modify_set L) settime4_format"
  unfolding xdr_fattr4_time_modify_set_def by (rule xdr_codecs, assumption+)

end
