(* ===== verification/Uart.thy ===== *)
theory Uart
  imports Shell
begin

text \<open>
  The aarch64 console, \<open>kernel/arch/aarch64/uart.c\<close> with the register layouts of
  \<open>uart.h\<close>, and \<open>kernel/arch/aarch64/arch.c\<close>. The UART itself is hardware: its
  registers are read and written through the parameter \<open>mmio\<close>, whose state \<open>hw\<close> is
  part of the machine's. A busy-wait that never ends is \<open>Diverges\<close>; the lemmas on
  \<open>wait_while\<close> say when it ends.
\<close>

section \<open>State and devices\<close>

record 'h mmio =
  mm_read :: "u64 \<Rightarrow> 'h \<Rightarrow> u32 \<times> 'h"
  mm_write :: "u64 \<Rightarrow> u32 \<Rightarrow> 'h \<Rightarrow> 'h"
  mm_write64 :: "u64 \<Rightarrow> u64 \<Rightarrow> 'h \<Rightarrow> 'h"
  mm_plain :: "nat \<Rightarrow> bool"     \<comment> \<open>memory that no device, firmware or part of the kernel owns\<close>

record serial_info =
  sbase :: u64
  baud :: u32
  stype :: u8
  model :: u16

record 'h a64_state = shell_state +
  uart_ns :: u64
  uart_pl :: u64
  uart_fallback :: u64
  a64_kcallback :: bool     \<comment> \<open>\<open>arch_init\<close> has stored the shell's callback\<close>
  irq_active :: bool        \<comment> \<open>the interrupt controller: acknowledged and not ended\<close>
  hw :: 'h

section \<open>Registers\<close>

definition ns_rthr :: u64 where "ns_rthr = 0x000"
definition ns_lcr :: u64 where "ns_lcr = 0x010"
definition ns_lsr :: u64 where "ns_lsr = 0x018"

definition pl_dr :: u64 where "pl_dr = 0x000"
definition pl_fr :: u64 where "pl_fr = 0x018"
definition pl_lcr :: u64 where "pl_lcr = 0x02C"
definition pl_cr :: u64 where "pl_cr = 0x030"
definition pl_imsc :: u64 where "pl_imsc = 0x038"
definition pl_mis :: u64 where "pl_mis = 0x040"
definition pl_icr :: u64 where "pl_icr = 0x044"

definition reg_write :: "'h mmio \<Rightarrow> u64 \<Rightarrow> u32 \<Rightarrow> 'h a64_state \<Rightarrow> 'h a64_state" where
  "reg_write mm a v s = s\<lparr>hw := mm_write mm a v (hw s)\<rparr>"

definition reg_read :: "'h mmio \<Rightarrow> u64 \<Rightarrow> 'h a64_state \<Rightarrow> u32 \<times> 'h a64_state" where
  "reg_read mm a s = (let (v, h) = mm_read mm a (hw s) in (v, s\<lparr>hw := h\<rparr>))"

text \<open>\<open>while (busy(*reg));\<close>\<close>

partial_function (option) wait_while :: "'h mmio \<Rightarrow> u64 \<Rightarrow> (u32 \<Rightarrow> bool) \<Rightarrow> 'h \<Rightarrow> 'h option" where
  "wait_while mm a busy h =
     (if busy (fst (mm_read mm a h)) then wait_while mm a busy (snd (mm_read mm a h)) else Some (snd (mm_read mm a h)))"

definition spin :: "'h mmio \<Rightarrow> u64 \<Rightarrow> (u32 \<Rightarrow> bool) \<Rightarrow> 'h a64_state \<Rightarrow> 'h a64_state res" where
  "spin mm a busy s = (case wait_while mm a busy (hw s) of None \<Rightarrow> Inl Diverges | Some h \<Rightarrow> Inr (s\<lparr>hw := h\<rparr>))"

section \<open>The driver\<close>

definition uart_putc :: "'h mmio \<Rightarrow> u8 \<Rightarrow> 'h a64_state \<Rightarrow> 'h a64_state res" where
  "uart_putc mm c s =
     (if uart_ns s \<noteq> 0 then
        bindR (spin mm (uart_ns s + ns_lsr) (\<lambda>v. v AND 0x20 = 0) s) (\<lambda>s.
          Inr (reg_write mm (uart_ns s + ns_rthr) (ucast c) s))
      else if uart_pl s \<noteq> 0 then
        bindR (spin mm (uart_pl s + pl_fr) (\<lambda>v. v AND 0x20 \<noteq> 0) s) (\<lambda>s.
          Inr (reg_write mm (uart_pl s + pl_dr) (ucast c) s))
      else if uart_fallback s \<noteq> 0 then Inr (s\<lparr>hw := mm_write64 mm (uart_fallback s) (ucast c) (hw s)\<rparr>)
      else Inl NullDeref)"

definition a64_putc :: "'h mmio \<Rightarrow> u8 \<Rightarrow> 'h a64_state \<Rightarrow> 'h a64_state res" where
  "a64_putc mm c s = uart_putc mm c s"

definition a64_puts :: "'h mmio \<Rightarrow> ptr \<Rightarrow> 'h a64_state \<Rightarrow> 'h a64_state res" where
  "a64_puts mm p s = puts_with (uart_putc mm) p s"

definition uart_init :: "'h mmio \<Rightarrow> serial_info \<Rightarrow> 'h a64_state \<Rightarrow> 'h a64_state res" where
  "uart_init mm serial s =
     (let s = s\<lparr>uart_fallback := sbase serial\<rparr> in
      if model serial \<in> {0x00, 0x01, 0x05} then
        let s = s\<lparr>uart_ns := sbase serial\<rparr> in
        if uart_ns s = 0 then Inl NullDeref
        else a64_puts mm (Ptr (Lit (''[AArch64] UART type is NS16550'' @ [CHR 10])) 0)
               (reg_write mm (uart_ns s + ns_lcr) 0x03 s)
      else if model serial = 0x03 then
        let s = s\<lparr>uart_pl := sbase serial\<rparr> in
        if uart_pl s = 0 then Inl NullDeref
        else
          let s = reg_write mm (uart_pl s + pl_cr) 0x00 s;
              s = reg_write mm (uart_pl s + pl_lcr) 0x70 s;
              (v, s) = reg_read mm (uart_pl s + pl_imsc) s;
              s = reg_write mm (uart_pl s + pl_imsc) (v OR 0x10) s;
              s = reg_write mm (uart_pl s + pl_cr) 0x0301 s
          in a64_puts mm (Ptr (Lit (''[AArch64] UART type is PL011'' @ [CHR 10])) 0) s
      else Inr s)"

definition uart_getc :: "'h mmio \<Rightarrow> 'h a64_state \<Rightarrow> (u8 \<times> 'h a64_state) res" where
  "uart_getc mm s =
     (if uart_ns s \<noteq> 0 then
        bindR (spin mm (uart_ns s + ns_lsr) (\<lambda>v. v AND 0x01 = 0) s) (\<lambda>s.
          let (v, s) = reg_read mm (uart_ns s + ns_rthr) s in Inr (ucast v, s))
      else if uart_pl s \<noteq> 0 then
        bindR (spin mm (uart_pl s + pl_fr) (\<lambda>v. v AND 0x10 \<noteq> 0) s) (\<lambda>s.
          let (v, s) = reg_read mm (uart_pl s + pl_dr) s in Inr (ucast v, s))
      else Inr (0, s))"

text \<open>The result \<open>Some c\<close> is a return of 1 with \<open>c\<close> stored through the argument.\<close>

definition uart_poll :: "'h mmio \<Rightarrow> 'h a64_state \<Rightarrow> u8 option \<times> 'h a64_state" where
  "uart_poll mm s =
     (if uart_ns s \<noteq> 0 then
        let (l, s) = reg_read mm (uart_ns s + ns_lsr) s in
        if l AND 0x01 \<noteq> 0 then let (v, s) = reg_read mm (uart_ns s + ns_rthr) s in (Some (ucast v), s) else (None, s)
      else if uart_pl s \<noteq> 0 then
        let (l, s) = reg_read mm (uart_pl s + pl_fr) s in
        if l AND 0x10 = 0 then let (v, s) = reg_read mm (uart_pl s + pl_dr) s in (Some (ucast v), s) else (None, s)
      else (None, s))"

type_synonym 'h a64_callback = "u8 \<Rightarrow> u8 \<Rightarrow> 'h a64_state \<Rightarrow> 'h a64_state res"

definition uart_int :: "'h mmio \<Rightarrow> 'h a64_callback \<Rightarrow> 'h a64_state \<Rightarrow> 'h a64_state res" where
  "uart_int mm kc s =
     (if uart_pl s \<noteq> 0 then
        let (v, s) = reg_read mm (uart_pl s + pl_mis) s in
        if v AND 0x10 \<noteq> 0 then
          bindR (uart_getc mm s) (\<lambda>(c, s).
          bindR (kc c 0 s) (\<lambda>s. Inr (reg_write mm (uart_pl s + pl_icr) 0x10 s)))
        else Inr s
      else Inr s)"

section \<open>The architecture layer\<close>

text \<open>The serial line has no cursor to move.\<close>

definition a64_setpos_x :: "u8 \<Rightarrow> 'h a64_state \<Rightarrow> 'h a64_state" where
  "a64_setpos_x x s = s"

definition a64_setpos :: "u8 \<Rightarrow> u8 \<Rightarrow> 'h a64_state \<Rightarrow> 'h a64_state" where
  "a64_setpos x y s = s"

definition a64_getpos :: "'h a64_state \<Rightarrow> u16 \<times> 'h a64_state" where
  "a64_getpos s = (0, s)"

definition a64_clrline :: "'h a64_state \<Rightarrow> 'h a64_state" where
  "a64_clrline s = s"

definition a64_console :: "'h mmio \<Rightarrow> ('h a64_state) console" where
  "a64_console mm = \<lparr>con_putc = a64_putc mm, con_puts = a64_puts mm, con_setpos_x = (\<lambda>x s. Inr (a64_setpos_x x s)),
     con_clrline = (\<lambda>s. Inr (a64_clrline s)), con_plain = mm_plain mm\<rparr>"

definition parse_boot_info :: "'h mmio \<Rightarrow> serial_info \<Rightarrow> 'h a64_state \<Rightarrow> 'h a64_state res" where
  "parse_boot_info mm serial s = uart_init mm serial s"

definition a64_arch_init :: "'h mmio \<Rightarrow> 'h a64_state \<Rightarrow> 'h a64_state res" where
  "a64_arch_init mm s =
     bindR (a64_puts mm (Ptr (Lit ''Press any key...'') 0) (s\<lparr>a64_kcallback := True\<rparr>)) (\<lambda>s.
     bindR (uart_getc mm s) (\<lambda>(c, s). a64_putc mm c s))"

record interrupt_frame =
  f_esr :: u64
  f_elr :: u64
  f_far :: u64

definition a64_exception_handler :: "'d fpu \<Rightarrow> 'h mmio \<Rightarrow> interrupt_frame \<Rightarrow> 'h a64_state \<Rightarrow> 'h a64_state res" where
  "a64_exception_handler fp mm fr s =
     bindR (printf AArch64 fp (a64_putc mm)
       (Ptr (Lit (''Exception ocurred, esr 0x%016X, elr 0x%016X, far 0x%016X'' @ [CHR 10])) 0)
       [VI64 (f_esr fr), VI64 (f_elr fr), VI64 (f_far fr)] s) (\<lambda>(_, s). Inr s)"

text \<open>
  The interrupt number is read from \<open>ICC_IAR1_EL1\<close> and not used. Reading this register
  acknowledges the interrupt to the controller, for which it is active from then on, until its number is
  written to \<open>ICC_EOIR1_EL1\<close>; no code of the kernel does that.
\<close>

definition interrupt_handler :: "'d fpu \<Rightarrow> 'h mmio \<Rightarrow> 'h a64_state \<Rightarrow> 'h a64_state res" where
  "interrupt_handler fp mm s =
     (let s = s\<lparr>irq_active := True\<rparr> in
      uart_int mm (\<lambda>c ks s. if a64_kcallback s then kcallback AArch64 fp (a64_console mm) c ks s else Inl NullDeref) s)"

section \<open>Busy-waiting\<close>

fun reads :: "'h mmio \<Rightarrow> u64 \<Rightarrow> nat \<Rightarrow> 'h \<Rightarrow> 'h" where
  "reads mm a 0 h = h"
| "reads mm a (Suc n) h = reads mm a n (snd (mm_read mm a h))"

lemma wait_while_ends:
  assumes "\<not> busy (fst (mm_read mm a (reads mm a n h)))" and "\<And>k. k < n \<Longrightarrow> busy (fst (mm_read mm a (reads mm a k h)))"
  shows "wait_while mm a busy h = Some (reads mm a (Suc n) h)"
  using assms
proof (induction n arbitrary: h)
  case 0
  then show ?case by (subst wait_while.simps) simp
next
  case (Suc n)
  let ?h = "snd (mm_read mm a h)"
  have "busy (fst (mm_read mm a h))" using Suc.prems(2)[of 0] by simp
  moreover have "wait_while mm a busy ?h = Some (reads mm a (Suc n) ?h)"
    using Suc.prems(1) Suc.prems(2)[of "Suc k" for k] by (intro Suc.IH) auto
  ultimately show ?case by (subst wait_while.simps) simp
qed

lemma wait_while_Some:
  assumes "wait_while mm a busy h = Some h'"
  shows "\<exists>n. h' = reads mm a (Suc n) h \<and> \<not> busy (fst (mm_read mm a (reads mm a n h)))"
proof (rule wait_while.raw_induct[of "\<lambda>mm a busy h h'. \<exists>n. h' = reads mm a (Suc n) h \<and>
      \<not> busy (fst (mm_read mm a (reads mm a n h)))", OF _ assms], goal_cases)
  case (1 ww mm a busy h h')
  show ?case
  proof (cases "busy (fst (mm_read mm a h))")
    case True
    then have "ww mm a busy (snd (mm_read mm a h)) = Some h'" using 1(2) by simp
    from 1(1)[OF this] obtain n where
      "h' = reads mm a (Suc n) (snd (mm_read mm a h))" "\<not> busy (fst (mm_read mm a (reads mm a n (snd (mm_read mm a h)))))"
      by blast
    then show ?thesis by (intro exI[of _ "Suc n"]) simp
  next
    case False
    then show ?thesis using 1(2) by (intro exI[of _ 0]) simp
  qed
qed

text \<open>A flag that never changes while it is polled is waited for forever.\<close>

lemma wait_while_never:
  assumes "\<And>n. busy (fst (mm_read mm a (reads mm a n h)))"
  shows "wait_while mm a busy h = None"
  using wait_while_Some[of mm a busy h] assms by (cases "wait_while mm a busy h") auto

section \<open>The console contract\<close>

lemma uart_putc_frame:
  assumes "uart_putc mm c s = Inr s'"
  shows "\<exists>h. s' = s\<lparr>hw := h\<rparr>"
  using assms by (auto simp: uart_putc_def spin_def reg_write_def split: if_splits option.splits)

lemma uart_putc_vars:
  "uart_putc mm c (s\<lparr>mem := m\<rparr>) = bindR (uart_putc mm c s) (\<lambda>s'. Inr (s'\<lparr>mem := m\<rparr>))"
  by (auto simp: uart_putc_def spin_def reg_write_def bindR_def split: option.split)

interpretation uart: console_out "uart_putc mm" for mm
proof
  fix c ob f and s s' :: "'a a64_state" assume p: "uart_putc mm c s = Inr s'" "ob \<noteq> Phys"
  obtain h where "s' = s\<lparr>hw := h\<rparr>" using uart_putc_frame[OF p(1)] by blast
  then show "uart_putc mm c (s\<lparr>mem := (mem s)(ob := f)\<rparr>) = Inr (s'\<lparr>mem := (mem s')(ob := f)\<rparr>)"
    using p(1) by (simp add: uart_putc_vars)
next
  fix c and s s' :: "'a a64_state" assume "uart_putc mm c s = Inr s'"
  from uart_putc_frame[OF this] show "olds s' = olds s" by auto
qed

section \<open>Transmission\<close>

text \<open>
  What a PL011 at \<open>base\<close> is expected to do: a full FIFO drains (the flag register shows room
  after finitely many reads), reading the flags or the interrupt mask transmits nothing, a byte written to the data
  register is appended to what is sent.
\<close>

definition pl011_sends :: "'h mmio \<Rightarrow> u64 \<Rightarrow> ('h \<Rightarrow> bool) \<Rightarrow> ('h \<Rightarrow> u8 list) \<Rightarrow> bool" where
  "pl011_sends mm base ok sent \<longleftrightarrow>
     (\<forall>h. ok h \<longrightarrow> (\<exists>n. fst (mm_read mm (base + pl_fr) (reads mm (base + pl_fr) n h)) AND 0x20 = 0)) \<and>
     (\<forall>h r. ok h \<longrightarrow> r \<in> {pl_fr, pl_imsc} \<longrightarrow>
        ok (snd (mm_read mm (base + r) h)) \<and> sent (snd (mm_read mm (base + r) h)) = sent h) \<and>
     (\<forall>h c. ok h \<longrightarrow> ok (mm_write mm (base + pl_dr) (ucast (c :: u8)) h) \<and>
        sent (mm_write mm (base + pl_dr) (ucast c) h) = sent h @ [c])"

lemma pl011_read:
  assumes "pl011_sends mm base ok sent" and "ok h" and "r \<in> {pl_fr, pl_imsc}"
  shows "ok (snd (mm_read mm (base + r) h))" "sent (snd (mm_read mm (base + r) h)) = sent h"
  using assms unfolding pl011_sends_def by blast+

lemma reads_sent:
  assumes "pl011_sends mm base ok sent" and "ok h"
  shows "ok (reads mm (base + pl_fr) n h) \<and> sent (reads mm (base + pl_fr) n h) = sent h"
  using assms(2)
proof (induction n arbitrary: h)
  case (Suc n)
  then show ?case using pl011_read[OF assms(1), of h pl_fr] Suc.IH[of "snd (mm_read mm (base + pl_fr) h)"] by simp
qed simp

lemma uart_putc_sends:
  assumes dev: "pl011_sends mm (uart_pl s) ok sent" and "ok (hw s)" and "uart_ns s = 0" and "uart_pl s \<noteq> 0"
  shows "\<exists>h. uart_putc mm c s = Inr (s\<lparr>hw := h\<rparr>) \<and> ok h \<and> sent h = sent (hw s) @ [c]"
proof -
  let ?a = "uart_pl s + pl_fr"
  let ?free = "\<lambda>n. fst (mm_read mm ?a (reads mm ?a n (hw s))) AND 0x20 = 0"
  have "\<exists>n. ?free n" using dev assms(2) unfolding pl011_sends_def by blast
  then have "?free (LEAST n. ?free n)" by (rule LeastI_ex)
  moreover have "\<not> ?free k" if "k < (LEAST n. ?free n)" for k using not_less_Least[OF that] .
  ultimately obtain n where n: "wait_while mm ?a (\<lambda>v. v AND 0x20 \<noteq> 0) (hw s) = Some (reads mm ?a (Suc n) (hw s))"
    using wait_while_ends[of "\<lambda>v. v AND 0x20 \<noteq> 0" mm ?a "LEAST n. ?free n" "hw s"] by auto
  define h where "h = reads mm ?a (Suc n) (hw s)"
  have h: "ok h" "sent h = sent (hw s)" using reads_sent[OF dev assms(2)] unfolding h_def by blast+
  define h' where "h' = mm_write mm (uart_pl s + pl_dr) (ucast c) h"
  have "uart_putc mm c s = Inr (s\<lparr>hw := h'\<rparr>)"
    using n[folded h_def] assms(3,4) by (simp add: uart_putc_def spin_def reg_write_def h'_def)
  moreover have "ok h'" "sent h' = sent h @ [c]" using dev h(1) unfolding pl011_sends_def h'_def by blast+
  ultimately show ?thesis using h(2) by auto
qed

lemma foldR_uart_sends:
  assumes "pl011_sends mm (uart_pl s) ok sent" and "ok (hw s)" and "uart_ns s = 0" and "uart_pl s \<noteq> 0"
  shows "\<exists>h. foldR (uart_putc mm) t s = Inr (s\<lparr>hw := h\<rparr>) \<and> ok h \<and> sent h = sent (hw s) @ t"
  using assms
proof (induction t arbitrary: s)
  case Nil
  then show ?case by (auto intro!: exI[of _ "hw s"])
next
  case (Cons c t)
  obtain h where h: "uart_putc mm c s = Inr (s\<lparr>hw := h\<rparr>)" "ok h" "sent h = sent (hw s) @ [c]"
    using uart_putc_sends[OF Cons.prems] by blast
  from Cons.IH[of "s\<lparr>hw := h\<rparr>"] h Cons.prems obtain h' where
    "foldR (uart_putc mm) t (s\<lparr>hw := h\<rparr>) = Inr (s\<lparr>hw := h'\<rparr>)" "ok h'" "sent h' = sent h @ t" by auto
  with h show ?case by auto
qed

end
