(* ===== verification/A64.thy ===== *)
theory A64
  imports Uart ShellCmd
begin

text \<open>
  The aarch64 kernel as a whole: \<open>_start\<close> of \<open>arch/aarch64/boot.asm\<close> calls
  \<open>parse_boot_info\<close> and \<open>kmain\<close>; a receive interrupt of the PL011 then
  runs \<open>interrupt_handler\<close>, which hands the byte to the shell and leaves the interrupt active.
  The UART console is an instance of the shell's interface \<open>shell_console\<close>: what it shows is the
  list of bytes sent.
\<close>

section \<open>Definitions\<close>

text \<open>\<open>kmain\<close> of \<open>kernel/kernel.c\<close> with this architecture's functions, up to its endless
  loop of \<open>wfe\<close>.\<close>

definition a64_kmain :: "'d fpu \<Rightarrow> 'h mmio \<Rightarrow> 'h a64_state \<Rightarrow> 'h a64_state res" where
  "a64_kmain fp mm s =
     bindR (a64_arch_init mm s) (\<lambda>s.
     bindR (shell_printf AArch64 fp (a64_console mm) (''Hello World!'' @ [CHR 10]) [] s) (shell_init (a64_console mm)))"

definition a64_entry :: "'d fpu \<Rightarrow> 'h mmio \<Rightarrow> serial_info \<Rightarrow> 'h a64_state \<Rightarrow> 'h a64_state res" where
  "a64_entry fp mm serial s = bindR (parse_boot_info mm serial s) (a64_kmain fp mm)"

text \<open>
  The device raises its receive interrupt with the byte \<open>c\<close> to be read first
  (\<open>arrive\<close> is the device's part). The interrupt controller signals it to the processor unless it is
  still active from the last time; an active interrupt only becomes pending again.
\<close>

definition a64_irq :: "'d fpu \<Rightarrow> 'h mmio \<Rightarrow> (u8 \<Rightarrow> 'h \<Rightarrow> 'h) \<Rightarrow> u8 \<Rightarrow> 'h a64_state \<Rightarrow> 'h a64_state res" where
  "a64_irq fp mm arrive c s =
     (let s = s\<lparr>hw := arrive c (hw s)\<rparr> in
      if irq_active s then Inr s else interrupt_handler fp mm s)"

section \<open>The UART as the shell's console\<close>

lemma a64_putc_eq: "a64_putc mm = uart_putc mm"
  by (rule ext)+ (simp add: a64_putc_def)

text \<open>\<open>kc\<close> is what no console operation changes: the callback is stored, an interrupt is active.\<close>

definition a64_ok :: "'h mmio \<Rightarrow> u64 \<Rightarrow> ('h \<Rightarrow> bool) \<Rightarrow> ('h \<Rightarrow> u8 list) \<Rightarrow> bool \<times> bool \<Rightarrow> 'h a64_state \<Rightarrow> bool" where
  "a64_ok mm base ok sent kc s \<longleftrightarrow> pl011_sends mm base ok sent \<and> base \<noteq> 0 \<and> uart_ns s = 0 \<and> uart_pl s = base \<and>
     (a64_kcallback s, irq_active s) = kc \<and> ok (hw s)"

lemma a64_putc_ok:
  assumes "a64_ok mm base ok sent kc s"
  shows "\<exists>h. uart_putc mm c s = Inr (s\<lparr>hw := h\<rparr>) \<and> a64_ok mm base ok sent kc (s\<lparr>hw := h\<rparr>) \<and> sent h = sent (hw s) @ [c]"
  using uart_putc_sends[of mm s ok sent c] assms by (auto simp: a64_ok_def)

interpretation a64: shell_console "a64_console mm" "a64_ok mm base ok sent kc" dev "\<lambda>s. sent (hw s)"
    "\<lambda>c t. t @ [c]" "\<lambda>x t. t" "\<lambda>t. t"
  for mm base ok sent kc dev
proof unfold_locales
  fix c ob f and s s' :: "'a a64_state" assume "con_putc (a64_console mm) c s = Inr s'" "ob \<noteq> Phys"
  then show "con_putc (a64_console mm) c (s\<lparr>mem := (mem s)(ob := f)\<rparr>) = Inr (s'\<lparr>mem := (mem s')(ob := f)\<rparr>)"
    by (auto simp: a64_console_def a64_putc_eq intro: uart.putc_obj)
next
  fix c and s s' :: "'a a64_state" assume "con_putc (a64_console mm) c s = Inr s'"
  then show "olds s' = olds s" by (auto simp: a64_console_def a64_putc_eq intro: uart.putc_olds)
next
  fix c and s :: "'a a64_state" assume "a64_ok mm base ok sent kc s"
  from a64_putc_ok[OF this, of c] show "\<exists>s'. con_putc (a64_console mm) c s = Inr s' \<and> a64_ok mm base ok sent kc s' \<and>
      keeps dev s s' \<and> sent (hw s') = sent (hw s) @ [c]"
    by (auto simp: a64_console_def a64_putc_eq keeps_def)
next
  fix p and s :: "'a a64_state" show "con_puts (a64_console mm) p s = puts_with (con_putc (a64_console mm)) p s"
    by (simp add: a64_console_def a64_puts_def a64_putc_eq)
qed (simp_all add: a64_console_def a64_setpos_x_def a64_clrline_def a64_ok_def)

lemma fold_append: "fold (\<lambda>c t. t @ [c]) xs t = t @ xs"
  by (induction xs arbitrary: t) simp_all

lemma a64_puts_lit:
  assumes "a64_ok mm base ok sent kc s" and "0 \<notin> set (bytes_of l)"
  shows "\<exists>u. a64_puts mm (Ptr (Lit l) 0) s = Inr u \<and> a64_ok mm base ok sent kc u \<and> keeps {} s u \<and>
    sent (hw u) = sent (hw s) @ bytes_of l"
  using a64.puts_str[OF assms(1) cstr_Lit[OF assms(2)], of "{}"] by (simp add: fold_append a64_console_def)

section \<open>Input\<close>

text \<open>
  What a PL011 at \<open>base\<close> and the person at the other end do. Until the first key the device is
  \<open>ok\<close>, after it \<open>idle\<close>. Besides transmission: setting up the control registers sends
  nothing; a key is pressed at some time while the flag register is polled, and reading it leaves the
  device idle; a byte that arrives later raises the receive interrupt, and reading the masked
  interrupt status, the flags and the data register gives that byte and leaves the device idle again.
\<close>

definition pl011_input :: "'h mmio \<Rightarrow> u64 \<Rightarrow> ('h \<Rightarrow> bool) \<Rightarrow> ('h \<Rightarrow> bool) \<Rightarrow> ('h \<Rightarrow> u8 list) \<Rightarrow> (u8 \<Rightarrow> 'h \<Rightarrow> 'h) \<Rightarrow> bool" where
  "pl011_input mm base ok idle sent arrive \<longleftrightarrow>
     pl011_sends mm base ok sent \<and> pl011_sends mm base idle sent \<and>
     (\<forall>h r v. ok h \<longrightarrow> r \<in> {pl_cr, pl_lcr, pl_imsc} \<longrightarrow>
        ok (mm_write mm (base + r) v h) \<and> sent (mm_write mm (base + r) v h) = sent h) \<and>
     (\<forall>h. ok h \<longrightarrow> (\<exists>n. fst (mm_read mm (base + pl_fr) (reads mm (base + pl_fr) n h)) AND 0x10 = 0)) \<and>
     (\<forall>h. ok h \<longrightarrow> fst (mm_read mm (base + pl_fr) h) AND 0x10 = 0 \<longrightarrow>
        (let h' = snd (mm_read mm (base + pl_dr) (snd (mm_read mm (base + pl_fr) h))) in idle h' \<and> sent h' = sent h)) \<and>
     (\<forall>h c. idle h \<longrightarrow>
        (let (mis, h1) = mm_read mm (base + pl_mis) (arrive c h); (fr, h2) = mm_read mm (base + pl_fr) h1;
             (dr, h3) = mm_read mm (base + pl_dr) h2
         in mis AND 0x10 \<noteq> 0 \<and> fr AND 0x10 = 0 \<and> ucast dr = c \<and> idle h3 \<and> sent h3 = sent h)) \<and>
     (\<forall>h v. idle h \<longrightarrow> idle (mm_write mm (base + pl_icr) v h) \<and> sent (mm_write mm (base + pl_icr) v h) = sent h)"

lemma pl011_inputD:
  assumes "pl011_input mm base ok idle sent arrive"
  shows "pl011_sends mm base ok sent" "pl011_sends mm base idle sent"
    "ok h \<Longrightarrow> r \<in> {pl_cr, pl_lcr, pl_imsc} \<Longrightarrow> ok (mm_write mm (base + r) v h) \<and> sent (mm_write mm (base + r) v h) = sent h"
    "ok h \<Longrightarrow> \<exists>n. fst (mm_read mm (base + pl_fr) (reads mm (base + pl_fr) n h)) AND 0x10 = 0"
    "ok h \<Longrightarrow> fst (mm_read mm (base + pl_fr) h) AND 0x10 = 0 \<Longrightarrow>
      h' = snd (mm_read mm (base + pl_dr) (snd (mm_read mm (base + pl_fr) h))) \<Longrightarrow> idle h' \<and> sent h' = sent h"
    "idle h \<Longrightarrow> mm_read mm (base + pl_mis) (arrive c h) = (mis, h1) \<Longrightarrow> mm_read mm (base + pl_fr) h1 = (fr, h2) \<Longrightarrow>
      mm_read mm (base + pl_dr) h2 = (dr, h3) \<Longrightarrow> mis AND 0x10 \<noteq> 0 \<and> fr AND 0x10 = 0 \<and> ucast dr = c \<and> idle h3 \<and> sent h3 = sent h"
    "idle h \<Longrightarrow> idle (mm_write mm (base + pl_icr) v h) \<and> sent (mm_write mm (base + pl_icr) v h) = sent h"
proof -
  note dev = assms[unfolded pl011_input_def]
  note dev1 = dev[THEN conjunct2]
  note dev2 = dev1[THEN conjunct2]
  note dev3 = dev2[THEN conjunct2]
  note dev4 = dev3[THEN conjunct2]
  note dev5 = dev4[THEN conjunct2]
  show "pl011_sends mm base ok sent" by (rule dev[THEN conjunct1])
  show "pl011_sends mm base idle sent" by (rule dev1[THEN conjunct1])
  show "ok (mm_write mm (base + r) v h) \<and> sent (mm_write mm (base + r) v h) = sent h" if "ok h" "r \<in> {pl_cr, pl_lcr, pl_imsc}"
    by (rule dev2[THEN conjunct1, rule_format, OF that])
  show "\<exists>n. fst (mm_read mm (base + pl_fr) (reads mm (base + pl_fr) n h)) AND 0x10 = 0" if "ok h"
    by (rule dev3[THEN conjunct1, rule_format, OF that])
  show "idle h' \<and> sent h' = sent h"
    if "ok h" "fst (mm_read mm (base + pl_fr) h) AND 0x10 = 0" "h' = snd (mm_read mm (base + pl_dr) (snd (mm_read mm (base + pl_fr) h)))"
    using dev4[THEN conjunct1, rule_format, OF that(1,2)] unfolding that(3) Let_def .
  show "mis AND 0x10 \<noteq> 0 \<and> fr AND 0x10 = 0 \<and> ucast dr = c \<and> idle h3 \<and> sent h3 = sent h"
    if "idle h" "mm_read mm (base + pl_mis) (arrive c h) = (mis, h1)" "mm_read mm (base + pl_fr) h1 = (fr, h2)"
      "mm_read mm (base + pl_dr) h2 = (dr, h3)"
    using dev5[THEN conjunct1, rule_format, OF that(1), of c] that(2-4) by simp
  show "idle (mm_write mm (base + pl_icr) v h) \<and> sent (mm_write mm (base + pl_icr) v h) = sent h" if "idle h"
    by (rule dev5[THEN conjunct2, rule_format, OF that])
qed

text \<open>\<open>uart_getc\<close> waits for the key.\<close>

lemma uart_getc_waits:
  assumes dev: "pl011_input mm base ok idle sent arrive" and s: "a64_ok mm base ok sent kc s"
  shows "\<exists>k u. uart_getc mm s = Inr (k, u) \<and> a64_ok mm base idle sent kc u \<and> keeps {} s u \<and> sent (hw u) = sent (hw s)"
proof -
  note D = pl011_inputD[OF dev]
  let ?a = "base + pl_fr"
  let ?ready = "\<lambda>n. fst (mm_read mm ?a (reads mm ?a n (hw s))) AND 0x10 = 0"
  have ok: "ok (hw s)" using s by (simp add: a64_ok_def)
  define n where "n = (LEAST n. ?ready n)"
  have n: "?ready n" using D(4)[OF ok] unfolding n_def by (rule LeastI_ex)
  have "\<not> ?ready k" if "k < n" for k using not_less_Least that unfolding n_def .
  then have w: "wait_while mm ?a (\<lambda>v. v AND 0x10 \<noteq> 0) (hw s) = Some (reads mm ?a (Suc n) (hw s))"
    using n by (intro wait_while_ends) auto
  define g where "g = reads mm ?a n (hw s)"
  have g: "ok g" "sent g = sent (hw s)" using reads_sent[OF D(1) ok] unfolding g_def by blast+
  have suc: "reads mm ?a (Suc m) h = snd (mm_read mm ?a (reads mm ?a m h))" for m h
    by (induction m arbitrary: h) simp_all
  define h where "h = snd (mm_read mm ?a g)"
  obtain v h' where v: "mm_read mm (base + pl_dr) h = (v, h')" by fastforce
  have h': "idle h'" "sent h' = sent (hw s)"
    using D(5)[OF g(1) n[folded g_def], of h', folded h_def] v g(2) by simp_all
  have "uart_getc mm s = Inr (ucast v, s\<lparr>hw := h'\<rparr>)"
    using s w[unfolded suc, folded g_def, folded h_def] v by (simp add: uart_getc_def spin_def reg_read_def a64_ok_def)
  then show ?thesis using s h' D(2) by (auto simp: a64_ok_def keeps_def)
qed

text \<open>A receive interrupt that is signalled is one call of the shell's callback, with no modifier bits.\<close>

lemma a64_irq_calls:
  assumes dev: "pl011_input mm base ok idle sent arrive" and s: "a64_ok mm base idle sent (True, False) s"
  shows "\<exists>h. a64_irq fp mm arrive c s = bindR (kcallback AArch64 fp (a64_console mm) c 0 (s\<lparr>irq_active := True, hw := h\<rparr>)) (\<lambda>u.
      Inr (reg_write mm (uart_pl u + pl_icr) 0x10 u)) \<and> a64_ok mm base idle sent (True, True) (s\<lparr>irq_active := True, hw := h\<rparr>) \<and> sent h = sent (hw s)"
proof -
  have i: "idle (hw s)" "uart_pl s = base" "uart_ns s = 0" "base \<noteq> 0" "a64_kcallback s" "\<not> irq_active s" using s by (auto simp: a64_ok_def)
  obtain mis h1 where h1: "mm_read mm (base + pl_mis) (arrive c (hw s)) = (mis, h1)" by fastforce
  obtain fr h2 where h2: "mm_read mm (base + pl_fr) h1 = (fr, h2)" by fastforce
  obtain dr h3 where h3: "mm_read mm (base + pl_dr) h2 = (dr, h3)" by fastforce
  have r: "mis AND 0x10 \<noteq> 0" "fr AND 0x10 = 0" "ucast dr = c" "idle h3" "sent h3 = sent (hw s)"
    using pl011_inputD(6)[OF dev i(1) h1 h2 h3] by auto
  have w: "wait_while mm (base + pl_fr) (\<lambda>v. v AND 0x10 \<noteq> 0) h1 = Some h2"
    using h2 r(2) by (subst wait_while.simps) simp
  have "a64_irq fp mm arrive c s = bindR (kcallback AArch64 fp (a64_console mm) c 0 (s\<lparr>irq_active := True, hw := h3\<rparr>)) (\<lambda>u.
      Inr (reg_write mm (uart_pl u + pl_icr) 0x10 u))"
    using i h1 h3 r(1,3) w
    by (simp add: a64_irq_def interrupt_handler_def uart_int_def uart_getc_def spin_def reg_read_def)
  then show ?thesis using s r(4,5) by (auto simp: a64_ok_def)
qed

section \<open>From the entry to the prompt\<close>

definition a64_hello :: "u8 list" where
  "a64_hello = bytes_of (''[AArch64] UART type is PL011'' @ [CHR 10]) @ bytes_of ''Press any key...''"

lemma uart_init_law:
  assumes dev: "pl011_input mm base ok idle sent arrive" and "model serial = 3" and "sbase serial = base" and "base \<noteq> 0"
    and "uart_ns s = 0" and "ok (hw s)"
  shows "\<exists>u. uart_init mm serial s = Inr u \<and> a64_ok mm base ok sent (a64_kcallback s, irq_active s) u \<and> keeps {} s u \<and>
    sent (hw u) = sent (hw s) @ bytes_of (''[AArch64] UART type is PL011'' @ [CHR 10])"
proof -
  note D = pl011_inputD[OF dev]
  define h1 where "h1 = mm_write mm (base + pl_lcr) 0x70 (mm_write mm (base + pl_cr) 0x00 (hw s))"
  obtain v h2 where v: "mm_read mm (base + pl_imsc) h1 = (v, h2)" by fastforce
  define h3 where "h3 = mm_write mm (base + pl_cr) 0x0301 (mm_write mm (base + pl_imsc) (v OR 0x10) h2)"
  have h1: "ok h1" "sent h1 = sent (hw s)" using D(3) assms(6) by (simp_all add: h1_def)
  have "ok h2" "sent h2 = sent h1" using pl011_read[OF D(1) h1(1), of pl_imsc] v by simp_all
  then have h3: "ok h3" "sent h3 = sent (hw s)" using D(3) h1(2) by (simp_all add: h3_def)
  define s3 where "s3 = s\<lparr>uart_fallback := base, uart_pl := base, hw := h3\<rparr>"
  have ok: "a64_ok mm base ok sent (a64_kcallback s, irq_active s) s3" using assms(4,5) D(1) h3 by (simp add: a64_ok_def s3_def)
  have run: "uart_init mm serial s = a64_puts mm (Ptr (Lit (''[AArch64] UART type is PL011'' @ [CHR 10])) 0) s3"
    using assms(2-4) v by (simp add: uart_init_def reg_write_def reg_read_def Let_def s3_def h3_def h1_def)
  have k: "keeps {} s s3" by (simp add: keeps_def s3_def)
  have nz: "0 \<notin> set (bytes_of (''[AArch64] UART type is PL011'' @ [CHR 10]))" by (simp add: of_char_def)
  obtain u where u: "a64_puts mm (Ptr (Lit (''[AArch64] UART type is PL011'' @ [CHR 10])) 0) s3 = Inr u"
      "a64_ok mm base ok sent (a64_kcallback s, irq_active s) u" "keeps {} s3 u"
      "sent (hw u) = sent (hw s3) @ bytes_of (''[AArch64] UART type is PL011'' @ [CHR 10])"
    using a64_puts_lit[OF ok, of "''[AArch64] UART type is PL011'' @ [CHR 10]"] nz by blast
  have "sent (hw s3) = sent (hw s)" using h3 by (simp add: s3_def)
  then show ?thesis using run u keeps_trans[OF k u(3)] by auto
qed

lemma a64_arch_init_law:
  assumes dev: "pl011_input mm base ok idle sent arrive" and s: "a64_ok mm base ok sent kc s"
  shows "\<exists>k u. a64_arch_init mm s = Inr u \<and> a64_ok mm base idle sent (True, snd kc) u \<and> keeps {} s u \<and>
    sent (hw u) = sent (hw s) @ bytes_of ''Press any key...'' @ [k]"
proof -
  let ?s = "s\<lparr>a64_kcallback := True\<rparr>"
  have ok: "a64_ok mm base ok sent (True, snd kc) ?s" and k0: "keeps {} s ?s" using s by (auto simp: a64_ok_def keeps_def)
  obtain s1 where s1: "a64_puts mm (Ptr (Lit ''Press any key...'') 0) ?s = Inr s1" "a64_ok mm base ok sent (True, snd kc) s1"
      "keeps {} ?s s1" "sent (hw s1) = sent (hw s) @ bytes_of ''Press any key...''"
    using a64_puts_lit[OF ok, of "''Press any key...''"] by (auto simp: of_char_def)
  obtain k s2 where s2: "uart_getc mm s1 = Inr (k, s2)" "a64_ok mm base idle sent (True, snd kc) s2" "keeps {} s1 s2" "sent (hw s2) = sent (hw s1)"
    using uart_getc_waits[OF dev s1(2)] by blast
  obtain u where u: "a64_putc mm k s2 = Inr u" "a64_ok mm base idle sent (True, snd kc) u" "keeps {} s2 u" "sent (hw u) = sent (hw s2) @ [k]"
    using a64_putc_ok[OF s2(2), of k] by (auto simp: a64_putc_eq keeps_def)
  have "keeps {} s u" using keeps_trans[OF keeps_trans[OF keeps_trans[OF k0 s1(3)] s2(3)] u(3)] .
  moreover have "a64_arch_init mm s = Inr u" using s1(1) s2(1) u(1) by (simp add: a64_arch_init_def)
  ultimately show ?thesis using u(2,4) s2(4) s1(4) by auto
qed

lemma a64_kmain_law:
  assumes dev: "pl011_input mm base ok idle sent arrive" and s: "a64_ok mm base ok sent kc s" and "shellptr s = 0"
  shows "\<exists>k u. a64_kmain fp mm s = Inr u \<and> a64_ok mm base idle sent (True, snd kc) u \<and> line u [] \<and> histptr u = histptr s \<and>
    mem u Phys = mem s Phys \<and>
    sent (hw u) = sent (hw s) @ bytes_of ''Press any key...'' @ k # bytes_of ''Hello World!'' @ [10, 62]"
proof -
  obtain k s1 where s1: "a64_arch_init mm s = Inr s1" "a64_ok mm base idle sent (True, snd kc) s1" "keeps {} s s1"
      "sent (hw s1) = sent (hw s) @ bytes_of ''Press any key...'' @ [k]"
    using a64_arch_init_law[OF dev s] by blast
  obtain s2 where s2: "shell_printf AArch64 fp (a64_console mm) (''Hello World!'' @ [CHR 10]) [] s1 = Inr s2"
      "a64_ok mm base idle sent (True, snd kc) s2" "keeps {} s1 s2" "sent (hw s2) = sent (hw s1) @ bytes_of ''Hello World!'' @ [10]"
    using a64.printf_text[OF s1(2), of "''Hello World!'' @ [CHR 10]" AArch64 fp "{}"] by (auto simp: fold_append of_char_def)
  define m where "m = wr (mem s2) (shellbuf 0) (replicate 256 0)"
  have m: "memset (mem s2) (shellbuf 0) 0 256 = Inr (shellbuf 0, m)" "rd m (shellbuf 0) 256 = replicate 256 0"
    using memset_wr[of "shellbuf 0" 256 "mem s2" 0] rd_wr_same[of "shellbuf 0" "replicate 256 0" "mem s2"] by (simp_all add: m_def)
  have "a64_ok mm base idle sent (True, snd kc) (s2\<lparr>mem := m\<rparr>)" using s2(2) by simp
  then obtain u where u: "con_puts (a64_console mm) (Ptr (Lit ''>'') 0) (s2\<lparr>mem := m\<rparr>) = Inr u"
      "a64_ok mm base idle sent (True, snd kc) u" "keeps {} (s2\<lparr>mem := m\<rparr>) u" "sent (hw u) = sent (hw s2) @ [62]"
    using a64.puts_prompt[of mm base idle sent "(True, snd kc)" "s2\<lparr>mem := m\<rparr>" "{}"] by auto
  have "line (s2\<lparr>mem := m\<rparr>) []" using m(2) keeps_sel(2)[OF s2(3)] keeps_sel(2)[OF s1(3)] assms(3) by (simp add: line_def)
  then have "line u []" using line_keeps[OF u(3)] by simp
  moreover have "histptr u = histptr s" using u(3) s2(3) s1(3) by (simp add: keeps_def)
  moreover have "mem u Phys = mem s Phys" using u(3) s2(3) s1(3) by (intro ext) (simp add: keeps_def m_def shellbuf_def)
  moreover have "a64_kmain fp mm s = Inr u" using s1(1) s2(1) m(1) u(1) by (simp add: a64_kmain_def shell_init_def)
  ultimately show ?thesis using u(2,4) s2(4) s1(4) by auto
qed

lemma a64_entry_law:
  assumes dev: "pl011_input mm base ok idle sent arrive" and ser: "model serial = 3" "sbase serial = base" "base \<noteq> 0"
    and "uart_ns s = 0" and "ok (hw s)" and "shellptr s = 0"
  shows "\<exists>k u. a64_entry fp mm serial s = Inr u \<and> a64_ok mm base idle sent (True, irq_active s) u \<and> line u [] \<and> histptr u = histptr s \<and>
    mem u Phys = mem s Phys \<and> sent (hw u) = sent (hw s) @ a64_hello @ k # bytes_of ''Hello World!'' @ [10, 62]"
proof -
  obtain s1 where s1: "uart_init mm serial s = Inr s1" "a64_ok mm base ok sent (a64_kcallback s, irq_active s) s1" "keeps {} s s1"
      "sent (hw s1) = sent (hw s) @ bytes_of (''[AArch64] UART type is PL011'' @ [CHR 10])"
    using uart_init_law[OF dev ser assms(5,6)] by blast
  have ph: "mem s1 Phys = mem s Phys" using s1(3) by (intro ext) (simp add: keeps_def)
  have z: "shellptr s1 = 0" "histptr s1 = histptr s" using s1(3) assms(7) by (simp_all add: keeps_def)
  show ?thesis using a64_kmain_law[OF dev s1(2) z(1), of fp] s1(1,4) z(2) ph
    by (auto simp: a64_entry_def parse_boot_info_def a64_hello_def)
qed

section \<open>Receive interrupts at the prompt\<close>

lemma reg_write_icr:
  assumes "pl011_input mm base ok idle sent arrive" and "a64_ok mm base idle sent kc u"
  shows "a64_ok mm base idle sent kc (reg_write mm (uart_pl u + pl_icr) v u)"
    "sent (hw (reg_write mm (uart_pl u + pl_icr) v u)) = sent (hw u)" "line (reg_write mm a v u) t = line u t"
  using assms pl011_inputD(7)[OF assms(1), of "hw u" v] by (auto simp: a64_ok_def reg_write_def line_def)

text \<open>Positioning and clearing do nothing on this console: a key sends the whole line again.\<close>

lemma a64_irq_types:
  assumes dev: "pl011_input mm base ok idle sent arrive" and s: "a64_ok mm base idle sent (True, False) s"
    and "line s t" and "length t < 255" and "c \<noteq> 0" and "c \<noteq> 10"
  shows "\<exists>u. a64_irq fp mm arrive c s = Inr u \<and> a64_ok mm base idle sent (True, True) u \<and> line u (t @ [c]) \<and>
    sent (hw u) = sent (hw s) @ t @ [c]"
proof -
  obtain h where h: "a64_irq fp mm arrive c s = bindR (kcallback AArch64 fp (a64_console mm) c 0 (s\<lparr>irq_active := True, hw := h\<rparr>)) (\<lambda>u.
      Inr (reg_write mm (uart_pl u + pl_icr) 0x10 u))" "a64_ok mm base idle sent (True, True) (s\<lparr>irq_active := True, hw := h\<rparr>)"
      "sent h = sent (hw s)"
    using a64_irq_calls[OF dev s, of fp c] by blast
  have l: "line (s\<lparr>irq_active := True, hw := h\<rparr>) t" using assms(3) by (simp add: line_def)
  have "plain_key AArch64 c 0" using assms(5,6) by (simp add: plain_key_def)
  from a64.insert_law[OF h(2) l assms(4) this, of fp "{}"] obtain u where
    u: "kcallback AArch64 fp (a64_console mm) c 0 (s\<lparr>irq_active := True, hw := h\<rparr>) = Inr u" "a64_ok mm base idle sent (True, True) u"
      "line u (t @ [c])" "sent (hw u) = sent (hw s) @ t @ [c]"
    by (auto simp: fold_append h(3))
  then show ?thesis using h(1) reg_write_icr[OF dev u(2)] by auto
qed

text \<open>While the interrupt is active, bytes that arrive reach nobody.\<close>

lemma a64_irqs_ignored:
  assumes quiet: "\<And>c h. sent (arrive c h) = sent h" and "irq_active s"
  shows "\<exists>h. foldR (a64_irq fp mm arrive) cs s = Inr (s\<lparr>hw := h\<rparr>) \<and> sent h = sent (hw s)"
  using assms(2)
proof (induction cs arbitrary: s)
  case (Cons c cs)
  let ?s = "s\<lparr>hw := arrive c (hw s)\<rparr>"
  obtain h where "foldR (a64_irq fp mm arrive) cs ?s = Inr (?s\<lparr>hw := h\<rparr>)" "sent h = sent (hw ?s)"
    using Cons.IH[of ?s] Cons.prems by auto
  moreover have "a64_irq fp mm arrive c s = Inr ?s" using Cons.prems by (simp add: a64_irq_def)
  ultimately show ?case using quiet[of c "hw s"] by auto
qed (auto intro!: exI[of _ "hw s" for s])

end
