(* ===== verification/SerialProps.thy ===== *)
theory SerialProps
  imports A64 BootProps
begin

text \<open>
  The aarch64 machine from the firmware's tables to the shell: what the loader finds is what the kernel
  prints on, and the first byte that interrupts it there reaches the shell, the only one. The concrete device
  \<open>serial_line\<close> is busy for two polls after each byte; its user presses one key, some polls
  after the question, and then types.
\<close>

section \<open>A concrete serial line\<close>

record line_state =
  tx :: "u8 list"
  rx :: "u8 option"
  key :: "(nat \<times> u8) option"     \<comment> \<open>the first key, with the number of polls it is still away\<close>
  busy :: nat

definition poll :: "line_state \<Rightarrow> line_state" where
  "poll h = (case key h of
       Some (Suc n, k) \<Rightarrow> h\<lparr>busy := busy h - 1, key := Some (n, k)\<rparr>
     | Some (0, k) \<Rightarrow> h\<lparr>busy := busy h - 1, key := None, rx := Some k\<rparr>
     | None \<Rightarrow> h\<lparr>busy := busy h - 1\<rparr>)"

definition serial_line :: "line_state mmio" where
  "serial_line = \<lparr>mm_read = (\<lambda>a h.
       if a = 0x9000000 + pl_fr then ((if 0 < busy h then 0x20 else 0) OR (if rx h = None then 0x10 else 0), poll h)
       else if a = 0x9000000 + pl_dr then (case rx h of Some c \<Rightarrow> ucast c | None \<Rightarrow> 0, h\<lparr>rx := None\<rparr>)
       else if a = 0x9000000 + pl_mis then (if rx h = None then 0 else 0x10, h)
       else (0, h)),
     mm_write = (\<lambda>a v h. if a = 0x9000000 + pl_dr then h\<lparr>tx := tx h @ [ucast v], busy := 2\<rparr> else h),
     mm_write64 = (\<lambda>a v h. h), mm_plain = (\<lambda>_. False)\<rparr>"

definition arrival :: "u8 \<Rightarrow> line_state \<Rightarrow> line_state" where
  "arrival c h = h\<lparr>rx := Some c\<rparr>"

definition awaiting :: "line_state \<Rightarrow> bool" where
  "awaiting h \<longleftrightarrow> (rx h = None) = (key h \<noteq> None)"

definition line_idle :: "line_state \<Rightarrow> bool" where
  "line_idle h \<longleftrightarrow> key h = None"

lemmas pl_regs = pl_fr_def pl_dr_def pl_mis_def pl_cr_def pl_lcr_def pl_imsc_def pl_icr_def

lemma poll_simps [simp]: "busy (poll h) = busy h - 1" "tx (poll h) = tx h" "line_idle h \<Longrightarrow> line_idle (poll h)"
  "awaiting h \<Longrightarrow> awaiting (poll h)" "rx h = Some c \<Longrightarrow> key h = None \<Longrightarrow> rx (poll h) = Some c"
  by (auto simp: poll_def line_idle_def awaiting_def split: option.split nat.split prod.split)

lemma line_reads: "busy (reads serial_line (0x9000000 + pl_fr) n h) = busy h - n"
  by (induction n arbitrary: h) (simp_all add: serial_line_def)

lemma line_key_comes:
  "awaiting h \<Longrightarrow> \<exists>n. rx (reads serial_line (0x9000000 + pl_fr) n h) \<noteq> None"
proof (induction "case key h of Some (n, k) \<Rightarrow> Suc n | None \<Rightarrow> 0" arbitrary: h rule: less_induct)
  case less
  show ?case
  proof (cases "rx h = None")
    case True
    then obtain n k where k: "key h = Some (n, k)" using less.prems by (auto simp: awaiting_def)
    have "\<exists>m. rx (reads serial_line (0x9000000 + pl_fr) m (poll h)) \<noteq> None"
      using less.prems k by (intro less.hyps) (auto simp: poll_def awaiting_def split: nat.split)
    then obtain m where "rx (reads serial_line (0x9000000 + pl_fr) m (poll h)) \<noteq> None" by blast
    then show ?thesis by (intro exI[of _ "Suc m"]) (simp add: serial_line_def)
  next
    case False
    then show ?thesis by (intro exI[of _ 0]) simp
  qed
qed

lemma ucast_u8_u32 [simp]: "ucast (ucast c :: u32) = (c :: u8)"
  by (simp add: ucast_up_ucast_id is_up)

lemma line_fr: "fst (mm_read serial_line (0x9000000 + pl_fr) h) AND 0x20 = 0 \<longleftrightarrow> busy h = 0"
  "fst (mm_read serial_line (0x9000000 + pl_fr) h) AND 0x10 = 0 \<longleftrightarrow> rx h \<noteq> None"
  by (simp_all add: serial_line_def)

lemma line_sends:
  assumes "\<And>h. ok h \<Longrightarrow> ok (poll h)" and "\<And>h t. ok h \<Longrightarrow> ok (h\<lparr>tx := t, busy := 2\<rparr>)"
  shows "pl011_sends serial_line 0x9000000 ok tx"
  unfolding pl011_sends_def line_fr
proof (intro conjI allI impI)
  fix h show "\<exists>n. busy (reads serial_line (0x9000000 + pl_fr) n h) = 0"
    by (rule exI[of _ "busy h"]) (simp only: line_reads diff_self_eq_0)
qed (use assms in \<open>auto simp: serial_line_def pl_regs\<close>)

lemma line_input: "pl011_input serial_line 0x9000000 awaiting line_idle tx arrival"
  unfolding pl011_input_def line_fr
proof (intro conjI allI impI)
  show "pl011_sends serial_line 0x9000000 awaiting tx" by (rule line_sends) (simp, simp add: awaiting_def)
  show "pl011_sends serial_line 0x9000000 line_idle tx" by (rule line_sends) (simp, simp add: line_idle_def)
  show "\<exists>n. rx (reads serial_line (0x9000000 + pl_fr) n h) \<noteq> None" if "awaiting h" for h
    using that by (rule line_key_comes)
qed (auto simp: serial_line_def pl_regs arrival_def Let_def awaiting_def line_idle_def poll_def
    split: option.split nat.split prod.split)

section \<open>Receive interrupts\<close>

text \<open>C7: the serial line takes one key. At the prompt, with no interrupt active, the receive interrupt for
  a byte other than NUL and newline puts this byte at the end of the line, backspace like any other, and
  sends the whole line again behind what was sent before (what arrives is not itself transmitted). The handler acknowledges the interrupt and nobody
  ends it, so whatever arrives afterwards, a newline included, is not handled: the line stays as it is and
  nothing more is sent.\<close>

theorem only_first_key_handled:
  assumes "pl011_input mm base ok idle sent arrive" and "base \<noteq> 0" and "uart_pl s = base" and "uart_ns s = 0"
    and "a64_kcallback s" and "\<not> irq_active s" and "idle (hw s)"
    and "line s t" and "length t < 255" and "c \<noteq> 0" and "c \<noteq> 10" and "\<And>c h. sent (arrive c h) = sent h"
  shows "\<exists>u. a64_irq fp mm arrive c s = Inr u \<and> line u (t @ [c]) \<and> sent (hw u) = sent (hw s) @ t @ [c] \<and>
    (\<forall>cs. \<exists>w. foldR (a64_irq fp mm arrive) cs u = Inr w \<and> line w (t @ [c]) \<and> sent (hw w) = sent (hw u))"
proof -
  have "a64_ok mm base idle sent (True, False) s"
    using assms(2-7) pl011_inputD(2)[OF assms(1)] by (simp add: a64_ok_def)
  from a64_irq_types[OF assms(1) this assms(8-11), of fp] obtain u where
    u: "a64_irq fp mm arrive c s = Inr u" "irq_active u" "line u (t @ [c])" "sent (hw u) = sent (hw s) @ t @ [c]"
    by (auto simp: a64_ok_def)
  have "\<exists>w. foldR (a64_irq fp mm arrive) cs u = Inr w \<and> line w (t @ [c]) \<and> sent (hw w) = sent (hw u)" for cs
    using a64_irqs_ignored[where sent = sent and arrive = arrive, OF assms(12) u(2), of fp mm cs] u(3) by (auto simp: line_def)
  then show ?thesis using u by blast
qed

text \<open>A kernel that is about to wait for its first key.\<close>

definition line_start :: "line_state a64_state" where
  "line_start = \<lparr>mem = (\<lambda>_ _. 0), olds = Null, shellptr = 0, histptr = 0, uart_ns = 0, uart_pl = 0, uart_fallback = 0,
     a64_kcallback = False, irq_active = False, hw = \<lparr>tx = [], rx = None, key = Some (99, 0x78), busy = 5\<rparr>\<rparr>"

definition line_info :: serial_info where
  "line_info = \<lparr>sbase = 0x9000000, baud = 115200, stype = 1, model = 3\<rparr>"

text \<open>At its prompt, hi and a newline arrive: the h is all that is sent back.\<close>

theorem only_first_key_handled_witness:
  "\<exists>w. foldR (a64_irq int_fpu serial_line arrival) [0x68, 0x69, 10]
      (line_start\<lparr>uart_pl := 0x9000000, a64_kcallback := True, hw := \<lparr>tx = [62], rx = None, key = None, busy = 2\<rparr>\<rparr>) = Inr w \<and>
    line w [0x68] \<and> tx (hw w) = [62, 0x68]"
proof -
  let ?s = "line_start\<lparr>uart_pl := 0x9000000, a64_kcallback := True, hw := \<lparr>tx = [62], rx = None, key = None, busy = 2\<rparr>\<rparr>"
  have "rd (\<lambda>_ _. 0) (shellbuf 0) 256 = replicate 256 0"
    by (intro nth_equalityI) (simp_all add: shellbuf_def rd.simps del: upt_rec_numeral)
  then have start: "uart_pl ?s = 0x9000000" "uart_ns ?s = 0" "a64_kcallback ?s" "\<not> irq_active ?s" "line_idle (hw ?s)" "line ?s []"
    "tx (hw ?s) = [62]"
    by (simp_all add: line_start_def line_idle_def line_def)
  obtain u where u: "a64_irq int_fpu serial_line arrival 0x68 ?s = Inr u" "line u [0x68]" "tx (hw u) = [62, 0x68]"
      "\<forall>cs. \<exists>w. foldR (a64_irq int_fpu serial_line arrival) cs u = Inr w \<and> line w [0x68] \<and> tx (hw w) = tx (hw u)"
    using only_first_key_handled[where c = "0x68" and fp = int_fpu, OF line_input _ start(1-6)] start(7) by (auto simp: arrival_def)
  from u(4)[rule_format, of "[0x69, 10]"] show ?thesis using u(1,3) by auto
qed

section \<open>From the firmware's tables to the prompt\<close>

text \<open>The loader's \<open>serial_info_t\<close> as the kernel's declaration of it reads it.\<close>

definition kernel_serial :: "serial_info_t \<Rightarrow> serial_info" where
  "kernel_serial u = \<lparr>sbase = ser_base u, baud = ser_baud u, stype = ser_type u, model = ser_model u\<rparr>"

text \<open>C8: loader and kernel together. When the firmware's tables have an SPCR that names a PL011, the loader
  leaves the firmware and jumps with the address of a \<open>boot_info_t\<close>; the kernel entered with this address
  prints on the UART whose address stands in the table, and reaches the prompt.\<close>

theorem loader_starts_console:
  assumes "lib_ok api"
    and "AllocatePool api sizeof_boot_info_t (fw s) = (st0, info, w0)"
    and "LocateGraphics api w0 = (st1, g, w1)" and "\<not> EFI_ERROR api st1"
    and "GetMemoryMap api 0 0 w1 = (m1, bs1, w2)"
    and "AllocatePool api (mm_size m1 + mm_desc_size m1 * 8) w2 = (st2, mmap, w3)"
    and "GetMemoryMap api (mm_size m1 + mm_desc_size m1 * 8) mmap w3 = (m2, bs, w4)"
    and "\<And>k. k < length bs \<Longrightarrow> \<not> within (mmap + of_nat k) info sizeof_boot_info_t"
    and "current_el api = 2" and "ExitBootServices api (mm_key m2) w4 = (st3, w5)" and "\<not> EFI_ERROR api st3"
    and "m = store_fb info g (set_bytes info sizeof_boot_info_t 0 (pm s))"
    and "p = acpi_lookup m (bytes_of ''SPCR'') (fst (FindAcpiTable api s))" and "p \<noteq> 0"
    and "Spcr_InterfaceType m p = 3" and "Spcr_Address m p = base" and "base \<noteq> 0"
    and "pl011_input mm base ok idle sent arrive" and "uart_ns ks = 0" and "ok (hw ks)" and "shellptr ks = 0"
  shows "\<exists>s' k u. boot_kernel api junk e b s = (Jumps e info b, s') \<and>
    a64_entry fp mm (kernel_serial (read_serial (pm s') info)) ks = Inr u \<and> line u [] \<and>
    sent (hw u) = sent (hw ks) @ a64_hello @ k # bytes_of ''Hello World!'' @ [10, 62]"
proof -
  obtain s' where s': "boot_kernel api junk e b s = (Jumps e info b, s')"
      "bi_serial (read_boot_info (pm s') info) = fst (find_uart api (junk_model junk) (s\<lparr>pm := m\<rparr>))"
    using boot_kernel_jumps[OF assms(1-11), of junk e b] unfolding assms(12) by auto
  have "fst (FindAcpiTable api (s\<lparr>pm := m\<rparr>)) = fst (FindAcpiTable api s)" by (rule FindAcpiTable_state(1))
  then have "ser_model (read_serial (pm s') info) = 3" "ser_base (read_serial (pm s') info) = base"
    using s'(2) assms(13-16) unfolding find_uart_spcr[OF assms(1)] by (simp_all add: read_boot_info_def Let_def)
  then have ser: "model (kernel_serial (read_serial (pm s') info)) = 3" "sbase (kernel_serial (read_serial (pm s') info)) = base"
    by (simp_all add: kernel_serial_def)
  show ?thesis using a64_entry_law[OF assms(18) ser assms(17,19-21), of fp] s'(1) by blast
qed

text \<open>The tables of \<open>acpi_mem\<close> with the fields of the SPCR: interface type 3, address 0x9000000.\<close>

definition spcr_mem :: pmem where
  "spcr_mem = put_bytes 0x7024 [3, 0, 0, 0, 0, 32, 0, 3, 0, 0, 0, 9, 0, 0, 0, 0] acpi_mem"

lemma spcr_found:
  assumes "\<And>a. a < 0x8000 \<Longrightarrow> m a = spcr_mem a"
  shows "acpi_lookup m (bytes_of ''SPCR'') 0x5000 = 0x7000" "Spcr_InterfaceType m 0x7000 = 3" "Spcr_Address m 0x7000 = 0x9000000"
proof -
  have upts: "[0..<4] = [0, 1, 2, 3::nat]" "[0..<8] = [0, 1, 2, 3, 4, 5, 6, 7::nat]" "[0..<2] = [0, 1::nat]"
    by (simp_all add: upt_rec numeral_eq_Suc)
  note ev = assms spcr_mem_def acpi_mem_def put_bytes_def of_char_def bytes_at_def upts
  have "RSDP_Signature m 0x5000 = bytes_of ''RSD PTR ''" "RSDP_Revision m 0x5000 = 2"
    "XsdtAddress m 0x5000 = 0x6000" "Header_Signature m 0x6000 = bytes_of ''XSDT''"
    "Header_Length m 0x6000 = 52" "Xsdt_Entry m 0x6000 0 = 0x7100" "Xsdt_Entry m 0x6000 1 = 0x7000"
    "Header_Signature m 0x7100 = bytes_of ''FACP''" "Header_Signature m 0x7000 = bytes_of ''SPCR''"
    by (simp_all add: RSDP_Signature_def RSDP_Revision_def XsdtAddress_def Header_Signature_def Header_Length_def
        Xsdt_Entry_def header_size_def r8_def r32_def r64_def le_numeral ev)
  moreover have "entry_count 52 8 = 2" by (simp add: entry_count_def header_size_def)
  moreover have "bytes_of ''FACP'' \<noteq> bytes_of ''SPCR''" by (simp add: of_char_def)
  ultimately show "acpi_lookup m (bytes_of ''SPCR'') 0x5000 = 0x7000"
    by (simp add: acpi_lookup_def root_sdt_def first_table_def upts Let_def del: bytes_of_simps)
  show "Spcr_InterfaceType m 0x7000 = 3" "Spcr_Address m 0x7000 = 0x9000000"
    by (simp_all add: Spcr_InterfaceType_def Spcr_Address_def r8_def r64_def le_numeral ev)
qed

theorem loader_starts_console_witness:
  "\<exists>s' k u. boot_kernel acpi_api \<lparr>junk_entry = 0, junk_base = 0, junk_model = 9\<rparr> 0x1000 0x2000 (demo_state\<lparr>pm := spcr_mem\<rparr>) =
      (Jumps 0x1000 0x10000 0x2000, s') \<and>
    a64_entry int_fpu serial_line (kernel_serial (read_serial (pm s') 0x10000)) line_start = Inr u \<and>
    tx (hw u) = a64_hello @ k # bytes_of ''Hello World!'' @ [10, 62]"
proof -
  let ?s = "demo_state\<lparr>pm := spcr_mem\<rparr>"
  let ?g = "\<lparr>FrameBufferBase = 0x80000000, HorizontalResolution = 1024, VerticalResolution = 768, PixelsPerScanLine = 1024, PixelFormat = 1\<rparr>"
  let ?m = "\<lparr>mm_size = 96, mm_key = 7, mm_desc_size = 48, mm_desc_ver = 1\<rparr>"
  have calls: "AllocatePool acpi_api sizeof_boot_info_t (fw ?s) = (0, 0x10000, 0x20000)"
    "LocateGraphics acpi_api 0x20000 = (0, ?g, 0x20000)" "\<not> EFI_ERROR acpi_api 0" "GetMemoryMap acpi_api n q 0x20000 = (?m, [], 0x20000)"
    "GetMemoryMap acpi_api n q 0x30000 = (?m, [], 0x30000)"
    "AllocatePool acpi_api n 0x20000 = (0, 0x20000, 0x30000)" "current_el acpi_api = 2" "ExitBootServices acpi_api k 0x30000 = (0, 0x30000)" for n q k
    by (simp_all add: acpi_api_def demo_api_def demo_state_def)
  define m where "m = store_fb 0x10000 ?g (set_bytes 0x10000 sizeof_boot_info_t 0 (pm ?s))"
  have "m a = spcr_mem a" if "a < 0x8000" for a
  proof -
    have "\<not> within a 0x10000 72"
      using that by (simp add: within_def word_less_nat_alt unat_sub_if')
    then show ?thesis by (simp add: m_def stores_outside set_bytes_def sizeof_boot_info_t_def)
  qed
  note found = spcr_found[OF this, folded acpi_root[of ?s]]
  have start: "uart_ns line_start = 0" "shellptr line_start = 0" "awaiting (hw line_start)" "tx (hw line_start) = []"
    by (simp_all add: line_start_def awaiting_def)
  show ?thesis
    using loader_starts_console[OF acpi_lib calls(1,2,3,4,6,5) _ calls(7,8,3) m_def found(1)[symmetric] _ _ _ _ line_input start(1,3,2),
        of "\<lparr>junk_entry = 0, junk_base = 0, junk_model = 9\<rparr>" "0x1000" "0x2000" int_fpu] found(2,3) start(4)
    by auto
qed

end
