(* ===== verification/RiscV.thy ===== *)
theory RiscV
  imports Console
begin

text \<open>
  The riscv64 console, \<open>kernel/arch/riscv64/vga.c\<close>, and \<open>arch.c\<close>. A character goes out
  through an environment call to the SBI firmware; the calls made (registers \<open>a7\<close> and
  \<open>a0\<close>) are the device's state.
\<close>

record riscv_state = shell_state +
  ecalls :: "(u64 \<times> u64) list"

definition rv_vga_init :: "riscv_state \<Rightarrow> riscv_state" where
  "rv_vga_init s = s"

definition rv_putc :: "u8 \<Rightarrow> riscv_state \<Rightarrow> riscv_state res" where
  "rv_putc c s = (if c = 0 then Inr s else Inr (s\<lparr>ecalls := ecalls s @ [(1, ucast c)]\<rparr>))"

definition rv_puts :: "ptr \<Rightarrow> riscv_state \<Rightarrow> riscv_state res" where
  "rv_puts p s = puts_with rv_putc p s"

definition rv_setpos :: "u8 \<Rightarrow> u8 \<Rightarrow> riscv_state \<Rightarrow> riscv_state" where
  "rv_setpos x y s = s"

text \<open>\<open>getpos\<close> ends without a \<open>return\<close>: a caller would find whatever the return register
  holds, here \<open>junk\<close>. The kernel has no caller.\<close>

definition rv_getpos :: "u16 \<Rightarrow> riscv_state \<Rightarrow> u16 \<times> riscv_state" where
  "rv_getpos junk s = (junk, s)"

definition rv_clrline :: "u8 \<Rightarrow> riscv_state \<Rightarrow> riscv_state" where
  "rv_clrline y s = s"

definition rv_arch_init :: "riscv_state \<Rightarrow> riscv_state" where
  "rv_arch_init s = s"

section \<open>The console contract\<close>

lemma rv_putc_mem: "rv_putc c (s\<lparr>mem := m\<rparr>) = bindR (rv_putc c s) (\<lambda>s'. Inr (s'\<lparr>mem := m\<rparr>))"
  by (simp add: rv_putc_def)

lemma rv_putc_mem_same: "rv_putc c s = Inr s' \<Longrightarrow> mem s' = mem s \<and> olds s' = olds s"
  by (auto simp: rv_putc_def split: if_splits)

interpretation riscv: console_out rv_putc
proof
  fix c ob f s s' assume "rv_putc c s = Inr s'" "ob \<noteq> Phys"
  then show "rv_putc c (s\<lparr>mem := (mem s)(ob := f)\<rparr>) = Inr (s'\<lparr>mem := (mem s')(ob := f)\<rparr>)"
    using rv_putc_mem_same[of c s s'] by (simp add: rv_putc_mem)
next
  fix c s s' assume "rv_putc c s = Inr s'"
  then show "olds s' = olds s" using rv_putc_mem_same by blast
qed

text \<open>The firmware is called once for each character, NUL excepted, in order.\<close>

lemma foldR_rv_putc:
  "foldR rv_putc t s = Inr (s\<lparr>ecalls := ecalls s @ map (\<lambda>c. (1, ucast c)) (filter (\<lambda>c. c \<noteq> 0) t)\<rparr>)"
  by (induction t arbitrary: s) (simp_all add: rv_putc_def)

lemma cstr_no_null: "cstr m p t \<Longrightarrow> 0 \<notin> set t"
  by (induction t arbitrary: p) auto

lemma printf_riscv:
  assumes "in_object (mem s) fmt (concat (map item_fmt its))" and "list_all (item_ok (mem s)) its"
    and "text = concat (map item_out its)" and "length text < 2 ^ 31"
  shows "\<exists>g. printf RiscV64 fp rv_putc fmt (concat (map item_args its)) s =
    Inr (int (length text), upd_scratch g (s\<lparr>ecalls := ecalls s @ map (\<lambda>c. (1, ucast c)) (filter (\<lambda>c. c \<noteq> 0) text)\<rparr>))"
  using riscv.vprintf_items[OF assms(1,2) foldR_rv_putc] assms(3,4) by (simp add: printf_def)

lemma puts_riscv:
  assumes "cstr (mem s) (Ptr ob i) t" and "ob \<noteq> Phys"
  shows "rv_puts (Ptr ob i) s = Inr (s\<lparr>ecalls := ecalls s @ map (\<lambda>c. (1, ucast c)) t\<rparr>)"
proof -
  have "filter (\<lambda>c. c \<noteq> 0) t = t" using cstr_no_null[OF assms(1)] by (induction t) auto
  then show ?thesis using riscv.puts_fold[OF assms foldR_rv_putc] by (simp add: rv_puts_def)
qed

end
