(* ===== verification/Spec2Isabelle.thy ===== *)
theory Spec2Isabelle
  imports LibkProps KernelProps BootProps NfsProps ReplyProps RpcProps Nfs4Attrs SerialProps RiscV
begin

text \<open>
  \<^bold>\<open>Verification of osdev2: kernel, boot loader and NFSv4 library.\<close>

  The program is a small operating system written in C. A freestanding library
  (\<open>src/libk\<close>) gives the kernel \<open>string.h\<close> and \<open>printf\<close>; the kernel
  (\<open>src/kernel\<close>) boots into a shell that is driven by the keyboard interrupt (i386) or
  prints through a UART (aarch64) or the firmware (riscv64); a UEFI loader (\<open>src/efi\<close>)
  finds the serial port in the ACPI tables, loads the kernel's ELF file, relocates it and hands it a
  \<open>boot_info_t\<close>; the target subsystem (\<open>src/target/nfs4\<close>) holds the NFSv4 message
  codec and the client and server stubs that \<open>rpcgen\<close> makes of \<open>prot.x\<close>.

  \<^bold>\<open>How C is modelled.\<close> \<open>Prelude\<close> and \<open>CMemory\<close>: machine integers are
  words, signed arithmetic is on \<open>int\<close> with the overflow checks written out, and every
  definition that can go wrong returns \<open>Inl\<close> of a fault (null pointer, access outside an object,
  store into a literal, signed overflow, mismatched variadic argument, loop that never ends) or \<open>Inr\<close> of its result. Memory is a
  map from objects (string literals, static arrays, locals, physical memory with the VGA buffer in it) and
  offsets to bytes; a pointer is an object with an offset. The kernel's own objects are kept apart from
  \<open>Phys\<close>, though in the machine they lie at addresses too. The commands \<open>peek\<close> and
  \<open>poke\<close>, which make a pointer of a number, are therefore modelled for plain memory only
  (\<open>con_plain\<close>: on i386 the display and what \<open>i386_free\<close> leaves when the kernel's image, its
  descriptor table, the firmware's region and the devices are taken out). At any other address they give the
  fault \<open>Unmodelled\<close>, which says nothing of what the machine does, and the properties of typed
  commands are about addresses in free memory. The loader runs on flat physical memory
  (\<open>Efi\<close>). Loops over memory are recursive functions with termination proofs by the distance
  to the end of an object. The loops that the hardware or the input can keep running for ever,
  waiting for the UART and the scan of the dynamic section, are \<open>partial_function (option)\<close>,
  so that not returning is \<open>None\<close>, and their return is a theorem where it holds. The first
  loop of \<open>divmod_u64\<close> takes fuel 34: it doubles a 32-bit divisor, so a run that has not
  ended after 33 rounds has a divisor of 0 and never ends (\<open>divmod_u64_hangs\<close>).

  \<^bold>\<open>Theories and sources.\<close>
  \<^item> \<open>MemFuns\<close>, \<open>StrFuns\<close>, \<open>StrScan\<close>, \<open>Strtoul\<close>:
    \<open>libk/string/*.c\<close>, one definition per function and loop, with what each does on every
    C string and buffer.
  \<^item> \<open>Divmod\<close>, \<open>IntStr\<close>, \<open>Printf\<close>, \<open>PrintfSpec\<close>:
    \<open>libk/stdio/printf.c\<close>, from the 64-bit division to \<open>vprintf\<close>. The
    specification renders a list of items (literal text and conversions); \<open>PrintfSpec\<close> states
    it once in the locale \<open>console_out\<close> of a character sink.
  \<^item> \<open>Console\<close>, \<open>Vga\<close>, \<open>Uart\<close>, \<open>RiscV\<close>: the consoles of
    the three targets (\<open>kernel/arch/*/vga.c\<close>, \<open>uart.c\<close>, \<open>arch.c\<close>). The
    VGA driver refines an abstract terminal of 80 by 25 characters; each driver is an interpretation of
    \<open>console_out\<close>. \<open>A64\<close> is the aarch64 machine from \<open>boot.asm\<close>'s call of
    \<open>parse_boot_info\<close> to the receive interrupt that calls the shell; what it expects of the device and
    its user is \<open>pl011_input\<close>. Of the interrupt controller it has the one state the handler
    changes: an acknowledged interrupt is active, and is not signalled again before it is ended.
  \<^item> \<open>Kbd\<close>, \<open>Frame\<close>, \<open>I386\<close>, \<open>Session\<close>: \<open>kbd.c\<close> with a scan code
    decoder as its reference, what the handlers leave alone (locales \<open>stable_putc\<close> and
    \<open>stable_console\<close>), and \<open>arch.c\<close> with the interrupt
    table and controller setup. The relation \<open>running\<close> is the machine after
    \<open>kmain\<close>: each step is one keyboard interrupt whose handler returns. \<open>Session\<close>
    follows a whole command line from the scan codes to the shell.
  \<^item> \<open>Shell\<close>, \<open>ShellCmd\<close>: \<open>kernel/shell.c\<close> over any console that meets
    the locale \<open>shell_console\<close>, with the reference command interpreter \<open>run_cmd\<close>.
  \<^item> \<open>Efi\<close>, \<open>Acpi\<close>, \<open>Elf\<close>, \<open>ElfSpec\<close>, \<open>Boot\<close>:
    \<open>efi/acpi.c\<close> and \<open>efi/main.c\<close>. The firmware is the record parameter
    \<open>efi_api\<close>; theorems name what they assume of it.
  \<^item> \<open>Xdr\<close>, \<open>Nfs4Types\<close>, \<open>Nfs4Files\<close>, \<open>Nfs4Open\<close>,
    \<open>Nfs4Ops\<close>, \<open>Nfs4Compound\<close> (requests), \<open>Nfs4Attrs\<close>, \<open>Nfs4Results\<close>,
    \<open>Nfs4Reply\<close> (attributes, listings, replies), \<open>Nfs4Callback\<close> (the callback
    program), \<open>Nfs4Zero\<close> (the zeroed message of each type): all of \<open>target/nfs4/prot_xdr.c\<close>
    with the structs of \<open>prot.h\<close>. Each filter is proved to implement the format of its type in
    \<open>prot.x\<close>. The primitive filters of the RPC library are the record parameter
    \<open>xdrlib\<close> with the law \<open>xdr_lib_ok\<close>; \<open>XdrMem\<close> and \<open>NfsMem\<close> are a concrete library that
    satisfies it.
  \<^item> \<open>NfsRpc\<close>: \<open>prot_svc.c\<close> (registration, both dispatchers) and
    \<open>prot_clnt.c\<close> (the four client calls) over the transport of the RPC library.
  \<^item> \<open>LibkProps\<close>, \<open>KernelProps\<close>, \<open>BootProps\<close>, \<open>NfsProps\<close>,
    \<open>ReplyProps\<close>, \<open>RpcProps\<close>, \<open>SerialProps\<close> and this theory hold the numbered properties with a concrete instance of each.

  \<^bold>\<open>What is shown.\<close> For the library: copying, searching, comparing, tokenising and number
  conversion do what their C names promise, and \<open>printf\<close> prints the rendering of its
  items. For the kernel: booting succeeds and establishes an invariant that every handled interrupt
  keeps; the keyboard handler is the decoder; from the booted machine, any typed line followed by Enter
  runs the command of the reference interpreter on the edited line, for addresses in free memory. For the loader: ACPI search, ELF loading, relocation
  and the hand-over of the boot information. For both together: the UART that the firmware's tables name is
  the one the kernel brings up and prints on; of what is typed there afterwards one byte reaches the shell.
  For the codec: the round trip of every COMPOUND request, of every COMPOUND reply
  and of every directory listing, refusal of unknown discriminants and size
  limits. For the stubs: the order in which the dispatcher decodes, serves, replies and frees on every
  path, and that a remote call from client stub to service and back delivers the arguments and the result. Theorems whose name
  says so (\<open>..._hangs\<close>, \<open>..._overflows\<close>, \<open>..._overruns\<close>, \<open>..._faults\<close>,
  \<open>..._undefined\<close>, \<open>..._unchecked\<close>) show inputs on which the code goes wrong.

  \<^bold>\<open>Parameters.\<close> Floating-point operations (\<open>fpu\<close>), the firmware
  (\<open>efi_api\<close>), memory-mapped devices and the extent of plain memory on aarch64 (\<open>mmio\<close>), the addresses the linker
  assigns, the end of the kernel and that of the memory on i386 (\<open>image\<close>), values of uninitialised variables, and the RPC library: its primitive filters (\<open>xdrlib\<close>),
  \<open>xdr_array\<close> and \<open>xdr_pointer\<close> at each element type, the transport functions, \<open>clnt_call\<close> and
  the service procedures. \<open>xdr_entry4\<close> calls itself through \<open>xdr_pointer\<close>: the model
  unrolls it \<open>n\<close> times over an arbitrary filter \<open>deeper\<close>, and the theorems hold
  for every \<open>deeper\<close> as soon as \<open>n\<close> is the number of entries or more.

  \<^bold>\<open>Not modelled.\<close> Assembly entry code and linker scripts (their effect enters through
  \<open>image\<close> and the initial states); interrupts that
  arrive before \<open>kmain\<close> has reached its loop; peeks and pokes outside plain memory, which may read or
  change the kernel itself; of the interrupt controller of aarch64 everything but the active state, for the code
  does not set it up; the x86 branch of \<open>find_uart\<close>; cyclic directory listings, on which the encoder of the code would
  not end; the RPC library itself, the network and the service procedures, which are not in
  \<open>src\<close>. Nothing else of the hand-written C code or of the codec is left.
\<close>

section \<open>Concrete devices\<close>

text \<open>A UART that is busy for two polls after each byte.\<close>

definition slow_uart :: "(u8 list \<times> nat) mmio" where
  "slow_uart = \<lparr>mm_read = (\<lambda>a (l, b). (if 0 < b then 0x20 else 0, (l, b - 1))), mm_write = (\<lambda>a v (l, b). (l @ [ucast v], 2)),
     mm_write64 = (\<lambda>a v h. h), mm_plain = (\<lambda>_. False)\<rparr>"

definition a64_start :: "'h \<Rightarrow> 'h a64_state" where
  "a64_start h = \<lparr>mem = (\<lambda>_ _. 0), olds = Null, shellptr = 0, histptr = 0, uart_ns = 0, uart_pl = 0x9000000, uart_fallback = 0x9000000,
     a64_kcallback = False, irq_active = False, hw = h\<rparr>"

definition rv_start :: riscv_state where
  "rv_start = \<lparr>mem = (\<lambda>_ _. 0), olds = Null, shellptr = 0, histptr = 0, ecalls = []\<rparr>"

lemma slow_reads: "reads slow_uart a n (l, b) = (l, b - n)"
  by (induction n arbitrary: b) (simp_all add: slow_uart_def)

lemma slow_uart_sends: "pl011_sends slow_uart base (\<lambda>_. True) fst"
proof -
  have "\<exists>n. fst (mm_read slow_uart (base + pl_fr) (reads slow_uart (base + pl_fr) n h)) AND 0x20 = 0" for h
    by (rule exI[of _ "snd h"], cases h) (simp add: slow_reads, simp add: slow_uart_def)
  moreover have "ucast (ucast c :: u32) = (c :: u8)" for c by (simp add: ucast_up_ucast_id is_up)
  ultimately show ?thesis unfolding pl011_sends_def by (auto simp: slow_uart_def split: prod.split)
qed

lemma a64_start_fields [simp]: "uart_ns (a64_start h) = 0" "uart_pl (a64_start h) = 0x9000000" "hw (a64_start h) = h" "mem (a64_start h) = (\<lambda>_ _. 0)"
  by (simp_all add: a64_start_def)

section \<open>The other consoles\<close>

text \<open>Printing on the aarch64 console. With a PL011 that drains its queue and sends what is written to
  its data register, \<open>printf\<close> waits as long as it has to, returns the length of the rendered
  text, and exactly that text is appended to what the device has sent.\<close>

theorem uart_printf_sends:
  assumes "pl011_sends mm (uart_pl s) ok sent" and "ok (hw s)" and "uart_ns s = 0" and "uart_pl s \<noteq> 0"
    and "in_object (mem s) format (concat (map item_fmt its))" and "list_all (item_ok (mem s)) its"
    and "text = concat (map item_out its)" and "length text < 2 ^ 31"
  shows "\<exists>u. printf AArch64 fp (a64_putc mm) format (concat (map item_args its)) s = Inr (int (length text), u) \<and>
    ok (hw u) \<and> sent (hw u) = sent (hw s) @ text"
proof -
  obtain h where h: "foldR (uart_putc mm) text s = Inr (s\<lparr>hw := h\<rparr>)" "ok h" "sent h = sent (hw s) @ text"
    using foldR_uart_sends[OF assms(1-4)] by blast
  obtain g where "printf AArch64 fp (a64_putc mm) format (concat (map item_args its)) s = Inr (int (length text), upd_scratch g (s\<lparr>hw := h\<rparr>))"
    using uart.vprintf_items[OF assms(5,6), of mm "s\<lparr>hw := h\<rparr>" AArch64 fp] h(1) assms(7,8) by (auto simp: printf_def a64_putc_eq)
  then show ?thesis using h by (simp add: upd_scratch_def)
qed

lemma hi_items:
  "in_object (\<lambda>_ _. 0) (Ptr (Lit ''hi'') 0) (concat (map item_fmt [Txt 104, Txt 105]))" "list_all (item_ok (\<lambda>_ _. 0)) [Txt 104, Txt 105]"
  by (simp_all add: in_object_def of_char_def)

lemma hi_out: "concat (map item_out [Txt 104, Txt 105]) = [104, 105]" "concat (map item_args [Txt 104, Txt 105]) = []"
  by simp_all

theorem uart_printf_sends_witness:
  "\<exists>u. printf AArch64 int_fpu (a64_putc slow_uart) (Ptr (Lit ''hi'') 0) [] (a64_start ([], 5)) = Inr (2, u) \<and> fst (hw u) = [104, 105]"
proof -
  have "in_object (mem (a64_start ([], 5))) (Ptr (Lit ''hi'') 0) (concat (map item_fmt [Txt 104, Txt 105]))"
    "list_all (item_ok (mem (a64_start ([], 5)))) [Txt 104, Txt 105]"
    using hi_items by (simp_all only: a64_start_fields)
  from uart_printf_sends[OF slow_uart_sends _ _ _ this hi_out(1)[symmetric], of int_fpu] show ?thesis by auto
qed

text \<open>A UART whose queue stays full is waited for forever: \<open>uart_putc\<close> does not return.\<close>

theorem uart_putc_waits_forever:
  assumes "uart_ns s = 0" and "uart_pl s \<noteq> 0"
    and "\<And>n. fst (mm_read mm (uart_pl s + pl_fr) (reads mm (uart_pl s + pl_fr) n (hw s))) AND 0x20 \<noteq> 0"
  shows "uart_putc mm c s = Inl Diverges"
  using wait_while_never[of "\<lambda>v. v AND 0x20 \<noteq> 0" mm "uart_pl s + pl_fr" "hw s", OF assms(3)] assms(1,2)
  by (simp add: uart_putc_def spin_def)

theorem uart_putc_waits_forever_witness:
  "uart_putc \<lparr>mm_read = \<lambda>a h. (0xFF, h), mm_write = \<lambda>a v h. h, mm_write64 = \<lambda>a v h. h, mm_plain = \<lambda>a. False\<rparr> 65 (a64_start ()) = Inl Diverges"
  using uart_putc_waits_forever[of "a64_start ()" "\<lparr>mm_read = \<lambda>a h. (0xFF, h), mm_write = \<lambda>a v h. h, mm_write64 = \<lambda>a v h. h, mm_plain = \<lambda>a. False\<rparr>" 65] by simp

text \<open>The aarch64 exception handler passes 64-bit registers to conversions that take 32-bit arguments:
  after the text before the first of them the call has no defined behaviour, whatever the registers hold.\<close>

theorem a64_exception_message_undefined:
  assumes "pl011_sends mm (uart_pl s) ok sent" and "ok (hw s)" and "uart_ns s = 0" and "uart_pl s \<noteq> 0"
  shows "a64_exception_handler fp mm fr s = Inl BadVarArg"
proof -
  let ?pre = "bytes_of ''Exception ocurred, esr 0x''" and ?rest = "bytes_of ('', elr 0x%016X, far 0x%016X'' @ [CHR 10])"
  let ?fmt = "''Exception ocurred, esr 0x%016X, elr 0x%016X, far 0x%016X'' @ [CHR 10]"
  have its: "concat (map item_fmt (map Txt xs)) = xs" "concat (map item_out (map Txt xs)) = xs" "concat (map item_args (map Txt xs)) = []" for xs
    by (induction xs) simp_all
  have fmt: "bytes_of ?fmt = ?pre @ 37 # [48] @ [49, 54] @ 88 # ?rest" by (simp add: of_char_def)
  have "in_object (mem s) (Ptr (Lit ?fmt) 0) (concat (map item_fmt (map Txt ?pre)) @ 37 # [48] @ [49, 54] @ 88 # ?rest)"
    unfolding its in_object_def fmt[symmetric] by (simp add: of_char_def)
  moreover have "list_all (item_ok (mem s)) (map Txt ?pre)" by (simp add: of_char_def)
  moreover obtain h where "foldR (uart_putc mm) (concat (map item_out (map Txt ?pre))) s = Inr (s\<lparr>hw := h\<rparr>)"
    using foldR_uart_sends[OF assms] by blast
  ultimately have "vprintf AArch64 fp (uart_putc mm) (Ptr (Lit ?fmt) 0) (concat (map item_args (map Txt ?pre)) @ VI64 (f_esr fr) # [VI64 (f_elr fr), VI64 (f_far fr)]) s = Inl BadVarArg"
    by (rule uart.vprintf_bad_arg) (simp_all add: its(2) flag_chars_def isdigit_def dec_value_def)
  then show ?thesis unfolding its(3) append_Nil by (simp add: a64_exception_handler_def printf_def a64_putc_eq)
qed

theorem a64_exception_message_undefined_witness:
  "a64_exception_handler int_fpu slow_uart \<lparr>f_esr = 1, f_elr = 2, f_far = 3\<rparr> (a64_start ([], 0)) = Inl BadVarArg"
  using a64_exception_message_undefined[of slow_uart "a64_start ([], 0)" "\<lambda>_. True" fst int_fpu] slow_uart_sends by simp

text \<open>C28: printing on the riscv64 console makes one firmware call for each character of the rendered
  text, in order, and leaves the rest of the machine alone; NUL characters are dropped.\<close>

theorem riscv_printf_calls_firmware:
  assumes "in_object (mem s) format (concat (map item_fmt its))" and "list_all (item_ok (mem s)) its"
    and "text = concat (map item_out its)" and "length text < 2 ^ 31"
  shows "\<exists>u. printf RiscV64 fp rv_putc format (concat (map item_args its)) s = Inr (int (length text), u) \<and>
    ecalls u = ecalls s @ map (\<lambda>c. (1, ucast c)) (filter (\<lambda>c. c \<noteq> 0) text) \<and>
    (\<forall>ob. ob \<notin> scratch \<longrightarrow> mem u ob = mem s ob)"
  using printf_riscv[OF assms, of fp] by (auto simp: upd_scratch_def)

theorem riscv_printf_calls_firmware_witness:
  "\<exists>u. printf RiscV64 int_fpu rv_putc (Ptr (Lit ''hi'') 0) [] rv_start = Inr (2, u) \<and> ecalls u = [(1, 104), (1, 105)]"
proof -
  have "mem rv_start = (\<lambda>_ _. 0)" "ecalls rv_start = []" by (simp_all add: rv_start_def)
  with riscv_printf_calls_firmware[OF hi_items[folded this(1)] hi_out(1)[symmetric], of int_fpu] show ?thesis by auto
qed

section \<open>A loader without a serial port\<close>

text \<open>C31: without an SPCR table the loader hands the kernel a serial port at address 0 with whatever
  model number its stack held, and the kernel dereferences that null pointer: at once when the number
  names a known UART, otherwise at the first character of output.\<close>

theorem no_spcr_kernel_faults:
  assumes "lib_ok api" and "acpi_lookup (pm s) (bytes_of ''SPCR'') (fst (FindAcpiTable api s)) = 0"
    and "uart_ns k = 0" and "uart_pl k = 0"
  shows "case parse_boot_info mm (kernel_serial (fst (find_uart api junk s))) k of
      Inl e \<Rightarrow> e = NullDeref | Inr k' \<Rightarrow> uart_putc mm c k' = Inl NullDeref"
  using assms(3,4) unfolding find_uart_spcr[OF assms(1)] assms(2)
  by (simp add: parse_boot_info_def uart_init_def kernel_serial_def uart_putc_def Let_def)

theorem no_spcr_kernel_faults_witness:
  "parse_boot_info slow_uart (kernel_serial (fst (find_uart demo_api 3 demo_state))) ((a64_start ([], 0))\<lparr>uart_pl := 0\<rparr>) = Inl NullDeref"
proof -
  have "acpi_lookup (pm demo_state) (bytes_of ''SPCR'') (fst (FindAcpiTable demo_api demo_state)) = 0"
    by (simp add: FindAcpiTable_def demo_api_def acpi_lookup_def root_sdt_def)
  moreover have "fst (find_uart demo_api 3 demo_state) = \<lparr>ser_base = 0, ser_baud = 0, ser_type = 0, ser_model = 3\<rparr>"
    using calculation find_uart_spcr[OF demo_lib, of 3 demo_state] by simp
  ultimately show ?thesis
    using no_spcr_kernel_faults[OF demo_lib, of demo_state "(a64_start ([], 0))\<lparr>uart_pl := 0\<rparr>" slow_uart 3]
    by (auto simp: parse_boot_info_def uart_init_def kernel_serial_def split: sum.splits)
qed

end
